(* ===== verification/Prelude.thy ===== *)
theory Prelude
  imports Complex_Main "HOL-Library.AList"
begin

text \<open>
  Shared vocabulary of the development: Python values and dictionaries, the exceptions the
  integration raises or catches, the state-and-exception operations every asynchronous
  function of the integration is translated to, and the string operations of Python that the
  sources use.  The collection \<open>keeps_intros\<close> holds the rules that show that an operation keeps a
  state predicate; \<open>op_defs\<close> unfolds the combinators.
\<close>

named_theorems keeps_intros \<open>rules for: an operation keeps a predicate of the state\<close>
named_theorems op_defs \<open>definitions of the operation combinators\<close>

section \<open>Python values\<close>

text \<open>
  A Python float is a rational (rounding is not modelled) or one of the three non-finite values.
  \<open>VTime t\<close> is the string \<open>datetime.isoformat()\<close> gives for the UTC instant \<open>t\<close> (microseconds since the
  epoch): equality and the lexicographic order of those strings are equality and order of the
  instants.
\<close>

datatype pyfloat = Fin rat | NaN | PInf | NInf

datatype pval =
    VNone
  | VBool bool
  | VInt int
  | VFloat pyfloat
  | VStr string
  | VTime int
  | VList "pval list"
  | VDict "(string \<times> pval) list"

type_synonym dict = "(string \<times> pval) list"

text \<open>A dictionary keeps its insertion order; storing under a key that is there keeps the place.\<close>

abbreviation dset :: "string \<Rightarrow> pval \<Rightarrow> dict \<Rightarrow> dict" where
  "dset \<equiv> AList.update"

definition dget :: "dict \<Rightarrow> string \<Rightarrow> pval" where
  "dget d k = (case map_of d k of None \<Rightarrow> VNone | Some v \<Rightarrow> v)"

fun dupdate :: "dict \<Rightarrow> dict \<Rightarrow> dict" where
  "dupdate d [] = d"
| "dupdate d ((k, v) # kvs) = dupdate (dset k v d) kvs"

fun truthy :: "pval \<Rightarrow> bool" where
  "truthy VNone = False"
| "truthy (VBool b) = b"
| "truthy (VInt i) = (i \<noteq> 0)"
| "truthy (VFloat f) = (f \<noteq> Fin 0)"
| "truthy (VStr s) = (s \<noteq> [])"
| "truthy (VTime _) = True"
| "truthy (VList xs) = (xs \<noteq> [])"
| "truthy (VDict d) = (d \<noteq> [])"

text \<open>A list or a dictionary cannot be the key of a dictionary.\<close>

fun hashable :: "pval \<Rightarrow> bool" where
  "hashable (VList _) = False"
| "hashable (VDict _) = False"
| "hashable _ = True"

definition opt_str :: "string option \<Rightarrow> pval" where
  "opt_str s = (case s of None \<Rightarrow> VNone | Some x \<Rightarrow> VStr x)"

text \<open>Python's truth of an optional string: neither \<open>None\<close> nor empty.\<close>

fun present :: "string option \<Rightarrow> bool" where
  "present None = False"
| "present (Some s) = (s \<noteq> [])"

text \<open>Python's \<open>a or b\<close> on optional strings.\<close>

definition str_or :: "string option \<Rightarrow> string option \<Rightarrow> string option" where
  "str_or a b = (if present a then a else b)"

lemma map_of_update [simp]: "map_of (AList.update k v al) = (map_of al)(k \<mapsto> v)"
  by (rule update_conv')

lemma map_of_dupdate: "map_of (dupdate d kvs) = map_of d ++ map_of (rev kvs)"
  by (induction d kvs rule: dupdate.induct) (auto simp: map_add_def fun_eq_iff split: option.splits)

lemma dget_dset [simp]: "dget (dset k v d) j = (if j = k then v else dget d j)"
  by (simp add: dget_def)

lemma dget_dupdate_absent: "k \<notin> fst ` set kvs \<Longrightarrow> dget (dupdate d kvs) k = dget d k"
  by (induction d kvs rule: dupdate.induct) auto

lemma present_iff: "present s \<longleftrightarrow> (\<exists>x. s = Some x \<and> x \<noteq> [])"
  by (cases s) auto

text \<open>\<open>dict.fromkeys\<close>: the first occurrence of each element.\<close>

fun keep_first :: "'a list \<Rightarrow> 'a list" where
  "keep_first [] = []"
| "keep_first (x # xs) = x # filter (\<lambda>y. y \<noteq> x) (keep_first xs)"

lemma set_keep_first [simp]: "set (keep_first xs) = set xs"
  by (induction xs) auto

lemma distinct_keep_first [simp]: "distinct (keep_first xs)"
  by (induction xs) auto

lemma keep_first_id: "distinct xs \<Longrightarrow> keep_first xs = xs"
  by (induction xs) (auto simp: filter_id_conv)

section \<open>Exceptions\<close>

text \<open>The message is \<open>str(err)\<close>.\<close>

datatype exn =
    CannotConnect string
  | InvalidAuth string
  | TransientError string
  | DriverError string
  | ValueError string
  | QueryRejected string
  | OverrideImportRejected string
  | EnergyRoleRejected string
  | OperationInProgress string
  | UpdateFailed string
  | TypeError string
  | KeyError string
  | IndexError string
  | AttributeError string
  | OverflowError string
  | GraphBackendUnavailable string
  | ServiceValidationError string
  | ConfigEntryNotReady string

fun exn_message :: "exn \<Rightarrow> string" where
  "exn_message (CannotConnect m) = m"
| "exn_message (InvalidAuth m) = m"
| "exn_message (TransientError m) = m"
| "exn_message (DriverError m) = m"
| "exn_message (ValueError m) = m"
| "exn_message (QueryRejected m) = m"
| "exn_message (OverrideImportRejected m) = m"
| "exn_message (EnergyRoleRejected m) = m"
| "exn_message (OperationInProgress m) = m"
| "exn_message (UpdateFailed m) = m"
| "exn_message (TypeError m) = m"
| "exn_message (KeyError m) = m"
| "exn_message (IndexError m) = m"
| "exn_message (AttributeError m) = m"
| "exn_message (OverflowError m) = m"
| "exn_message (GraphBackendUnavailable m) = m"
| "exn_message (ServiceValidationError m) = m"
| "exn_message (ConfigEntryNotReady m) = m"

section \<open>Operations\<close>

text \<open>
  An operation takes the state and returns an exception or a value, and the state it leaves
  behind: the writes made before an exception stay.
\<close>

type_synonym ('s, 'a) op = "'s \<Rightarrow> (exn + 'a) \<times> 's"

definition oret :: "'a \<Rightarrow> ('s, 'a) op" where
  [op_defs]: "oret x s = (Inr x, s)"

definition oraise :: "exn \<Rightarrow> ('s, 'a) op" where
  [op_defs]: "oraise e s = (Inl e, s)"

definition obind :: "('s, 'a) op \<Rightarrow> ('a \<Rightarrow> ('s, 'b) op) \<Rightarrow> ('s, 'b) op" where
  [op_defs]: "obind m f s = (case m s of (Inl e, s') \<Rightarrow> (Inl e, s') | (Inr x, s') \<Rightarrow> f x s')"

definition oseq :: "('s, 'a) op \<Rightarrow> ('s, 'b) op \<Rightarrow> ('s, 'b) op" where
  [op_defs]: "oseq m n = obind m (\<lambda>_. n)"

definition otry :: "('s, 'a) op \<Rightarrow> (exn \<Rightarrow> ('s, 'a) op) \<Rightarrow> ('s, 'a) op" where
  [op_defs]: "otry m h s = (case m s of (Inl e, s') \<Rightarrow> h e s' | (Inr x, s') \<Rightarrow> (Inr x, s'))"

definition oget :: "('s \<Rightarrow> 'a) \<Rightarrow> ('s, 'a) op" where
  [op_defs]: "oget f s = (Inr (f s), s)"

definition omodify :: "('s \<Rightarrow> 's) \<Rightarrow> ('s, unit) op" where
  [op_defs]: "omodify f s = (Inr (), f s)"

definition owhen :: "bool \<Rightarrow> ('s, unit) op \<Rightarrow> ('s, unit) op" where
  [op_defs]: "owhen b m = (if b then m else oret ())"

fun oforeach :: "'x list \<Rightarrow> ('x \<Rightarrow> ('s, unit) op) \<Rightarrow> ('s, unit) op" where
  "oforeach [] f = oret ()"
| "oforeach (x # xs) f = oseq (f x) (oforeach xs f)"

fun omap :: "('x \<Rightarrow> ('s, 'a) op) \<Rightarrow> 'x list \<Rightarrow> ('s, 'a list) op" where
  "omap f [] = oret []"
| "omap f (x # xs) = obind (f x) (\<lambda>y. obind (omap f xs) (\<lambda>ys. oret (y # ys)))"

text \<open>A loop that threads an accumulator.\<close>

fun ofold :: "('x \<Rightarrow> 'a \<Rightarrow> ('s, 'a) op) \<Rightarrow> 'x list \<Rightarrow> 'a \<Rightarrow> ('s, 'a) op" where
  "ofold f [] a = oret a"
| "ofold f (x # xs) a = obind (f x a) (ofold f xs)"

text \<open>A computation without state that may raise, and a comprehension over one.\<close>

definition from_sum :: "exn + 'a \<Rightarrow> ('s, 'a) op" where
  "from_sum r = (case r of Inl e \<Rightarrow> oraise e | Inr x \<Rightarrow> oret x)"

fun each :: "('a \<Rightarrow> exn + 'b) \<Rightarrow> 'a list \<Rightarrow> exn + 'b list" where
  "each f [] = Inr []"
| "each f (x # xs) =
     (case f x of
        Inl e \<Rightarrow> Inl e
      | Inr y \<Rightarrow> (case each f xs of Inl e \<Rightarrow> Inl e | Inr ys \<Rightarrow> Inr (y # ys)))"

lemma each_Inr: "(\<And>x. x \<in> set xs \<Longrightarrow> f x = Inr (g x)) \<Longrightarrow> each f xs = Inr (map g xs)"
  by (induction xs) auto

lemma from_sum_Inr [simp]: "from_sum (Inr x) = oret x"
  by (simp add: from_sum_def)

lemma from_sum_Inl [simp]: "from_sum (Inl e) = oraise e"
  by (simp add: from_sum_def)

lemma oseq_apply: "oseq m n s = (case m s of (Inl e, s') \<Rightarrow> (Inl e, s') | (Inr x, s') \<Rightarrow> n s')"
  by (simp add: oseq_def obind_def)

lemma obind_Inr: "m s = (Inr x, s') \<Longrightarrow> obind m f s = f x s'"
  by (simp add: obind_def)

lemma obind_Inl: "m s = (Inl e, s') \<Longrightarrow> obind m f s = (Inl e, s')"
  by (simp add: obind_def)

lemma obind_oret [simp]: "obind (oret x) f = f x"
  by (rule ext) (simp add: obind_def oret_def)

lemma from_sum_result: "from_sum r s = (Inr x, t) \<Longrightarrow> r = Inr x \<and> t = s"
  by (cases r) (simp_all add: from_sum_def oraise_def oret_def)

lemma obind_result:
  assumes "obind m f s = (Inr y, t)"
  obtains x u where "m s = (Inr x, u)" and "f x u = (Inr y, t)"
  using assms by (auto simp: obind_def split: prod.splits sum.splits)

lemma oseq_result:
  assumes "oseq m n s = (Inr y, t)"
  obtains x u where "m s = (Inr x, u)" and "n u = (Inr y, t)"
  using assms by (auto simp: oseq_def elim: obind_result)

lemma oret_result [simp]: "oret x s = (r, t) \<longleftrightarrow> r = Inr x \<and> t = s"
  by (auto simp: oret_def)

lemma oraise_result [simp]: "oraise e s = (r, t) \<longleftrightarrow> r = Inl e \<and> t = s"
  by (auto simp: oraise_def)

lemma omap_result:
  "omap f xs s = (Inr ys, t) \<Longrightarrow> y \<in> set ys \<Longrightarrow> \<exists>x \<in> set xs. \<exists>u v. f x u = (Inr y, v)"
proof (induction xs arbitrary: s ys t)
  case Nil
  then show ?case by simp
next
  case (Cons x xs)
  from Cons.prems(1) obtain z u zs v where z: "f x s = (Inr z, u)"
    and zs: "omap f xs u = (Inr zs, v)" and ys: "ys = z # zs"
    by (auto elim!: obind_result)
  show ?case
  proof (cases "y = z")
    case True
    then show ?thesis using z by auto
  next
    case False
    then have "y \<in> set zs" using ys Cons.prems(2) by simp
    from Cons.IH [OF zs this] show ?thesis by auto
  qed
qed

section \<open>Operations that keep a predicate of the state\<close>

definition keeps :: "('s \<Rightarrow> bool) \<Rightarrow> ('s, 'a) op \<Rightarrow> bool" where
  "keeps P m \<longleftrightarrow> (\<forall>s. P s \<longrightarrow> P (snd (m s)))"

lemma keepsI: "(\<And>s. P s \<Longrightarrow> P (snd (m s))) \<Longrightarrow> keeps P m"
  by (simp add: keeps_def)

lemma keepsD: "keeps P m \<Longrightarrow> P s \<Longrightarrow> P (snd (m s))"
  by (simp add: keeps_def)

lemma keeps_step: "keeps P m \<Longrightarrow> P s \<Longrightarrow> m s = (r, t) \<Longrightarrow> P t"
  using keepsD by fastforce

lemma keeps_oret [keeps_intros]: "keeps P (oret x)"
  by (simp add: keeps_def oret_def)

lemma keeps_oraise [keeps_intros]: "keeps P (oraise e)"
  by (simp add: keeps_def oraise_def)

lemma keeps_oget [keeps_intros]: "keeps P (oget f)"
  by (simp add: keeps_def oget_def)

lemma keeps_obind [keeps_intros]: "keeps P m \<Longrightarrow> (\<And>x. keeps P (f x)) \<Longrightarrow> keeps P (obind m f)"
  unfolding keeps_def obind_def by (fastforce split: prod.splits sum.splits)

lemma keeps_obind_result:
  "keeps P m \<Longrightarrow> (\<And>s x t. m s = (Inr x, t) \<Longrightarrow> keeps P (f x)) \<Longrightarrow> keeps P (obind m f)"
  unfolding keeps_def obind_def by (fastforce split: prod.splits sum.splits)

lemma keeps_obind_state:
  "keeps P m \<Longrightarrow> (\<And>s x t. P s \<Longrightarrow> m s = (Inr x, t) \<Longrightarrow> P t \<Longrightarrow> keeps P (f x)) \<Longrightarrow> keeps P (obind m f)"
  unfolding keeps_def obind_def by (fastforce split: prod.splits sum.splits)

lemma keeps_oseq [keeps_intros]: "keeps P m \<Longrightarrow> keeps P n \<Longrightarrow> keeps P (oseq m n)"
  unfolding oseq_def by (rule keeps_obind)

lemma keeps_otry [keeps_intros]: "keeps P m \<Longrightarrow> (\<And>e. keeps P (h e)) \<Longrightarrow> keeps P (otry m h)"
  unfolding keeps_def otry_def by (fastforce split: prod.splits sum.splits)

lemma keeps_omodify [keeps_intros]: "(\<And>s. P s \<Longrightarrow> P (f s)) \<Longrightarrow> keeps P (omodify f)"
  by (simp add: keeps_def omodify_def)

lemma keeps_owhen [keeps_intros]: "keeps P m \<Longrightarrow> keeps P (owhen b m)"
  by (simp add: owhen_def keeps_oret)

lemma keeps_oforeach [keeps_intros]: "(\<And>x. keeps P (f x)) \<Longrightarrow> keeps P (oforeach xs f)"
  by (induction xs) (simp_all add: keeps_oret keeps_oseq)

lemma keeps_oforeach_mem: "(\<And>x. x \<in> set xs \<Longrightarrow> keeps P (f x)) \<Longrightarrow> keeps P (oforeach xs f)"
  by (induction xs) (simp_all add: keeps_oret keeps_oseq)

lemma keeps_omap [keeps_intros]: "(\<And>x. keeps P (f x)) \<Longrightarrow> keeps P (omap f xs)"
  by (induction xs) (auto intro!: keeps_obind keeps_oret)

lemma keeps_omap_mem: "(\<And>x. x \<in> set xs \<Longrightarrow> keeps P (f x)) \<Longrightarrow> keeps P (omap f xs)"
  by (induction xs) (auto intro!: keeps_obind keeps_oret)

lemma keeps_ofold [keeps_intros]: "(\<And>x a. keeps P (f x a)) \<Longrightarrow> keeps P (ofold f xs a)"
  by (induction xs arbitrary: a) (auto intro!: keeps_obind keeps_oret)

lemma keeps_if [keeps_intros]: "keeps P m \<Longrightarrow> keeps P n \<Longrightarrow> keeps P (if b then m else n)"
  by simp

lemma keeps_case_option [keeps_intros]:
  "keeps P m \<Longrightarrow> (\<And>x. keeps P (f x)) \<Longrightarrow> keeps P (case v of None \<Rightarrow> m | Some x \<Rightarrow> f x)"
  by (cases v) simp_all

lemma keeps_case_prod [keeps_intros]:
  "(\<And>x y. keeps P (f x y)) \<Longrightarrow> keeps P (case v of (x, y) \<Rightarrow> f x y)"
  by (cases v) simp

lemma keeps_let [keeps_intros]: "(\<And>x. keeps P (f x)) \<Longrightarrow> keeps P (let x = v in f x)"
  by (simp add: Let_def)

lemma keeps_case_list [keeps_intros]:
  "keeps P m \<Longrightarrow> (\<And>x y. keeps P (f x y)) \<Longrightarrow> keeps P (case v of [] \<Rightarrow> m | x # y \<Rightarrow> f x y)"
  by (cases v) simp_all

section \<open>What a successful operation establishes\<close>

text \<open>From \<open>P\<close>, a result of the operation comes with \<open>Q\<close>; an exception promises nothing.\<close>

definition yields :: "('s \<Rightarrow> bool) \<Rightarrow> ('s, 'a) op \<Rightarrow> ('a \<Rightarrow> 's \<Rightarrow> bool) \<Rightarrow> bool" where
  "yields P m Q \<longleftrightarrow> (\<forall>s x t. P s \<longrightarrow> m s = (Inr x, t) \<longrightarrow> Q x t)"

lemma yieldsI: "(\<And>s x t. P s \<Longrightarrow> m s = (Inr x, t) \<Longrightarrow> Q x t) \<Longrightarrow> yields P m Q"
  unfolding yields_def by blast

lemma yieldsD: "yields P m Q \<Longrightarrow> P s \<Longrightarrow> m s = (Inr x, t) \<Longrightarrow> Q x t"
  unfolding yields_def by blast

lemma yields_obind: "yields P m Q \<Longrightarrow> (\<And>x. yields (Q x) (f x) R) \<Longrightarrow> yields P (obind m f) R"
  by (rule yieldsI) (auto elim!: obind_result dest: yieldsD)

lemma yields_oseq: "yields P m (\<lambda>_. Q) \<Longrightarrow> yields Q n R \<Longrightarrow> yields P (oseq m n) R"
  unfolding oseq_def by (rule yields_obind)

lemma yields_oret: "(\<And>s. P s \<Longrightarrow> Q x s) \<Longrightarrow> yields P (oret x) Q"
  by (simp add: yields_def)

lemma yields_keeps: "keeps P m \<Longrightarrow> yields P m (\<lambda>_. P)"
  by (rule yieldsI) (drule (2) keeps_step)

lemma yields_weaken: "yields P m Q \<Longrightarrow> (\<And>s. P' s \<Longrightarrow> P s) \<Longrightarrow> (\<And>x s. Q x s \<Longrightarrow> Q' x s) \<Longrightarrow> yields P' m Q'"
  unfolding yields_def by blast

lemma yields_oforeach:
  "(\<And>x A. x \<in> set xs \<Longrightarrow> yields (J A) (f x) (\<lambda>_. J (insert x A))) \<Longrightarrow>
   yields (J A) (oforeach xs f) (\<lambda>_. J (A \<union> set xs))"
proof (induction xs arbitrary: A)
  case Nil
  then show ?case by (simp add: yields_oret)
next
  case (Cons x xs)
  have "yields (J A) (f x) (\<lambda>_. J (insert x A))" using Cons.prems by simp
  moreover have "yields (J (insert x A)) (oforeach xs f) (\<lambda>_. J (insert x A \<union> set xs))"
    by (rule Cons.IH) (simp add: Cons.prems)
  ultimately have "yields (J A) (oforeach (x # xs) f) (\<lambda>_. J (insert x A \<union> set xs))"
    unfolding oforeach.simps by (rule yields_oseq)
  then show ?case by simp
qed

lemma yields_ofold:
  "(\<And>x a A. x \<in> set xs \<Longrightarrow> yields (J A) (f x a) (\<lambda>_. J (insert x A))) \<Longrightarrow>
   yields (J A) (ofold f xs a) (\<lambda>_. J (A \<union> set xs))"
proof (induction xs arbitrary: a A)
  case Nil
  then show ?case by (simp add: yields_oret)
next
  case (Cons x xs)
  have "yields (J A) (f x a) (\<lambda>_. J (insert x A))" using Cons.prems by simp
  moreover have "yields (J (insert x A)) (ofold f xs b) (\<lambda>_. J (insert x A \<union> set xs))" for b
    by (rule Cons.IH) (simp add: Cons.prems)
  ultimately have "yields (J A) (ofold f (x # xs) a) (\<lambda>_. J (insert x A \<union> set xs))"
    unfolding ofold.simps by (rule yields_obind)
  then show ?case by simp
qed

section \<open>Strings\<close>

text \<open>Case mapping and white space are those of ASCII.\<close>

definition to_lower :: "char \<Rightarrow> char" where
  "to_lower c = (let n = (of_char c :: nat) in if 65 \<le> n \<and> n \<le> 90 then char_of (n + 32) else c)"

definition to_upper :: "char \<Rightarrow> char" where
  "to_upper c = (let n = (of_char c :: nat) in if 97 \<le> n \<and> n \<le> 122 then char_of (n - 32) else c)"

definition lower :: "string \<Rightarrow> string" where
  "lower = map to_lower"

definition upper :: "string \<Rightarrow> string" where
  "upper = map to_upper"

definition is_space :: "char \<Rightarrow> bool" where
  "is_space c = (let n = (of_char c :: nat) in (9 \<le> n \<and> n \<le> 13) \<or> (28 \<le> n \<and> n \<le> 32))"

definition is_digit :: "char \<Rightarrow> bool" where
  "is_digit c = (let n = (of_char c :: nat) in 48 \<le> n \<and> n \<le> 57)"

definition is_alpha :: "char \<Rightarrow> bool" where
  "is_alpha c = (let n = (of_char c :: nat) in (65 \<le> n \<and> n \<le> 90) \<or> (97 \<le> n \<and> n \<le> 122))"

definition is_alnum :: "char \<Rightarrow> bool" where
  "is_alnum c = (is_alpha c \<or> is_digit c)"

text \<open>\<open>\w\<close> of the regular expressions.\<close>

definition is_word :: "char \<Rightarrow> bool" where
  "is_word c = (is_alnum c \<or> c = CHR ''_'')"

definition strip :: "string \<Rightarrow> string" where
  "strip s = rev (dropWhile is_space (rev (dropWhile is_space s)))"

fun starts_with :: "string \<Rightarrow> string \<Rightarrow> bool" where
  "starts_with [] s = True"
| "starts_with (p # ps) [] = False"
| "starts_with (p # ps) (c # cs) = (p = c \<and> starts_with ps cs)"

fun contains :: "string \<Rightarrow> string \<Rightarrow> bool" where
  "contains p [] = (p = [])"
| "contains p (c # cs) = (starts_with p (c # cs) \<or> contains p cs)"

text \<open>\<open>s.split(c)\<close> with a one-character separator.\<close>

fun split_on :: "char \<Rightarrow> string \<Rightarrow> string list" where
  "split_on d [] = [[]]"
| "split_on d (c # cs) =
     (if c = d then [] # split_on d cs
      else (case split_on d cs of [] \<Rightarrow> [[c]] | p # ps \<Rightarrow> (c # p) # ps))"

text \<open>\<open>s.split(c, 1)[0]\<close>, and the rest after the separator if there is one.\<close>

definition before :: "char \<Rightarrow> string \<Rightarrow> string" where
  "before d s = takeWhile (\<lambda>c. c \<noteq> d) s"

definition after :: "char \<Rightarrow> string \<Rightarrow> string option" where
  "after d s = (case dropWhile (\<lambda>c. c \<noteq> d) s of [] \<Rightarrow> None | _ # r \<Rightarrow> Some r)"

definition join :: "string \<Rightarrow> string list \<Rightarrow> string" where
  "join sep xs = (case xs of [] \<Rightarrow> [] | x # ys \<Rightarrow> x @ concat (map (\<lambda>y. sep @ y) ys))"

fun nat_digits :: "nat \<Rightarrow> string" where
  "nat_digits n =
     (if n < 10 then [char_of (48 + n)] else nat_digits (n div 10) @ [char_of (48 + n mod 10)])"

declare nat_digits.simps [simp del]

definition str_of_nat :: "nat \<Rightarrow> string" where
  "str_of_nat n = nat_digits n"

definition str_of_int :: "int \<Rightarrow> string" where
  "str_of_int i = (if i < 0 then CHR ''-'' # nat_digits (nat (- i)) else nat_digits (nat i))"

lemma starts_with_iff: "starts_with p s \<longleftrightarrow> (\<exists>r. s = p @ r)"
  by (induction p s rule: starts_with.induct) auto

lemma contains_iff: "contains p s \<longleftrightarrow> (\<exists>a b. s = a @ p @ b)"
proof (induction p s rule: contains.induct)
  case (1 p)
  then show ?case by auto
next
  case (2 p c cs)
  show ?case
  proof
    assume "contains p (c # cs)"
    then consider "starts_with p (c # cs)" | "contains p cs" by auto
    then show "\<exists>a b. c # cs = a @ p @ b"
    proof cases
      case 1
      then obtain r where "c # cs = p @ r" by (auto simp: starts_with_iff)
      then have "c # cs = [] @ p @ r" by simp
      then show ?thesis by blast
    next
      case h: 2
      then obtain a b where "cs = a @ p @ b" using 2 by blast
      then have "c # cs = (c # a) @ p @ b" by simp
      then show ?thesis by blast
    qed
  next
    assume "\<exists>a b. c # cs = a @ p @ b"
    then obtain a b where eq: "c # cs = a @ p @ b" by blast
    show "contains p (c # cs)"
    proof (cases a)
      case Nil
      then have "starts_with p (c # cs)" using eq by (auto simp: starts_with_iff)
      then show ?thesis by simp
    next
      case (Cons d ds)
      then have "cs = ds @ p @ b" using eq by simp
      then show ?thesis using 2 by auto
    qed
  qed
qed

lemma before_notin: "d \<notin> set (before d s)"
  using set_takeWhileD by (fastforce simp: before_def)

lemma before_append: "d \<notin> set p \<Longrightarrow> before d (p @ d # r) = p"
  unfolding before_def by (subst takeWhile_append2) auto

text \<open>\<open>round(x)\<close>: to the nearest integer, a half to the even one.\<close>

definition round_half_even :: "'a::floor_ceiling \<Rightarrow> int" where
  "round_half_even x =
     (let f = \<lfloor>x\<rfloor>; r = x - of_int f
      in if r < 1 / 2 then f else if 1 / 2 < r then f + 1 else if even f then f else f + 1)"

lemma round_half_even_of_int [simp]: "round_half_even (of_int n) = n"
  by (simp add: round_half_even_def)

lemma round_half_even_near: "\<bar>of_int (round_half_even x) - x\<bar> \<le> 1 / 2"
proof -
  have "of_int \<lfloor>x\<rfloor> \<le> x" and "x < of_int \<lfloor>x\<rfloor> + 1" by linarith+
  then show ?thesis by (auto simp: round_half_even_def Let_def abs_le_iff field_simps)
qed

end
