(* ===== verification/Property_Graph.thy ===== *)
theory Property_Graph
  imports Prelude
begin

text \<open>
  The Memgraph property graph as the Cypher statements of the sources use it.  Every statement of
  the sources writes nodes keyed by one label and \<open>ha_id\<close> and relationships keyed by their end
  points and type, always with \<open>MERGE\<close>, so both are dictionaries over those keys; the properties
  of a node other than its \<open>ha_id\<close> are a dictionary.  The statement clauses the sources use
  (\<open>MERGE\<close>, \<open>SET n += map\<close>, \<open>REMOVE\<close>, \<open>DELETE\<close>, \<open>DETACH DELETE\<close>, \<open>MATCH ... WHERE\<close>) are functions on it.
  The indexes of the database are kept beside them: label and indexed properties.
\<close>

type_synonym nkey = "string \<times> string"
type_synonym rkey = "nkey \<times> string \<times> nkey"

record graph =
  g_nodes :: "(nkey \<times> dict) list"
  g_rels :: "(rkey \<times> dict) list"
  g_indexes :: "(string \<times> string list) list"

definition empty_graph :: graph where
  "empty_graph = \<lparr>g_nodes = [], g_rels = [], g_indexes = []\<rparr>"

definition node :: "graph \<Rightarrow> nkey \<Rightarrow> dict option" where
  "node g k = map_of (g_nodes g) k"

definition rel :: "graph \<Rightarrow> rkey \<Rightarrow> dict option" where
  "rel g k = map_of (g_rels g) k"

definition has_node :: "graph \<Rightarrow> nkey \<Rightarrow> bool" where
  "has_node g k = (node g k \<noteq> None)"

section \<open>Clauses\<close>

text \<open>\<open>SET n += map\<close>: a null value removes the property.\<close>

fun set_props :: "dict \<Rightarrow> dict \<Rightarrow> dict" where
  "set_props d [] = d"
| "set_props d ((k, v) # kvs) = set_props (if v = VNone then AList.delete k d else dset k v d) kvs"

text \<open>\<open>REMOVE n.k1, n.k2, ...\<close>\<close>

definition remove_props :: "string list \<Rightarrow> dict \<Rightarrow> dict" where
  "remove_props ks d = filter (\<lambda>(k, v). k \<notin> set ks) d"

text \<open>\<open>MERGE\<close> on a key followed by the rest of the statement on the node or relationship it gives.\<close>

definition upsert :: "'k \<Rightarrow> ('v option \<Rightarrow> 'v) \<Rightarrow> ('k \<times> 'v) list \<Rightarrow> ('k \<times> 'v) list" where
  "upsert k f al = AList.update k (f (map_of al k)) al"

definition or_empty :: "dict option \<Rightarrow> dict" where
  "or_empty d = (case d of None \<Rightarrow> [] | Some x \<Rightarrow> x)"

definition merge_node_with :: "nkey \<Rightarrow> (dict option \<Rightarrow> dict) \<Rightarrow> graph \<Rightarrow> graph" where
  "merge_node_with k f g = g\<lparr>g_nodes := upsert k f (g_nodes g)\<rparr>"

text \<open>\<open>MATCH (a), (b) MERGE (a)-[r]->(b)\<close>: nothing happens when an end point is missing.\<close>

definition merge_rel_with :: "rkey \<Rightarrow> (dict option \<Rightarrow> dict) \<Rightarrow> graph \<Rightarrow> graph" where
  "merge_rel_with k f g =
     (if has_node g (fst k) \<and> has_node g (snd (snd k))
      then g\<lparr>g_rels := upsert k f (g_rels g)\<rparr> else g)"

text \<open>\<open>MATCH (n) SET\<close> on one node.\<close>

definition set_node_with :: "nkey \<Rightarrow> (dict \<Rightarrow> dict) \<Rightarrow> graph \<Rightarrow> graph" where
  "set_node_with k f g = g\<lparr>g_nodes := AList.map_entry k f (g_nodes g)\<rparr>"

definition detach_delete :: "(nkey \<Rightarrow> dict \<Rightarrow> bool) \<Rightarrow> graph \<Rightarrow> graph" where
  "detach_delete p g =
     (let gone = map fst (filter (\<lambda>(k, d). p k d) (g_nodes g))
      in g\<lparr>g_nodes := filter (\<lambda>(k, d). \<not> p k d) (g_nodes g),
           g_rels := filter (\<lambda>((a, t, b), d). a \<notin> set gone \<and> b \<notin> set gone) (g_rels g)\<rparr>)"

definition delete_rels :: "(rkey \<Rightarrow> dict \<Rightarrow> bool) \<Rightarrow> graph \<Rightarrow> graph" where
  "delete_rels p g = g\<lparr>g_rels := filter (\<lambda>(k, d). \<not> p k d) (g_rels g)\<rparr>"

definition nodes_where :: "(nkey \<Rightarrow> dict \<Rightarrow> bool) \<Rightarrow> graph \<Rightarrow> (nkey \<times> dict) list" where
  "nodes_where p g = filter (\<lambda>(k, d). p k d) (g_nodes g)"

definition rels_where :: "(rkey \<Rightarrow> dict \<Rightarrow> bool) \<Rightarrow> graph \<Rightarrow> (rkey \<times> dict) list" where
  "rels_where p g = filter (\<lambda>(k, d). p k d) (g_rels g)"

section \<open>Well-formed graphs\<close>

text \<open>Keys are unique and no relationship dangles: what the database itself guarantees.\<close>

definition wf_graph :: "graph \<Rightarrow> bool" where
  "wf_graph g \<longleftrightarrow> distinct (map fst (g_nodes g)) \<and> distinct (map fst (g_rels g)) \<and>
     (\<forall>x \<in> set (g_rels g). has_node g (fst (fst x)) \<and> has_node g (snd (snd (fst x))))"

text \<open>The \<open>source\<close> bookkeeping: present on a node or relationship.\<close>

definition sourced :: "dict \<Rightarrow> bool" where
  "sourced d \<longleftrightarrow> dget d ''source'' \<noteq> VNone"

section \<open>Laws\<close>

lemma map_of_upsert [simp]: "map_of (upsert k f al) = (map_of al)(k \<mapsto> f (map_of al k))"
  by (simp add: upsert_def)

lemma distinct_upsert: "distinct (map fst al) \<Longrightarrow> distinct (map fst (upsert k f al))"
  by (simp add: upsert_def distinct_update)

lemma update_update_same: "AList.update k v' (AList.update k v al) = AList.update k v' al"
  by (induction al) auto

lemma update_id: "map_of al k = Some v \<Longrightarrow> AList.update k v al = al"
  by (induction al) (auto split: if_splits)

lemma node_merge_node_with [simp]:
  "node (merge_node_with k f g) j = (if j = k then Some (f (node g k)) else node g j)"
  by (simp add: node_def merge_node_with_def)

lemma rels_merge_node_with [simp]: "g_rels (merge_node_with k f g) = g_rels g"
  by (simp add: merge_node_with_def)

lemma rel_merge_node_with [simp]: "rel (merge_node_with k f g) j = rel g j"
  by (simp add: rel_def)

lemma has_node_merge_node_with [simp]:
  "has_node (merge_node_with k f g) j \<longleftrightarrow> j = k \<or> has_node g j"
  by (simp add: has_node_def)

lemma nodes_merge_rel_with [simp]: "g_nodes (merge_rel_with k f g) = g_nodes g"
  by (simp add: merge_rel_with_def)

lemma node_merge_rel_with [simp]: "node (merge_rel_with k f g) j = node g j"
  by (simp add: node_def)

lemma has_node_merge_rel_with [simp]: "has_node (merge_rel_with k f g) j = has_node g j"
  by (simp add: has_node_def)

lemma rel_merge_rel_with:
  "rel (merge_rel_with k f g) j =
     (if j = k \<and> has_node g (fst k) \<and> has_node g (snd (snd k)) then Some (f (rel g k)) else rel g j)"
  by (auto simp: rel_def merge_rel_with_def)

lemma node_set_node_with [simp]:
  "node (set_node_with k f g) j = (if j = k then map_option f (node g k) else node g j)"
  by (simp add: node_def set_node_with_def map_of_map_entry split: option.splits)

lemma rel_set_node_with [simp]: "rel (set_node_with k f g) j = rel g j"
  by (simp add: rel_def set_node_with_def)

lemma has_node_set_node_with [simp]: "has_node (set_node_with k f g) j = has_node g j"
  by (simp add: has_node_def)

lemma map_of_filter_keys:
  "distinct (map fst al) \<Longrightarrow>
   map_of (filter (\<lambda>(k, d). p k d) al) j =
     (case map_of al j of None \<Rightarrow> None | Some d \<Rightarrow> if p j d then Some d else None)"
proof (induction al)
  case Nil
  then show ?case by simp
next
  case (Cons x xs)
  obtain k d where x: "x = (k, d)" by (cases x)
  from Cons x have ih: "map_of (filter (\<lambda>(k, d). p k d) xs) j =
     (case map_of xs j of None \<Rightarrow> None | Some d \<Rightarrow> if p j d then Some d else None)" by simp
  have "k \<notin> fst ` set xs" using Cons.prems x by simp
  then have "map_of xs k = None" by (simp add: map_of_eq_None_iff)
  then show ?case using ih x by auto
qed

lemma node_detach_delete:
  "distinct (map fst (g_nodes g)) \<Longrightarrow>
   node (detach_delete p g) k =
     (case node g k of None \<Rightarrow> None | Some d \<Rightarrow> if p k d then None else Some d)"
  by (simp add: node_def detach_delete_def Let_def map_of_filter_keys split: option.splits)

lemma gone_iff:
  "distinct (map fst (g_nodes g)) \<Longrightarrow>
   k \<in> set (map fst (filter (\<lambda>(k, d). p k d) (g_nodes g))) \<longleftrightarrow> (\<exists>d. node g k = Some d \<and> p k d)"
  by (force simp: node_def)

lemma node_has: "node g k = Some d \<Longrightarrow> has_node g k"
  by (simp add: has_node_def)

lemma wf_rel_ends:
  assumes "wf_graph g" and "rel g k = Some d"
  shows "has_node g (fst k) \<and> has_node g (snd (snd k))"
proof -
  have "(k, d) \<in> set (g_rels g)" using assms(2) by (simp add: rel_def map_of_SomeD)
  then show ?thesis using assms(1) by (force simp: wf_graph_def)
qed

lemma wf_graphI:
  assumes "distinct (map fst (g_nodes g))" and "distinct (map fst (g_rels g))"
    and "\<And>x. x \<in> set (g_rels g) \<Longrightarrow> has_node g (fst (fst x)) \<and> has_node g (snd (snd (fst x)))"
  shows "wf_graph g"
  using assms by (simp add: wf_graph_def)

lemma wf_ends_mem:
  "wf_graph g \<Longrightarrow> x \<in> set (g_rels g) \<Longrightarrow> has_node g (fst (fst x)) \<and> has_node g (snd (snd (fst x)))"
  by (simp add: wf_graph_def)

lemma wf_nodes_distinct: "wf_graph g \<Longrightarrow> distinct (map fst (g_nodes g))"
  by (simp add: wf_graph_def)

lemma wf_rels_distinct: "wf_graph g \<Longrightarrow> distinct (map fst (g_rels g))"
  by (simp add: wf_graph_def)

lemma set_update_subset: "set (AList.update k v al) \<subseteq> insert (k, v) (set al)"
  by (induction al) auto

lemma wf_merge_node_with:
  assumes wf: "wf_graph g"
  shows "wf_graph (merge_node_with k f g)"
proof (rule wf_graphI)
  show "distinct (map fst (g_nodes (merge_node_with k f g)))"
    by (simp add: merge_node_with_def distinct_upsert wf_nodes_distinct [OF wf])
  show "distinct (map fst (g_rels (merge_node_with k f g)))"
    by (simp add: wf_rels_distinct [OF wf])
  fix x assume "x \<in> set (g_rels (merge_node_with k f g))"
  then show "has_node (merge_node_with k f g) (fst (fst x)) \<and>
      has_node (merge_node_with k f g) (snd (snd (fst x)))"
    by (simp add: wf_ends_mem [OF wf])
qed

lemma wf_merge_rel_with:
  assumes wf: "wf_graph g"
  shows "wf_graph (merge_rel_with k f g)"
proof (rule wf_graphI)
  show "distinct (map fst (g_nodes (merge_rel_with k f g)))"
    by (simp add: wf_nodes_distinct [OF wf])
  show "distinct (map fst (g_rels (merge_rel_with k f g)))"
    by (simp add: merge_rel_with_def distinct_upsert wf_rels_distinct [OF wf])
  fix x assume "x \<in> set (g_rels (merge_rel_with k f g))"
  then consider "x \<in> set (g_rels g)"
    | "fst x = k" "has_node g (fst k)" "has_node g (snd (snd k))"
    using set_update_subset [of k "f (map_of (g_rels g) k)" "g_rels g"]
    by (auto simp: merge_rel_with_def upsert_def split: if_splits)
  then show "has_node (merge_rel_with k f g) (fst (fst x)) \<and>
      has_node (merge_rel_with k f g) (snd (snd (fst x)))"
    by cases (simp_all add: wf_ends_mem [OF wf])
qed

lemma map_entry_keys: "map fst (AList.map_entry k f al) = map fst al"
  by (induction al) auto

lemma wf_set_node_with:
  assumes wf: "wf_graph g"
  shows "wf_graph (set_node_with k f g)"
proof (rule wf_graphI)
  show "distinct (map fst (g_nodes (set_node_with k f g)))"
    using wf_nodes_distinct [OF wf] map_entry_keys [of k f "g_nodes g"]
    by (simp add: set_node_with_def)
  show "distinct (map fst (g_rels (set_node_with k f g)))"
    using wf_rels_distinct [OF wf] by (simp add: set_node_with_def)
  fix x assume "x \<in> set (g_rels (set_node_with k f g))"
  then have "x \<in> set (g_rels g)" by (simp add: set_node_with_def)
  then show "has_node (set_node_with k f g) (fst (fst x)) \<and>
      has_node (set_node_with k f g) (snd (snd (fst x)))"
    by (simp add: wf_ends_mem [OF wf])
qed

lemma distinct_filter_keys: "distinct (map fst al) \<Longrightarrow> distinct (map fst (filter p al))"
  by (simp add: distinct_map inj_on_def)

lemma wf_delete_rels:
  assumes wf: "wf_graph g"
  shows "wf_graph (delete_rels p g)"
proof (rule wf_graphI)
  show "distinct (map fst (g_nodes (delete_rels p g)))"
    using wf_nodes_distinct [OF wf] by (simp add: delete_rels_def)
  show "distinct (map fst (g_rels (delete_rels p g)))"
    using wf_rels_distinct [OF wf] by (simp add: delete_rels_def distinct_filter_keys)
  fix x assume "x \<in> set (g_rels (delete_rels p g))"
  then have "x \<in> set (g_rels g)" by (simp add: delete_rels_def)
  then show "has_node (delete_rels p g) (fst (fst x)) \<and> has_node (delete_rels p g) (snd (snd (fst x)))"
    using wf_ends_mem [OF wf] by (auto simp: has_node_def node_def delete_rels_def)
qed

lemma wf_detach_delete:
  assumes wf: "wf_graph g"
  shows "wf_graph (detach_delete p g)"
proof (rule wf_graphI)
  let ?gone = "set (map fst (filter (\<lambda>(k, d). p k d) (g_nodes g)))"
  note dn = wf_nodes_distinct [OF wf]
  have rels: "g_rels (detach_delete p g)
      = filter (\<lambda>x. fst (fst x) \<notin> ?gone \<and> snd (snd (fst x)) \<notin> ?gone) (g_rels g)"
    by (simp add: detach_delete_def Let_def case_prod_unfold)
  show "distinct (map fst (g_nodes (detach_delete p g)))"
    using dn by (simp add: detach_delete_def Let_def distinct_filter_keys)
  show "distinct (map fst (g_rels (detach_delete p g)))"
    using wf_rels_distinct [OF wf] by (simp add: rels distinct_filter_keys)
  fix x assume "x \<in> set (g_rels (detach_delete p g))"
  then have x: "x \<in> set (g_rels g)" "fst (fst x) \<notin> ?gone" "snd (snd (fst x)) \<notin> ?gone"
    by (simp_all add: rels)
  have keep: "has_node (detach_delete p g) k" if "has_node g k" "k \<notin> ?gone" for k
    using that gone_iff [OF dn, of k p] by (auto simp: has_node_def node_detach_delete [OF dn])
  show "has_node (detach_delete p g) (fst (fst x)) \<and> has_node (detach_delete p g) (snd (snd (fst x)))"
    using wf_ends_mem [OF wf x(1)] x(2,3) keep by blast
qed

lemma rel_detach_delete:
  assumes wf: "wf_graph g"
  shows "rel (detach_delete p g) k = Some d \<longleftrightarrow>
     rel g k = Some d \<and> has_node (detach_delete p g) (fst k) \<and> has_node (detach_delete p g) (snd (snd k))"
proof -
  let ?gone = "set (map fst (filter (\<lambda>(k, d). p k d) (g_nodes g)))"
  obtain a t b where k: "k = (a, t, b)" by (cases k)
  have dn: "distinct (map fst (g_nodes g))" and dr: "distinct (map fst (g_rels g))"
    using wf by (simp_all add: wf_graph_def)
  have 1: "rel (detach_delete p g) k = Some d \<longleftrightarrow> rel g k = Some d \<and> a \<notin> ?gone \<and> b \<notin> ?gone"
  proof -
    have e: "g_rels (detach_delete p g)
        = filter (\<lambda>(k, d). fst k \<notin> ?gone \<and> snd (snd k) \<notin> ?gone) (g_rels g)"
      by (simp add: detach_delete_def Let_def case_prod_unfold)
    show ?thesis
      by (simp add: rel_def e map_of_filter_keys [OF dr] k split: option.splits)
  qed
  have 2: "has_node g c \<Longrightarrow> c \<notin> ?gone \<longleftrightarrow> has_node (detach_delete p g) c" for c
    unfolding gone_iff [OF dn]
    by (auto simp: has_node_def node_detach_delete [OF dn] split: option.splits)
  show ?thesis
  proof (cases "rel g k = Some d")
    case True
    then have "has_node g a" "has_node g b" using wf_rel_ends [OF wf True] k by auto
    then show ?thesis using 1 2 k by auto
  next
    case False
    then show ?thesis using 1 by auto
  qed
qed

lemma rel_delete_rels:
  "wf_graph g \<Longrightarrow> rel (delete_rels p g) k =
     (case rel g k of None \<Rightarrow> None | Some d \<Rightarrow> if p k d then None else Some d)"
  using map_of_filter_keys [of "g_rels g" "\<lambda>k d. \<not> p k d" k]
  by (auto simp: rel_def delete_rels_def wf_graph_def split: option.splits)

lemma node_delete_rels [simp]: "node (delete_rels p g) k = node g k"
  by (simp add: node_def delete_rels_def)

lemma has_node_delete_rels [simp]: "has_node (delete_rels p g) k = has_node g k"
  by (simp add: has_node_def)

text \<open>What \<open>SET n += map\<close> leaves under a key: the last value given for it.\<close>

lemma map_of_delete_alist: "map_of (AList.delete k d) = (map_of d)(k := None)"
  by (rule delete_conv')

lemma dget_delete [simp]: "dget (AList.delete k d) j = (if j = k then VNone else dget d j)"
  by (simp add: dget_def map_of_delete_alist)

lemma dget_set_props_absent: "k \<notin> fst ` set kvs \<Longrightarrow> dget (set_props d kvs) k = dget d k"
  by (induction d kvs rule: set_props.induct) auto

lemma dget_set_props:
  "distinct (map fst kvs) \<Longrightarrow> (k, v) \<in> set kvs \<Longrightarrow> dget (set_props d kvs) k = v"
proof (induction d kvs rule: set_props.induct)
  case (1 d)
  then show ?case by simp
next
  case (2 d k' v' kvs)
  show ?case
  proof (cases "(k, v) \<in> set kvs")
    case True
    then show ?thesis using 2 by simp
  next
    case False
    then have kv: "k' = k" "v' = v" using "2.prems" by auto
    then have "k \<notin> fst ` set kvs" using "2.prems" by simp
    then show ?thesis using kv by (simp add: dget_set_props_absent)
  qed
qed

lemma set_props_append: "set_props d (xs @ ys) = set_props (set_props d xs) ys"
  by (induction d xs rule: set_props.induct) auto

lemma sourced_set_props:
  "sourced d \<Longrightarrow> ''source'' \<notin> fst ` set kvs \<Longrightarrow> sourced (set_props d kvs)"
  by (simp add: sourced_def dget_set_props_absent)

lemma dget_remove_props: "dget (remove_props ks d) k = (if k \<in> set ks then VNone else dget d k)"
proof -
  have "map_of (remove_props ks d) k = (if k \<in> set ks then None else map_of d k)"
    unfolding remove_props_def by (induction d) auto
  then show ?thesis by (simp add: dget_def)
qed

text \<open>Writing the same properties twice is writing them once.\<close>

lemma map_of_set_props:
  "map_of (set_props d kvs) k =
     (case map_of (rev kvs) k of None \<Rightarrow> map_of d k
      | Some v \<Rightarrow> if v = VNone then None else Some v)"
proof (induction d kvs rule: set_props.induct)
  case (1 d)
  then show ?case by simp
next
  case (2 d k' v' kvs)
  show ?case
  proof (cases "map_of (rev kvs) k")
    case None
    then show ?thesis using 2 by (simp add: map_add_def map_of_delete_alist)
  next
    case (Some v)
    then show ?thesis using 2 by (simp add: map_add_def)
  qed
qed

lemma map_of_set_props_twice: "map_of (set_props (set_props d kvs) kvs) = map_of (set_props d kvs)"
  by (rule ext) (simp add: map_of_set_props split: option.splits)

lemma set_props_settled:
  "(\<And>k v. (k, v) \<in> set kvs \<Longrightarrow> map_of d k = (if v = VNone then None else Some v)) \<Longrightarrow> set_props d kvs = d"
proof (induction d kvs rule: set_props.induct)
  case (1 d)
  then show ?case by simp
next
  case (2 d k v kvs)
  have "map_of d k = (if v = VNone then None else Some v)" using "2.prems" by simp
  then have "(if v = VNone then AList.delete k d else AList.update k v d) = d"
    by (auto simp: update_id map_of_eq_None_iff intro: delete_idem)
  then show ?case using "2.IH" "2.prems" by simp
qed

lemma set_props_twice:
  assumes "distinct (map fst kvs)"
  shows "set_props (set_props d kvs) kvs = set_props d kvs"
proof (rule set_props_settled)
  fix k v assume "(k, v) \<in> set kvs"
  then have "map_of (rev kvs) k = Some v" using assms by (simp add: map_of_eq_Some_iff rev_map [symmetric])
  then show "map_of (set_props d kvs) k = (if v = VNone then None else Some v)"
    by (simp add: map_of_set_props)
qed

lemma merge_node_with_twice:
  assumes "\<And>x. f (Some (f x)) = f x"
  shows "merge_node_with k f (merge_node_with k f g) = merge_node_with k f g"
  using assms by (simp add: merge_node_with_def upsert_def update_update_same)

lemma merge_rel_with_twice:
  assumes "\<And>x. f (Some (f x)) = f x"
  shows "merge_rel_with k f (merge_rel_with k f g) = merge_rel_with k f g"
  using assms
  by (cases "has_node g (fst k) \<and> has_node g (snd (snd k))")
    (auto simp: merge_rel_with_def has_node_def node_def upsert_def update_update_same)

section \<open>Equality of graphs as the database sees it\<close>

text \<open>The same nodes and relationships with the same properties, whatever the order they are kept in.\<close>

definition same_graph :: "graph \<Rightarrow> graph \<Rightarrow> bool" where
  "same_graph g h \<longleftrightarrow>
     (\<forall>k. map_option map_of (node g k) = map_option map_of (node h k)) \<and>
     (\<forall>k. map_option map_of (rel g k) = map_option map_of (rel h k))"

lemma same_graph_refl: "same_graph g g"
  by (simp add: same_graph_def)

lemma same_graph_has_node: "same_graph g h \<Longrightarrow> has_node g k = has_node h k"
  unfolding same_graph_def has_node_def by (metis map_option_is_None)

end
