(* ===== verification/Redact.thy ===== *)
theory Redact
  imports Prelude
begin

text \<open>
  \<open>redact.py\<close>: secrets are stripped from mappings, nested values and free text before anything is
  logged, shown or stored.  The two regular expressions are matched by hand: in each of them
  every position admits one way to match at most, so no backtracking is lost.
\<close>

definition REDACTED :: string where
  "REDACTED = ''**REDACTED**''"

definition SECRET_KEYS :: "string list" where
  "SECRET_KEYS = [''password'', ''token'', ''access_token'', ''api_key'', ''secret'']"

section \<open>The patterns\<close>

text \<open>A literal, matched without regard to case: the rest of the text after it.\<close>

fun match_ci :: "string \<Rightarrow> string \<Rightarrow> string option" where
  "match_ci [] s = Some s"
| "match_ci (p # ps) [] = None"
| "match_ci (p # ps) (c # cs) = (if to_lower c = p then match_ci ps cs else None)"

text \<open>\<open>api[_-]?key\<close>\<close>

definition match_api_key :: "string \<Rightarrow> string option" where
  "match_api_key s =
     (case match_ci ''api'' s of
        None \<Rightarrow> None
      | Some r \<Rightarrow>
          (case r of
             [] \<Rightarrow> None
           | c # cs \<Rightarrow> if c = CHR ''_'' \<or> c = CHR ''-'' then match_ci ''key'' cs else match_ci ''key'' r))"

fun first_match :: "(string \<Rightarrow> string option) list \<Rightarrow> string \<Rightarrow> string option" where
  "first_match [] s = None"
| "first_match (m # ms) s = (case m s of Some r \<Rightarrow> Some r | None \<Rightarrow> first_match ms s)"

text \<open>Group 1 of \<open>_SECRET_PATTERN\<close>.\<close>

definition secret_word :: "string \<Rightarrow> string option" where
  "secret_word =
     first_match [match_ci ''password'', match_ci ''token'', match_api_key, match_ci ''secret'']"

text \<open>\<open>_SECRET_KEY_PATTERN.search\<close>\<close>

fun secret_key_search :: "string \<Rightarrow> bool" where
  "secret_key_search [] = False"
| "secret_key_search (c # cs) =
     (first_match [match_ci ''password'', match_ci ''token'', match_api_key, match_ci ''secret'',
        match_ci ''credential''] (c # cs) \<noteq> None \<or> secret_key_search cs)"

text \<open>The value: a quoted string, or a run of characters that are not white space.\<close>

definition quoted :: "char \<Rightarrow> string \<Rightarrow> string option" where
  "quoted q s =
     (case s of
        [] \<Rightarrow> None
      | c # cs \<Rightarrow> if c = q then after q cs else None)"

definition non_space_run :: "string \<Rightarrow> string option" where
  "non_space_run s =
     (case s of
        [] \<Rightarrow> None
      | c # cs \<Rightarrow> if is_space c then None else Some (dropWhile (\<lambda>d. \<not> is_space d) s))"

definition secret_value :: "string \<Rightarrow> string option" where
  "secret_value = first_match [quoted (char_of (34 :: nat)), quoted (char_of (39 :: nat)), non_space_run]"

text \<open>
  \<open>_SECRET_PATTERN\<close> at the start of the text: the rest after the match.  The keyword is the part
  of the text before the rest \<open>secret_word\<close> leaves.
\<close>

definition secret_match :: "string \<Rightarrow> (string \<times> string) option" where
  "secret_match s =
     (case secret_word s of
        None \<Rightarrow> None
      | Some r \<Rightarrow>
          (case dropWhile is_space r of
             [] \<Rightarrow> None
           | c # cs \<Rightarrow>
               if c = CHR ''='' \<or> c = CHR '':''
               then (case secret_value (dropWhile is_space cs) of
                       None \<Rightarrow> None
                     | Some rest \<Rightarrow> Some (take (length s - length r) s, rest))
               else None))"

lemma match_ci_length: "match_ci p s = Some r \<Longrightarrow> length r + length p = length s"
  by (induction p s rule: match_ci.induct) (auto split: if_splits)

lemma match_api_key_length: "match_api_key s = Some r \<Longrightarrow> length r < length s"
  by (auto simp: match_api_key_def split: option.splits list.splits if_splits dest!: match_ci_length)

lemma secret_word_length: "secret_word s = Some r \<Longrightarrow> length r < length s"
  by (auto simp: secret_word_def split: option.splits
      dest: match_ci_length match_api_key_length)

lemma after_length: "after d s = Some r \<Longrightarrow> length r < length s"
  using length_dropWhile_le [of "\<lambda>c. c \<noteq> d" s]
  by (auto simp: after_def split: list.splits)

lemma secret_value_length: "secret_value s = Some r \<Longrightarrow> length r < length s"
  using length_dropWhile_le [of "\<lambda>d. \<not> is_space d" "tl s"]
  by (auto simp: secret_value_def quoted_def non_space_run_def
      split: option.splits list.splits if_splits dest!: after_length)

lemma secret_match_length: "secret_match s = Some (k, r) \<Longrightarrow> length r < length s"
proof -
  assume a: "secret_match s = Some (k, r)"
  then obtain r0 c cs where r0: "secret_word s = Some r0" "dropWhile is_space r0 = c # cs"
    and v: "secret_value (dropWhile is_space cs) = Some r"
    by (auto simp: secret_match_def split: option.splits list.splits if_splits)
  have "length r < length (dropWhile is_space cs)" using secret_value_length [OF v] .
  also have "\<dots> \<le> length cs" by (rule length_dropWhile_le)
  also have "\<dots> < length (dropWhile is_space r0)" using r0 by simp
  also have "\<dots> \<le> length r0" by (rule length_dropWhile_le)
  also have "\<dots> < length s" using secret_word_length [OF r0(1)] .
  finally show ?thesis .
qed

text \<open>\<open>_SECRET_PATTERN.sub\<close>: the leftmost matches, one after the other.\<close>

function secret_sub :: "string \<Rightarrow> string" where
  "secret_sub [] = []"
| "secret_sub (c # cs) =
     (case secret_match (c # cs) of
        Some (k, rest) \<Rightarrow> k @ ''='' @ REDACTED @ secret_sub rest
      | None \<Rightarrow> c # secret_sub cs)"
  by pat_completeness auto
termination
  by (relation "measure length") (auto dest!: secret_match_length)

section \<open>The four entry points\<close>

definition redact_text :: "string \<Rightarrow> string" where
  "redact_text text = (if text = [] then text else secret_sub text)"

text \<open>\<open>redact_mapping\<close>: only the exact secret keys, and only nested dictionaries.\<close>

fun redact_mapping :: "dict \<Rightarrow> dict" and redact_mapping_item :: "pval \<Rightarrow> pval" where
  "redact_mapping [] = []"
| "redact_mapping ((key, value) # rest) =
     (key, if lower key \<in> set SECRET_KEYS then VStr REDACTED else redact_mapping_item value)
     # redact_mapping rest"
| "redact_mapping_item (VDict d) = VDict (redact_mapping d)"
| "redact_mapping_item v = v"

text \<open>
  \<open>redact_value\<close>: every key that looks like a secret, and the text of every string, at any depth.
  The string \<open>isoformat\<close> gives holds no letter but \<open>T\<close>, so it comes back as it is.
\<close>

fun redact_value :: "pval \<Rightarrow> pval" and redact_items :: "dict \<Rightarrow> dict"
  and redact_list :: "pval list \<Rightarrow> pval list" where
  "redact_value (VDict d) = VDict (redact_items d)"
| "redact_value (VList xs) = VList (redact_list xs)"
| "redact_value (VStr s) = VStr (redact_text s)"
| "redact_value v = v"
| "redact_items [] = []"
| "redact_items ((key, item) # rest) =
     (key, if secret_key_search key then VStr REDACTED else redact_value item) # redact_items rest"
| "redact_list [] = []"
| "redact_list (x # xs) = redact_value x # redact_list xs"

definition redact_exception :: "exn \<Rightarrow> string" where
  "redact_exception e = redact_text (exn_message e)"

section \<open>What redaction guarantees\<close>

text \<open>No entry of a value, at any depth, carries anything but the marker under a secret-looking key.\<close>

fun no_secret :: "pval \<Rightarrow> bool" and no_secret_items :: "dict \<Rightarrow> bool"
  and no_secret_list :: "pval list \<Rightarrow> bool" where
  "no_secret (VDict d) = no_secret_items d"
| "no_secret (VList xs) = no_secret_list xs"
| "no_secret v = True"
| "no_secret_items [] = True"
| "no_secret_items ((key, item) # rest) =
     ((if secret_key_search key then item = VStr REDACTED else no_secret item) \<and> no_secret_items rest)"
| "no_secret_list [] = True"
| "no_secret_list (x # xs) = (no_secret x \<and> no_secret_list xs)"

lemma redact_items_keys: "map fst (redact_items d) = map fst d"
  by (induction d) auto

lemma redact_no_secret_all:
  "no_secret (redact_value v)"
  "no_secret_items (redact_items d)"
  "no_secret_list (redact_list xs)"
  by (induction v and d and xs rule: redact_value_redact_items_redact_list.induct) auto

lemma secret_sub_no_match:
  "(\<And>i. i < length s \<Longrightarrow> secret_word (drop i s) = None) \<Longrightarrow> secret_sub s = s"
proof (induction s)
  case Nil
  then show ?case by simp
next
  case (Cons c cs)
  have "secret_word (c # cs) = None" using Cons.prems [of 0] by simp
  then have "secret_match (c # cs) = None" by (simp add: secret_match_def)
  moreover have "secret_sub cs = cs"
  proof (rule Cons.IH)
    fix i assume "i < length cs"
    then show "secret_word (drop i cs) = None" using Cons.prems [of "Suc i"] by simp
  qed
  ultimately show ?case by simp
qed

lemma secret_sub_skip:
  "(\<And>i. i < length p \<Longrightarrow> secret_word (drop i (p @ s)) = None) \<Longrightarrow> secret_sub (p @ s) = p @ secret_sub s"
proof (induction p)
  case Nil
  then show ?case by simp
next
  case (Cons c cs)
  have "secret_word (c # cs @ s) = None" using Cons.prems [of 0] by simp
  then have "secret_match (c # cs @ s) = None" by (simp add: secret_match_def)
  moreover have "secret_sub (cs @ s) = cs @ secret_sub s"
  proof (rule Cons.IH)
    fix i assume "i < length cs"
    then show "secret_word (drop i (cs @ s)) = None" using Cons.prems [of "Suc i"] by simp
  qed
  ultimately show ?case by simp
qed

lemma quoted_other: "c \<noteq> q \<Longrightarrow> quoted q (c # cs) = None"
  by (simp add: quoted_def)

lemma secret_value_run:
  assumes v: "v \<noteq> []" "list_all (\<lambda>c. \<not> is_space c) v" and q: "hd v \<notin> {char_of (34 :: nat), char_of (39 :: nat)}"
    and t: "dropWhile (\<lambda>c. \<not> is_space c) t = t"
  shows "secret_value (v @ t) = Some t"
proof -
  from v(1) obtain c cs where c: "v = c # cs" by (cases v) auto
  have "dropWhile (\<lambda>d. \<not> is_space d) (v @ t) = t"
    using v(2) t by (simp add: list_all_iff dropWhile_append2)
  then show ?thesis using v q
    by (simp add: secret_value_def c quoted_other non_space_run_def)
qed

section \<open>The guarantees\<close>

text \<open>The entries of a value, at any depth, lists included.\<close>

fun nested_entries :: "pval \<Rightarrow> (string \<times> pval) list" and item_entries :: "dict \<Rightarrow> (string \<times> pval) list"
  and list_entries :: "pval list \<Rightarrow> (string \<times> pval) list" where
  "nested_entries (VDict d) = d @ item_entries d"
| "nested_entries (VList xs) = list_entries xs"
| "nested_entries v = []"
| "item_entries [] = []"
| "item_entries ((key, item) # rest) = nested_entries item @ item_entries rest"
| "list_entries [] = []"
| "list_entries (x # xs) = nested_entries x @ list_entries xs"

definition entry_redacted :: "string \<times> pval \<Rightarrow> bool" where
  "entry_redacted e \<longleftrightarrow> \<not> secret_key_search (fst e) \<or> snd e = VStr REDACTED"

lemma no_secret_entries:
  "no_secret v \<Longrightarrow> list_all entry_redacted (nested_entries v)"
  "no_secret_items d \<Longrightarrow> list_all entry_redacted d \<and> list_all entry_redacted (item_entries d)"
  "no_secret_list xs \<Longrightarrow> list_all entry_redacted (list_entries xs)"
  by (induction v and d and xs rule: nested_entries_item_entries_list_entries.induct)
    (simp_all add: entry_redacted_def del: secret_key_search.simps split: if_splits)

text \<open>
  In a redacted value every entry whose key looks like a secret, however deep in dictionaries and
  lists, holds the marker and nothing else.
\<close>

theorem redacted_entries:
  "snd ` set (filter (\<lambda>(k, x). secret_key_search k) (nested_entries (redact_value v))) \<subseteq> {VStr REDACTED}"
  using no_secret_entries(1) [OF redact_no_secret_all(1), of v]
  by (auto simp: list_all_iff entry_redacted_def)

text \<open>
  A secret in running text does not get through: the value after a keyword and \<open>=\<close>, up to the next
  white space, is replaced whatever it is, and the rest of the text is redacted in turn.
\<close>

theorem redact_text_hides_value:
  assumes "word \<in> {''password'', ''token'', ''api_key'', ''secret''}"
    and "\<And>i. i < length start \<Longrightarrow> secret_word (drop i (start @ word @ ''='' @ hidden @ rest)) = None"
    and "hidden \<noteq> []" and "list_all (\<lambda>c. \<not> is_space c) hidden"
    and "hd hidden \<notin> {char_of (34 :: nat), char_of (39 :: nat)}"
    and "dropWhile (\<lambda>c. \<not> is_space c) rest = rest"
  shows "redact_text (start @ word @ ''='' @ hidden @ rest) = start @ word @ ''='' @ REDACTED @ redact_text rest"
proof -
  let ?f = "''='' @ hidden @ rest"
  have w: "secret_word (word @ ?f) = Some ?f"
    using assms(1) by (auto simp: secret_word_def match_api_key_def to_lower_def)
  have "\<not> is_space (hd hidden)" using assms(3,4) by (cases hidden) auto
  then have s: "dropWhile is_space (hidden @ rest) = hidden @ rest" using assms(3) by (cases hidden) auto
  have "secret_match (word @ ?f) = Some (word, rest)"
    using w s secret_value_run [OF assms(3-6)] by (simp add: secret_match_def is_space_def)
  moreover obtain c cs where "word @ ?f = c # cs" by (cases "word @ ?f") auto
  ultimately have "secret_sub (word @ ?f) = word @ ''='' @ REDACTED @ secret_sub rest"
    by simp
  moreover have "secret_sub (start @ word @ ?f) = start @ secret_sub (word @ ?f)"
    by (rule secret_sub_skip) (use assms(2) in simp)
  ultimately show ?thesis by (simp add: redact_text_def)
qed

theorem redact_text_hides_value_witness:
  "redact_text (''url ?'' @ ''token'' @ ''='' @ ''abc'' @ '' failed'') = ''url ?token=**REDACTED** failed''"
proof -
  have "redact_text (''url ?'' @ ''token'' @ ''='' @ ''abc'' @ '' failed'')
      = ''url ?'' @ ''token'' @ ''='' @ REDACTED @ redact_text '' failed''"
  proof (rule redact_text_hides_value)
    fix i :: nat
    assume "i < length ''url ?''"
    moreover have "list_all (\<lambda>i. secret_word (drop i (''url ?'' @ ''token'' @ ''='' @ ''abc'' @ '' failed'')) = None) [0..<5]"
      by code_simp
    ultimately show "secret_word (drop i (''url ?'' @ ''token'' @ ''='' @ ''abc'' @ '' failed'')) = None"
      by (auto simp: list_all_iff)
  qed code_simp+
  moreover have "redact_text '' failed'' = '' failed''" by code_simp
  ultimately show ?thesis by (simp add: REDACTED_def)
qed

text \<open>
  The limits of the pattern: with a quote between the keyword and the colon, as JSON has it, nothing
  matches, although the comment on the pattern names this form, and the secret stays in the text.
\<close>

theorem json_secret_stays:
  "let text = [CHR 0x22] @ ''password'' @ [CHR 0x22] @ '': '' @ [CHR 0x22] @ ''hunter2'' @ [CHR 0x22]
   in redact_text text = text"
  by code_simp

end
