(* ===== verification/Const.thy ===== *)
theory Const
  imports Prelude
begin

text \<open>
  \<open>const.py\<close>: the names, labels, limits and defaults the other modules share, with the values the
  source gives them.  The collection \<open>const_defs\<close> unfolds them.
\<close>

named_theorems const_defs \<open>the values of the constants\<close>

definition DOMAIN :: "string" where
  [const_defs]: "DOMAIN = ''ontology''"

definition CONF_HOST :: "string" where
  [const_defs]: "CONF_HOST = ''host''"

definition CONF_PORT :: "string" where
  [const_defs]: "CONF_PORT = ''port''"

definition CONF_USERNAME :: "string" where
  [const_defs]: "CONF_USERNAME = ''username''"

definition CONF_PASSWORD :: "string" where
  [const_defs]: "CONF_PASSWORD = ''password''"

definition CONF_DATABASE :: "string" where
  [const_defs]: "CONF_DATABASE = ''database''"

definition CONF_ENCRYPTED :: "string" where
  [const_defs]: "CONF_ENCRYPTED = ''encrypted''"

definition CONF_GRAPHQL_URL :: "string" where
  [const_defs]: "CONF_GRAPHQL_URL = ''graphql_url''"

definition CONF_GRAPHQL_TOKEN :: "string" where
  [const_defs]: "CONF_GRAPHQL_TOKEN = ''graphql_token''"

definition DEFAULT_PORT :: "nat" where
  [const_defs]: "DEFAULT_PORT = 7687"

definition DEFAULT_DATABASE :: "string" where
  [const_defs]: "DEFAULT_DATABASE = []"

definition DEFAULT_ENCRYPTED :: "bool" where
  [const_defs]: "DEFAULT_ENCRYPTED = False"

definition DEFAULT_GRAPHQL_URL :: "string" where
  [const_defs]: "DEFAULT_GRAPHQL_URL = []"

definition DEFAULT_GRAPHQL_TOKEN :: "string" where
  [const_defs]: "DEFAULT_GRAPHQL_TOKEN = []"

definition GRAPH_INITIAL_NODE_LIMIT :: "nat" where
  [const_defs]: "GRAPH_INITIAL_NODE_LIMIT = 100"

definition GRAPH_INITIAL_EDGE_LIMIT :: "nat" where
  [const_defs]: "GRAPH_INITIAL_EDGE_LIMIT = 100"

definition GRAPH_INITIAL_REQUEST_MAX :: "nat" where
  [const_defs]: "GRAPH_INITIAL_REQUEST_MAX = 500"

definition GRAPH_EXPAND_NODE_LIMIT :: "nat" where
  [const_defs]: "GRAPH_EXPAND_NODE_LIMIT = 25"

definition GRAPH_EXPAND_EDGE_LIMIT :: "nat" where
  [const_defs]: "GRAPH_EXPAND_EDGE_LIMIT = 50"

definition GRAPH_EXPAND_NODE_MAX :: "nat" where
  [const_defs]: "GRAPH_EXPAND_NODE_MAX = 250"

definition GRAPH_EXPAND_EDGE_MAX :: "nat" where
  [const_defs]: "GRAPH_EXPAND_EDGE_MAX = 500"

definition GRAPH_SEARCH_LIMIT :: "nat" where
  [const_defs]: "GRAPH_SEARCH_LIMIT = 50"

definition GRAPH_SEARCH_MAX :: "nat" where
  [const_defs]: "GRAPH_SEARCH_MAX = 100"

definition GRAPH_PROPERTY_LIMIT :: "nat" where
  [const_defs]: "GRAPH_PROPERTY_LIMIT = 25"

definition GRAPH_PROPERTY_VALUE_MAX_LENGTH :: "nat" where
  [const_defs]: "GRAPH_PROPERTY_VALUE_MAX_LENGTH = 2048"

definition GRAPH_REVISION_BUFFER_SIZE :: "nat" where
  [const_defs]: "GRAPH_REVISION_BUFFER_SIZE = 1000"

definition GRAPH_UPDATE_DEBOUNCE_SECONDS :: "rat" where
  [const_defs]: "GRAPH_UPDATE_DEBOUNCE_SECONDS = 1 / 4"

definition CONF_AUTO_CLASSIFY :: "string" where
  [const_defs]: "CONF_AUTO_CLASSIFY = ''auto_classify''"

definition DEFAULT_AUTO_CLASSIFY :: "bool" where
  [const_defs]: "DEFAULT_AUTO_CLASSIFY = True"

definition CONF_LOW_BATTERY_THRESHOLD :: "string" where
  [const_defs]: "CONF_LOW_BATTERY_THRESHOLD = ''low_battery_threshold''"

definition CONF_ACTIVE_POWER_THRESHOLD :: "string" where
  [const_defs]: "CONF_ACTIVE_POWER_THRESHOLD = ''active_power_threshold''"

definition CONF_MAX_MEASUREMENT_AGE_HOURS :: "string" where
  [const_defs]: "CONF_MAX_MEASUREMENT_AGE_HOURS = ''max_measurement_age_hours''"

definition CONF_RELATIONSHIP_RESULT_LIMIT :: "string" where
  [const_defs]: "CONF_RELATIONSHIP_RESULT_LIMIT = ''relationship_result_limit''"

definition DEFAULT_LOW_BATTERY_THRESHOLD :: "rat" where
  [const_defs]: "DEFAULT_LOW_BATTERY_THRESHOLD = 20"

definition DEFAULT_ACTIVE_POWER_THRESHOLD :: "rat" where
  [const_defs]: "DEFAULT_ACTIVE_POWER_THRESHOLD = 1"

definition DEFAULT_MAX_MEASUREMENT_AGE_HOURS :: "rat" where
  [const_defs]: "DEFAULT_MAX_MEASUREMENT_AGE_HOURS = 24"

definition DEFAULT_RELATIONSHIP_RESULT_LIMIT :: "nat" where
  [const_defs]: "DEFAULT_RELATIONSHIP_RESULT_LIMIT = 50"

definition MAX_RELATIONSHIP_RESULT_LIMIT :: "nat" where
  [const_defs]: "MAX_RELATIONSHIP_RESULT_LIMIT = 1000"

definition SCHEMA_VERSION :: "string" where
  [const_defs]: "SCHEMA_VERSION = ''3.4.0''"

definition SCHEMA_PREVIOUS_VERSION :: "string" where
  [const_defs]: "SCHEMA_PREVIOUS_VERSION = ''3.3.0''"

definition SCHEMA_SINGLETON_ID :: "string" where
  [const_defs]: "SCHEMA_SINGLETON_ID = ''home_assistant_ontology''"

definition HOME_SINGLETON_ID :: "string" where
  [const_defs]: "HOME_SINGLETON_ID = ''home''"

definition SOURCE_HOME_ASSISTANT :: "string" where
  [const_defs]: "SOURCE_HOME_ASSISTANT = ''home_assistant''"

definition SOURCE_GENERATED :: "string" where
  [const_defs]: "SOURCE_GENERATED = ''generated''"

definition SOURCE_INFERRED :: "string" where
  [const_defs]: "SOURCE_INFERRED = ''inferred''"

definition SOURCE_USER :: "string" where
  [const_defs]: "SOURCE_USER = ''user''"

definition STATE_CHANGE_DEBOUNCE_SECONDS :: "rat" where
  [const_defs]: "STATE_CHANGE_DEBOUNCE_SECONDS = 3"

definition CONF_STATE_CHANGE_DEBOUNCE_SECONDS :: "string" where
  [const_defs]: "CONF_STATE_CHANGE_DEBOUNCE_SECONDS = ''state_change_debounce_seconds''"

definition DEFAULT_STATE_CHANGE_DEBOUNCE_SECONDS :: "rat" where
  [const_defs]: "DEFAULT_STATE_CHANGE_DEBOUNCE_SECONDS = STATE_CHANGE_DEBOUNCE_SECONDS"

definition MIN_STATE_CHANGE_DEBOUNCE_SECONDS :: "rat" where
  [const_defs]: "MIN_STATE_CHANGE_DEBOUNCE_SECONDS = 1 / 2"

definition MAX_STATE_CHANGE_DEBOUNCE_SECONDS :: "rat" where
  [const_defs]: "MAX_STATE_CHANGE_DEBOUNCE_SECONDS = 300"

definition CONF_EXCLUDED_DOMAINS :: "string" where
  [const_defs]: "CONF_EXCLUDED_DOMAINS = ''excluded_domains''"

definition DEFAULT_EXCLUDED_DOMAINS :: "string" where
  [const_defs]: "DEFAULT_EXCLUDED_DOMAINS = []"

definition CONF_EXCLUDED_ENTITIES :: "string" where
  [const_defs]: "CONF_EXCLUDED_ENTITIES = ''excluded_entities''"

definition DEFAULT_EXCLUDED_ENTITIES :: "string" where
  [const_defs]: "DEFAULT_EXCLUDED_ENTITIES = []"

definition FAILED_UPDATE_RETRY_INTERVAL_SECONDS :: "rat" where
  [const_defs]: "FAILED_UPDATE_RETRY_INTERVAL_SECONDS = 300"

definition SYNC_ACTIVITY_WINDOW_MINUTES :: "nat" where
  [const_defs]: "SYNC_ACTIVITY_WINDOW_MINUTES = 5"

definition SYNC_ACTIVITY_PUBLISH_INTERVAL_SECONDS :: "rat" where
  [const_defs]: "SYNC_ACTIVITY_PUBLISH_INTERVAL_SECONDS = 30"

definition RETRY_INITIAL_DELAY_SECONDS :: "rat" where
  [const_defs]: "RETRY_INITIAL_DELAY_SECONDS = 1"

definition RETRY_MAX_DELAY_SECONDS :: "rat" where
  [const_defs]: "RETRY_MAX_DELAY_SECONDS = 60"

definition RETRY_MAX_ATTEMPTS :: "nat" where
  [const_defs]: "RETRY_MAX_ATTEMPTS = 5"

definition SUSTAINED_FAILURE_THRESHOLD :: "nat" where
  [const_defs]: "SUSTAINED_FAILURE_THRESHOLD = 3"

definition ISSUE_SCHEMA_VERSION_MISMATCH :: "string" where
  [const_defs]: "ISSUE_SCHEMA_VERSION_MISMATCH = ''schema_version_mismatch''"

definition ISSUE_SUSTAINED_CONNECTION_FAILURE :: "string" where
  [const_defs]: "ISSUE_SUSTAINED_CONNECTION_FAILURE = ''sustained_connection_failure''"

definition SERVICE_REBUILD :: "string" where
  [const_defs]: "SERVICE_REBUILD = ''rebuild''"

definition SERVICE_RESYNC :: "string" where
  [const_defs]: "SERVICE_RESYNC = ''resync''"

definition SERVICE_SYNC_ENTITY :: "string" where
  [const_defs]: "SERVICE_SYNC_ENTITY = ''sync_entity''"

definition SERVICE_VALIDATE :: "string" where
  [const_defs]: "SERVICE_VALIDATE = ''validate''"

definition ATTR_ENTITY_ID :: "string" where
  [const_defs]: "ATTR_ENTITY_ID = ''entity_id''"

definition SERVICE_SYNC_SPATIAL_LAYOUT :: "string" where
  [const_defs]: "SERVICE_SYNC_SPATIAL_LAYOUT = ''sync_spatial_layout''"

definition SERVICE_SCAN_ZIGBEE_MESH :: "string" where
  [const_defs]: "SERVICE_SCAN_ZIGBEE_MESH = ''scan_zigbee_mesh''"

definition SERVICE_QUERY :: "string" where
  [const_defs]: "SERVICE_QUERY = ''query''"

definition SERVICE_REFRESH_SEMANTICS :: "string" where
  [const_defs]: "SERVICE_REFRESH_SEMANTICS = ''refresh_semantics''"

definition SERVICE_EXPORT_OVERRIDES :: "string" where
  [const_defs]: "SERVICE_EXPORT_OVERRIDES = ''export_overrides''"

definition SERVICE_IMPORT_OVERRIDES :: "string" where
  [const_defs]: "SERVICE_IMPORT_OVERRIDES = ''import_overrides''"

definition ATTR_CYPHER :: "string" where
  [const_defs]: "ATTR_CYPHER = ''cypher''"

definition ATTR_PARAMETERS :: "string" where
  [const_defs]: "ATTR_PARAMETERS = ''parameters''"

definition ATTR_LIMIT :: "string" where
  [const_defs]: "ATTR_LIMIT = ''limit''"

definition ATTR_PAYLOAD :: "string" where
  [const_defs]: "ATTR_PAYLOAD = ''payload''"

definition SERVICE_LOW_BATTERY_AREAS :: "string" where
  [const_defs]: "SERVICE_LOW_BATTERY_AREAS = ''low_battery_areas''"

definition SERVICE_ACTIVE_CONSUMERS :: "string" where
  [const_defs]: "SERVICE_ACTIVE_CONSUMERS = ''active_consumers''"

definition SERVICE_MESH_LINK_WALLS :: "string" where
  [const_defs]: "SERVICE_MESH_LINK_WALLS = ''mesh_link_walls''"

definition SERVICE_MESH_HEALTH :: "string" where
  [const_defs]: "SERVICE_MESH_HEALTH = ''mesh_health''"

definition SERVICE_SET_ENERGY_ROLE :: "string" where
  [const_defs]: "SERVICE_SET_ENERGY_ROLE = ''set_energy_role''"

definition SERVICE_DELETE_ENERGY_ROLE :: "string" where
  [const_defs]: "SERVICE_DELETE_ENERGY_ROLE = ''delete_energy_role''"

definition ATTR_THRESHOLD_PERCENTAGE :: "string" where
  [const_defs]: "ATTR_THRESHOLD_PERCENTAGE = ''threshold_percentage''"

definition ATTR_THRESHOLD_WATTS :: "string" where
  [const_defs]: "ATTR_THRESHOLD_WATTS = ''threshold_watts''"

definition ATTR_MAX_LQI :: "string" where
  [const_defs]: "ATTR_MAX_LQI = ''max_lqi''"

definition ATTR_INCLUDE_SIBLINGS :: "string" where
  [const_defs]: "ATTR_INCLUDE_SIBLINGS = ''include_siblings''"

definition ATTR_WEAK_LQI :: "string" where
  [const_defs]: "ATTR_WEAK_LQI = ''weak_lqi''"

definition ATTR_MAX_AGE_HOURS :: "string" where
  [const_defs]: "ATTR_MAX_AGE_HOURS = ''max_age_hours''"

definition ATTR_TARGET :: "string" where
  [const_defs]: "ATTR_TARGET = ''target''"

definition ATTR_TARGET_TYPE :: "string" where
  [const_defs]: "ATTR_TARGET_TYPE = ''target_type''"

definition ATTR_ROLE :: "string" where
  [const_defs]: "ATTR_ROLE = ''role''"

definition DEFAULT_QUERY_LIMIT :: "nat" where
  [const_defs]: "DEFAULT_QUERY_LIMIT = 100"

definition MAX_QUERY_LIMIT :: "nat" where
  [const_defs]: "MAX_QUERY_LIMIT = 1000"

definition DEFAULT_SEARCH_LIMIT :: "nat" where
  [const_defs]: "DEFAULT_SEARCH_LIMIT = 50"

definition QUERY_DENYLIST_KEYWORDS :: "string list" where
  [const_defs]: "QUERY_DENYLIST_KEYWORDS = [''CREATE'', ''MERGE'', ''DELETE'', ''DETACH'', ''SET'', ''REMOVE'', ''DROP'', ''LOAD CSV'', ''CALL DBMS'', ''CALL MG'', ''CALL ALGO'']"

definition OVERRIDES_EXPORT_VERSION :: "nat" where
  [const_defs]: "OVERRIDES_EXPORT_VERSION = 1"

definition FINDING_MISSING_AREA :: "string" where
  [const_defs]: "FINDING_MISSING_AREA = ''missing_area''"

definition FINDING_MISSING_DEVICE :: "string" where
  [const_defs]: "FINDING_MISSING_DEVICE = ''missing_device''"

definition FINDING_ORPHAN_ENTITY :: "string" where
  [const_defs]: "FINDING_ORPHAN_ENTITY = ''orphan_entity''"

definition FINDING_ORPHAN_DEVICE :: "string" where
  [const_defs]: "FINDING_ORPHAN_DEVICE = ''orphan_device''"

definition FINDING_DUPLICATE_ENTITY :: "string" where
  [const_defs]: "FINDING_DUPLICATE_ENTITY = ''duplicate_entity''"

definition FINDING_UNAVAILABLE_CRITICAL_ENTITY :: "string" where
  [const_defs]: "FINDING_UNAVAILABLE_CRITICAL_ENTITY = ''unavailable_critical_entity''"

definition FINDING_INVALID_RELATIONSHIP :: "string" where
  [const_defs]: "FINDING_INVALID_RELATIONSHIP = ''invalid_relationship''"

definition FINDING_SCHEMA_MISMATCH :: "string" where
  [const_defs]: "FINDING_SCHEMA_MISMATCH = ''schema_mismatch''"

definition FINDING_MISSING_SEMANTIC_CLASSIFICATION :: "string" where
  [const_defs]: "FINDING_MISSING_SEMANTIC_CLASSIFICATION = ''missing_semantic_classification''"

definition FINDING_FLOOR_MISSING_SPATIAL_COVERAGE :: "string" where
  [const_defs]: "FINDING_FLOOR_MISSING_SPATIAL_COVERAGE = ''floor_missing_spatial_coverage''"

definition FINDING_ENTITY_MISSING_FLOOR_PIN :: "string" where
  [const_defs]: "FINDING_ENTITY_MISSING_FLOOR_PIN = ''entity_missing_floor_pin''"

definition SEVERITY_INFO :: "string" where
  [const_defs]: "SEVERITY_INFO = ''info''"

definition SEVERITY_WARNING :: "string" where
  [const_defs]: "SEVERITY_WARNING = ''warning''"

definition SEVERITY_ERROR :: "string" where
  [const_defs]: "SEVERITY_ERROR = ''error''"

definition FINDING_STATUS_OPEN :: "string" where
  [const_defs]: "FINDING_STATUS_OPEN = ''open''"

definition FINDING_STATUS_RESOLVED :: "string" where
  [const_defs]: "FINDING_STATUS_RESOLVED = ''resolved''"

definition WS_TYPE_AREA_CONTEXT :: "string" where
  [const_defs]: "WS_TYPE_AREA_CONTEXT = ''ontology/area_context''"

definition WS_TYPE_ENTITY_CONTEXT :: "string" where
  [const_defs]: "WS_TYPE_ENTITY_CONTEXT = ''ontology/entity_context''"

definition WS_TYPE_SEARCH :: "string" where
  [const_defs]: "WS_TYPE_SEARCH = ''ontology/search''"

definition WS_TYPE_GRAPH_SNAPSHOT :: "string" where
  [const_defs]: "WS_TYPE_GRAPH_SNAPSHOT = ''ontology/graph_snapshot''"

definition WS_TYPE_GRAPH_SEARCH :: "string" where
  [const_defs]: "WS_TYPE_GRAPH_SEARCH = ''ontology/graph_search''"

definition WS_TYPE_GRAPH_DETAIL :: "string" where
  [const_defs]: "WS_TYPE_GRAPH_DETAIL = ''ontology/graph_detail''"

definition WS_TYPE_GRAPH_EXPAND :: "string" where
  [const_defs]: "WS_TYPE_GRAPH_EXPAND = ''ontology/graph_expand''"

definition WS_TYPE_GRAPH_SUBSCRIBE :: "string" where
  [const_defs]: "WS_TYPE_GRAPH_SUBSCRIBE = ''ontology/graph_subscribe''"

definition WS_TYPE_LAB_STATUS :: "string" where
  [const_defs]: "WS_TYPE_LAB_STATUS = ''ontology/lab_status''"

definition HEALTH_OK :: "string" where
  [const_defs]: "HEALTH_OK = ''ok''"

definition HEALTH_ERROR :: "string" where
  [const_defs]: "HEALTH_ERROR = ''error''"

definition HEALTH_UNAVAILABLE :: "string" where
  [const_defs]: "HEALTH_UNAVAILABLE = ''unavailable''"

definition SPATIAL_CONTEXT_DOMAIN :: "string" where
  [const_defs]: "SPATIAL_CONTEXT_DOMAIN = ''spatial_context''"

definition SPATIAL_CONTEXT_GET_MAP_SERVICE :: "string" where
  [const_defs]: "SPATIAL_CONTEXT_GET_MAP_SERVICE = ''get_map''"

definition CONF_ZIGBEE2MQTT_BASE_TOPIC :: "string" where
  [const_defs]: "CONF_ZIGBEE2MQTT_BASE_TOPIC = ''zigbee2mqtt_base_topic''"

definition DEFAULT_ZIGBEE2MQTT_BASE_TOPIC :: "string" where
  [const_defs]: "DEFAULT_ZIGBEE2MQTT_BASE_TOPIC = ''zigbee2mqtt''"

definition CONF_MESH_SNAPSHOT_RETENTION_DAYS :: "string" where
  [const_defs]: "CONF_MESH_SNAPSHOT_RETENTION_DAYS = ''mesh_snapshot_retention_days''"

definition DEFAULT_MESH_SNAPSHOT_RETENTION_DAYS :: "nat" where
  [const_defs]: "DEFAULT_MESH_SNAPSHOT_RETENTION_DAYS = 30"

definition MIN_MESH_SNAPSHOT_RETENTION_DAYS :: "nat" where
  [const_defs]: "MIN_MESH_SNAPSHOT_RETENTION_DAYS = 1"

definition MAX_MESH_SNAPSHOT_RETENTION_DAYS :: "nat" where
  [const_defs]: "MAX_MESH_SNAPSHOT_RETENTION_DAYS = 365"

definition CONF_MESH_HISTORY_KEEP_SIBLINGS :: "string" where
  [const_defs]: "CONF_MESH_HISTORY_KEEP_SIBLINGS = ''mesh_history_keep_siblings''"

definition DEFAULT_MESH_HISTORY_KEEP_SIBLINGS :: "bool" where
  [const_defs]: "DEFAULT_MESH_HISTORY_KEEP_SIBLINGS = True"

definition CONF_COORDINATOR_DEVICE_ID :: "string" where
  [const_defs]: "CONF_COORDINATOR_DEVICE_ID = ''coordinator_device_id''"

definition CONF_FLOOR_HEIGHT_M :: "string" where
  [const_defs]: "CONF_FLOOR_HEIGHT_M = ''floor_height_m''"

definition DEFAULT_FLOOR_HEIGHT_M :: "rat" where
  [const_defs]: "DEFAULT_FLOOR_HEIGHT_M = 14 / 5"

definition MIN_FLOOR_HEIGHT_M :: "rat" where
  [const_defs]: "MIN_FLOOR_HEIGHT_M = 2"

definition MAX_FLOOR_HEIGHT_M :: "rat" where
  [const_defs]: "MAX_FLOOR_HEIGHT_M = 6"

definition CONF_FLOOR_SLAB_ATTENUATION_DB :: "string" where
  [const_defs]: "CONF_FLOOR_SLAB_ATTENUATION_DB = ''floor_slab_attenuation_db''"

definition DEFAULT_FLOOR_SLAB_ATTENUATION_DB :: "rat" where
  [const_defs]: "DEFAULT_FLOOR_SLAB_ATTENUATION_DB = 15"

definition MIN_FLOOR_SLAB_ATTENUATION_DB :: "rat" where
  [const_defs]: "MIN_FLOOR_SLAB_ATTENUATION_DB = 0"

definition MAX_FLOOR_SLAB_ATTENUATION_DB :: "rat" where
  [const_defs]: "MAX_FLOOR_SLAB_ATTENUATION_DB = 60"

definition CONF_MESH_SNAPSHOT_SCAN_HOUR :: "string" where
  [const_defs]: "CONF_MESH_SNAPSHOT_SCAN_HOUR = ''mesh_snapshot_scan_hour''"

definition DEFAULT_MESH_SNAPSHOT_SCAN_HOUR :: "string" where
  [const_defs]: "DEFAULT_MESH_SNAPSHOT_SCAN_HOUR = ''3''"

definition CONF_MESH_SNAPSHOT_RESPONSE_TIMEOUT_SECONDS :: "string" where
  [const_defs]: "CONF_MESH_SNAPSHOT_RESPONSE_TIMEOUT_SECONDS = ''mesh_snapshot_response_timeout_seconds''"

definition DEFAULT_MESH_SNAPSHOT_RESPONSE_TIMEOUT_SECONDS :: "rat" where
  [const_defs]: "DEFAULT_MESH_SNAPSHOT_RESPONSE_TIMEOUT_SECONDS = 150"

definition MIN_MESH_SNAPSHOT_RESPONSE_TIMEOUT_SECONDS :: "rat" where
  [const_defs]: "MIN_MESH_SNAPSHOT_RESPONSE_TIMEOUT_SECONDS = 10"

definition MAX_MESH_SNAPSHOT_RESPONSE_TIMEOUT_SECONDS :: "rat" where
  [const_defs]: "MAX_MESH_SNAPSHOT_RESPONSE_TIMEOUT_SECONDS = 600"

definition LABEL_HOME :: "string" where
  [const_defs]: "LABEL_HOME = ''Home''"

definition LABEL_FLOOR :: "string" where
  [const_defs]: "LABEL_FLOOR = ''Floor''"

definition LABEL_AREA :: "string" where
  [const_defs]: "LABEL_AREA = ''Area''"

definition LABEL_DEVICE :: "string" where
  [const_defs]: "LABEL_DEVICE = ''Device''"

definition LABEL_ENTITY :: "string" where
  [const_defs]: "LABEL_ENTITY = ''Entity''"

definition LABEL_DOMAIN :: "string" where
  [const_defs]: "LABEL_DOMAIN = ''Domain''"

definition LABEL_INTEGRATION :: "string" where
  [const_defs]: "LABEL_INTEGRATION = ''Integration''"

definition LABEL_LABEL :: "string" where
  [const_defs]: "LABEL_LABEL = ''Label''"

definition LABEL_AUTOMATION :: "string" where
  [const_defs]: "LABEL_AUTOMATION = ''Automation''"

definition LABEL_SCENE :: "string" where
  [const_defs]: "LABEL_SCENE = ''Scene''"

definition LABEL_SCRIPT :: "string" where
  [const_defs]: "LABEL_SCRIPT = ''Script''"

definition LABEL_ONTOLOGY_SCHEMA :: "string" where
  [const_defs]: "LABEL_ONTOLOGY_SCHEMA = ''OntologySchema''"

definition LABEL_SUPPLY_ASSOCIATION :: "string" where
  [const_defs]: "LABEL_SUPPLY_ASSOCIATION = ''SupplyAssociation''"

definition LABEL_ENERGY_ROLE_ASSIGNMENT :: "string" where
  [const_defs]: "LABEL_ENERGY_ROLE_ASSIGNMENT = ''EnergyRoleAssignment''"

definition REL_HAS_AREA :: "string" where
  [const_defs]: "REL_HAS_AREA = ''HAS_AREA''"

definition REL_HAS_FLOOR :: "string" where
  [const_defs]: "REL_HAS_FLOOR = ''HAS_FLOOR''"

definition REL_ON_FLOOR :: "string" where
  [const_defs]: "REL_ON_FLOOR = ''ON_FLOOR''"

definition REL_HAS_DEVICE :: "string" where
  [const_defs]: "REL_HAS_DEVICE = ''HAS_DEVICE''"

definition REL_HAS_ENTITY :: "string" where
  [const_defs]: "REL_HAS_ENTITY = ''HAS_ENTITY''"

definition REL_IN_DOMAIN :: "string" where
  [const_defs]: "REL_IN_DOMAIN = ''IN_DOMAIN''"

definition REL_PROVIDED_BY :: "string" where
  [const_defs]: "REL_PROVIDED_BY = ''PROVIDED_BY''"

definition REL_HAS_LABEL :: "string" where
  [const_defs]: "REL_HAS_LABEL = ''HAS_LABEL''"

definition REL_REFERENCES :: "string" where
  [const_defs]: "REL_REFERENCES = ''REFERENCES''"

definition REL_CONTROLS :: "string" where
  [const_defs]: "REL_CONTROLS = ''CONTROLS''"

definition REL_ASSIGNS_ROLE_TO :: "string" where
  [const_defs]: "REL_ASSIGNS_ROLE_TO = ''ASSIGNS_ROLE_TO''"

definition MEASUREMENT_KIND :: "string" where
  [const_defs]: "MEASUREMENT_KIND = ''measurement_kind''"

definition MEASUREMENT_STATUS :: "string" where
  [const_defs]: "MEASUREMENT_STATUS = ''measurement_status''"

definition MEASUREMENT_BATTERY_PERCENTAGE :: "string" where
  [const_defs]: "MEASUREMENT_BATTERY_PERCENTAGE = ''battery_percentage''"

definition MEASUREMENT_POWER_WATTS :: "string" where
  [const_defs]: "MEASUREMENT_POWER_WATTS = ''power_watts''"

definition MEASUREMENT_LAST_UPDATED :: "string" where
  [const_defs]: "MEASUREMENT_LAST_UPDATED = ''measurement_last_updated''"

definition MEASUREMENT_LAST_UPDATED_EPOCH :: "string" where
  [const_defs]: "MEASUREMENT_LAST_UPDATED_EPOCH = ''measurement_last_updated_epoch''"

definition MEASUREMENT_KIND_BATTERY :: "string" where
  [const_defs]: "MEASUREMENT_KIND_BATTERY = ''battery''"

definition MEASUREMENT_KIND_POWER :: "string" where
  [const_defs]: "MEASUREMENT_KIND_POWER = ''power''"

definition MEASUREMENT_STATUS_AVAILABLE :: "string" where
  [const_defs]: "MEASUREMENT_STATUS_AVAILABLE = ''available''"

definition MEASUREMENT_STATUS_UNAVAILABLE :: "string" where
  [const_defs]: "MEASUREMENT_STATUS_UNAVAILABLE = ''unavailable''"

definition MEASUREMENT_STATUS_INVALID_VALUE :: "string" where
  [const_defs]: "MEASUREMENT_STATUS_INVALID_VALUE = ''invalid_value''"

definition MEASUREMENT_STATUS_UNSUPPORTED_UNIT :: "string" where
  [const_defs]: "MEASUREMENT_STATUS_UNSUPPORTED_UNIT = ''unsupported_unit''"

definition ENERGY_ROLE_CONSUMER :: "string" where
  [const_defs]: "ENERGY_ROLE_CONSUMER = ''consumer''"

definition ENERGY_ROLE_PRODUCER :: "string" where
  [const_defs]: "ENERGY_ROLE_PRODUCER = ''producer''"

definition ENERGY_ROLE_STORAGE :: "string" where
  [const_defs]: "ENERGY_ROLE_STORAGE = ''storage''"

definition ENERGY_ROLE_GRID_IMPORT :: "string" where
  [const_defs]: "ENERGY_ROLE_GRID_IMPORT = ''grid_import''"

definition ENERGY_ROLE_GRID_EXPORT :: "string" where
  [const_defs]: "ENERGY_ROLE_GRID_EXPORT = ''grid_export''"

definition ENERGY_ROLES :: "string list" where
  [const_defs]: "ENERGY_ROLES = [ENERGY_ROLE_CONSUMER, ENERGY_ROLE_PRODUCER, ENERGY_ROLE_STORAGE, ENERGY_ROLE_GRID_IMPORT, ENERGY_ROLE_GRID_EXPORT]"

definition LABEL_SEMANTIC_TYPE :: "string" where
  [const_defs]: "LABEL_SEMANTIC_TYPE = ''SemanticType''"

definition LABEL_GAS_CYLINDER :: "string" where
  [const_defs]: "LABEL_GAS_CYLINDER = ''GasCylinder''"

definition LABEL_VEHICLE :: "string" where
  [const_defs]: "LABEL_VEHICLE = ''Vehicle''"

definition LABEL_ENERGY_ASSET :: "string" where
  [const_defs]: "LABEL_ENERGY_ASSET = ''EnergyAsset''"

definition LABEL_SECURITY_DEVICE :: "string" where
  [const_defs]: "LABEL_SECURITY_DEVICE = ''SecurityDevice''"

definition LABEL_OCCUPANCY_SENSOR :: "string" where
  [const_defs]: "LABEL_OCCUPANCY_SENSOR = ''OccupancySensor''"

definition LABEL_CLIMATE_DEVICE :: "string" where
  [const_defs]: "LABEL_CLIMATE_DEVICE = ''ClimateDevice''"

definition LABEL_NETWORK_DEVICE :: "string" where
  [const_defs]: "LABEL_NETWORK_DEVICE = ''NetworkDevice''"

definition LABEL_BATTERY_POWERED_DEVICE :: "string" where
  [const_defs]: "LABEL_BATTERY_POWERED_DEVICE = ''BatteryPoweredDevice''"

definition LABEL_CAMERA :: "string" where
  [const_defs]: "LABEL_CAMERA = ''Camera''"

definition LABEL_DASHBOARD :: "string" where
  [const_defs]: "LABEL_DASHBOARD = ''Dashboard''"

definition LABEL_DASHBOARD_CARD :: "string" where
  [const_defs]: "LABEL_DASHBOARD_CARD = ''DashboardCard''"

definition LABEL_VALIDATION_FINDING :: "string" where
  [const_defs]: "LABEL_VALIDATION_FINDING = ''ValidationFinding''"

definition LABEL_WALL :: "string" where
  [const_defs]: "LABEL_WALL = ''Wall''"

definition LABEL_MESH_SNAPSHOT :: "string" where
  [const_defs]: "LABEL_MESH_SNAPSHOT = ''MeshSnapshot''"

definition LABEL_MESH_LINK :: "string" where
  [const_defs]: "LABEL_MESH_LINK = ''MeshLink''"

definition SEMANTIC_TYPE_LABELS :: "string list" where
  [const_defs]: "SEMANTIC_TYPE_LABELS = [LABEL_GAS_CYLINDER, LABEL_VEHICLE, LABEL_ENERGY_ASSET, LABEL_SECURITY_DEVICE, LABEL_OCCUPANCY_SENSOR, LABEL_CLIMATE_DEVICE, LABEL_NETWORK_DEVICE, LABEL_BATTERY_POWERED_DEVICE, LABEL_CAMERA]"

definition HA_ID_INDEXED_LABELS :: "string list" where
  [const_defs]: "HA_ID_INDEXED_LABELS = [LABEL_ENTITY, LABEL_DEVICE, LABEL_MESH_LINK, LABEL_VALIDATION_FINDING, LABEL_SUPPLY_ASSOCIATION, LABEL_ENERGY_ROLE_ASSIGNMENT]"

definition REL_CLASSIFIED_AS :: "string" where
  [const_defs]: "REL_CLASSIFIED_AS = ''CLASSIFIED_AS''"

definition REL_MEASURED_BY :: "string" where
  [const_defs]: "REL_MEASURED_BY = ''MEASURED_BY''"

definition REL_LOCATED_IN :: "string" where
  [const_defs]: "REL_LOCATED_IN = ''LOCATED_IN''"

definition REL_PINNED_ON_FLOOR :: "string" where
  [const_defs]: "REL_PINNED_ON_FLOOR = ''PINNED_ON_FLOOR''"

definition REL_HAS_LINK :: "string" where
  [const_defs]: "REL_HAS_LINK = ''HAS_LINK''"

definition REL_FROM_DEVICE :: "string" where
  [const_defs]: "REL_FROM_DEVICE = ''FROM_DEVICE''"

definition REL_TO_DEVICE :: "string" where
  [const_defs]: "REL_TO_DEVICE = ''TO_DEVICE''"

definition REL_OBSERVED_BY :: "string" where
  [const_defs]: "REL_OBSERVED_BY = ''OBSERVED_BY''"

definition REL_CONTAINS_CARD :: "string" where
  [const_defs]: "REL_CONTAINS_CARD = ''CONTAINS_CARD''"

definition REL_DISPLAYS_ENTITY :: "string" where
  [const_defs]: "REL_DISPLAYS_ENTITY = ''DISPLAYS_ENTITY''"

definition REL_RELATES_TO :: "string" where
  [const_defs]: "REL_RELATES_TO = ''RELATES_TO''"

definition REL_OVERRIDE_OF :: "string" where
  [const_defs]: "REL_OVERRIDE_OF = ''OVERRIDE_OF''"

definition AUTOMATION_DOMAIN :: "string" where
  [const_defs]: "AUTOMATION_DOMAIN = ''automation''"

definition SCENE_DOMAIN :: "string" where
  [const_defs]: "SCENE_DOMAIN = ''scene''"

definition SCRIPT_DOMAIN :: "string" where
  [const_defs]: "SCRIPT_DOMAIN = ''script''"

definition SERVICE_SEARCH :: "string" where
  [const_defs]: "SERVICE_SEARCH = ''search''"

definition SERVICE_AREA_CONTEXT :: "string" where
  [const_defs]: "SERVICE_AREA_CONTEXT = ''area_context''"

definition SERVICE_DEVICE_CONTEXT :: "string" where
  [const_defs]: "SERVICE_DEVICE_CONTEXT = ''device_context''"

definition SERVICE_ENTITY_CONTEXT :: "string" where
  [const_defs]: "SERVICE_ENTITY_CONTEXT = ''entity_context''"

definition SERVICE_AUTOMATION_DEPENDENCIES :: "string" where
  [const_defs]: "SERVICE_AUTOMATION_DEPENDENCIES = ''automation_dependencies''"

definition SERVICE_IMPACT_ANALYSIS :: "string" where
  [const_defs]: "SERVICE_IMPACT_ANALYSIS = ''impact_analysis''"

definition SERVICE_EXPORT_CONTEXT :: "string" where
  [const_defs]: "SERVICE_EXPORT_CONTEXT = ''export_context''"

definition ATTR_TERM :: "string" where
  [const_defs]: "ATTR_TERM = ''term''"

definition ATTR_AREA :: "string" where
  [const_defs]: "ATTR_AREA = ''area''"

definition ATTR_DEVICE :: "string" where
  [const_defs]: "ATTR_DEVICE = ''device''"

definition ATTR_ENTITY :: "string" where
  [const_defs]: "ATTR_ENTITY = ''entity''"

definition ATTR_EXPORT_TYPE :: "string" where
  [const_defs]: "ATTR_EXPORT_TYPE = ''export_type''"

definition CONF_MCP_ENABLED :: "string" where
  [const_defs]: "CONF_MCP_ENABLED = ''mcp_enabled''"

definition DEFAULT_MCP_ENABLED :: "bool" where
  [const_defs]: "DEFAULT_MCP_ENABLED = False"

definition CONF_MCP_ALLOWED_NETWORKS :: "string" where
  [const_defs]: "CONF_MCP_ALLOWED_NETWORKS = ''mcp_allowed_networks''"

definition DEFAULT_MCP_ALLOWED_NETWORKS :: "string" where
  [const_defs]: "DEFAULT_MCP_ALLOWED_NETWORKS = ''127.0.0.0/8, ::1/128''"

definition MCP_TOKEN_STORE_KEY_PREFIX :: "string" where
  [const_defs]: "MCP_TOKEN_STORE_KEY_PREFIX = ''ontology_mcp_token_''"

definition MCP_TOKEN_STORE_VERSION :: "nat" where
  [const_defs]: "MCP_TOKEN_STORE_VERSION = 1"

definition AGENT_AUDIT_RETENTION_DAYS :: "nat" where
  [const_defs]: "AGENT_AUDIT_RETENTION_DAYS = 30"

definition AGENT_AUDIT_SWEEP_INTERVAL_SECONDS :: "rat" where
  [const_defs]: "AGENT_AUDIT_SWEEP_INTERVAL_SECONDS = 3600"

definition RESULT_TYPE_SEARCH :: "string" where
  [const_defs]: "RESULT_TYPE_SEARCH = ''search''"

definition RESULT_TYPE_AREA_CONTEXT :: "string" where
  [const_defs]: "RESULT_TYPE_AREA_CONTEXT = ''area_context''"

definition RESULT_TYPE_DEVICE_CONTEXT :: "string" where
  [const_defs]: "RESULT_TYPE_DEVICE_CONTEXT = ''device_context''"

definition RESULT_TYPE_ENTITY_CONTEXT :: "string" where
  [const_defs]: "RESULT_TYPE_ENTITY_CONTEXT = ''entity_context''"

definition RESULT_TYPE_AUTOMATION_DEPENDENCIES :: "string" where
  [const_defs]: "RESULT_TYPE_AUTOMATION_DEPENDENCIES = ''automation_dependencies''"

definition RESULT_TYPE_IMPACT_ANALYSIS :: "string" where
  [const_defs]: "RESULT_TYPE_IMPACT_ANALYSIS = ''impact_analysis''"

definition RESULT_TYPE_QUERY :: "string" where
  [const_defs]: "RESULT_TYPE_QUERY = ''query''"

definition RESULT_TYPE_EXPORT_CONTEXT :: "string" where
  [const_defs]: "RESULT_TYPE_EXPORT_CONTEXT = ''export_context''"

definition RESULT_TYPE_NOT_FOUND :: "string" where
  [const_defs]: "RESULT_TYPE_NOT_FOUND = ''not_found''"

definition RESULT_TYPE_LOW_BATTERY_AREAS :: "string" where
  [const_defs]: "RESULT_TYPE_LOW_BATTERY_AREAS = ''low_battery_areas''"

definition RESULT_TYPE_ACTIVE_CONSUMERS :: "string" where
  [const_defs]: "RESULT_TYPE_ACTIVE_CONSUMERS = ''active_consumers''"

definition RESULT_TYPE_UNASSIGNED_AREA_ITEMS :: "string" where
  [const_defs]: "RESULT_TYPE_UNASSIGNED_AREA_ITEMS = ''unassigned_area_items''"

definition RESULT_TYPE_MESH_LINK_WALLS :: "string" where
  [const_defs]: "RESULT_TYPE_MESH_LINK_WALLS = ''mesh_link_walls''"

definition RESULT_TYPE_MESH_HEALTH :: "string" where
  [const_defs]: "RESULT_TYPE_MESH_HEALTH = ''mesh_health''"

definition OUTCOME_OK :: "string" where
  [const_defs]: "OUTCOME_OK = ''ok''"

definition OUTCOME_EMPTY :: "string" where
  [const_defs]: "OUTCOME_EMPTY = ''empty''"

definition OUTCOME_NOT_FOUND :: "string" where
  [const_defs]: "OUTCOME_NOT_FOUND = ''not_found''"

definition OUTCOME_DEGRADED :: "string" where
  [const_defs]: "OUTCOME_DEGRADED = ''degraded''"

definition IMPACT_SCOPE_ENTITY :: "string" where
  [const_defs]: "IMPACT_SCOPE_ENTITY = ''entity''"

definition IMPACT_SCOPE_DEVICE :: "string" where
  [const_defs]: "IMPACT_SCOPE_DEVICE = ''device''"

definition IMPACT_SCOPE_AREA :: "string" where
  [const_defs]: "IMPACT_SCOPE_AREA = ''area''"

definition IMPACT_SCOPES :: "string list" where
  [const_defs]: "IMPACT_SCOPES = [IMPACT_SCOPE_ENTITY, IMPACT_SCOPE_DEVICE, IMPACT_SCOPE_AREA]"

definition EXPORT_TYPE_AREA :: "string" where
  [const_defs]: "EXPORT_TYPE_AREA = ''area''"

definition EXPORT_TYPE_ENTITY :: "string" where
  [const_defs]: "EXPORT_TYPE_ENTITY = ''entity''"

definition EXPORT_TYPE_DEVICE :: "string" where
  [const_defs]: "EXPORT_TYPE_DEVICE = ''device''"

definition EXPORT_TYPE_AUTOMATION :: "string" where
  [const_defs]: "EXPORT_TYPE_AUTOMATION = ''automation''"

definition EXPORT_TYPE_IMPACT :: "string" where
  [const_defs]: "EXPORT_TYPE_IMPACT = ''impact''"

definition EXPORT_TYPE_WHOLE_HOME :: "string" where
  [const_defs]: "EXPORT_TYPE_WHOLE_HOME = ''whole_home''"

definition EXPORT_TYPES :: "string list" where
  [const_defs]: "EXPORT_TYPES = [EXPORT_TYPE_AREA, EXPORT_TYPE_ENTITY, EXPORT_TYPE_DEVICE, EXPORT_TYPE_AUTOMATION, EXPORT_TYPE_IMPACT, EXPORT_TYPE_WHOLE_HOME]"

definition CONTEXT_EXPORT_ALLOWED_FIELDS :: "(string \<times> string list) list" where
  [const_defs]: "CONTEXT_EXPORT_ALLOWED_FIELDS = [(LABEL_AREA, [''ha_id'', ''name'', ''floor_id'']),
     (LABEL_DEVICE, [''ha_id'', ''name'', ''manufacturer'', ''model'', ''area_id'']),
     (LABEL_ENTITY, [''ha_id'', ''name'', ''domain'', ''device_class'', ''unit_of_measurement'', ''area_id'', ''device_id'', ''source'']),
     (LABEL_DOMAIN, [''ha_id'']),
     (LABEL_INTEGRATION, [''ha_id'', ''name'']),
     (LABEL_AUTOMATION, [''ha_id'', ''name'', ''mode'']),
     (LABEL_SCENE, [''ha_id'', ''name'']),
     (LABEL_SCRIPT, [''ha_id'', ''name'']),
     (LABEL_SEMANTIC_TYPE, [''ha_id'', ''asset_type'', ''entity_id'']),
     (LABEL_VALIDATION_FINDING, [''finding_type'', ''severity'', ''target_id'', ''message'']),
     (LABEL_DASHBOARD, [''ha_id'', ''title'']),
     (LABEL_DASHBOARD_CARD, [''ha_id'', ''title''])]"

definition MCP_TOOL_NAMES :: "string list" where
  [const_defs]: "MCP_TOOL_NAMES = [''search'', ''entity_context'', ''area_context'', ''device_context'', ''automation_dependencies'', ''impact_analysis'', ''query'', ''export_context'', ''low_battery_areas'', ''active_consumers'']"

definition INTENT_LOW_BATTERY_AREAS :: "string" where
  [const_defs]: "INTENT_LOW_BATTERY_AREAS = ''OntologyLowBatteryAreas''"

definition AUDIT_EVENT_ASSIST_QUERY :: "string" where
  [const_defs]: "AUDIT_EVENT_ASSIST_QUERY = ''assist_query''"

definition AUDIT_EVENT_MCP_TOOL_CALL :: "string" where
  [const_defs]: "AUDIT_EVENT_MCP_TOOL_CALL = ''mcp_tool_call''"

definition AUDIT_EVENT_MCP_WRITE_REJECTED :: "string" where
  [const_defs]: "AUDIT_EVENT_MCP_WRITE_REJECTED = ''mcp_write_rejected''"

definition AUDIT_EVENT_MCP_AUTH_REJECTED :: "string" where
  [const_defs]: "AUDIT_EVENT_MCP_AUTH_REJECTED = ''mcp_auth_rejected''"

definition BUTTON_KEY_REGENERATE_MCP_TOKEN :: "string" where
  [const_defs]: "BUTTON_KEY_REGENERATE_MCP_TOKEN = ''regenerate_mcp_token''"

definition BUTTON_KEY_SYNC_SPATIAL_LAYOUT :: "string" where
  [const_defs]: "BUTTON_KEY_SYNC_SPATIAL_LAYOUT = ''sync_spatial_layout''"

definition BUTTON_KEY_SCAN_ZIGBEE_MESH :: "string" where
  [const_defs]: "BUTTON_KEY_SCAN_ZIGBEE_MESH = ''scan_zigbee_mesh''"

end
