(* ===== verification/Memgraph_Client.thy ===== *)
theory Memgraph_Client
  imports Property_Graph Redact Const "HOL-Library.List_Lexorder" "HOL-Library.Char_ord"
begin

text \<open>
  \<open>memgraph_client.py\<close>: the wrapper around the Bolt driver.  The driver, the network and the
  database server are not code of the repository: what the next driver calls meet is a schedule
  in the state (\<open>w_net\<close>, a healthy server when it runs out), and a statement is a function on the
  graph.  A call that fails may have been applied by the server before the failure was seen, and
  the schedule says which.
\<close>

section \<open>Values of the driver\<close>

text \<open>
  What a record of the driver holds: graph objects, containers, JSON values as they are, the temporal
  types with the text of \<open>iso_format\<close>, and anything else with its \<open>str\<close>.
\<close>

datatype driver_value =
    DNode string "string list" "(string \<times> driver_value) list"
  | DRelationship string string "string option" "string option" "(string \<times> driver_value) list"
  | DPath "driver_value list" "driver_value list"
  | DMap "(string \<times> driver_value) list"
  | DSequence "driver_value list"
  | DPlain pval
  | DTemporal string
  | DOther string

fun serialize_value :: "driver_value \<Rightarrow> pval" and serialize_items :: "(string \<times> driver_value) list \<Rightarrow> dict"
  and serialize_list :: "driver_value list \<Rightarrow> pval list" where
  "serialize_value (DNode element_id labels properties) = VDict
     [(''element_id'', VStr element_id), (''labels'', VList (map VStr (sort labels))),
      (''properties'', VDict (serialize_items properties))]"
| "serialize_value (DRelationship element_id rel_type start_node end_node properties) = VDict
     [(''element_id'', VStr element_id), (''type'', VStr rel_type),
      (''start_node_element_id'', opt_str start_node), (''end_node_element_id'', opt_str end_node),
      (''properties'', VDict (serialize_items properties))]"
| "serialize_value (DPath nodes relationships) = VDict
     [(''nodes'', VList (serialize_list nodes)), (''relationships'', VList (serialize_list relationships))]"
| "serialize_value (DMap d) = VDict (serialize_items d)"
| "serialize_value (DSequence xs) = VList (serialize_list xs)"
| "serialize_value (DPlain v) = v"
| "serialize_value (DTemporal text) = VStr text"
| "serialize_value (DOther text) = VStr text"
| "serialize_items [] = []"
| "serialize_items ((k, v) # kvs) = (k, serialize_value v) # serialize_items kvs"
| "serialize_list [] = []"
| "serialize_list (x # xs) = serialize_value x # serialize_list xs"

definition serialize_record :: "(string \<times> driver_value) list \<Rightarrow> dict" where
  "serialize_record = serialize_items"

lemma serialize_plain: "serialize_items (map (\<lambda>(k, v). (k, DPlain v)) d) = d"
  by (induction d) auto

section \<open>State\<close>

datatype fault =
    AuthError string
  | Timeout
  | ServiceUnavailable string
  | Transient string
  | OtherError string

datatype net = Up | Down fault bool

text \<open>
  The clock is read with \<open>utc_now\<close>; between two readings it advances by the next entry of
  \<open>w_ticks\<close>.  \<open>w_sleeps\<close> records the arguments of \<open>asyncio.sleep\<close>, and \<open>w_open\<close> whether the client
  holds a driver.
\<close>

record world =
  w_graph :: graph
  w_net :: "net list"
  w_now :: int
  w_ticks :: "nat list"
  w_sleeps :: "rat list"
  w_open :: bool

text \<open>A world to start from: a graph, the answers of the server to come, the first seconds of the clock.\<close>

definition world_at :: "graph \<Rightarrow> net list \<Rightarrow> world" where
  "world_at g net = \<lparr>w_graph = g, w_net = net, w_now = 0, w_ticks = [], w_sleeps = [], w_open = False\<rparr>"

type_synonym ('z, 'a) wop = "('z world_scheme, 'a) op"
type_synonym 'r stmt = "graph \<Rightarrow> 'r \<times> graph"

text \<open>A statement that returns no rows.\<close>

definition write_stmt :: "(graph \<Rightarrow> graph) \<Rightarrow> unit stmt" where
  "write_stmt f g = ((), f g)"

definition read_stmt :: "(graph \<Rightarrow> 'r) \<Rightarrow> 'r stmt" where
  "read_stmt f g = (f g, g)"

definition utc_now :: "('z, int) wop" where
  "utc_now w = (Inr (w_now w),
     w\<lparr>w_now := w_now w + (case w_ticks w of [] \<Rightarrow> 0 | t # _ \<Rightarrow> int t), w_ticks := tl (w_ticks w)\<rparr>)"

record client_config =
  cc_host :: string
  cc_port :: nat
  cc_username :: "string option"
  cc_password :: "string option"
  cc_database :: "string option"
  cc_encrypted :: bool

definition uri :: "client_config \<Rightarrow> string" where
  "uri c = (if cc_encrypted c then ''bolt+s'' else ''bolt'') @ ''://'' @ cc_host c @ '':'' @
     str_of_nat (cc_port c)"

definition driver_auth :: "client_config \<Rightarrow> (string \<times> string) option" where
  "driver_auth c =
     (case cc_username c of
        Some u \<Rightarrow> if u \<noteq> [] then Some (u, case cc_password c of None \<Rightarrow> [] | Some p \<Rightarrow> p) else None
      | None \<Rightarrow> None)"

definition connect :: "('z, unit) wop" where
  "connect w = (Inr (), w\<lparr>w_open := True\<rparr>)"

definition close :: "('z, unit) wop" where
  "close w = (Inr (), w\<lparr>w_open := False\<rparr>)"

section \<open>One call of the driver\<close>

definition driver_call :: "'r stmt \<Rightarrow> 'z world_scheme \<Rightarrow> (fault + 'r) \<times> 'z world_scheme" where
  "driver_call q w =
     (let (r, g') = q (w_graph w) in
      case w_net w of
        [] \<Rightarrow> (Inr r, w\<lparr>w_graph := g'\<rparr>)
      | Up # ns \<Rightarrow> (Inr r, w\<lparr>w_graph := g', w_net := ns\<rparr>)
      | Down f applied # ns \<Rightarrow>
          (Inl f, w\<lparr>w_graph := (if applied then g' else w_graph w), w_net := ns\<rparr>))"

text \<open>The \<open>except\<close> clauses the query methods share; a driver error they do not name propagates.\<close>

fun query_error :: "fault \<Rightarrow> exn" where
  "query_error (AuthError m) = InvalidAuth (redact_text m)"
| "query_error Timeout = CannotConnect ''Connection to Memgraph timed out''"
| "query_error (ServiceUnavailable m) = CannotConnect (redact_text m)"
| "query_error (Transient m) = TransientError m"
| "query_error (OtherError m) = DriverError m"

text \<open>\<open>test_connection\<close> turns every other failure into \<open>CannotConnect\<close> as well.\<close>

fun test_error :: "fault \<Rightarrow> exn" where
  "test_error (AuthError m) = InvalidAuth (redact_text m)"
| "test_error Timeout = CannotConnect ''Connection to Memgraph timed out''"
| "test_error (ServiceUnavailable m) = CannotConnect (redact_text m)"
| "test_error (Transient m) = CannotConnect (redact_text m)"
| "test_error (OtherError m) = CannotConnect (redact_text m)"

definition test_connection :: "('z, unit) wop" where
  "test_connection = oseq connect (\<lambda>w.
     case driver_call (read_stmt (\<lambda>_. ())) w of
       (Inl f, w') \<Rightarrow> (Inl (test_error f), w')
     | (Inr _, w') \<Rightarrow> (Inr (), w'))"

definition run_query :: "'r stmt \<Rightarrow> ('z, 'r) wop" where
  "run_query q = oseq connect (\<lambda>w.
     case driver_call q w of
       (Inl f, w') \<Rightarrow> (Inl (query_error f), w')
     | (Inr r, w') \<Rightarrow> (Inr r, w'))"

text \<open>The streaming loop of \<open>run_query_limited\<close>.\<close>

fun collect_limited :: "nat \<Rightarrow> 'r list \<Rightarrow> 'r list \<Rightarrow> 'r list \<times> bool" where
  "collect_limited limit rows [] = (rows, False)"
| "collect_limited limit rows (r # rs) =
     (if limit \<le> length rows then (rows, True) else collect_limited limit (rows @ [r]) rs)"

definition run_query_limited :: "'r list stmt \<Rightarrow> nat \<Rightarrow> ('z, 'r list \<times> bool) wop" where
  "run_query_limited q limit = obind (run_query q) (\<lambda>records. oret (collect_limited limit [] records))"

text \<open>
  \<open>execute_write\<close>: the callback runs in one transaction, committed when it returns and rolled back
  when it raises; its own exceptions propagate.
\<close>

definition transaction :: "(graph \<Rightarrow> (exn + 'r) \<times> graph) \<Rightarrow> (exn + 'r) stmt" where
  "transaction work g = (case work g of (Inl e, _) \<Rightarrow> (Inl e, g) | (Inr r, g') \<Rightarrow> (Inr r, g'))"

definition execute_write :: "(graph \<Rightarrow> (exn + 'r) \<times> graph) \<Rightarrow> ('z, 'r) wop" where
  "execute_write work = obind (run_query (transaction work))
     (\<lambda>r. case r of Inl e \<Rightarrow> oraise e | Inr x \<Rightarrow> oret x)"

section \<open>Retrying\<close>

fun retryable :: "exn \<Rightarrow> bool" where
  "retryable (CannotConnect _) = True"
| "retryable (TransientError _) = True"
| "retryable _ = False"

definition sleep :: "rat \<Rightarrow> 'z world_scheme \<Rightarrow> 'z world_scheme" where
  "sleep d w = w\<lparr>w_sleeps := w_sleeps w @ [d]\<rparr>"

text \<open>The attempts that are left, and the delay before the next one.\<close>

fun retry_loop :: "nat \<Rightarrow> rat \<Rightarrow> 'r stmt \<Rightarrow> ('z, 'r) wop" where
  "retry_loop 0 delay q w = (Inl (DriverError ''no attempt''), w)"
| "retry_loop (Suc left) delay q w =
     (case run_query q w of
        (Inr r, w') \<Rightarrow> (Inr r, w')
      | (Inl e, w') \<Rightarrow>
          if \<not> retryable e then (Inl e, w')
          else if left = 0 then (Inl e, w')
          else retry_loop left (min (delay * 2) RETRY_MAX_DELAY_SECONDS) q (sleep delay w'))"

definition run_query_with_retry :: "'r stmt \<Rightarrow> ('z, 'r) wop" where
  "run_query_with_retry q = retry_loop RETRY_MAX_ATTEMPTS RETRY_INITIAL_DELAY_SECONDS q"

section \<open>Laws\<close>

lemma run_query_eq:
  "run_query q w =
     (case w_net w of
        [] \<Rightarrow> (Inr (fst (q (w_graph w))), w\<lparr>w_open := True, w_graph := snd (q (w_graph w))\<rparr>)
      | Up # ns \<Rightarrow> (Inr (fst (q (w_graph w))),
          w\<lparr>w_open := True, w_graph := snd (q (w_graph w)), w_net := ns\<rparr>)
      | Down f applied # ns \<Rightarrow> (Inl (query_error f),
          w\<lparr>w_open := True, w_graph := (if applied then snd (q (w_graph w)) else w_graph w),
            w_net := ns\<rparr>))"
  by (simp add: run_query_def driver_call_def connect_def oseq_apply case_prod_unfold Let_def
      split: list.splits net.splits)

lemma healthy_read: "w_net w = [] \<Longrightarrow> run_query (read_stmt f) w = (Inr (f (w_graph w)), w\<lparr>w_open := True\<rparr>)"
  by (cases w) (simp add: run_query_eq read_stmt_def)

lemma run_query_cases:
  obtains (ok) w' where "run_query q w = (Inr (fst (q (w_graph w))), w')"
      "w_graph w' = snd (q (w_graph w))"
  | (fail) e w' where "run_query q w = (Inl e, w')"
      "w_graph w' = w_graph w \<or> w_graph w' = snd (q (w_graph w))"
proof (cases "w_net w")
  case Nil
  then show ?thesis by (intro ok) (simp add: run_query_eq, simp)
next
  case (Cons n ns)
  then show ?thesis
  proof (cases n)
    case Up
    then show ?thesis using Cons by (intro ok) (simp add: run_query_eq, simp)
  next
    case (Down f applied)
    then show ?thesis using Cons by (intro fail) (simp add: run_query_eq, simp)
  qed
qed

lemma collect_limited_eq:
  "length rows \<le> limit \<Longrightarrow>
   collect_limited limit rows rs =
     (rows @ take (limit - length rows) rs, limit < length rows + length rs)"
proof (induction rs arbitrary: rows)
  case Nil
  then show ?case by simp
next
  case (Cons r rs)
  have "limit - Suc (length rows) = limit - length rows - 1" by simp
  then show ?case using Cons by (cases "limit - length rows") auto
qed

lemma run_query_sleeps: "run_query q w = (r, w') \<Longrightarrow> w_sleeps w' = w_sleeps w"
  by (auto simp: run_query_eq split: list.splits net.splits)

lemma run_query_graph:
  "w_graph (snd (run_query q w)) = w_graph w \<or> w_graph (snd (run_query q w)) = snd (q (w_graph w))"
  by (simp add: run_query_eq split: list.splits net.splits)

text \<open>Predicates of the graph alone.\<close>

lemma keeps_graph_run_query [keeps_intros]:
  "(\<And>g. I g \<Longrightarrow> I (snd (q g))) \<Longrightarrow> keeps (\<lambda>w. I (w_graph w)) (run_query q)"
  unfolding keeps_def by (metis run_query_graph)

lemma keeps_graph_retry_loop:
  assumes q: "\<And>g. I g \<Longrightarrow> I (snd (q g))"
  shows "I (w_graph w) \<Longrightarrow> I (w_graph (snd (retry_loop n d q w)))"
proof (induction n arbitrary: d w)
  case 0
  then show ?case by simp
next
  case (Suc n)
  have "I (w_graph (snd (run_query q w)))" using Suc.prems run_query_graph [of q w] q by metis
  then show ?case using Suc.IH by (auto simp: sleep_def split: prod.splits sum.splits)
qed

lemma keeps_graph_run_query_with_retry [keeps_intros]:
  "(\<And>g. I g \<Longrightarrow> I (snd (q g))) \<Longrightarrow> keeps (\<lambda>w. I (w_graph w)) (run_query_with_retry q)"
  unfolding run_query_with_retry_def keeps_def by (metis keeps_graph_retry_loop)

lemma keeps_graph_utc_now [keeps_intros]: "keeps (\<lambda>w. I (w_graph w)) utc_now"
  by (simp add: keeps_def utc_now_def)

lemma keeps_graph_test_connection [keeps_intros]: "keeps (\<lambda>w. I (w_graph w)) test_connection"
  by (auto simp: keeps_def test_connection_def driver_call_def connect_def oseq_apply read_stmt_def
      split: list.splits net.splits)

lemma keeps_graph_run_query_limited [keeps_intros]:
  "(\<And>g. I g \<Longrightarrow> I (snd (q g))) \<Longrightarrow> keeps (\<lambda>w. I (w_graph w)) (run_query_limited q n)"
  unfolding run_query_limited_def by (intro keeps_intros)

lemma keeps_graph_execute_write [keeps_intros]:
  "(\<And>g. I g \<Longrightarrow> I (snd (work g))) \<Longrightarrow> keeps (\<lambda>w. I (w_graph w)) (execute_write work)"
  unfolding execute_write_def
proof (rule keeps_obind, rule keeps_graph_run_query)
  fix g assume work: "\<And>g. I g \<Longrightarrow> I (snd (work g))" and "I g"
  then have "I (snd (work g))" by simp
  then show "I (snd (transaction work g))" using \<open>I g\<close>
    by (auto simp: transaction_def split: prod.splits sum.splits)
next
  fix x show "keeps (\<lambda>w. I (w_graph w)) (case x of Inl e \<Rightarrow> oraise e | Inr y \<Rightarrow> oret y)"
    by (cases x) (simp_all add: keeps_oret keeps_oraise)
qed

lemma snd_write_stmt [simp]: "snd (write_stmt f g) = f g"
  by (simp add: write_stmt_def)

lemma snd_read_stmt [simp]: "snd (read_stmt f g) = g"
  by (simp add: read_stmt_def)

text \<open>
  Retrying a statement whose second application changes nothing: whatever the schedule, the
  statement is applied once or not at all, and a result means it is applied.
\<close>

lemma retry_loop_applied:
  assumes idem: "\<And>g. snd (q (snd (q g))) = snd (q g)"
  shows "retry_loop n d q w = (r, w') \<Longrightarrow>
    (w_graph w' = w_graph w \<or> w_graph w' = snd (q (w_graph w))) \<and>
    (isl r \<or> w_graph w' = snd (q (w_graph w)))"
proof (induction n arbitrary: d w)
  case 0
  then show ?case by auto
next
  case (Suc n)
  show ?case
  proof (cases q w rule: run_query_cases)
    case (ok u)
    then show ?thesis using Suc.prems by auto
  next
    case (fail e u)
    show ?thesis
    proof (cases "retryable e \<and> n \<noteq> 0")
      case False
      then have "r = Inl e" "w' = u" using fail Suc.prems by (auto split: if_splits)
      then show ?thesis using fail by auto
    next
      case True
      then have "retry_loop n (min (d * 2) RETRY_MAX_DELAY_SECONDS) q (sleep d u) = (r, w')"
        using fail Suc.prems by auto
      from Suc.IH [OF this] fail(2) idem show ?thesis by (auto simp: sleep_def)
    qed
  qed
qed

lemma funpow_upt: "map (\<lambda>i. (f ^^ i) d) [0..<Suc k] = d # map (\<lambda>i. (f ^^ i) (f d)) [0..<k]"
  by (induction k) (simp_all add: funpow_swap1)

lemma retry_loop_sleeps:
  "\<exists>k < Suc n. w_sleeps (snd (retry_loop (Suc n) d q w))
     = w_sleeps w @ map (\<lambda>i. ((\<lambda>x. min (x * 2) RETRY_MAX_DELAY_SECONDS) ^^ i) d) [0..<k]"
proof (induction n arbitrary: d w)
  case 0
  show ?case by (auto split: prod.splits sum.splits dest: run_query_sleeps)
next
  case (Suc n)
  show ?case
  proof (cases q w rule: run_query_cases)
    case (ok u)
    then show ?thesis by (intro exI [of _ 0]) (simp add: run_query_sleeps)
  next
    case (fail e u)
    then have su: "w_sleeps u = w_sleeps w" by (simp add: run_query_sleeps)
    show ?thesis
    proof (cases "retryable e")
      case False
      then show ?thesis using fail su by (intro exI [of _ 0]) simp
    next
      case True
      let ?f = "\<lambda>x :: rat. min (x * 2) RETRY_MAX_DELAY_SECONDS"
      from Suc.IH [of "?f d" "sleep d u"] obtain k where k: "k < Suc n"
        and s: "w_sleeps (snd (retry_loop (Suc n) (?f d) q (sleep d u)))
          = w_sleeps (sleep d u) @ map (\<lambda>i. (?f ^^ i) (?f d)) [0..<k]" by blast
      have "map (\<lambda>i. (?f ^^ i) d) [0..<Suc k] = d # map (\<lambda>i. (?f ^^ i) (?f d)) [0..<k]"
        by (rule funpow_upt)
      moreover have "retry_loop (Suc (Suc n)) d q w = retry_loop (Suc n) (?f d) q (sleep d u)"
        using fail True by (subst retry_loop.simps(2)) simp
      ultimately have "w_sleeps (snd (retry_loop (Suc (Suc n)) d q w))
          = w_sleeps w @ map (\<lambda>i. (?f ^^ i) d) [0..<Suc k]"
        using s su by (simp add: sleep_def)
      then show ?thesis using k by (intro exI [of _ "Suc k"]) simp
    qed
  qed
qed

section \<open>Success, and a healthy server\<close>

text \<open>
  A successful write has been applied at least once, and last; whatever attempts came before, they
  applied the same statement or nothing.
\<close>

lemma yields_retry_loop:
  assumes q: "\<And>g. P g \<Longrightarrow> P (snd (q g)) \<and> Q (snd (q g))"
  shows "P (w_graph w) \<Longrightarrow> retry_loop n d q w = (Inr x, w') \<Longrightarrow> Q (w_graph w')"
proof (induction n arbitrary: d w)
  case 0
  then show ?case by simp
next
  case (Suc n)
  show ?case
  proof (cases q w rule: run_query_cases)
    case (ok u)
    then show ?thesis using Suc.prems q by auto
  next
    case (fail e u)
    then have "retry_loop n (min (d * 2) RETRY_MAX_DELAY_SECONDS) q (sleep d u) = (Inr x, w')"
      using Suc.prems(2) by (auto split: if_splits)
    moreover have "P (w_graph (sleep d u))" using fail(2) Suc.prems(1) q by (auto simp: sleep_def)
    ultimately show ?thesis using Suc.IH by blast
  qed
qed

lemma yields_run_query_with_retry:
  "(\<And>g. P g \<Longrightarrow> P (snd (q g)) \<and> Q (snd (q g))) \<Longrightarrow>
   yields (\<lambda>w. P (w_graph w)) (run_query_with_retry q) (\<lambda>_ w. Q (w_graph w))"
  unfolding run_query_with_retry_def by (rule yieldsI) (rule yields_retry_loop [of P q Q])

text \<open>While the server answers every call, an operation that raises nothing of its own succeeds.\<close>

named_theorems healthy_intros \<open>rules for: an operation succeeds while the server is healthy\<close>

definition healthy :: "('z, 'a) wop \<Rightarrow> bool" where
  "healthy m \<longleftrightarrow> (\<forall>w. w_net w = [] \<longrightarrow> (\<exists>x w'. m w = (Inr x, w') \<and> w_net w' = []))"

lemma healthyD: "healthy m \<Longrightarrow> w_net w = [] \<Longrightarrow> \<exists>x w'. m w = (Inr x, w') \<and> w_net w' = []"
  by (simp add: healthy_def)

lemma healthy_run_query [healthy_intros]: "healthy (run_query q)"
  by (simp add: healthy_def run_query_eq)

lemma healthy_run_query_with_retry [healthy_intros]: "healthy (run_query_with_retry q)"
  unfolding healthy_def run_query_with_retry_def
  by (simp add: RETRY_MAX_ATTEMPTS_def eval_nat_numeral run_query_eq)

lemma healthy_utc_now [healthy_intros]: "healthy utc_now"
  by (simp add: healthy_def utc_now_def)

lemma healthy_oret [healthy_intros]: "healthy (oret x)"
  by (simp add: healthy_def)

lemma healthy_obind [healthy_intros]: "healthy m \<Longrightarrow> (\<And>x. healthy (f x)) \<Longrightarrow> healthy (obind m f)"
  unfolding healthy_def by (metis obind_Inr)

lemma healthy_oseq [healthy_intros]: "healthy m \<Longrightarrow> healthy n \<Longrightarrow> healthy (oseq m n)"
  unfolding oseq_def by (rule healthy_obind)

lemma healthy_owhen [healthy_intros]: "healthy m \<Longrightarrow> healthy (owhen b m)"
  by (simp add: owhen_def healthy_oret)

lemma healthy_oforeach [healthy_intros]: "(\<And>x. x \<in> set xs \<Longrightarrow> healthy (f x)) \<Longrightarrow> healthy (oforeach xs f)"
  by (induction xs) (simp_all add: healthy_oret healthy_oseq)

lemma healthy_omap [healthy_intros]: "(\<And>x. healthy (f x)) \<Longrightarrow> healthy (omap f xs)"
  by (induction xs) (auto intro!: healthy_obind healthy_oret)

section \<open>What a caller of the client can rely on\<close>

text \<open>
  The delays between the attempts of a retried query are the first entries of 1, 2, 4, 8 seconds, so
  there are at most five attempts, no delay exceeds the maximum, and at most 15 seconds are slept.
\<close>

theorem retry_backoff:
  "\<exists>k \<le> 4. w_sleeps (snd (run_query_with_retry q w)) = w_sleeps w @ take k [1, 2, 4, 8]"
proof -
  let ?f = "\<lambda>x :: rat. min (x * 2) RETRY_MAX_DELAY_SECONDS"
  obtain k where k: "k < Suc 4" and s: "w_sleeps (snd (retry_loop (Suc 4) RETRY_INITIAL_DELAY_SECONDS q w))
      = w_sleeps w @ map (\<lambda>i. (?f ^^ i) RETRY_INITIAL_DELAY_SECONDS) [0..<k]"
    using retry_loop_sleeps [of 4 RETRY_INITIAL_DELAY_SECONDS q w] by blast
  have "map (\<lambda>i. (?f ^^ i) RETRY_INITIAL_DELAY_SECONDS) [0..<4] = [1, 2, 4, 8]"
    by (simp add: const_defs upt_rec eval_nat_numeral)
  moreover have "[0..<k] = take k [0..<4]" using take_upt [of 0 k 4] k by simp
  ultimately have "map (\<lambda>i. (?f ^^ i) RETRY_INITIAL_DELAY_SECONDS) [0..<k] = take k [1, 2, 4, 8]"
    by (simp only: take_map [symmetric])
  then show ?thesis
    using k s by (intro exI [of _ k]) (simp add: run_query_with_retry_def RETRY_MAX_ATTEMPTS_def)
qed

text \<open>
  A limited query returns the first rows up to the limit, and reports that it was cut off exactly
  when the server had more; it fails exactly when the query itself does, with the same error.
\<close>

theorem run_query_limited_rows:
  "run_query_limited q limit w =
     (case run_query q w of
        (Inl e, w') \<Rightarrow> (Inl e, w')
      | (Inr records, w') \<Rightarrow> (Inr (take limit records, limit < length records), w'))"
  using collect_limited_eq [of "[]" limit]
  by (auto simp: run_query_limited_def obind_def oret_def split: prod.splits sum.splits)

end
