(* ===== verification/Query_Safety.thy ===== *)
theory Query_Safety
  imports Memgraph_Client
begin

text \<open>
  \<open>query_service.py\<close>: the check that a query only reads, the structural check, and the bounded
  executor.  The regular expressions are written as the scanners they denote.  Against them stand
  two specifications: a one-pass lexer of the query's code, and balanced brackets as a grammar.
\<close>

section \<open>The regular expressions\<close>

text \<open>The rest after the first \<open>*/\<close>.\<close>

fun find_close :: "string \<Rightarrow> string option" where
  "find_close (c # d # cs) = (if c = CHR ''*'' \<and> d = CHR ''/'' then Some cs else find_close (d # cs))"
| "find_close _ = None"

lemma find_close_length: "find_close s = Some r \<Longrightarrow> length r < length s"
  by (induction s rule: find_close.induct) (auto split: if_splits)

text \<open>\<open>_BLOCK_COMMENT_RE.sub(" ", s)\<close>\<close>

function strip_block :: "string \<Rightarrow> string" where
  "strip_block [] = []"
| "strip_block (c # cs) =
     (case (if c = CHR ''/'' \<and> starts_with ''*'' cs then find_close (tl cs) else None) of
        Some r \<Rightarrow> CHR '' '' # strip_block r
      | None \<Rightarrow> c # strip_block cs)"
  by pat_completeness auto
termination
  by (relation "measure length")
    (auto split: if_splits dest!: find_close_length simp: less_Suc_eq_le le_diff_conv)

text \<open>\<open>_LINE_COMMENT_RE.sub(" ", s)\<close>\<close>

function strip_line :: "string \<Rightarrow> string" where
  "strip_line [] = []"
| "strip_line (c # cs) =
     (if c = CHR ''/'' \<and> starts_with ''/'' cs
      then CHR '' '' # strip_line (dropWhile (\<lambda>x. x \<noteq> CHR 0x0A) cs)
      else c # strip_line cs)"
  by pat_completeness auto
termination
  by (relation "measure length") (auto simp: less_Suc_eq_le length_dropWhile_le)

text \<open>
  The rest of a string literal after its opening quote \<open>q\<close>.  The dot of \<open>\\.\<close> does not match a line
  break, and no other branch takes a backslash, so there is at most one way to match.
\<close>

fun scan_literal :: "char \<Rightarrow> string \<Rightarrow> string option" where
  "scan_literal q [] = None"
| "scan_literal q (c # cs) =
     (if c = q then Some cs
      else if c = CHR 0x5C then
        (case cs of [] \<Rightarrow> None | d # ds \<Rightarrow> if d = CHR 0x0A then None else scan_literal q ds)
      else scan_literal q cs)"

lemma scan_literal_length: "scan_literal q s = Some r \<Longrightarrow> length r < length s"
  by (induction q s rule: scan_literal.induct) (fastforce split: if_splits list.splits)+

definition is_quote :: "char \<Rightarrow> bool" where
  "is_quote c = (c = CHR 0x27 \<or> c = CHR 0x22)"

text \<open>\<open>_STRING_LITERAL_RE.sub(repl, s)\<close>\<close>

function strip_strings :: "string \<Rightarrow> string \<Rightarrow> string" where
  "strip_strings repl [] = []"
| "strip_strings repl (c # cs) =
     (case (if is_quote c then scan_literal c cs else None) of
        Some r \<Rightarrow> repl @ strip_strings repl r
      | None \<Rightarrow> c # strip_strings repl cs)"
  by pat_completeness auto
termination
  by (relation "measure (\<lambda>(r, s). length s)")
    (auto split: if_splits dest: scan_literal_length)

definition strip_comments :: "string \<Rightarrow> string" where
  "strip_comments cypher = strip_line (strip_block cypher)"

definition strip_comments_and_strings :: "string \<Rightarrow> string" where
  "strip_comments_and_strings cypher = strip_strings '' '' (strip_comments cypher)"

section \<open>The denylist\<close>

text \<open>\<open>str.split()\<close> on a keyword.\<close>

definition keyword_parts :: "string \<Rightarrow> string list" where
  "keyword_parts keyword = filter (\<lambda>p. p \<noteq> []) (split_on CHR '' '' keyword)"

fun strip_prefix :: "string \<Rightarrow> string \<Rightarrow> string option" where
  "strip_prefix [] s = Some s"
| "strip_prefix (p # ps) [] = None"
| "strip_prefix (p # ps) (c # cs) = (if p = c then strip_prefix ps cs else None)"

text \<open>The parts joined by \<open>\s+\<close>, from the start of the text.\<close>

fun match_parts :: "string list \<Rightarrow> string \<Rightarrow> string option" where
  "match_parts [] s = Some s"
| "match_parts [p] s = strip_prefix p s"
| "match_parts (p # ps) s =
     (case strip_prefix p s of
        Some (c # cs) \<Rightarrow> if is_space c then match_parts ps (dropWhile is_space cs) else None
      | _ \<Rightarrow> None)"

text \<open>A boundary \<open>\b\<close> next to a keyword, which starts and ends with a word character.\<close>

fun no_word_before :: "char option \<Rightarrow> bool" where
  "no_word_before None = True"
| "no_word_before (Some c) = (\<not> is_word c)"

fun no_word_after :: "string \<Rightarrow> bool" where
  "no_word_after [] = True"
| "no_word_after (c # _) = (\<not> is_word c)"

definition keyword_at :: "string list \<Rightarrow> char option \<Rightarrow> string \<Rightarrow> bool" where
  "keyword_at parts prev s = (no_word_before prev \<and>
     (case match_parts parts s of Some r \<Rightarrow> no_word_after r | None \<Rightarrow> False))"

fun keyword_search :: "string list \<Rightarrow> char option \<Rightarrow> string \<Rightarrow> bool" where
  "keyword_search parts prev [] = keyword_at parts prev []"
| "keyword_search parts prev (c # cs) =
     (keyword_at parts prev (c # cs) \<or> keyword_search parts (Some c) cs)"

definition find_denylisted_keyword :: "string \<Rightarrow> string option" where
  "find_denylisted_keyword cypher =
     (let stripped = upper (strip_comments_and_strings cypher)
      in find (\<lambda>keyword. keyword_search (keyword_parts keyword) None stripped) QUERY_DENYLIST_KEYWORDS)"

definition validate_read_only :: "string \<Rightarrow> exn + unit" where
  "validate_read_only cypher =
     (case find_denylisted_keyword cypher of
        None \<Rightarrow> Inr ()
      | Some keyword \<Rightarrow>
          Inl (QueryRejected (''Query rejected: contains disallowed keyword '' @ [CHR 0x27] @ keyword @ [CHR 0x27])))"

section \<open>The structural check\<close>

fun bracket_opener :: "char \<Rightarrow> char option" where
  "bracket_opener c = (if c = CHR '')'' then Some CHR ''('' else if c = CHR '']'' then Some CHR ''[''
     else if c = CHR ''}'' then Some CHR ''{'' else None)"

definition is_opener :: "char \<Rightarrow> bool" where
  "is_opener c = (c = CHR ''('' \<or> c = CHR ''['' \<or> c = CHR ''{'')"

text \<open>The loop over the characters with its stack; \<open>None\<close> when it raises.\<close>

fun bracket_stack :: "string \<Rightarrow> string \<Rightarrow> string option" where
  "bracket_stack stack [] = Some stack"
| "bracket_stack stack (c # cs) =
     (if is_opener c then bracket_stack (c # stack) cs
      else (case bracket_opener c of
              None \<Rightarrow> bracket_stack stack cs
            | Some q \<Rightarrow> (case stack of
                [] \<Rightarrow> None
              | x # below \<Rightarrow> if x = q then bracket_stack below cs else None)))"

definition validate_syntax :: "string \<Rightarrow> exn + unit" where
  "validate_syntax cypher =
     (if strip cypher = [] then Inl (QueryRejected ''Query rejected: empty query'')
      else if list_ex is_quote (strip_strings [] (strip_comments cypher))
      then Inl (QueryRejected ''Query rejected: unterminated string literal'')
      else if bracket_stack [] (strip_comments_and_strings cypher) = Some [] then Inr ()
      else Inl (QueryRejected ''Query rejected: unbalanced parentheses, brackets, or braces''))"

section \<open>The executor\<close>

record 'r query_answer =
  qa_rows :: "'r list"
  qa_truncated :: bool
  qa_row_count :: nat

text \<open>
  \<open>limit or DEFAULT_QUERY_LIMIT\<close>; a negative limit behaves as zero in the loop that streams the rows.
\<close>

definition effective_limit :: "int option \<Rightarrow> nat" where
  "effective_limit limit = nat (min
     (case limit of None \<Rightarrow> int DEFAULT_QUERY_LIMIT
      | Some l \<Rightarrow> if l = 0 then int DEFAULT_QUERY_LIMIT else l) (int MAX_QUERY_LIMIT))"

text \<open>What the server makes of a query text is the parameter \<open>server\<close>.\<close>

definition execute_query ::
  "(string \<Rightarrow> 'r list stmt) \<Rightarrow> string \<Rightarrow> int option \<Rightarrow> ('z, 'r query_answer) wop" where
  "execute_query server cypher limit =
     (case validate_syntax cypher of
        Inl e \<Rightarrow> oraise e
      | Inr _ \<Rightarrow>
          (case validate_read_only cypher of
             Inl e \<Rightarrow> oraise e
           | Inr _ \<Rightarrow>
               obind (run_query_limited (server cypher) (effective_limit limit)) (\<lambda>(rows, truncated).
                 oret \<lparr>qa_rows = rows, qa_truncated = truncated, qa_row_count = length rows\<rparr>)))"

section \<open>The specification of a keyword in a text\<close>

fun keyword_form :: "string list \<Rightarrow> string \<Rightarrow> bool" where
  "keyword_form [] m = (m = [])"
| "keyword_form [p] m = (m = p)"
| "keyword_form (p # ps) m =
     (\<exists>ws r. m = p @ ws @ r \<and> ws \<noteq> [] \<and> list_all is_space ws \<and> keyword_form ps r)"

text \<open>The keyword stands in the text as a word of its own.\<close>

definition keyword_occurs :: "string list \<Rightarrow> string \<Rightarrow> bool" where
  "keyword_occurs parts s \<longleftrightarrow> (\<exists>a m b. s = a @ m @ b \<and> keyword_form parts m \<and>
     no_word_after b \<and> (a = [] \<or> \<not> is_word (last a)))"

definition keyword_ok :: "string list \<Rightarrow> bool" where
  "keyword_ok parts \<longleftrightarrow> parts \<noteq> [] \<and> list_all (\<lambda>p. p \<noteq> [] \<and> list_all is_word p) parts"

lemma word_not_space: "is_word c \<Longrightarrow> \<not> is_space c"
  by (auto simp: is_word_def is_alnum_def is_alpha_def is_digit_def is_space_def Let_def)

lemma strip_prefix_iff: "strip_prefix p s = Some r \<longleftrightarrow> s = p @ r"
  by (induction p s rule: strip_prefix.induct) auto

lemma keyword_form_start: "keyword_ok ps \<Longrightarrow> keyword_form ps m \<Longrightarrow> m \<noteq> [] \<and> is_word (hd m)"
proof (cases ps)
  case (Cons p qs)
  assume "keyword_ok ps" "keyword_form ps m"
  then show ?thesis using Cons by (cases p; cases qs) (auto simp: keyword_ok_def)
qed (simp add: keyword_ok_def)

lemma keyword_form_Cons:
  "ws \<noteq> [] \<Longrightarrow> list_all is_space ws \<Longrightarrow> keyword_form (q # qs) r \<Longrightarrow> keyword_form (p # q # qs) (p @ ws @ r)"
  by (subst keyword_form.simps(3)) blast

lemma dropWhile_run:
  "list_all p ws \<Longrightarrow> r \<noteq> [] \<Longrightarrow> \<not> p (hd r) \<Longrightarrow> dropWhile p (ws @ r) = r"
  by (induction ws) (auto simp: neq_Nil_conv)

lemma match_parts_iff:
  "keyword_ok ps \<Longrightarrow> match_parts ps s = Some r \<longleftrightarrow> (\<exists>m. s = m @ r \<and> keyword_form ps m)"
proof (induction ps s rule: match_parts.induct)
  case (1 s)
  then show ?case by (simp add: keyword_ok_def)
next
  case (2 p s)
  then show ?case by (auto simp: strip_prefix_iff)
next
  case (3 p q qs s)
  let ?ps = "q # qs"
  have ok: "keyword_ok ?ps" using "3.prems" by (auto simp: keyword_ok_def)
  show ?case
  proof
    assume "match_parts (p # ?ps) s = Some r"
    then obtain c cs where s: "strip_prefix p s = Some (c # cs)" and c: "is_space c"
      and m: "match_parts ?ps (dropWhile is_space cs) = Some r"
      by (auto split: option.splits list.splits if_splits)
    from "3.IH" [OF s refl c ok] m obtain m' where
      cs: "dropWhile is_space cs = m' @ r" and f: "keyword_form ?ps m'" by auto
    have "s = p @ (c # takeWhile is_space cs) @ m' @ r"
      using s cs takeWhile_dropWhile_id [of is_space cs] by (simp add: strip_prefix_iff)
    moreover have "list_all is_space (c # takeWhile is_space cs)"
      using c by (auto simp: list_all_iff dest: set_takeWhileD)
    ultimately show "\<exists>m. s = m @ r \<and> keyword_form (p # ?ps) m"
      using keyword_form_Cons [of "c # takeWhile is_space cs" q qs m' p] f
      by (intro exI [of _ "p @ (c # takeWhile is_space cs) @ m'"]) (simp del: keyword_form.simps)
  next
    assume "\<exists>m. s = m @ r \<and> keyword_form (p # ?ps) m"
    then obtain ws m where s: "s = p @ ws @ m @ r" and ws: "ws \<noteq> []" "list_all is_space ws"
      and f: "keyword_form ?ps m" by auto
    obtain c cs where w: "ws = c # cs" using ws(1) by (cases ws) auto
    have hd: "m \<noteq> []" "is_word (hd m)" using keyword_form_start [OF ok f] by simp_all
    then have "dropWhile is_space (cs @ m @ r) = m @ r"
      using ws(2) w by (intro dropWhile_run) (auto dest: word_not_space)
    moreover have s': "strip_prefix p s = Some (c # cs @ m @ r)" using s w by (simp add: strip_prefix_iff)
    moreover have c: "is_space c" using ws(2) w by simp
    moreover have "match_parts ?ps (m @ r) = Some r"
      using "3.IH" [OF s' refl c ok] calculation(1) f by auto
    ultimately show "match_parts (p # ?ps) s = Some r" by simp
  qed
qed

lemma keyword_at_iff:
  "keyword_ok ps \<Longrightarrow> keyword_at ps prev s \<longleftrightarrow>
     no_word_before prev \<and> (\<exists>m b. s = m @ b \<and> keyword_form ps m \<and> no_word_after b)"
proof -
  assume ok: "keyword_ok ps"
  have "(case match_parts ps s of Some r \<Rightarrow> no_word_after r | None \<Rightarrow> False) \<longleftrightarrow>
      (\<exists>r. match_parts ps s = Some r \<and> no_word_after r)" by (simp split: option.splits)
  then show ?thesis unfolding keyword_at_def match_parts_iff [OF ok] by blast
qed

lemma keyword_search_iff_prev:
  "keyword_ok ps \<Longrightarrow> keyword_search ps prev s \<longleftrightarrow>
     (\<exists>a m b. s = a @ m @ b \<and> keyword_form ps m \<and> no_word_after b \<and>
        (if a = [] then no_word_before prev else \<not> is_word (last a)))"
proof (induction ps prev s rule: keyword_search.induct)
  case (1 ps prev)
  then show ?case by (auto simp: keyword_at_iff)
next
  case (2 ps prev c cs)
  show ?case
  proof
    assume "keyword_search ps prev (c # cs)"
    then consider "keyword_at ps prev (c # cs)" | "keyword_search ps (Some c) cs" by auto
    then show "\<exists>a m b. c # cs = a @ m @ b \<and> keyword_form ps m \<and> no_word_after b \<and>
        (if a = [] then no_word_before prev else \<not> is_word (last a))"
    proof cases
      case 1
      then show ?thesis using 2(2) by (auto simp: keyword_at_iff intro!: exI [of _ "[]"])
    next
      case 2
      then obtain a m b where "cs = a @ m @ b" "keyword_form ps m" "no_word_after b"
        "if a = [] then no_word_before (Some c) else \<not> is_word (last a)"
        using "2.IH" "2.prems" by blast
      then show ?thesis by (intro exI [of _ "c # a"] exI [of _ m] exI [of _ b]) auto
    qed
  next
    assume "\<exists>a m b. c # cs = a @ m @ b \<and> keyword_form ps m \<and> no_word_after b \<and>
        (if a = [] then no_word_before prev else \<not> is_word (last a))"
    then obtain a m b where h: "c # cs = a @ m @ b" "keyword_form ps m" "no_word_after b"
        "if a = [] then no_word_before prev else \<not> is_word (last a)" by blast
    show "keyword_search ps prev (c # cs)"
    proof (cases a)
      case Nil
      have "keyword_at ps prev (c # cs)"
        unfolding keyword_at_iff [OF "2.prems"] using h(2,3,4) Nil by (auto simp: h(1))
      then show ?thesis by simp
    next
      case (Cons c' a')
      then have "cs = a' @ m @ b" "c' = c" using h(1) by simp_all
      moreover have "if a' = [] then no_word_before (Some c) else \<not> is_word (last a')"
        using h(4) Cons \<open>c' = c\<close> by (auto split: if_splits)
      ultimately have "keyword_search ps (Some c) cs"
        unfolding "2.IH" [OF "2.prems"] using h(2,3) by blast
      then show ?thesis by simp
    qed
  qed
qed

lemma keyword_search_iff: "keyword_ok ps \<Longrightarrow> keyword_search ps None s \<longleftrightarrow> keyword_occurs ps s"
proof -
  assume ok: "keyword_ok ps"
  have "(if a = [] then no_word_before None else \<not> is_word (last a)) \<longleftrightarrow> a = [] \<or> \<not> is_word (last a)" for a
    by simp
  then show ?thesis unfolding keyword_search_iff_prev [OF ok] keyword_occurs_def by (simp only:)
qed

lemma denylist_ok: "k \<in> set QUERY_DENYLIST_KEYWORDS \<Longrightarrow> keyword_ok (keyword_parts k)"
proof -
  have "list_all (\<lambda>k. keyword_ok (keyword_parts k)) QUERY_DENYLIST_KEYWORDS" by code_simp
  then show "k \<in> set QUERY_DENYLIST_KEYWORDS \<Longrightarrow> ?thesis" by (simp add: list_all_iff)
qed

lemma find_denylisted_none:
  "find_denylisted_keyword q = None \<longleftrightarrow>
   (\<forall>k \<in> set QUERY_DENYLIST_KEYWORDS. \<not> keyword_occurs (keyword_parts k) (upper (strip_comments_and_strings q)))"
  by (auto simp: find_denylisted_keyword_def Let_def find_None_iff keyword_search_iff denylist_ok)

lemma validate_read_only_ok: "validate_read_only q = Inr u \<longleftrightarrow> find_denylisted_keyword q = None"
  by (auto simp: validate_read_only_def split: option.splits)

lemma effective_limit_max: "effective_limit l \<le> MAX_QUERY_LIMIT"
  by (auto simp: effective_limit_def split: option.splits)

lemma collect_limited_length: "length rows \<le> limit \<Longrightarrow> length (fst (collect_limited limit rows rs)) \<le> limit"
  by (simp add: collect_limited_eq)

lemma execute_query_cases:
  obtains (rejected) e where "execute_query server cypher limit w = (Inl e, w)"
      "validate_syntax cypher \<noteq> Inr () \<or> validate_read_only cypher \<noteq> Inr ()"
  | (failed) e w' where "execute_query server cypher limit w = (Inl e, w')"
      "validate_syntax cypher = Inr ()" "validate_read_only cypher = Inr ()"
  | (rows) a w' where "execute_query server cypher limit w = (Inr a, w')"
      "validate_syntax cypher = Inr ()" "validate_read_only cypher = Inr ()"
      "length (qa_rows a) \<le> MAX_QUERY_LIMIT" "qa_row_count a = length (qa_rows a)"
proof (cases "validate_syntax cypher = Inr () \<and> validate_read_only cypher = Inr ()")
  case False
  show ?thesis
  proof (cases "validate_syntax cypher")
    case (Inl e)
    then show ?thesis by (intro rejected) (simp_all add: execute_query_def oraise_def)
  next
    case (Inr u)
    then obtain e where "validate_read_only cypher = Inl e"
      using False by (cases "validate_read_only cypher") auto
    then show ?thesis using Inr by (intro rejected) (simp_all add: execute_query_def oraise_def)
  qed
next
  case True
  show ?thesis
  proof (cases "run_query (server cypher) w")
    case (Pair x w')
    have "length (fst (collect_limited (effective_limit limit) [] rs)) \<le> MAX_QUERY_LIMIT" for rs :: "'a list"
      using collect_limited_length [of "[]" "effective_limit limit" rs] effective_limit_max [of limit] by simp
    then show ?thesis using True Pair
      by (cases x) (auto simp: execute_query_def run_query_limited_def obind_def oret_def case_prod_unfold
          intro: failed rows)
  qed
qed

section \<open>The specification of the code of a query\<close>

text \<open>
  A lexer that reads the query once: it is in the code, in a string literal, in a line comment or in a
  block comment; what it leaves out is replaced by a blank.
\<close>

datatype lex_mode = Code | Literal char | Escape char | LineComment | BlockComment

fun lex_code :: "lex_mode \<Rightarrow> string \<Rightarrow> string" where
  "lex_code mode [] = []"
| "lex_code Code (c # cs) =
     (if is_quote c then CHR '' '' # lex_code (Literal c) cs
      else if c = CHR ''/'' \<and> starts_with ''/'' cs then CHR '' '' # lex_code LineComment cs
      else if c = CHR ''/'' \<and> starts_with ''*'' cs then CHR '' '' # lex_code BlockComment (tl cs)
      else c # lex_code Code cs)"
| "lex_code (Literal q) (c # cs) =
     (if c = q then lex_code Code cs
      else if c = CHR 0x5C then lex_code (Escape q) cs
      else lex_code (Literal q) cs)"
| "lex_code (Escape q) (c # cs) = lex_code (Literal q) cs"
| "lex_code LineComment (c # cs) =
     (if c = CHR 0x0A then c # lex_code Code cs else lex_code LineComment cs)"
| "lex_code BlockComment (c # cs) =
     (if c = CHR ''*'' \<and> starts_with ''/'' cs then lex_code Code (tl cs) else lex_code BlockComment cs)"

lemma strip_block_no_slash: "CHR ''/'' \<notin> set s \<Longrightarrow> strip_block s = s"
  by (induction s) auto

lemma strip_line_no_slash: "CHR ''/'' \<notin> set s \<Longrightarrow> strip_line s = s"
  by (induction s) auto

lemma strip_comments_no_slash: "CHR ''/'' \<notin> set s \<Longrightarrow> strip_comments s = s"
  by (simp add: strip_comments_def strip_block_no_slash strip_line_no_slash)

lemma lex_literal: "scan_literal q s = Some r \<Longrightarrow> lex_code (Literal q) s = lex_code Code r"
  by (induction q s rule: scan_literal.induct) (auto split: if_splits list.splits)

lemma scan_literal_suffix: "scan_literal q s = Some r \<Longrightarrow> set r \<subseteq> set s"
proof (induction q s rule: scan_literal.induct)
  case (2 q c cs)
  then show ?case by (cases cs) (auto split: if_splits)
qed simp

lemma strip_strings_lex:
  "CHR ''/'' \<notin> set s \<Longrightarrow> \<not> list_ex is_quote (strip_strings [] s) \<Longrightarrow>
   strip_strings '' '' s = lex_code Code s"
proof (induction "'' ''" s rule: strip_strings.induct)
  case 1
  then show ?case by simp
next
  case (2 c cs)
  show ?case
  proof (cases "is_quote c")
    case False
    then show ?thesis using 2 by auto
  next
    case True
    obtain r where r: "scan_literal c cs = Some r"
      using "2.prems"(2) True by (cases "scan_literal c cs") auto
    then have "CHR ''/'' \<notin> set r" using "2.prems"(1) scan_literal_suffix [OF r] by auto
    moreover have "\<not> list_ex is_quote (strip_strings [] r)" using "2.prems"(2) True r by simp
    moreover have "(if is_quote c then scan_literal c cs else None) = Some r" using True r by simp
    ultimately have "strip_strings '' '' r = lex_code Code r" using "2.hyps"(2) by blast
    then show ?thesis using True r by (simp add: lex_literal)
  qed
qed

lemma validate_syntax_ok:
  "validate_syntax q = Inr u \<longleftrightarrow> strip q \<noteq> [] \<and> \<not> list_ex is_quote (strip_strings [] (strip_comments q)) \<and>
     bracket_stack [] (strip_comments_and_strings q) = Some []"
  by (auto simp: validate_syntax_def)

lemma accepted_code:
  "validate_syntax q = Inr u \<Longrightarrow> CHR ''/'' \<notin> set q \<Longrightarrow> strip_comments_and_strings q = lex_code Code q"
  by (simp add: validate_syntax_ok strip_comments_and_strings_def strip_comments_no_slash strip_strings_lex)

section \<open>The specification of balanced brackets\<close>

inductive balanced :: "string \<Rightarrow> bool" where
  balanced_Nil: "balanced []"
| balanced_Plain: "\<not> is_opener c \<Longrightarrow> bracket_opener c = None \<Longrightarrow> balanced s \<Longrightarrow> balanced (c # s)"
| balanced_Pair: "is_opener a \<Longrightarrow> bracket_opener b = Some a \<Longrightarrow> balanced s \<Longrightarrow> balanced t \<Longrightarrow>
    balanced (a # s @ b # t)"

lemma opener_not_closer: "bracket_opener b = Some a \<Longrightarrow> is_opener a \<and> \<not> is_opener b"
  by (auto simp: is_opener_def split: if_splits)

lemma balanced_stack: "balanced s \<Longrightarrow> bracket_stack st (s @ t) = bracket_stack st t"
proof (induction s arbitrary: st t rule: balanced.induct)
  case (balanced_Pair a b s u)
  have "\<not> is_opener b" using balanced_Pair.hyps(2) opener_not_closer by blast
  have "bracket_stack st ((a # s @ b # u) @ t) = bracket_stack (a # st) (s @ b # u @ t)"
    using balanced_Pair.hyps(1) by simp
  also have "\<dots> = bracket_stack (a # st) (b # u @ t)" by (rule balanced_Pair.IH(1))
  also have "\<dots> = bracket_stack st (u @ t)"
    using \<open>\<not> is_opener b\<close> balanced_Pair.hyps(2) by (simp del: bracket_opener.simps)
  also have "\<dots> = bracket_stack st t" by (rule balanced_Pair.IH(2))
  finally show ?case .
qed (simp_all del: bracket_opener.simps)

text \<open>What must follow to close the brackets on the stack.\<close>

fun closes :: "string \<Rightarrow> string \<Rightarrow> bool" where
  "closes [] w = balanced w"
| "closes (a # st) w = (\<exists>d b r. w = d @ b # r \<and> bracket_opener b = Some a \<and> balanced d \<and> closes st r)"

lemma balanced_append: "balanced s \<Longrightarrow> balanced t \<Longrightarrow> balanced (s @ t)"
  by (induction s rule: balanced.induct) (auto intro: balanced.intros simp del: bracket_opener.simps)

lemma closes_prepend: "balanced d \<Longrightarrow> closes st w \<Longrightarrow> closes st (d @ w)"
proof (cases st)
  case Nil
  assume "balanced d" "closes st w"
  then show ?thesis using Nil by (simp add: balanced_append)
next
  case (Cons a st')
  assume d: "balanced d" and "closes st w"
  then obtain e b r where "w = e @ b # r" "bracket_opener b = Some a" "balanced e" "closes st' r"
    unfolding Cons closes.simps by blast
  moreover have "balanced (d @ e)" using d calculation(3) by (rule balanced_append)
  ultimately show ?thesis unfolding Cons closes.simps
    by (intro exI [of _ "d @ e"] exI [of _ b] exI [of _ r]) simp
qed

lemma stack_closes: "bracket_stack st w = Some [] \<Longrightarrow> closes st w"
proof (induction st w rule: bracket_stack.induct)
  case (1 stack)
  then show ?case by (simp add: balanced.intros)
next
  case (2 stack c cs)
  consider (opener) "is_opener c" | (plain) "\<not> is_opener c" "bracket_opener c = None"
    | (closer) q where "\<not> is_opener c" "bracket_opener c = Some q"
    by (cases "bracket_opener c") (auto simp del: bracket_opener.simps)
  then show ?case
  proof cases
    case opener
    then have "bracket_stack (c # stack) cs = Some []" using "2.prems" by simp
    from "2.IH"(1) [OF opener this] obtain d b r where cs: "cs = d @ b # r"
      and b: "bracket_opener b = Some c" "balanced d" "closes stack r"
      unfolding closes.simps by blast
    have "balanced (c # d @ b # [])" by (rule balanced_Pair [OF opener b(1,2) balanced_Nil])
    from closes_prepend [OF this b(3)] show ?thesis using cs by simp
  next
    case plain
    then have "closes stack cs" using 2 by (simp del: bracket_opener.simps)
    moreover have "balanced [c]" using plain by (intro balanced.intros)
    ultimately show ?thesis using closes_prepend [of "[c]" stack cs] by simp
  next
    case closer
    then obtain below where st: "stack = q # below" "bracket_stack below cs = Some []"
      using "2.prems" by (auto simp del: bracket_opener.simps split: list.splits if_splits)
    have "closes below cs" using "2.IH"(3) [OF closer(1,2) st(1) refl st(2)] .
    then have "closes (q # below) ([] @ c # cs)" unfolding closes.simps
      using closer(2) balanced_Nil by blast
    then show ?thesis using st(1) by simp
  qed
qed

lemma bracket_stack_balanced: "bracket_stack [] s = Some [] \<longleftrightarrow> balanced s"
  using stack_closes [of "[]" s] balanced_stack [of s "[]" "[]"] by auto

section \<open>The safety of ad-hoc queries\<close>

text \<open>
  C8. A query without a slash that passes both checks of the query service contains no keyword of the
  denylist in its code: read by a one-pass lexer that blanks out string literals, and in upper case,
  no keyword (with any white space between its parts) stands in it as a word of its own.
\<close>

theorem accepted_query_is_read_only:
  assumes "CHR ''/'' \<notin> set cypher" and "validate_syntax cypher = Inr ()" and "validate_read_only cypher = Inr ()"
    and "keyword \<in> set QUERY_DENYLIST_KEYWORDS"
  shows "\<not> keyword_occurs (keyword_parts keyword) (upper (lex_code Code cypher))"
  using assms accepted_code [OF assms(2,1)] by (simp add: validate_read_only_ok find_denylisted_none)

theorem accepted_query_is_read_only_witness:
  "\<not> keyword_occurs (keyword_parts ''DELETE'')
     (upper (lex_code Code ''MATCH (n) WHERE n.name = \"delete\" RETURN n''))"
  by (rule accepted_query_is_read_only; code_simp)

text \<open>
  The converse for the same queries: one that is rejected by the read-only check although its
  structure is fine does contain a denylisted keyword in its code, never only in a string literal.
\<close>

theorem rejected_query_has_keyword:
  assumes "CHR ''/'' \<notin> set cypher" and "validate_syntax cypher = Inr ()" and "validate_read_only cypher = Inl e"
  shows "\<exists>keyword \<in> set QUERY_DENYLIST_KEYWORDS.
    keyword_occurs (keyword_parts keyword) (upper (lex_code Code cypher))"
  using assms accepted_code [OF assms(2,1)] find_denylisted_none [of cypher] validate_read_only_ok [of cypher "()"]
  by auto

theorem rejected_query_has_keyword_witness:
  "\<exists>keyword \<in> set QUERY_DENYLIST_KEYWORDS.
    keyword_occurs (keyword_parts keyword) (upper (lex_code Code ''MATCH (n) detach  delete n''))"
  by (rule rejected_query_has_keyword [where e = "QueryRejected
        (''Query rejected: contains disallowed keyword '' @ [CHR 0x27] @ ''DELETE'' @ [CHR 0x27])"]; code_simp)


text \<open>
  The structural check accepts exactly the queries that are not blank, have no unterminated string
  literal outside comments, and whose brackets, outside comments and literals, are balanced in the sense
  of the bracket grammar.
\<close>

theorem validate_syntax_exact:
  "validate_syntax cypher = Inr () \<longleftrightarrow>
     strip cypher \<noteq> [] \<and> \<not> list_ex is_quote (strip_strings [] (strip_comments cypher)) \<and>
     balanced (strip_comments_and_strings cypher)"
  by (simp add: validate_syntax_ok bracket_stack_balanced)

text \<open>
  A query that fails a check never reaches the database, and one that runs returns at most
  \<open>MAX_QUERY_LIMIT\<close> rows with their number.
\<close>

theorem execute_query_bounded:
  "(case execute_query server cypher limit w of
      (Inl e, w') \<Rightarrow> w' = w \<or> (validate_syntax cypher = Inr () \<and> validate_read_only cypher = Inr ())
    | (Inr a, w') \<Rightarrow> validate_syntax cypher = Inr () \<and> validate_read_only cypher = Inr () \<and>
        length (qa_rows a) \<le> MAX_QUERY_LIMIT \<and> qa_row_count a = length (qa_rows a))"
  by (cases rule: execute_query_cases [of server cypher limit w]) auto

end
