(* ===== verification/Ha_Registry.thy ===== *)
theory Ha_Registry
  imports Prelude
begin

text \<open>
  What the integration reads of Home Assistant: the states and the entity, device, area, floor
  and label registries, as the lists and records its API hands out, and the two helpers that list
  what an automation or a script refers to.  Home Assistant itself is not code of the repository,
  so all of it is data: a value of \<open>hass\<close>, unchanged while one operation runs.
\<close>

record ha_state =
  st_entity_id :: string
  st_state :: string
  st_name :: "string option"
  st_attributes :: dict
  st_last_changed :: int
  st_last_updated :: int

record entity_entry =
  en_entity_id :: string
  en_platform :: string
  en_name :: "string option"
  en_device_id :: "string option"
  en_area_id :: "string option"
  en_labels :: "string list"

record device_entry =
  dv_id :: string
  dv_name_by_user :: "string option"
  dv_name :: "string option"
  dv_manufacturer :: "string option"
  dv_model :: "string option"
  dv_area_id :: "string option"
  dv_identifiers :: "(string \<times> pval) list"

record area_entry =
  ar_id :: string
  ar_name :: string
  ar_icon :: "string option"
  ar_floor_id :: "string option"

record floor_entry =
  fl_floor_id :: string
  fl_name :: string
  fl_level :: "int option"
  fl_icon :: "string option"

record label_entry =
  lb_label_id :: string
  lb_name :: string
  lb_color :: "string option"

text \<open>
  A Lovelace dashboard: its key (\<open>None\<close> for a key that is not a string), its title, and what
  \<open>async_load\<close> gives (\<open>None\<close> when it raises).
\<close>

record dashboard =
  db_key :: "string option"
  db_title :: "string option"
  db_config :: "dict option"

text \<open>Iterating the device registry yields entries on new cores and ids on old ones.\<close>

datatype device_item = DeviceEntry device_entry | DeviceId string

record hass =
  ha_states :: "ha_state list"
  ha_entities :: "entity_entry list"
  ha_devices :: "device_entry list"
  ha_device_items :: "device_item list"
  ha_areas :: "area_entry list"
  ha_floors :: "floor_entry list"
  ha_labels :: "label_entry list"
  ha_automation_refs :: "string \<Rightarrow> string list"
  ha_script_refs :: "string \<Rightarrow> string list"
  ha_dashboards :: "dashboard list option"
  ha_services :: "(string \<times> string) list"

text \<open>A home with nothing in it, to build examples on.\<close>

definition empty_home :: hass where
  "empty_home = \<lparr>ha_states = [], ha_entities = [], ha_devices = [], ha_device_items = [], ha_areas = [],
     ha_floors = [], ha_labels = [], ha_automation_refs = (\<lambda>_. []), ha_script_refs = (\<lambda>_. []),
     ha_dashboards = None, ha_services = []\<rparr>"

definition get_state :: "hass \<Rightarrow> string \<Rightarrow> ha_state option" where
  "get_state h e = find (\<lambda>s. st_entity_id s = e) (ha_states h)"

definition get_entry :: "hass \<Rightarrow> string \<Rightarrow> entity_entry option" where
  "get_entry h e = find (\<lambda>x. en_entity_id x = e) (ha_entities h)"

text \<open>\<open>device_registry_compat.py\<close>\<close>

definition get_device :: "hass \<Rightarrow> string \<Rightarrow> device_entry option" where
  "get_device h d = find (\<lambda>x. dv_id x = d) (ha_devices h)"

text \<open>
  An id whose entry is gone is left out.
\<close>

fun resolve_devices :: "hass \<Rightarrow> device_item list \<Rightarrow> device_entry list" where
  "resolve_devices h [] = []"
| "resolve_devices h (DeviceEntry d # items) = d # resolve_devices h items"
| "resolve_devices h (DeviceId i # items) =
     (case get_device h i of
        Some d \<Rightarrow> d # resolve_devices h items
      | None \<Rightarrow> resolve_devices h items)"

definition iter_devices :: "hass \<Rightarrow> device_entry list" where
  "iter_devices h = resolve_devices h (ha_device_items h)"

definition get_area :: "hass \<Rightarrow> string \<Rightarrow> area_entry option" where
  "get_area h a = find (\<lambda>x. ar_id x = a) (ha_areas h)"

definition has_service :: "hass \<Rightarrow> string \<Rightarrow> string \<Rightarrow> bool" where
  "has_service h d s = ((d, s) \<in> set (ha_services h))"

definition states_of_domain :: "hass \<Rightarrow> string \<Rightarrow> ha_state list" where
  "states_of_domain h d = filter (\<lambda>s. before CHR ''.'' (st_entity_id s) = d) (ha_states h)"

text \<open>Both kinds of registry give the same devices.\<close>

lemma resolve_device_entries: "resolve_devices h (map DeviceEntry ds) = ds"
  by (induction ds) auto

lemma get_device_self:
  "distinct (map dv_id (ha_devices h)) \<Longrightarrow> d \<in> set (ha_devices h) \<Longrightarrow> get_device h (dv_id d) = Some d"
proof -
  have "distinct (map dv_id ds) \<Longrightarrow> d \<in> set ds \<Longrightarrow> find (\<lambda>x. dv_id x = dv_id d) ds = Some d" for ds
    by (induction ds) (auto simp: image_iff)
  then show "distinct (map dv_id (ha_devices h)) \<Longrightarrow> d \<in> set (ha_devices h) \<Longrightarrow> ?thesis"
    by (simp add: get_device_def)
qed

lemma resolve_device_ids:
  assumes "distinct (map dv_id (ha_devices h))" and "set ds \<subseteq> set (ha_devices h)"
  shows "resolve_devices h (map (\<lambda>d. DeviceId (dv_id d)) ds) = ds"
  using assms(2) by (induction ds) (auto simp: get_device_self [OF assms(1)])

end
