(* ===== verification/Measurement.thy ===== *)
theory Measurement
  imports Ha_Registry Const
begin

text \<open>
  The current-measurement properties of an entity (\<open>normalize_current_measurement\<close> of
  \<open>graph_builder.py\<close>) and Python's \<open>float\<close> on strings, which it parses the state with.
\<close>

section \<open>Python's \<open>float\<close> on a string\<close>

definition digit_val :: "char \<Rightarrow> nat" where
  "digit_val c = of_char c - 48"

text \<open>
  A run of digits with single underscores between them: its value, its number of digits and the rest.
\<close>

fun scan_digits :: "nat \<Rightarrow> nat \<Rightarrow> string \<Rightarrow> nat \<times> nat \<times> string" where
  "scan_digits v n [] = (v, n, [])"
| "scan_digits v n (c # cs) =
     (if is_digit c then scan_digits (10 * v + digit_val c) (Suc n) cs
      else if c = CHR ''_'' \<and> 0 < n \<and> cs \<noteq> [] \<and> is_digit (hd cs) then scan_digits v n cs
      else (v, n, c # cs))"

definition scan_sign :: "string \<Rightarrow> int \<times> string" where
  "scan_sign s = (case s of
      [] \<Rightarrow> (1, [])
    | c # cs \<Rightarrow> if c = CHR ''-'' then (-1, cs) else if c = CHR ''+'' then (1, cs) else (1, s))"

text \<open>\<open>e[+-]digits\<close> up to the end, or nothing.\<close>

definition scan_exponent :: "string \<Rightarrow> int option" where
  "scan_exponent s = (case s of
      [] \<Rightarrow> Some 0
    | c # cs \<Rightarrow>
        if to_lower c = CHR ''e''
        then (let (sg, r) = scan_sign cs; (v, n, rest) = scan_digits 0 0 r
              in if 0 < n \<and> rest = [] then Some (sg * int v) else None)
        else None)"

definition power10 :: "int \<Rightarrow> rat" where
  "power10 e = (if 0 \<le> e then 10 ^ nat e else 1 / 10 ^ nat (- e))"

text \<open>What lies above the largest double by half a unit or more becomes infinite.\<close>

definition float_limit :: rat where
  "float_limit = 2 ^ 1024 - 2 ^ 970"

definition round_float :: "rat \<Rightarrow> pyfloat" where
  "round_float r = (if float_limit \<le> r then PInf else if r \<le> - float_limit then NInf else Fin r)"

definition scan_number :: "string \<Rightarrow> rat option" where
  "scan_number s =
     (let (v, n, r) = scan_digits 0 0 s;
          (w, m, r') = (case r of [] \<Rightarrow> (0, 0, []) | c # cs \<Rightarrow> if c = CHR ''.'' then scan_digits 0 0 cs else (0, 0, r))
      in if n + m = 0 then None
         else (case scan_exponent r' of
                 None \<Rightarrow> None
               | Some e \<Rightarrow> Some ((of_nat v + of_nat w / 10 ^ m) * power10 e)))"

definition py_float :: "string \<Rightarrow> pyfloat option" where
  "py_float text =
     (let (sg, r) = scan_sign (strip text); l = lower r
      in if l = ''inf'' \<or> l = ''infinity'' then Some (if sg < 0 then NInf else PInf)
         else if l = ''nan'' then Some NaN
         else map_option (\<lambda>v. round_float (of_int sg * v)) (scan_number r))"

section \<open>Python's \<open>int\<close>\<close>

definition py_int_text :: "string \<Rightarrow> int option" where
  "py_int_text text =
     (let (sg, r) = scan_sign (strip text); (v, n, rest) = scan_digits 0 0 r
      in if 0 < n \<and> rest = [] then Some (sg * int v) else None)"

text \<open>A float is truncated towards zero.\<close>

definition py_int :: "pval \<Rightarrow> exn + int" where
  "py_int v =
     (case v of
        VInt i \<Rightarrow> Inr i
      | VBool b \<Rightarrow> Inr (if b then 1 else 0)
      | VFloat (Fin q) \<Rightarrow> Inr (if q < 0 then \<lceil>q\<rceil> else \<lfloor>q\<rfloor>)
      | VFloat NaN \<Rightarrow> Inl (ValueError ''cannot convert float NaN to integer'')
      | VFloat _ \<Rightarrow> Inl (OverflowError ''cannot convert float infinity to integer'')
      | VStr s \<Rightarrow> (case py_int_text s of
            None \<Rightarrow> Inl (ValueError ''invalid literal for int() with base 10'') | Some i \<Rightarrow> Inr i)
      | VTime _ \<Rightarrow> Inl (ValueError ''invalid literal for int() with base 10'')
      | _ \<Rightarrow> Inl (TypeError ''int() argument must be a string, a bytes-like object or a real number''))"

section \<open>The measurement\<close>

text \<open>A state accepted by the debouncer, with the time stamp its measurement keeps.\<close>

record entity_sync_context =
  cx_state :: ha_state
  cx_measurement_last_updated :: int

definition STATE_UNKNOWN :: string where "STATE_UNKNOWN = ''unknown''"
definition STATE_UNAVAILABLE :: string where "STATE_UNAVAILABLE = ''unavailable''"

definition measurement_in_range :: "bool \<Rightarrow> pyfloat \<Rightarrow> bool" where
  "measurement_in_range battery f =
     (case f of Fin v \<Rightarrow> \<not> battery \<or> (0 \<le> v \<and> v \<le> 100) | _ \<Rightarrow> False)"

definition scale_watts :: "pval \<Rightarrow> pyfloat \<Rightarrow> pyfloat" where
  "scale_watts unit f = (case f of Fin v \<Rightarrow> if unit = VStr ''kW'' then round_float (v * 1000) else Fin v | _ \<Rightarrow> f)"

text \<open>The status of the reading, and its value property when it is available.\<close>

definition measurement_reading :: "bool \<Rightarrow> ha_state \<Rightarrow> string \<times> dict" where
  "measurement_reading battery state =
     (if st_state state = STATE_UNKNOWN \<or> st_state state = STATE_UNAVAILABLE
      then (MEASUREMENT_STATUS_UNAVAILABLE, [])
      else
        let unit = dget (st_attributes state) ''unit_of_measurement'';
            supported_units = (if battery then [VStr ''%''] else [VStr ''W'', VStr ''kW''])
        in if unit \<notin> set supported_units then (MEASUREMENT_STATUS_UNSUPPORTED_UNIT, [])
           else
             (case py_float (st_state state) of
                None \<Rightarrow> (MEASUREMENT_STATUS_INVALID_VALUE, [])
              | Some value \<Rightarrow>
                  if \<not> measurement_in_range battery value then (MEASUREMENT_STATUS_INVALID_VALUE, [])
                  else (MEASUREMENT_STATUS_AVAILABLE,
                    if battery then [(MEASUREMENT_BATTERY_PERCENTAGE, VFloat value)]
                    else [(MEASUREMENT_POWER_WATTS, VFloat (scale_watts unit value))])))"

definition normalize_current_measurement :: "ha_state \<Rightarrow> int option \<Rightarrow> dict" where
  "normalize_current_measurement state measurement_last_updated =
     (let device_class = dget (st_attributes state) ''device_class'' in
      if device_class \<noteq> VStr MEASUREMENT_KIND_BATTERY \<and> device_class \<noteq> VStr MEASUREMENT_KIND_POWER then []
      else
        let updated = (case measurement_last_updated of Some t \<Rightarrow> t | None \<Rightarrow> st_last_updated state);
            (status, value) = measurement_reading (device_class = VStr MEASUREMENT_KIND_BATTERY) state
        in [(MEASUREMENT_KIND, device_class), (MEASUREMENT_LAST_UPDATED, VTime updated),
            (MEASUREMENT_LAST_UPDATED_EPOCH, VFloat (Fin (of_int updated / 1000000))),
            (MEASUREMENT_STATUS, VStr status)] @ value)"

section \<open>Laws\<close>

definition measurement_keys :: "string list" where
  "measurement_keys = [MEASUREMENT_KIND, MEASUREMENT_STATUS, MEASUREMENT_BATTERY_PERCENTAGE,
     MEASUREMENT_POWER_WATTS, MEASUREMENT_LAST_UPDATED, MEASUREMENT_LAST_UPDATED_EPOCH]"

lemma measurement_keys_distinct: "distinct measurement_keys"
  by (simp add: measurement_keys_def const_defs)

lemma measurement_statuses_distinct:
  "distinct [MEASUREMENT_STATUS_AVAILABLE, MEASUREMENT_STATUS_UNAVAILABLE,
     MEASUREMENT_STATUS_INVALID_VALUE, MEASUREMENT_STATUS_UNSUPPORTED_UNIT]"
  by (simp add: const_defs)

lemma measurement_reading_cases:
  obtains (none) st where "measurement_reading b s = (st, [])" and "st \<noteq> MEASUREMENT_STATUS_AVAILABLE"
  | (battery) x where "b" and "measurement_reading b s
        = (MEASUREMENT_STATUS_AVAILABLE, [(MEASUREMENT_BATTERY_PERCENTAGE, VFloat (Fin x))])"
      and "0 \<le> x" and "x \<le> 100" and "py_float (st_state s) = Some (Fin x)"
      and "dget (st_attributes s) ''unit_of_measurement'' = VStr ''%''"
  | (power) x unit where "\<not> b" and "measurement_reading b s
        = (MEASUREMENT_STATUS_AVAILABLE, [(MEASUREMENT_POWER_WATTS, VFloat (scale_watts unit (Fin x)))])"
      and "py_float (st_state s) = Some (Fin x)"
      and "unit = dget (st_attributes s) ''unit_of_measurement''"
      and "unit = VStr ''W'' \<or> unit = VStr ''kW''"
proof -
  have "(\<exists>st. measurement_reading b s = (st, []) \<and> st \<noteq> MEASUREMENT_STATUS_AVAILABLE) \<or>
    (\<exists>x. b \<and> measurement_reading b s
        = (MEASUREMENT_STATUS_AVAILABLE, [(MEASUREMENT_BATTERY_PERCENTAGE, VFloat (Fin x))])
      \<and> 0 \<le> x \<and> x \<le> 100 \<and> py_float (st_state s) = Some (Fin x)
      \<and> dget (st_attributes s) ''unit_of_measurement'' = VStr ''%'') \<or>
    (\<exists>x unit. \<not> b \<and> measurement_reading b s
        = (MEASUREMENT_STATUS_AVAILABLE, [(MEASUREMENT_POWER_WATTS, VFloat (scale_watts unit (Fin x)))])
      \<and> py_float (st_state s) = Some (Fin x) \<and> unit = dget (st_attributes s) ''unit_of_measurement''
      \<and> (unit = VStr ''W'' \<or> unit = VStr ''kW''))"
    using measurement_statuses_distinct
    by (auto simp: measurement_reading_def Let_def measurement_in_range_def
        split: option.split pyfloat.split)
  then show ?thesis using none battery power by blast
qed

lemma normalize_keys:
  "fst ` set (normalize_current_measurement s t) \<subseteq> set measurement_keys"
  by (cases "dget (st_attributes s) ''device_class'' = VStr MEASUREMENT_KIND_BATTERY" s
      rule: measurement_reading_cases)
    (auto simp: normalize_current_measurement_def measurement_keys_def Let_def)

lemma normalize_distinct: "distinct (map fst (normalize_current_measurement s t))"
  using measurement_keys_distinct
  by (cases "dget (st_attributes s) ''device_class'' = VStr MEASUREMENT_KIND_BATTERY" s
      rule: measurement_reading_cases)
    (auto simp: normalize_current_measurement_def measurement_keys_def Let_def)

lemma unparsable_states: "py_float STATE_UNKNOWN = None" "py_float STATE_UNAVAILABLE = None"
  by (simp_all add: py_float_def scan_sign_def scan_number_def STATE_UNKNOWN_def STATE_UNAVAILABLE_def
      strip_def lower_def is_space_def is_digit_def to_lower_def)

lemma reading_battery:
  "(k, v) \<in> set (snd (measurement_reading True s)) \<longleftrightarrow> k = MEASUREMENT_BATTERY_PERCENTAGE \<and>
     dget (st_attributes s) ''unit_of_measurement'' = VStr ''%'' \<and>
     (\<exists>x. py_float (st_state s) = Some (Fin x) \<and> 0 \<le> x \<and> x \<le> 100 \<and> v = VFloat (Fin x))"
  using unparsable_states
  by (auto simp: measurement_reading_def Let_def measurement_in_range_def split: option.split pyfloat.split)

lemma reading_power:
  "(k, v) \<in> set (snd (measurement_reading False s)) \<longleftrightarrow> k = MEASUREMENT_POWER_WATTS \<and>
     (\<exists>x. py_float (st_state s) = Some (Fin x) \<and>
        (dget (st_attributes s) ''unit_of_measurement'' = VStr ''W'' \<and> v = VFloat (Fin x) \<or>
         dget (st_attributes s) ''unit_of_measurement'' = VStr ''kW'' \<and> v = VFloat (round_float (x * 1000))))"
  using unparsable_states
  by (auto simp: measurement_reading_def Let_def measurement_in_range_def scale_watts_def
      split: option.split pyfloat.split)

lemma normalize_value:
  "k \<in> {MEASUREMENT_BATTERY_PERCENTAGE, MEASUREMENT_POWER_WATTS} \<Longrightarrow>
   (k, v) \<in> set (normalize_current_measurement s t) \<longleftrightarrow>
     dget (st_attributes s) ''device_class'' = VStr MEASUREMENT_KIND_BATTERY \<and>
       (k, v) \<in> set (snd (measurement_reading True s)) \<or>
     dget (st_attributes s) ''device_class'' = VStr MEASUREMENT_KIND_POWER \<and>
       (k, v) \<in> set (snd (measurement_reading False s))"
  by (auto simp: normalize_current_measurement_def Let_def const_defs case_prod_unfold)

section \<open>When a measurement has a value\<close>

text \<open>
  The charge of a battery is stored exactly when its unit is per cent and its state parses as a number
  from 0 to 100, and it is that number; the power of a power sensor exactly when its unit is watt or
  kilowatt and its state parses as a finite number, and it is that number in watts.
\<close>

theorem measurement_values_exact:
  "((MEASUREMENT_BATTERY_PERCENTAGE, v) \<in> set (normalize_current_measurement s t) \<longleftrightarrow>
      dget (st_attributes s) ''device_class'' = VStr MEASUREMENT_KIND_BATTERY \<and>
      dget (st_attributes s) ''unit_of_measurement'' = VStr ''%'' \<and>
      (\<exists>x. py_float (st_state s) = Some (Fin x) \<and> 0 \<le> x \<and> x \<le> 100 \<and> v = VFloat (Fin x))) \<and>
   ((MEASUREMENT_POWER_WATTS, v) \<in> set (normalize_current_measurement s t) \<longleftrightarrow>
      dget (st_attributes s) ''device_class'' = VStr MEASUREMENT_KIND_POWER \<and>
      (\<exists>x. py_float (st_state s) = Some (Fin x) \<and>
        (dget (st_attributes s) ''unit_of_measurement'' = VStr ''W'' \<and> v = VFloat (Fin x) \<or>
         dget (st_attributes s) ''unit_of_measurement'' = VStr ''kW'' \<and> v = VFloat (round_float (x * 1000)))))"
proof -
  have d: "MEASUREMENT_BATTERY_PERCENTAGE \<noteq> MEASUREMENT_POWER_WATTS" by (simp add: const_defs)
  show ?thesis using d by (simp add: normalize_value reading_battery reading_power)
qed

text \<open>
  The finiteness check comes before the scaling: a reading near the largest double is stored as an
  infinite number of watts, marked available.
\<close>

theorem kilowatts_overflow:
  "let m = normalize_current_measurement \<lparr>st_entity_id = ''sensor.power'', st_state = ''1e306'', st_name = None,
       st_attributes = [(''device_class'', VStr MEASUREMENT_KIND_POWER), (''unit_of_measurement'', VStr ''kW'')],
       st_last_changed = 0, st_last_updated = 0\<rparr> None
   in (MEASUREMENT_POWER_WATTS, VFloat PInf) \<in> set m \<and>
      (MEASUREMENT_STATUS, VStr MEASUREMENT_STATUS_AVAILABLE) \<in> set m"
proof -
  let ?state = "\<lparr>st_entity_id = ''sensor.power'', st_state = ''1e306'', st_name = None,
       st_attributes = [(''device_class'', VStr MEASUREMENT_KIND_POWER), (''unit_of_measurement'', VStr ''kW'')],
       st_last_changed = 0, st_last_updated = 0\<rparr>"
  have "scan_number ''1e306'' = Some (10 ^ 306)"
    by (simp add: scan_number_def scan_exponent_def scan_sign_def is_digit_def digit_val_def to_lower_def power10_def)
  then have "py_float (st_state ?state) = Some (round_float (10 ^ 306))"
    by (simp add: py_float_def scan_sign_def strip_def lower_def is_space_def to_lower_def)
  moreover have "round_float (10 ^ 306) = Fin (10 ^ 306)" "round_float (10 ^ 306 * 1000) = PInf"
    by (simp_all add: round_float_def float_limit_def)
  ultimately show ?thesis
    by (simp add: normalize_current_measurement_def measurement_reading_def measurement_in_range_def
        scale_watts_def dget_def const_defs STATE_UNKNOWN_def STATE_UNAVAILABLE_def del: power_numeral)
qed

end
