(* ===== verification/Graph_Builder.thy ===== *)
theory Graph_Builder
  imports Memgraph_Client Measurement
begin

text \<open>
  \<open>graph_builder.py\<close>: the idempotent writes of nodes and relationships, the discovery of floors,
  areas, devices, labels, entities, automations, scenes and scripts, the single-element updates,
  and the deletion of what the integration owns.  Every Cypher text of the module is one
  statement function here (\<open>..._stmt\<close>); the Python around it keeps its order and its guards.
\<close>

section \<open>Writing nodes and relationships\<close>

definition now_iso :: "('z, pval) wop" where
  "now_iso = obind utc_now (\<lambda>t. oret (VTime t))"

lemma now_iso_step: "now_iso s = (Inr (VTime (w_now s)), snd (utc_now s))"
  by (simp add: now_iso_def obind_def utc_now_def oret_def)

lemma w_graph_utc_now [simp]: "w_graph (snd (utc_now s)) = w_graph s"
  by (simp add: utc_now_def)

definition sanitize_label :: "string \<Rightarrow> ('s, string) op" where
  "sanitize_label label =
     (let t = filter (\<lambda>c. c \<noteq> CHR ''_'') label
      in if t \<noteq> [] \<and> list_all is_alnum t then oret label
         else oraise (ValueError (''Unsafe Cypher label/type: '' @ label)))"

definition merge_node_stmt :: "string \<Rightarrow> string \<Rightarrow> dict \<Rightarrow> graph \<Rightarrow> graph" where
  "merge_node_stmt label ha_id props = merge_node_with (label, ha_id) (\<lambda>d. set_props (or_empty d) props)"

definition merge_node :: "string \<Rightarrow> string \<Rightarrow> dict \<Rightarrow> string \<Rightarrow> ('z, unit) wop" where
  "merge_node label ha_id properties source =
     obind (sanitize_label label) (\<lambda>label.
     obind now_iso (\<lambda>now.
       let props = dset ''updated_at'' now (dset ''source'' (VStr source) properties)
       in run_query_with_retry (write_stmt (merge_node_stmt label ha_id props))))"

definition merge_rel_stmt :: "rkey \<Rightarrow> string \<Rightarrow> pval \<Rightarrow> dict \<Rightarrow> graph \<Rightarrow> graph" where
  "merge_rel_stmt k source now extra = merge_rel_with k
     (\<lambda>d. set_props (set_props (or_empty d) [(''source'', VStr source), (''updated_at'', now)]) extra)"

definition merge_relationship_with ::
  "string \<Rightarrow> string \<Rightarrow> string \<Rightarrow> string \<Rightarrow> string \<Rightarrow> string \<Rightarrow> dict \<Rightarrow> ('z, unit) wop" where
  "merge_relationship_with from_label from_ha_id rel_type to_label to_ha_id source properties =
     obind (sanitize_label from_label) (\<lambda>from_label.
     obind (sanitize_label to_label) (\<lambda>to_label.
     obind (sanitize_label rel_type) (\<lambda>rel_type.
     obind now_iso (\<lambda>now.
       run_query_with_retry (write_stmt
         (merge_rel_stmt ((from_label, from_ha_id), rel_type, (to_label, to_ha_id)) source now properties))))))"

abbreviation merge_relationship ::
  "string \<Rightarrow> string \<Rightarrow> string \<Rightarrow> string \<Rightarrow> string \<Rightarrow> string \<Rightarrow> ('z, unit) wop" where
  "merge_relationship fl fi t el ei source \<equiv> merge_relationship_with fl fi t el ei source []"

definition BULK_BATCH_SIZE :: nat where "BULK_BATCH_SIZE = 250"

text \<open>\<open>_chunks\<close>: slices of at most the batch size.\<close>

function chunks_of :: "nat \<Rightarrow> 'a list \<Rightarrow> 'a list list" where
  "chunks_of n xs = (if xs = [] \<or> n = 0 then [] else take n xs # chunks_of n (drop n xs))"
  by pat_completeness auto
termination
  by (relation "measure (\<lambda>(n, xs). length xs)") auto

declare chunks_of.simps [simp del]

definition chunks :: "'a list \<Rightarrow> 'a list list" where
  "chunks rows = chunks_of BULK_BATCH_SIZE rows"

text \<open>\<open>UNWIND $rows AS row\<close>: the rest of the statement runs for one row after the other.\<close>

definition unwind :: "('r \<Rightarrow> graph \<Rightarrow> graph) \<Rightarrow> 'r list \<Rightarrow> graph \<Rightarrow> graph" where
  "unwind f rows g = fold f rows g"

definition merge_nodes_bulk :: "string \<Rightarrow> (string \<times> dict) list \<Rightarrow> string \<Rightarrow> ('z, unit) wop" where
  "merge_nodes_bulk label nodes source =
     obind (sanitize_label label) (\<lambda>label.
     obind now_iso (\<lambda>now.
       let rows = map (\<lambda>(ha_id, props).
             (ha_id, dset ''updated_at'' now (dset ''source'' (VStr source) props))) nodes
       in oforeach (chunks rows) (\<lambda>chunk.
            run_query_with_retry (write_stmt
              (unwind (\<lambda>(ha_id, props). merge_node_stmt label ha_id props) chunk)))))"

definition merge_relationships_bulk ::
  "string \<Rightarrow> string \<Rightarrow> string \<Rightarrow> (string \<times> string) list \<Rightarrow> string \<Rightarrow> ('z, unit) wop" where
  "merge_relationships_bulk from_label rel_type to_label pairs source =
     obind (sanitize_label from_label) (\<lambda>from_label.
     obind (sanitize_label to_label) (\<lambda>to_label.
     obind (sanitize_label rel_type) (\<lambda>rel_type.
     obind now_iso (\<lambda>now.
       oforeach (chunks pairs) (\<lambda>chunk.
         run_query_with_retry (write_stmt
           (unwind (\<lambda>(from_id, to_id). merge_rel_stmt
              ((from_label, from_id), rel_type, (to_label, to_id)) source now []) chunk)))))))"

section \<open>Entities\<close>

definition opt_int :: "int option \<Rightarrow> pval" where
  "opt_int i = (case i of None \<Rightarrow> VNone | Some x \<Rightarrow> VInt x)"

text \<open>The base properties and the measurement properties of an entity node.\<close>

definition entity_node_properties ::
  "hass \<Rightarrow> string \<Rightarrow> entity_sync_context option \<Rightarrow> ('z, dict \<times> dict) wop" where
  "entity_node_properties h entity_id context =
     (let entry = get_entry h entity_id;
          state = (case context of Some c \<Rightarrow> Some (cx_state c) | None \<Rightarrow> get_state h entity_id);
          name = str_or (Option.bind entry en_name)
                   (str_or (Option.bind state st_name) (Some entity_id));
          p0 = [(''name'', opt_str name)];
          p1 = (case entry of
                  None \<Rightarrow> p0
                | Some e \<Rightarrow> p0 @ [(''device_id'', opt_str (en_device_id e)), (''area_id'', opt_str (en_area_id e))]);
          p2 = (case state of
                  None \<Rightarrow> p1
                | Some s \<Rightarrow> p1 @ [(''state'', VStr (st_state s)),
                    (''state_updated_at'', VTime (st_last_changed s)),
                    (''device_class'', dget (st_attributes s) ''device_class''),
                    (''unit_of_measurement'', dget (st_attributes s) ''unit_of_measurement'')]);
          measurement_props = (case state of
                  None \<Rightarrow> []
                | Some s \<Rightarrow> normalize_current_measurement s
                    (map_option cx_measurement_last_updated context))
      in obind now_iso (\<lambda>now.
           oret (p2 @ [(''source'', VStr SOURCE_HOME_ASSISTANT), (''updated_at'', now)], measurement_props)))"

text \<open>
  The write the single-entity and the bulk queries share: the measurement properties are removed,
  then both dictionaries are set.
\<close>

definition entity_props :: "dict \<Rightarrow> dict \<Rightarrow> dict \<Rightarrow> dict" where
  "entity_props props measurement_props d =
     set_props (set_props (remove_props measurement_keys d) props) measurement_props"

definition entity_write_stmt :: "string \<times> dict \<times> dict \<Rightarrow> graph \<Rightarrow> graph" where
  "entity_write_stmt row = (case row of (ha_id, props, measurement_props) \<Rightarrow>
     merge_node_with (LABEL_ENTITY, ha_id) (\<lambda>d. entity_props props measurement_props (or_empty d)))"

text \<open>\<open>_ENTITY_STATE_BULK_QUERY\<close>: \<open>MATCH\<close> only, and the ids of the nodes it found.\<close>

definition entity_state_stmt :: "string \<times> dict \<times> dict \<Rightarrow> graph \<Rightarrow> graph" where
  "entity_state_stmt row = (case row of (ha_id, props, measurement_props) \<Rightarrow>
     set_node_with (LABEL_ENTITY, ha_id) (entity_props props measurement_props))"

definition entity_states_stmt :: "(string \<times> dict \<times> dict) list \<Rightarrow> string list stmt" where
  "entity_states_stmt rows g =
     (map fst (filter (\<lambda>(i, p, m). has_node g (LABEL_ENTITY, i)) rows), unwind entity_state_stmt rows g)"

text \<open>\<open>MATCH (e:Entity {ha_id: id})-[r:HAS_AREA]->(:Area) WHERE r.source = $source DELETE r\<close>\<close>

definition delete_area_edges_stmt :: "string \<Rightarrow> graph \<Rightarrow> graph" where
  "delete_area_edges_stmt entity_id = delete_rels (\<lambda>(a, t, b) d.
     a = (LABEL_ENTITY, entity_id) \<and> t = REL_HAS_AREA \<and> fst b = LABEL_AREA \<and>
     dget d ''source'' = VStr SOURCE_HOME_ASSISTANT)"

section \<open>Discovery\<close>

definition ensure_home_node :: "('z, unit) wop" where
  "ensure_home_node = merge_node LABEL_HOME HOME_SINGLETON_ID [(''name'', VStr ''Home'')] SOURCE_HOME_ASSISTANT"

definition collect_floors :: "hass \<Rightarrow> ('z, string list) wop" where
  "collect_floors h =
     (let floors = ha_floors h in
      oseq (merge_nodes_bulk LABEL_FLOOR
              (map (\<lambda>f. (fl_floor_id f, [(''name'', VStr (fl_name f)), (''level'', opt_int (fl_level f)),
                 (''icon'', opt_str (fl_icon f))])) floors) SOURCE_HOME_ASSISTANT)
     (oseq (merge_relationships_bulk LABEL_HOME REL_HAS_FLOOR LABEL_FLOOR
              (map (\<lambda>f. (HOME_SINGLETON_ID, fl_floor_id f)) floors) SOURCE_HOME_ASSISTANT)
      (oret (map fl_floor_id floors))))"

definition collect_areas :: "hass \<Rightarrow> ('z, string list) wop" where
  "collect_areas h =
     (let areas = ha_areas h in
      oseq (merge_nodes_bulk LABEL_AREA
              (map (\<lambda>a. (ar_id a, [(''name'', VStr (ar_name a)), (''icon'', opt_str (ar_icon a))])) areas)
              SOURCE_HOME_ASSISTANT)
     (oseq (merge_relationships_bulk LABEL_HOME REL_HAS_AREA LABEL_AREA
              (map (\<lambda>a. (HOME_SINGLETON_ID, ar_id a)) areas) SOURCE_HOME_ASSISTANT)
     (oseq (merge_relationships_bulk LABEL_AREA REL_ON_FLOOR LABEL_FLOOR
              (map (\<lambda>a. (ar_id a, the (ar_floor_id a))) (filter (\<lambda>a. present (ar_floor_id a)) areas))
              SOURCE_HOME_ASSISTANT)
      (oret (map ar_id areas)))))"

definition device_props :: "device_entry \<Rightarrow> dict" where
  "device_props d = [(''name'', opt_str (str_or (dv_name_by_user d) (dv_name d))),
     (''manufacturer'', opt_str (dv_manufacturer d)), (''model'', opt_str (dv_model d))]"

definition collect_devices :: "hass \<Rightarrow> ('z, string list) wop" where
  "collect_devices h =
     (let devices = iter_devices h in
      oseq (merge_nodes_bulk LABEL_DEVICE (map (\<lambda>d. (dv_id d, device_props d)) devices) SOURCE_HOME_ASSISTANT)
     (oseq (merge_relationships_bulk LABEL_AREA REL_HAS_DEVICE LABEL_DEVICE
              (map (\<lambda>d. (the (dv_area_id d), dv_id d)) (filter (\<lambda>d. present (dv_area_id d)) devices))
              SOURCE_HOME_ASSISTANT)
      (oret (map dv_id devices))))"

definition collect_labels :: "hass \<Rightarrow> ('z, string list) wop" where
  "collect_labels h =
     (let labels = ha_labels h in
      oseq (merge_nodes_bulk LABEL_LABEL
              (map (\<lambda>l. (lb_label_id l, [(''name'', VStr (lb_name l)), (''color'', opt_str (lb_color l))])) labels)
              SOURCE_HOME_ASSISTANT)
      (oret (map lb_label_id labels)))"

definition domain_of :: "string \<Rightarrow> string" where
  "domain_of entity_id = before CHR ''.'' entity_id"

text \<open>The integration's own entities are left out.\<close>

definition foreign_entries :: "hass \<Rightarrow> entity_entry list" where
  "foreign_entries h = filter (\<lambda>e. en_platform e \<noteq> DOMAIN) (ha_entities h)"

definition collect_entity_nodes :: "hass \<Rightarrow> entity_entry list \<Rightarrow> ('z, unit) wop" where
  "collect_entity_nodes h entries =
     obind (omap (\<lambda>e. obind (entity_node_properties h (en_entity_id e) None)
              (\<lambda>(props, mprops). oret (en_entity_id e, props, mprops))) entries) (\<lambda>rows.
     oforeach (chunks rows) (\<lambda>chunk.
       run_query_with_retry (write_stmt (unwind entity_write_stmt chunk))))"

definition collect_entity_edges :: "entity_entry list \<Rightarrow> ('z, unit) wop" where
  "collect_entity_edges entries =
     oseq (merge_relationships_bulk LABEL_ENTITY REL_IN_DOMAIN LABEL_DOMAIN
             (map (\<lambda>e. (en_entity_id e, domain_of (en_entity_id e))) entries) SOURCE_HOME_ASSISTANT)
    (oseq (merge_relationships_bulk LABEL_DEVICE REL_HAS_ENTITY LABEL_ENTITY
             (map (\<lambda>e. (the (en_device_id e), en_entity_id e)) (filter (\<lambda>e. present (en_device_id e)) entries))
             SOURCE_HOME_ASSISTANT)
    (oseq (oforeach (chunks (map en_entity_id entries)) (\<lambda>chunk.
             run_query_with_retry (write_stmt (unwind delete_area_edges_stmt chunk))))
    (oseq (merge_relationships_bulk LABEL_ENTITY REL_HAS_AREA LABEL_AREA
             (map (\<lambda>e. (en_entity_id e, the (en_area_id e))) (filter (\<lambda>e. present (en_area_id e)) entries))
             SOURCE_HOME_ASSISTANT)
    (oseq (merge_relationships_bulk LABEL_ENTITY REL_PROVIDED_BY LABEL_INTEGRATION
             (map (\<lambda>e. (en_entity_id e, en_platform e)) (filter (\<lambda>e. en_platform e \<noteq> []) entries))
             SOURCE_HOME_ASSISTANT)
     (merge_relationships_bulk LABEL_ENTITY REL_HAS_LABEL LABEL_LABEL
             (concat (map (\<lambda>e. map (\<lambda>l. (en_entity_id e, l)) (en_labels e)) entries))
             SOURCE_HOME_ASSISTANT)))))"

text \<open>A Python set of strings, in sorted order.\<close>

definition sorted_set :: "string list \<Rightarrow> string list" where
  "sorted_set xs = sort (remdups xs)"

definition collect_entities :: "hass \<Rightarrow> ('z, string list \<times> string list \<times> string list) wop" where
  "collect_entities h =
     (let entries = foreign_entries h;
          domains = sorted_set (map (\<lambda>e. domain_of (en_entity_id e)) entries);
          integrations = sorted_set (filter (\<lambda>p. p \<noteq> []) (map en_platform entries)) in
      oseq (collect_entity_nodes h entries)
     (oseq (merge_nodes_bulk LABEL_DOMAIN (map (\<lambda>d. (d, [])) domains) SOURCE_HOME_ASSISTANT)
     (oseq (merge_nodes_bulk LABEL_INTEGRATION (map (\<lambda>i. (i, [(''name'', VStr i)])) integrations)
              SOURCE_HOME_ASSISTANT)
     (oseq (collect_entity_edges entries)
      (oret (map en_entity_id entries, domains, integrations))))))"

text \<open>
  What an automation, a script or a scene refers to; a scene lists it in its state attributes.  An
  item of that list that is not a string has no entity node, so no relationship is written for it
  and it is left out here; a value that cannot be iterated raises.
\<close>

definition string_items :: "pval list \<Rightarrow> string list" where
  "string_items vs = concat (map (\<lambda>v. case v of VStr r \<Rightarrow> [r] | _ \<Rightarrow> []) vs)"

definition referenced_entity_ids :: "hass \<Rightarrow> string \<Rightarrow> string \<Rightarrow> ('s, string list) op" where
  "referenced_entity_ids h domain entity_id =
     (if domain = AUTOMATION_DOMAIN then oret (ha_automation_refs h entity_id)
      else if domain = SCRIPT_DOMAIN then oret (ha_script_refs h entity_id)
      else (case get_state h entity_id of
              None \<Rightarrow> oret []
            | Some s \<Rightarrow>
                (case map_of (st_attributes s) ''entity_id'' of
                   None \<Rightarrow> oret []
                 | Some (VStr r) \<Rightarrow> oret [r]
                 | Some (VList rs) \<Rightarrow> oret (string_items rs)
                 | Some (VDict d) \<Rightarrow> oret (map fst d)
                 | Some (VTime t) \<Rightarrow> oret []
                 | Some _ \<Rightarrow> oraise (TypeError ''object is not iterable''))))"

definition collect_referencing_domain ::
  "hass \<Rightarrow> string \<Rightarrow> string \<Rightarrow> string \<Rightarrow> ('z, string list) wop" where
  "collect_referencing_domain h domain label rel_type =
     omap (\<lambda>state.
       let entity_id = st_entity_id state;
           name = (case map_of (st_attributes state) ''friendly_name'' of Some n \<Rightarrow> n | None \<Rightarrow> VStr entity_id)
       in oseq (merge_node label entity_id [(''name'', name)] SOURCE_HOME_ASSISTANT)
         (obind (referenced_entity_ids h domain entity_id) (\<lambda>referenced.
          oseq (oforeach referenced (\<lambda>referenced_id.
                  merge_relationship label entity_id rel_type LABEL_ENTITY referenced_id SOURCE_HOME_ASSISTANT))
          (oret entity_id))))
       (states_of_domain h domain)"

definition collect_automations :: "hass \<Rightarrow> ('z, string list) wop" where
  "collect_automations h = collect_referencing_domain h AUTOMATION_DOMAIN LABEL_AUTOMATION REL_REFERENCES"

definition collect_scenes :: "hass \<Rightarrow> ('z, string list) wop" where
  "collect_scenes h = collect_referencing_domain h SCENE_DOMAIN LABEL_SCENE REL_CONTROLS"

definition collect_scripts :: "hass \<Rightarrow> ('z, string list) wop" where
  "collect_scripts h = collect_referencing_domain h SCRIPT_DOMAIN LABEL_SCRIPT REL_REFERENCES"

definition collect_domains :: "string list \<Rightarrow> ('z, unit) wop" where
  "collect_domains domains = oforeach domains (\<lambda>d. merge_node LABEL_DOMAIN d [] SOURCE_HOME_ASSISTANT)"

definition collect_integrations :: "string list \<Rightarrow> ('z, unit) wop" where
  "collect_integrations integrations =
     oforeach integrations (\<lambda>i. merge_node LABEL_INTEGRATION i [(''name'', VStr i)] SOURCE_HOME_ASSISTANT)"

section \<open>The schema node, and clearing\<close>

definition schema_key :: nkey where
  "schema_key = (LABEL_ONTOLOGY_SCHEMA, SCHEMA_SINGLETON_ID)"

text \<open>\<open>ON CREATE SET\<close>: an existing node stays as it is.\<close>

definition ensure_schema_stmt :: "pval \<Rightarrow> graph \<Rightarrow> graph" where
  "ensure_schema_stmt now = merge_node_with schema_key (\<lambda>d. case d of
     None \<Rightarrow> set_props [] [(''version'', VStr SCHEMA_VERSION), (''updated_at'', now)]
   | Some x \<Rightarrow> x)"

definition ensure_schema_node :: "('z, unit) wop" where
  "ensure_schema_node = obind now_iso (\<lambda>now. run_query_with_retry (write_stmt (ensure_schema_stmt now)))"

definition schema_version :: "graph \<Rightarrow> pval option" where
  "schema_version g = map_option (\<lambda>d. dget d ''version'') (node g schema_key)"

text \<open>\<open>None\<close> when there is no schema node, and also when the node has no version.\<close>

definition get_schema_version :: "('z, pval) wop" where
  "get_schema_version = obind (run_query (read_stmt schema_version))
     (\<lambda>rows. oret (case rows of None \<Rightarrow> VNone | Some v \<Rightarrow> v))"

definition owned :: "dict \<Rightarrow> bool" where
  "owned d = (dget d ''source'' \<in> {VStr SOURCE_HOME_ASSISTANT, VStr SOURCE_GENERATED})"

definition clear_stmt :: "graph \<Rightarrow> graph" where
  "clear_stmt = detach_delete (\<lambda>k d. owned d \<and> fst k \<noteq> LABEL_ONTOLOGY_SCHEMA)"

definition clear_generated_graph :: "('z, unit) wop" where
  "clear_generated_graph = run_query_with_retry (write_stmt clear_stmt)"

section \<open>Single elements\<close>

definition delete_node_stmt :: "string \<Rightarrow> string \<Rightarrow> graph \<Rightarrow> graph" where
  "delete_node_stmt label ha_id = detach_delete (\<lambda>k d. k = (label, ha_id) \<and> owned d)"

definition delete_node :: "string \<Rightarrow> string \<Rightarrow> ('z, unit) wop" where
  "delete_node label ha_id = obind (sanitize_label label) (\<lambda>label.
     run_query_with_retry (write_stmt (delete_node_stmt label ha_id)))"

definition write_entity_node_and_relationships ::
  "hass \<Rightarrow> string \<Rightarrow> entity_sync_context option \<Rightarrow> ('z, unit) wop" where
  "write_entity_node_and_relationships h entity_id context =
     (let domain = domain_of entity_id in
      obind (entity_node_properties h entity_id context) (\<lambda>(props, mprops).
      oseq (run_query_with_retry (write_stmt (entity_write_stmt (entity_id, props, mprops))))
     (oseq (merge_node LABEL_DOMAIN domain [] SOURCE_HOME_ASSISTANT)
     (oseq (merge_relationship LABEL_ENTITY entity_id REL_IN_DOMAIN LABEL_DOMAIN domain SOURCE_HOME_ASSISTANT)
      (case get_entry h entity_id of
         None \<Rightarrow> oret ()
       | Some entry \<Rightarrow>
           oseq (owhen (present (en_device_id entry))
                  (merge_relationship LABEL_DEVICE (the (en_device_id entry)) REL_HAS_ENTITY
                     LABEL_ENTITY entity_id SOURCE_HOME_ASSISTANT))
          (oseq (run_query_with_retry (write_stmt (delete_area_edges_stmt entity_id)))
          (oseq (owhen (present (en_area_id entry))
                  (merge_relationship LABEL_ENTITY entity_id REL_HAS_AREA LABEL_AREA
                     (the (en_area_id entry)) SOURCE_HOME_ASSISTANT))
          (oseq (owhen (en_platform entry \<noteq> [])
                  (oseq (merge_node LABEL_INTEGRATION (en_platform entry)
                           [(''name'', VStr (en_platform entry))] SOURCE_HOME_ASSISTANT)
                    (merge_relationship LABEL_ENTITY entity_id REL_PROVIDED_BY LABEL_INTEGRATION
                       (en_platform entry) SOURCE_HOME_ASSISTANT)))
            (oforeach (en_labels entry) (\<lambda>label_id.
               merge_relationship LABEL_ENTITY entity_id REL_HAS_LABEL LABEL_LABEL label_id
                 SOURCE_HOME_ASSISTANT))))))))))"

definition update_entity_states_bulk ::
  "hass \<Rightarrow> (string \<times> entity_sync_context option) list \<Rightarrow> ('z, string list) wop" where
  "update_entity_states_bulk h contexts =
     obind (omap (\<lambda>(entity_id, context). obind (entity_node_properties h entity_id context)
              (\<lambda>(props, mprops). oret (entity_id, props, mprops))) contexts) (\<lambda>rows.
     obind (omap (\<lambda>chunk. run_query_with_retry (entity_states_stmt chunk)) (chunks rows)) (\<lambda>results.
       oret (concat results)))"

definition own_entity :: "hass \<Rightarrow> string \<Rightarrow> bool" where
  "own_entity h entity_id =
     (case get_entry h entity_id of Some e \<Rightarrow> en_platform e = DOMAIN | None \<Rightarrow> False)"

definition entity_gone :: "hass \<Rightarrow> string \<Rightarrow> bool" where
  "entity_gone h entity_id = (get_entry h entity_id = None \<and> get_state h entity_id = None)"

definition update_entity :: "hass \<Rightarrow> string \<Rightarrow> entity_sync_context option \<Rightarrow> ('z, unit) wop" where
  "update_entity h entity_id context =
     (if own_entity h entity_id then oret ()
      else if entity_gone h entity_id then delete_node LABEL_ENTITY entity_id
      else write_entity_node_and_relationships h entity_id context)"

definition update_device :: "hass \<Rightarrow> string \<Rightarrow> ('z, unit) wop" where
  "update_device h device_id =
     (case get_device h device_id of
        None \<Rightarrow> delete_node LABEL_DEVICE device_id
      | Some d \<Rightarrow>
          oseq (merge_node LABEL_DEVICE (dv_id d) (device_props d) SOURCE_HOME_ASSISTANT)
           (owhen (present (dv_area_id d))
             (merge_relationship LABEL_AREA (the (dv_area_id d)) REL_HAS_DEVICE LABEL_DEVICE (dv_id d)
                SOURCE_HOME_ASSISTANT)))"

definition update_area :: "hass \<Rightarrow> string \<Rightarrow> ('z, unit) wop" where
  "update_area h area_id =
     (case get_area h area_id of
        None \<Rightarrow> delete_node LABEL_AREA area_id
      | Some a \<Rightarrow>
          oseq (merge_node LABEL_AREA (ar_id a) [(''name'', VStr (ar_name a)), (''icon'', opt_str (ar_icon a))]
                  SOURCE_HOME_ASSISTANT)
         (oseq (merge_relationship LABEL_HOME HOME_SINGLETON_ID REL_HAS_AREA LABEL_AREA (ar_id a)
                  SOURCE_HOME_ASSISTANT)
           (owhen (present (ar_floor_id a))
             (merge_relationship LABEL_AREA (ar_id a) REL_ON_FLOOR LABEL_FLOOR (the (ar_floor_id a))
                SOURCE_HOME_ASSISTANT))))"

section \<open>Single writes under faults\<close>

text \<open>A second application of the same write changes nothing.\<close>

lemma merge_node_stmt_idem:
  "distinct (map fst props) \<Longrightarrow> merge_node_stmt l i props (merge_node_stmt l i props g) = merge_node_stmt l i props g"
  unfolding merge_node_stmt_def
  by (rule merge_node_with_twice) (simp add: or_empty_def set_props_twice)

text \<open>What \<open>merge_node\<close> does before its query, which may be to refuse the label.\<close>

lemma merge_node_calls:
  assumes "merge_node l i props s w = (r, w')"
  obtains "w_graph w' = w_graph w" "isl r"
  | u where "w_graph u = w_graph w"
      "run_query_with_retry (write_stmt (merge_node_stmt l i
         (dset ''updated_at'' (VTime (w_now w)) (dset ''source'' (VStr s) props)))) u = (r, w')"
proof (cases "fst (sanitize_label l w)")
  case (Inl e)
  then have "merge_node l i props s w = (Inl e, w)"
    by (auto simp: merge_node_def obind_def sanitize_label_def oraise_def oret_def Let_def split: if_splits)
  then show ?thesis using assms that(1) by simp
next
  case (Inr l')
  let ?u = "snd (utc_now w)"
  have "merge_node l i props s w = run_query_with_retry (write_stmt (merge_node_stmt l i
         (dset ''updated_at'' (VTime (w_now w)) (dset ''source'' (VStr s) props)))) ?u"
    using Inr by (simp add: merge_node_def Let_def obind_def sanitize_label_def now_iso_def utc_now_def oraise_def
        oret_def split: if_splits)
  moreover have "w_graph ?u = w_graph w" by (simp add: utc_now_def)
  ultimately show ?thesis using assms that(2) [of ?u] by simp
qed

section \<open>Writes under faults\<close>

lemma detach_delete_twice: "detach_delete p (detach_delete p g) = detach_delete p g"
proof -
  let ?g = "detach_delete p g"
  have none: "filter (\<lambda>(k, d). p k d) (g_nodes ?g) = []"
    by (simp add: detach_delete_def Let_def case_prod_unfold)
  moreover have "filter (\<lambda>(k, d). \<not> p k d) (g_nodes ?g) = g_nodes ?g"
    by (simp add: detach_delete_def Let_def case_prod_unfold)
  moreover have "filter (\<lambda>((a, t, b), d). True) rs = rs" for rs :: "(rkey \<times> dict) list"
    by (rule filter_True) auto
  ultimately show ?thesis unfolding detach_delete_def [of p ?g] Let_def by simp
qed

text \<open>
  C7. Whatever faults the server and the network show, \<open>merge_node\<close> applies its statement exactly once
  or not at all: retries of a write that was applied before its failure was seen change nothing more,
  the time stamp included, and when the call returns the statement has been applied.
\<close>

theorem merge_node_exactly_once:
  assumes "distinct (map fst props)" and "merge_node label ha_id props s w = (r, w')"
  shows "let stamped = dset ''updated_at'' (VTime (w_now w)) (dset ''source'' (VStr s) props);
             written = merge_node_stmt label ha_id stamped (w_graph w)
         in (w_graph w' = w_graph w \<or> w_graph w' = written) \<and> (r = Inr () \<longrightarrow> w_graph w' = written)"
proof -
  let ?p = "dset ''updated_at'' (VTime (w_now w)) (dset ''source'' (VStr s) props)"
  have idem: "snd (write_stmt (merge_node_stmt label ha_id ?p) (snd (write_stmt (merge_node_stmt label ha_id ?p) g)))
      = snd (write_stmt (merge_node_stmt label ha_id ?p) g)" for g
    using assms(1) by (simp add: merge_node_stmt_idem distinct_update)
  from assms(2) consider "w_graph w' = w_graph w" "isl r"
    | u where "w_graph u = w_graph w" "run_query_with_retry (write_stmt (merge_node_stmt label ha_id ?p)) u = (r, w')"
    by (rule merge_node_calls)
  then show ?thesis
  proof cases
    case 1
    then show ?thesis by auto
  next
    case 2
    then show ?thesis
      using retry_loop_applied [OF idem, of _ _ u r w'] by (auto simp: run_query_with_retry_def Let_def)
  qed
qed

theorem merge_node_exactly_once_witness:
  "let w = \<lparr>w_graph = empty_graph, w_net = [Down Timeout True, Down (Transient ''conflict'') False],
             w_now = 5, w_ticks = [1], w_sleeps = [], w_open = False\<rparr>;
       written = merge_node_stmt ''Area'' ''hall'' [(''name'', VStr ''Hall''), (''source'', VStr ''user''),
                   (''updated_at'', VTime 5)] empty_graph
   in w_graph (snd (merge_node ''Area'' ''hall'' [(''name'', VStr ''Hall'')] ''user'' w)) = empty_graph \<or>
      w_graph (snd (merge_node ''Area'' ''hall'' [(''name'', VStr ''Hall'')] ''user'' w)) = written"
  using merge_node_exactly_once [where label = "''Area''" and ha_id = "''hall''" and props = "[(''name'', VStr ''Hall'')]"
      and s = "''user''" and w = "\<lparr>w_graph = empty_graph, w_net = [Down Timeout True, Down (Transient ''conflict'') False],
             w_now = 5, w_ticks = [1], w_sleeps = [], w_open = False\<rparr>", OF _ surjective_pairing]
  by (simp add: Let_def)

text \<open>
  Clearing the graph before a rebuild removes, with their relationships, exactly the nodes Home
  Assistant or the integration owns, the schema node excepted; when it fails, the graph is as it was or
  cleared.
\<close>

theorem clear_removes_owned:
  assumes wf: "wf_graph (w_graph w)" and r: "clear_generated_graph w = (r, w')"
  shows "(r = Inr () \<longrightarrow> (\<forall>k. node (w_graph w') k =
      (case node (w_graph w) k of None \<Rightarrow> None
       | Some d \<Rightarrow> if owned d \<and> fst k \<noteq> LABEL_ONTOLOGY_SCHEMA then None else Some d))) \<and>
    (w_graph w' = w_graph w \<or> w_graph w' = clear_stmt (w_graph w))"
proof -
  have "snd (write_stmt clear_stmt (snd (write_stmt clear_stmt g))) = snd (write_stmt clear_stmt g)" for g
    by (simp add: clear_stmt_def detach_delete_twice)
  from retry_loop_applied [OF this] r
  have "(w_graph w' = w_graph w \<or> w_graph w' = clear_stmt (w_graph w)) \<and> (isl r \<or> w_graph w' = clear_stmt (w_graph w))"
    by (simp add: clear_generated_graph_def run_query_with_retry_def)
  moreover have "node (clear_stmt (w_graph w)) k = (case node (w_graph w) k of None \<Rightarrow> None
       | Some d \<Rightarrow> if owned d \<and> fst k \<noteq> LABEL_ONTOLOGY_SCHEMA then None else Some d)" for k
    unfolding clear_stmt_def by (rule node_detach_delete [OF wf_nodes_distinct [OF wf]])
  ultimately show ?thesis by auto
qed

theorem clear_removes_owned_witness:
  "let g = \<lparr>g_nodes = [((LABEL_AREA, ''hall''), [(''source'', VStr SOURCE_HOME_ASSISTANT)]),
         ((LABEL_ENERGY_ROLE_ASSIGNMENT, ''a''), [(''source'', VStr SOURCE_USER)])], g_rels = [], g_indexes = []\<rparr>
   in w_graph (snd (clear_generated_graph (world_at g [Down Timeout False]))) = g \<or>
      w_graph (snd (clear_generated_graph (world_at g [Down Timeout False]))) = clear_stmt g"
proof -
  let ?g = "\<lparr>g_nodes = [((LABEL_AREA, ''hall''), [(''source'', VStr SOURCE_HOME_ASSISTANT)]),
         ((LABEL_ENERGY_ROLE_ASSIGNMENT, ''a''), [(''source'', VStr SOURCE_USER)])], g_rels = [], g_indexes = []\<rparr>"
  have "wf_graph ?g" by code_simp
  then show ?thesis
    using clear_removes_owned [of "world_at ?g [Down Timeout False]", OF _ surjective_pairing]
    by (simp add: world_at_def Let_def)
qed

section \<open>Batches\<close>

lemma healthy_retry_write:
  "w_net w = [] \<Longrightarrow> \<exists>w'. run_query_with_retry (write_stmt f) w = (Inr (), w') \<and> w_net w' = [] \<and> w_graph w' = f (w_graph w)"
  by (simp add: run_query_with_retry_def RETRY_MAX_ATTEMPTS_def eval_nat_numeral run_query_eq write_stmt_def)

lemma unwind_append: "unwind f (c @ d) g = unwind f d (unwind f c g)"
  by (simp add: unwind_def)

lemma batches_healthy:
  "w_net w = [] \<Longrightarrow> \<exists>w'. oforeach cs (\<lambda>c. run_query_with_retry (write_stmt (unwind f c))) w = (Inr (), w') \<and>
     w_graph w' = unwind f (concat cs) (w_graph w)"
proof (induction cs arbitrary: w)
  case Nil
  then show ?case by (simp add: unwind_def)
next
  case (Cons c cs)
  obtain u where u: "run_query_with_retry (write_stmt (unwind f c)) w = (Inr (), u)" "w_net u = []"
    "w_graph u = unwind f c (w_graph w)"
    using healthy_retry_write [OF Cons.prems] by blast
  then show ?case using Cons.IH [OF u(2)] by (auto simp: oseq_apply unwind_append)
qed

lemma chunks_concat: "0 < n \<Longrightarrow> concat (chunks_of n xs) = xs"
proof (induction n xs rule: chunks_of.induct)
  case (1 n xs)
  show ?case
  proof (cases "xs = []")
    case True
    then show ?thesis by (simp add: chunks_of.simps)
  next
    case False
    then show ?thesis using 1 by (simp add: chunks_of.simps [of n xs])
  qed
qed

lemma concat_chunks: "concat (chunks rows) = rows"
  by (simp add: chunks_def BULK_BATCH_SIZE_def chunks_concat)

text \<open>
  C20. Writing nodes in batches is writing them one by one: with a database that answers, the bulk merge of
  any number of nodes leaves the graph that merging each of them in turn, with the same time stamp,
  leaves.
\<close>

theorem bulk_merge_is_sequential:
  assumes "w_net w = []" and "sanitize_label label w = (Inr label, w)"
  shows "\<exists>w'. merge_nodes_bulk label nodes s w = (Inr (), w') \<and>
    w_graph w' = fold (\<lambda>(ha_id, props). merge_node_stmt label ha_id
       (dset ''updated_at'' (VTime (w_now w)) (dset ''source'' (VStr s) props))) nodes (w_graph w)"
proof -
  let ?row = "\<lambda>(ha_id, props). (ha_id, dset ''updated_at'' (VTime (w_now w)) (dset ''source'' (VStr s) props))"
  have "w_net (snd (utc_now w)) = []" using assms(1) by (simp add: utc_now_def)
  from batches_healthy [OF this, where f = "\<lambda>(ha_id, props). merge_node_stmt label ha_id props" and cs = "chunks (map ?row nodes)"]
  show ?thesis
    unfolding merge_nodes_bulk_def obind_Inr [where m = "sanitize_label label" and s = w, OF assms(2)] obind_Inr [OF now_iso_step] Let_def
    by (auto simp: concat_chunks unwind_def fold_map comp_def case_prod_unfold)
qed

theorem bulk_merge_is_sequential_witness:
  "\<exists>w'. merge_nodes_bulk LABEL_AREA [(''hall'', []), (''bath'', [])] SOURCE_HOME_ASSISTANT (world_at empty_graph []) = (Inr (), w') \<and>
     map fst (g_nodes (w_graph w')) = [(LABEL_AREA, ''hall''), (LABEL_AREA, ''bath'')]"
proof -
  have "sanitize_label LABEL_AREA (world_at empty_graph []) = (Inr LABEL_AREA, world_at empty_graph [])"
    by code_simp
  then show ?thesis
    using bulk_merge_is_sequential [of "world_at empty_graph []" LABEL_AREA "[(''hall'', []), (''bath'', [])]" SOURCE_HOME_ASSISTANT]
    by (auto simp: world_at_def merge_node_stmt_def merge_node_with_def empty_graph_def upsert_def)
qed

end
