(* ===== verification/Graph_Frames.thy ===== *)
theory Graph_Frames
  imports Graph_Builder
begin

text \<open>
  The interface between the graph and the components that write it.  A predicate of the graph that
  survives the statements of \<open>graph_builder.py\<close> survives every discovery and every single-element
  update built from them; the locale \<open>merge_invariant\<close> states the laws for the writes, and
  \<open>owner_invariant\<close> adds the deletion of what the integration owns.  The laws are discharged for
  well-formedness, for the \<open>source\<close> bookkeeping, for user energy roles and for user overrides.
\<close>

section \<open>Facts about the statements\<close>

text \<open>
  The writes every module may make: not the user's energy roles, not the user's overrides, and no
  relationship to the schema node, which carries no source.
\<close>

definition plain_label :: "string \<Rightarrow> bool" where
  "plain_label l \<longleftrightarrow> l \<noteq> LABEL_ENERGY_ROLE_ASSIGNMENT"

definition plain_rel :: "string \<Rightarrow> string \<Rightarrow> string \<Rightarrow> bool" where
  "plain_rel fl t el \<longleftrightarrow> t \<noteq> REL_OVERRIDE_OF \<and> fl \<noteq> LABEL_ONTOLOGY_SCHEMA \<and> el \<noteq> LABEL_ONTOLOGY_SCHEMA"

lemma sanitize_label_result: "sanitize_label l s = (Inr l', t) \<Longrightarrow> l' = l"
  by (auto simp: sanitize_label_def Let_def split: if_splits)

lemma dset_keys: "fst ` set (dset k v d) = insert k (fst ` set d)"
  by (simp add: dom_update)

lemma dset_mem: "distinct (map fst d) \<Longrightarrow> (k, v) \<in> set (dset k v d)"
  by (induction d) auto

lemma dset_keeps_mem: "(j, x) \<in> set d \<Longrightarrow> j \<noteq> k \<Longrightarrow> (j, x) \<in> set (dset k v d)"
  by (induction d) auto

lemma stamped_source:
  assumes "distinct (map fst props)"
  shows "dget (set_props d (dset ''updated_at'' now (dset ''source'' (VStr s) props))) ''source'' = VStr s"
proof -
  let ?p = "dset ''updated_at'' now (dset ''source'' (VStr s) props)"
  have "distinct (map fst ?p)" using assms by (simp add: distinct_update)
  moreover have "(''source'', VStr s) \<in> set ?p"
    using dset_mem [OF assms] by (auto intro: dset_keeps_mem)
  ultimately show ?thesis by (rule dget_set_props)
qed

lemma stamped_sourced:
  "distinct (map fst props) \<Longrightarrow>
   sourced (set_props d (dset ''updated_at'' now (dset ''source'' (VStr s) props)))"
  by (simp add: sourced_def stamped_source)

lemma rel_stamped_source:
  "''source'' \<notin> fst ` set extra \<Longrightarrow>
   dget (set_props (set_props d [(''source'', VStr s), (''updated_at'', now)]) extra) ''source'' = VStr s"
  by (simp add: dget_set_props_absent)

text \<open>The properties of an entity node end with its source, and no measurement is called that.\<close>

definition entity_row_ok :: "string \<times> dict \<times> dict \<Rightarrow> bool" where
  "entity_row_ok row \<longleftrightarrow> (\<exists>i p now m. row = (i, p @ [(''source'', VStr SOURCE_HOME_ASSISTANT), (''updated_at'', now)], m)
     \<and> fst ` set m \<subseteq> set measurement_keys)"

lemma source_not_measurement: "''source'' \<notin> set measurement_keys"
  by (simp add: measurement_keys_def const_defs)

lemma entity_node_properties_ok:
  "entity_node_properties h e c s = (Inr (p, m), t) \<Longrightarrow> entity_row_ok (i, p, m)"
  using normalize_keys
  by (auto simp: entity_node_properties_def Let_def entity_row_ok_def obind_def oret_def
      split: prod.splits sum.splits option.splits)

lemma entity_props_sourced:
  "entity_row_ok (i, p, m) \<Longrightarrow> sourced (entity_props p m d)"
proof -
  assume "entity_row_ok (i, p, m)"
  then obtain q now where p: "p = q @ [(''source'', VStr SOURCE_HOME_ASSISTANT), (''updated_at'', now)]"
    and m: "fst ` set m \<subseteq> set measurement_keys"
    by (auto simp: entity_row_ok_def)
  have "''source'' \<notin> fst ` set m" using m source_not_measurement by auto
  then show ?thesis
    by (simp add: entity_props_def sourced_def p set_props_append dget_set_props_absent)
qed

lemma chunks_of_subset: "c \<in> set (chunks_of n xs) \<Longrightarrow> set c \<subseteq> set xs"
proof (induction n xs rule: chunks_of.induct)
  case (1 n xs)
  from "1.prems" have ne: "\<not> (xs = [] \<or> n = 0)" by (auto simp: chunks_of.simps [of n xs] split: if_splits)
  with "1.prems" consider "c = take n xs" | "c \<in> set (chunks_of n (drop n xs))"
    by (auto simp: chunks_of.simps [of n xs])
  then show ?case
  proof cases
    case 1
    then show ?thesis by (simp add: set_take_subset)
  next
    case 2
    then show ?thesis using "1.IH" [OF ne] set_drop_subset [of n xs] by blast
  qed
qed

lemma chunk_length: "c \<in> set (chunks_of n xs) \<Longrightarrow> length c \<le> n \<and> c \<noteq> []"
proof (induction n xs rule: chunks_of.induct)
  case (1 n xs)
  then show ?case by (auto simp: chunks_of.simps [of n xs] split: if_splits)
qed

lemma unwind_invariant:
  "I g \<Longrightarrow> (\<And>r g. r \<in> set rows \<Longrightarrow> I g \<Longrightarrow> I (f r g)) \<Longrightarrow> I (unwind f rows g)"
  unfolding unwind_def by (induction rows arbitrary: g) auto

section \<open>The contract of the writes\<close>

locale merge_invariant =
  fixes I :: "graph \<Rightarrow> bool"
  assumes merge_node_law:
      "I g \<Longrightarrow> plain_label (fst k) \<Longrightarrow> (\<And>d. sourced (f d)) \<Longrightarrow> I (merge_node_with k f g)"
    and set_node_law:
      "I g \<Longrightarrow> plain_label (fst k) \<Longrightarrow> (\<And>d. sourced (h d)) \<Longrightarrow> I (set_node_with k h g)"
    and merge_rel_law:
      "I g \<Longrightarrow> plain_rel (fst (fst r)) (fst (snd r)) (fst (snd (snd r))) \<Longrightarrow> (\<And>d. sourced (f d)) \<Longrightarrow> I (merge_rel_with r f g)"
    and area_edges_law: "I g \<Longrightarrow> I (delete_area_edges_stmt e g)"
    and schema_law: "I g \<Longrightarrow> I (ensure_schema_stmt now g)"
begin

lemma sanitize_keeps: "keeps P (sanitize_label l)"
  by (auto simp: sanitize_label_def Let_def intro: keeps_intros)

lemma now_iso_keeps: "keeps (\<lambda>w. I (w_graph w)) now_iso"
  unfolding now_iso_def by (intro keeps_intros)

lemma merge_node_stmt_keeps:
  "I g \<Longrightarrow> plain_label l \<Longrightarrow> distinct (map fst props) \<Longrightarrow>
   I (merge_node_stmt l i (dset ''updated_at'' now (dset ''source'' (VStr s) props)) g)"
  unfolding merge_node_stmt_def by (rule merge_node_law) (simp_all add: stamped_sourced)

lemma merge_rel_stmt_keeps:
  "I g \<Longrightarrow> plain_rel (fst (fst k)) (fst (snd k)) (fst (snd (snd k))) \<Longrightarrow> ''source'' \<notin> fst ` set extra \<Longrightarrow>
   I (merge_rel_stmt k s now extra g)"
  unfolding merge_rel_stmt_def
  by (rule merge_rel_law) (simp_all add: sourced_def dget_set_props_absent)

lemma merge_node_keeps:
  assumes "plain_label l" and "distinct (map fst props)"
  shows "keeps (\<lambda>w. I (w_graph w)) (merge_node l i props s)"
  unfolding merge_node_def Let_def
  using assms by (intro keeps_obind_result [OF sanitize_keeps] keeps_obind now_iso_keeps
      keeps_graph_run_query_with_retry) (auto dest: sanitize_label_result simp: merge_node_stmt_keeps)

lemma merge_relationship_keeps:
  assumes "plain_rel fl t el" and "''source'' \<notin> fst ` set props"
  shows "keeps (\<lambda>w. I (w_graph w)) (merge_relationship_with fl fi t el ei s props)"
  unfolding merge_relationship_with_def
  using assms by (intro keeps_obind_result [OF sanitize_keeps] keeps_obind now_iso_keeps
      keeps_graph_run_query_with_retry) (auto dest!: sanitize_label_result simp: merge_rel_stmt_keeps)

lemma bulk_node_step:
  assumes "I g" and "plain_label l" and "\<And>i p. (i, p) \<in> set nodes \<Longrightarrow> distinct (map fst p)"
    and "row \<in> set (map (\<lambda>(i, p). (i, dset ''updated_at'' now (dset ''source'' (VStr s) p))) nodes)"
  shows "I ((\<lambda>(i, p). merge_node_stmt l i p) row g)"
proof -
  from assms(4) obtain i p where "(i, p) \<in> set nodes"
    and row: "row = (i, dset ''updated_at'' now (dset ''source'' (VStr s) p))" by auto
  then have "distinct (map fst p)" using assms(3) by blast
  then show ?thesis unfolding row prod.case by (rule merge_node_stmt_keeps [OF assms(1,2)])
qed

lemma merge_nodes_bulk_keeps:
  assumes l: "plain_label l" and nodes: "\<And>i p. (i, p) \<in> set nodes \<Longrightarrow> distinct (map fst p)"
  shows "keeps (\<lambda>w. I (w_graph w)) (merge_nodes_bulk l nodes s)"
  unfolding merge_nodes_bulk_def Let_def
proof (rule keeps_obind_result [OF sanitize_keeps], rule keeps_obind [OF now_iso_keeps],
    rule keeps_oforeach_mem, rule keeps_graph_run_query_with_retry, unfold snd_write_stmt)
  fix u l' t now chunk g
  assume "sanitize_label l u = (Inr l', t)" and g: "I g"
    and "chunk \<in> set (chunks (map (\<lambda>(i, p). (i, dset ''updated_at'' now (dset ''source'' (VStr s) p))) nodes))"
  then have "l' = l" and sub: "set chunk \<subseteq> set (map (\<lambda>(i, p). (i, dset ''updated_at'' now (dset ''source'' (VStr s) p))) nodes)"
    using chunks_of_subset unfolding chunks_def by (blast dest: sanitize_label_result)+
  show "I (unwind (\<lambda>(i, p). merge_node_stmt l' i p) chunk g)"
    unfolding \<open>l' = l\<close>
    by (rule unwind_invariant [where I = I, OF g], erule bulk_node_step [OF _ l nodes subsetD [OF sub]])
qed

lemma merge_relationships_bulk_keeps:
  assumes t: "plain_rel fl t el"
  shows "keeps (\<lambda>w. I (w_graph w)) (merge_relationships_bulk fl t el pairs s)"
  unfolding merge_relationships_bulk_def
proof (rule keeps_obind_result [OF sanitize_keeps], rule keeps_obind_result [OF sanitize_keeps],
    rule keeps_obind_result [OF sanitize_keeps], rule keeps_obind [OF now_iso_keeps],
    rule keeps_oforeach, rule keeps_graph_run_query_with_retry, unfold snd_write_stmt)
  fix u1 fl' v1 u2 el' v2 u3 t' v3 now chunk g
  assume "sanitize_label fl u1 = (Inr fl', v1)" "sanitize_label el u2 = (Inr el', v2)"
    "sanitize_label t u3 = (Inr t', v3)" and g: "I g"
  then have "plain_rel fl' t' el'" using t by (auto dest!: sanitize_label_result)
  then show "I (unwind (\<lambda>(a, b). merge_rel_stmt ((fl', a), t', el', b) s now []) chunk g)"
    by (intro unwind_invariant [where I = I, OF g]) (auto intro: merge_rel_stmt_keeps)
qed

lemma entity_write_stmt_keeps: "I g \<Longrightarrow> entity_row_ok row \<Longrightarrow> I (entity_write_stmt row g)"
  unfolding entity_write_stmt_def
  by (cases row) (auto intro!: merge_node_law entity_props_sourced simp: plain_label_def const_defs)

lemma entity_state_stmt_keeps: "I g \<Longrightarrow> entity_row_ok row \<Longrightarrow> I (entity_state_stmt row g)"
  unfolding entity_state_stmt_def
  by (cases row) (auto intro!: set_node_law entity_props_sourced simp: plain_label_def const_defs)

lemma entity_node_properties_keeps: "keeps (\<lambda>w. I (w_graph w)) (entity_node_properties h e c)"
  unfolding entity_node_properties_def Let_def by (intro keeps_obind now_iso_keeps keeps_oret)

lemma entity_rows_ok:
  assumes "omap (\<lambda>x. obind (entity_node_properties h (i x) (c x)) (\<lambda>(p, m). oret (i x, p, m))) xs s = (Inr rows, t)"
    and "chunk \<in> set (chunks rows)" and "row \<in> set chunk"
  shows "entity_row_ok row"
proof -
  have "row \<in> set rows" using assms(2,3) chunks_of_subset unfolding chunks_def by blast
  from omap_result [OF assms(1) this] show ?thesis
    by (auto elim!: obind_result dest: entity_node_properties_ok split: prod.splits)
qed

lemma collect_entity_nodes_keeps: "keeps (\<lambda>w. I (w_graph w)) (collect_entity_nodes h entries)"
  unfolding collect_entity_nodes_def
  by (intro keeps_obind_result keeps_omap keeps_obind entity_node_properties_keeps keeps_case_prod keeps_oret
      keeps_oforeach_mem keeps_graph_run_query_with_retry)
    (auto intro!: unwind_invariant [where I = I] entity_write_stmt_keeps elim!: entity_rows_ok)

lemma delete_area_edges_keeps:
  "keeps (\<lambda>w. I (w_graph w)) (run_query_with_retry (write_stmt (delete_area_edges_stmt e)))"
  by (rule keeps_graph_run_query_with_retry) (simp add: area_edges_law)

lemmas plain_defs = plain_label_def plain_rel_def const_defs

lemma collect_entity_edges_keeps: "keeps (\<lambda>w. I (w_graph w)) (collect_entity_edges entries)"
  unfolding collect_entity_edges_def
  by (intro keeps_oseq keeps_oforeach merge_relationships_bulk_keeps keeps_graph_run_query_with_retry)
    (auto intro!: unwind_invariant [where I = I] area_edges_law simp: plain_defs)

lemma collect_floors_keeps: "keeps (\<lambda>w. I (w_graph w)) (collect_floors h)"
  unfolding collect_floors_def Let_def
  by (intro keeps_oseq keeps_oret merge_relationships_bulk_keeps merge_nodes_bulk_keeps)
    (auto simp: plain_defs)

lemma collect_areas_keeps: "keeps (\<lambda>w. I (w_graph w)) (collect_areas h)"
  unfolding collect_areas_def Let_def
  by (intro keeps_oseq keeps_oret merge_relationships_bulk_keeps merge_nodes_bulk_keeps)
    (auto simp: plain_defs)

lemma collect_devices_keeps: "keeps (\<lambda>w. I (w_graph w)) (collect_devices h)"
  unfolding collect_devices_def Let_def
  by (intro keeps_oseq keeps_oret merge_relationships_bulk_keeps merge_nodes_bulk_keeps)
    (auto simp: plain_defs device_props_def)

lemma collect_labels_keeps: "keeps (\<lambda>w. I (w_graph w)) (collect_labels h)"
  unfolding collect_labels_def Let_def
  by (intro keeps_oseq keeps_oret merge_nodes_bulk_keeps) (auto simp: plain_defs)

lemma collect_entities_keeps: "keeps (\<lambda>w. I (w_graph w)) (collect_entities h)"
  unfolding collect_entities_def Let_def
  by (intro keeps_oseq keeps_oret collect_entity_nodes_keeps collect_entity_edges_keeps
      merge_nodes_bulk_keeps) (auto simp: plain_defs)

lemma referenced_entity_ids_keeps: "keeps P (referenced_entity_ids h d e)"
  by (auto simp: referenced_entity_ids_def intro: keeps_intros split: option.splits pval.splits)

lemma collect_referencing_domain_keeps:
  assumes "plain_label l" and "plain_rel l t LABEL_ENTITY"
  shows "keeps (\<lambda>w. I (w_graph w)) (collect_referencing_domain h d l t)"
  unfolding collect_referencing_domain_def Let_def
  using assms by (intro keeps_omap keeps_oseq keeps_obind keeps_oforeach keeps_oret
      referenced_entity_ids_keeps merge_node_keeps merge_relationship_keeps) auto

lemma ensure_home_node_keeps: "keeps (\<lambda>w. I (w_graph w)) ensure_home_node"
  unfolding ensure_home_node_def by (rule merge_node_keeps) (simp_all add: plain_defs)

lemma ensure_schema_node_keeps: "keeps (\<lambda>w. I (w_graph w)) ensure_schema_node"
  unfolding ensure_schema_node_def
  by (intro keeps_obind now_iso_keeps keeps_graph_run_query_with_retry) (simp add: schema_law)

lemma collect_domains_keeps: "keeps (\<lambda>w. I (w_graph w)) (collect_domains ds)"
  unfolding collect_domains_def by (intro keeps_oforeach merge_node_keeps) (simp_all add: plain_defs)

lemma collect_integrations_keeps: "keeps (\<lambda>w. I (w_graph w)) (collect_integrations ds)"
  unfolding collect_integrations_def by (intro keeps_oforeach merge_node_keeps) (simp_all add: plain_defs)

lemma collect_scripts_keeps:
  "keeps (\<lambda>w. I (w_graph w)) (collect_automations h)"
  "keeps (\<lambda>w. I (w_graph w)) (collect_scenes h)"
  "keeps (\<lambda>w. I (w_graph w)) (collect_scripts h)"
  unfolding collect_automations_def collect_scenes_def collect_scripts_def
  by (rule collect_referencing_domain_keeps; simp add: plain_defs)+

lemma write_entity_keeps: "keeps (\<lambda>w. I (w_graph w)) (write_entity_node_and_relationships h e c)"
  unfolding write_entity_node_and_relationships_def Let_def
  by (rule keeps_obind_result [OF entity_node_properties_keeps], clarsimp split: prod.splits,
      intro keeps_oseq keeps_case_option keeps_oret keeps_owhen keeps_oforeach
        merge_node_keeps merge_relationship_keeps delete_area_edges_keeps
        keeps_graph_run_query_with_retry)
    (auto simp: plain_defs intro!: entity_write_stmt_keeps entity_node_properties_ok)

lemma update_entity_states_bulk_keeps: "keeps (\<lambda>w. I (w_graph w)) (update_entity_states_bulk h cs)"
  unfolding update_entity_states_bulk_def case_prod_unfold
proof (rule keeps_obind_result)
  show "keeps (\<lambda>w. I (w_graph w)) (omap (\<lambda>x. obind (entity_node_properties h (fst x) (snd x))
      (\<lambda>y. oret (fst x, fst y, snd y))) cs)"
    by (intro keeps_omap keeps_obind entity_node_properties_keeps keeps_oret)
  fix s rows and t :: "'b world_scheme"
  assume r: "omap (\<lambda>x. obind (entity_node_properties h (fst x) (snd x))
      (\<lambda>y. oret (fst x, fst y, snd y))) cs s = (Inr rows, t)"
  have ok: "entity_row_ok row" if "chunk \<in> set (chunks rows)" "row \<in> set chunk" for chunk row
    using entity_rows_ok [of h fst snd cs s rows t] r that by (simp add: case_prod_unfold)
  have "keeps (\<lambda>w. I (w_graph w)) (run_query_with_retry (entity_states_stmt chunk))"
    if "chunk \<in> set (chunks rows)" for chunk
  proof (rule keeps_graph_run_query_with_retry)
    fix g assume g: "I g"
    show "I (snd (entity_states_stmt chunk g))"
      unfolding entity_states_stmt_def snd_conv
      by (rule unwind_invariant [where I = I, OF g]) (rule entity_state_stmt_keeps [OF _ ok [OF that]])
  qed
  then have "keeps (\<lambda>w. I (w_graph w)) (omap (\<lambda>chunk. run_query_with_retry (entity_states_stmt chunk)) (chunks rows))"
    by (rule keeps_omap_mem)
  then show "keeps (\<lambda>w. I (w_graph w)) (obind (omap (\<lambda>chunk. run_query_with_retry (entity_states_stmt chunk)) (chunks rows))
      (\<lambda>results. oret (concat results)))"
    by (intro keeps_obind keeps_oret)
qed

end

locale owner_invariant = merge_invariant +
  assumes delete_owned_law: "I g \<Longrightarrow> I (detach_delete (\<lambda>k d. P k \<and> owned d) g)"
begin

lemma delete_node_keeps: "keeps (\<lambda>w. I (w_graph w)) (delete_node l i)"
  unfolding delete_node_def delete_node_stmt_def
  by (intro keeps_obind_result [OF sanitize_keeps] keeps_graph_run_query_with_retry)
    (simp add: delete_owned_law)

lemma clear_generated_graph_keeps: "keeps (\<lambda>w. I (w_graph w)) clear_generated_graph"
  unfolding clear_generated_graph_def clear_stmt_def
  using delete_owned_law [of _ "\<lambda>k. fst k \<noteq> LABEL_ONTOLOGY_SCHEMA"]
  by (intro keeps_graph_run_query_with_retry) (simp add: conj_commute)

lemma update_entity_keeps: "keeps (\<lambda>w. I (w_graph w)) (update_entity h e c)"
  unfolding update_entity_def by (intro keeps_if keeps_oret delete_node_keeps write_entity_keeps)

lemma update_device_keeps: "keeps (\<lambda>w. I (w_graph w)) (update_device h d)"
  unfolding update_device_def
  by (intro keeps_case_option keeps_oseq keeps_owhen delete_node_keeps merge_node_keeps
      merge_relationship_keeps) (auto simp: plain_defs device_props_def)

lemma update_area_keeps: "keeps (\<lambda>w. I (w_graph w)) (update_area h a)"
  unfolding update_area_def
  by (intro keeps_case_option keeps_oseq keeps_owhen delete_node_keeps merge_node_keeps
      merge_relationship_keeps) (auto simp: plain_defs)

end

section \<open>Well-formedness\<close>

interpretation wf_frame: owner_invariant wf_graph
  by unfold_locales
    (simp_all add: wf_merge_node_with wf_set_node_with wf_merge_rel_with wf_delete_rels
      wf_detach_delete delete_area_edges_stmt_def ensure_schema_stmt_def)

section \<open>The source bookkeeping\<close>

text \<open>
  Every node but the schema node carries a \<open>source\<close>, and so does every relationship; none of them
  ends in the schema node.
\<close>

definition valid_sources :: "graph \<Rightarrow> bool" where
  "valid_sources g \<longleftrightarrow> wf_graph g \<and>
     (\<forall>k d. node g k = Some d \<longrightarrow> fst k = LABEL_ONTOLOGY_SCHEMA \<or> sourced d) \<and>
     (\<forall>k d. rel g k = Some d \<longrightarrow>
        sourced d \<and> fst (fst k) \<noteq> LABEL_ONTOLOGY_SCHEMA \<and> fst (snd (snd k)) \<noteq> LABEL_ONTOLOGY_SCHEMA)"

lemma valid_sourcesI:
  assumes "wf_graph g"
    and "\<And>k d. node g k = Some d \<Longrightarrow> fst k = LABEL_ONTOLOGY_SCHEMA \<or> sourced d"
    and "\<And>k d. rel g k = Some d \<Longrightarrow>
      sourced d \<and> fst (fst k) \<noteq> LABEL_ONTOLOGY_SCHEMA \<and> fst (snd (snd k)) \<noteq> LABEL_ONTOLOGY_SCHEMA"
  shows "valid_sources g"
  using assms unfolding valid_sources_def by blast

lemma valid_sourcesD:
  assumes "valid_sources g"
  shows "wf_graph g" "node g k = Some d \<Longrightarrow> fst k = LABEL_ONTOLOGY_SCHEMA \<or> sourced d"
    "rel g j = Some x \<Longrightarrow>
      sourced x \<and> fst (fst j) \<noteq> LABEL_ONTOLOGY_SCHEMA \<and> fst (snd (snd j)) \<noteq> LABEL_ONTOLOGY_SCHEMA"
  using assms unfolding valid_sources_def by blast+

lemma valid_merge_node:
  assumes v: "valid_sources g" and f: "fst k = LABEL_ONTOLOGY_SCHEMA \<or> (\<forall>d. sourced (f d))"
  shows "valid_sources (merge_node_with k f g)"
proof (rule valid_sourcesI [OF wf_merge_node_with [OF valid_sourcesD(1) [OF v]]])
  fix c d assume "node (merge_node_with k f g) c = Some d"
  then show "fst c = LABEL_ONTOLOGY_SCHEMA \<or> sourced d"
    using valid_sourcesD(2) [OF v, of c d] f by (auto split: if_splits)
qed (simp add: valid_sourcesD(3) [OF v])

lemma valid_set_node:
  assumes v: "valid_sources g" and f: "\<And>d. sourced (f d)"
  shows "valid_sources (set_node_with k f g)"
proof (rule valid_sourcesI [OF wf_set_node_with [OF valid_sourcesD(1) [OF v]]])
  fix c d assume "node (set_node_with k f g) c = Some d"
  then show "fst c = LABEL_ONTOLOGY_SCHEMA \<or> sourced d"
    using valid_sourcesD(2) [OF v, of c d] f by (auto split: if_splits)
qed (simp add: valid_sourcesD(3) [OF v])

lemma valid_merge_rel:
  assumes v: "valid_sources g" and f: "\<And>d. sourced (f d)"
    and k: "fst (fst k) \<noteq> LABEL_ONTOLOGY_SCHEMA" "fst (snd (snd k)) \<noteq> LABEL_ONTOLOGY_SCHEMA"
  shows "valid_sources (merge_rel_with k f g)"
proof (rule valid_sourcesI [OF wf_merge_rel_with [OF valid_sourcesD(1) [OF v]]])
  fix j d assume "rel (merge_rel_with k f g) j = Some d"
  then consider "rel g j = Some d" | "j = k" "sourced d"
    using f by (auto simp: rel_merge_rel_with split: if_splits)
  then show "sourced d \<and> fst (fst j) \<noteq> LABEL_ONTOLOGY_SCHEMA \<and> fst (snd (snd j)) \<noteq> LABEL_ONTOLOGY_SCHEMA"
    by cases (use valid_sourcesD(3) [OF v] k in blast)+
next
  fix c d assume "node (merge_rel_with k f g) c = Some d"
  then show "fst c = LABEL_ONTOLOGY_SCHEMA \<or> sourced d" using valid_sourcesD(2) [OF v, of c d] by simp
qed

lemma valid_delete_rels:
  assumes v: "valid_sources g"
  shows "valid_sources (delete_rels p g)"
proof (rule valid_sourcesI [OF wf_delete_rels [OF valid_sourcesD(1) [OF v]]])
  fix j d assume "rel (delete_rels p g) j = Some d"
  then have "rel g j = Some d"
    by (simp add: rel_delete_rels [OF valid_sourcesD(1) [OF v]] split: option.splits if_splits)
  then show "sourced d \<and> fst (fst j) \<noteq> LABEL_ONTOLOGY_SCHEMA \<and> fst (snd (snd j)) \<noteq> LABEL_ONTOLOGY_SCHEMA"
    by (rule valid_sourcesD(3) [OF v])
next
  fix c d assume "node (delete_rels p g) c = Some d"
  then show "fst c = LABEL_ONTOLOGY_SCHEMA \<or> sourced d" using valid_sourcesD(2) [OF v, of c d] by simp
qed

lemma valid_detach_delete:
  assumes v: "valid_sources g"
  shows "valid_sources (detach_delete p g)"
proof (rule valid_sourcesI [OF wf_detach_delete [OF valid_sourcesD(1) [OF v]]])
  fix c d assume "node (detach_delete p g) c = Some d"
  then have "node g c = Some d"
    by (simp add: node_detach_delete [OF wf_nodes_distinct [OF valid_sourcesD(1) [OF v]]]
        split: option.splits if_splits)
  then show "fst c = LABEL_ONTOLOGY_SCHEMA \<or> sourced d" by (rule valid_sourcesD(2) [OF v])
next
  fix j d assume "rel (detach_delete p g) j = Some d"
  then have "rel g j = Some d" using rel_detach_delete [OF valid_sourcesD(1) [OF v]] by blast
  then show "sourced d \<and> fst (fst j) \<noteq> LABEL_ONTOLOGY_SCHEMA \<and> fst (snd (snd j)) \<noteq> LABEL_ONTOLOGY_SCHEMA"
    by (rule valid_sourcesD(3) [OF v])
qed

interpretation source_frame: owner_invariant valid_sources
  by unfold_locales
    (simp_all add: valid_merge_node valid_set_node valid_merge_rel valid_delete_rels
      valid_detach_delete delete_area_edges_stmt_def ensure_schema_stmt_def schema_key_def plain_rel_def)

section \<open>What belongs to the user\<close>

text \<open>The user's energy roles: the nodes of that label whose source is the user.\<close>

definition user_role :: "dict option \<Rightarrow> dict option" where
  "user_role v = Option.bind v (\<lambda>d. if dget d ''source'' = VStr SOURCE_USER then Some d else None)"

definition user_roles :: "graph \<Rightarrow> nkey \<Rightarrow> dict option" where
  "user_roles g k = (if fst k = LABEL_ENERGY_ROLE_ASSIGNMENT then user_role (node g k) else None)"

definition roles_kept :: "(nkey \<Rightarrow> dict option) \<Rightarrow> graph \<Rightarrow> bool" where
  "roles_kept K g \<longleftrightarrow> wf_graph g \<and> user_roles g = K"

lemma user_roles_same:
  assumes "\<And>k. fst k = LABEL_ENERGY_ROLE_ASSIGNMENT \<Longrightarrow> user_role (node h k) = user_role (node g k)"
  shows "user_roles h = user_roles g"
  by (rule ext) (simp add: user_roles_def assms)

lemma owned_not_user: "owned d \<Longrightarrow> dget d ''source'' \<noteq> VStr SOURCE_USER"
  by (auto simp: owned_def const_defs)

lemma roles_keptI:
  assumes "roles_kept K g" and "wf_graph h"
    and "\<And>k. fst k = LABEL_ENERGY_ROLE_ASSIGNMENT \<Longrightarrow> user_role (node h k) = user_role (node g k)"
  shows "roles_kept K h"
  using assms user_roles_same [of h g] unfolding roles_kept_def by blast

lemma roles_kept_wf: "roles_kept K g \<Longrightarrow> wf_graph g"
  by (simp add: roles_kept_def)

interpretation role_frame: owner_invariant "roles_kept K" for K
proof unfold_locales
  fix g and k :: nkey and f and h :: "dict \<Rightarrow> dict" and r :: rkey and e now P
  assume g: "roles_kept K g"
  note wf = roles_kept_wf [OF g]
  { assume "plain_label (fst k)"
    then show "roles_kept K (merge_node_with k f g)"
      by (intro roles_keptI [OF g wf_merge_node_with [OF wf]]) (auto simp: plain_label_def) }
  { assume "plain_label (fst k)"
    then show "roles_kept K (set_node_with k h g)"
      by (intro roles_keptI [OF g wf_set_node_with [OF wf]]) (auto simp: plain_label_def) }
  show "roles_kept K (merge_rel_with r f g)"
    by (rule roles_keptI [OF g wf_merge_rel_with [OF wf]]) simp
  show "roles_kept K (delete_area_edges_stmt e g)"
    unfolding delete_area_edges_stmt_def by (rule roles_keptI [OF g wf_delete_rels [OF wf]]) simp
  show "roles_kept K (ensure_schema_stmt now g)"
    unfolding ensure_schema_stmt_def
    by (rule roles_keptI [OF g wf_merge_node_with [OF wf]]) (auto simp: schema_key_def const_defs)
  show "roles_kept K (detach_delete (\<lambda>k d. P k \<and> owned d) g)"
    by (rule roles_keptI [OF g wf_detach_delete [OF wf]])
      (auto simp: user_role_def node_detach_delete [OF wf_nodes_distinct [OF wf]] owned_not_user split: option.splits)
qed

text \<open>The user's overrides: every relationship of that type.\<close>

definition override_rels :: "graph \<Rightarrow> rkey \<Rightarrow> dict option" where
  "override_rels g k = (if fst (snd k) = REL_OVERRIDE_OF then rel g k else None)"

definition overrides_kept :: "(rkey \<Rightarrow> dict option) \<Rightarrow> graph \<Rightarrow> bool" where
  "overrides_kept K g \<longleftrightarrow> wf_graph g \<and> override_rels g = K"

lemma override_rels_same:
  "(\<And>k. fst (snd k) = REL_OVERRIDE_OF \<Longrightarrow> rel h k = rel g k) \<Longrightarrow> override_rels h = override_rels g"
  by (rule ext) (simp add: override_rels_def)

lemma overrides_keptI:
  assumes "overrides_kept K g" and "wf_graph h"
    and "\<And>k. fst (snd k) = REL_OVERRIDE_OF \<Longrightarrow> rel h k = rel g k"
  shows "overrides_kept K h"
  using assms override_rels_same [of h g] unfolding overrides_kept_def by blast

lemma overrides_kept_wf: "overrides_kept K g \<Longrightarrow> wf_graph g"
  by (simp add: overrides_kept_def)

interpretation override_frame: merge_invariant "overrides_kept K" for K
proof unfold_locales
  fix g and k :: nkey and f and h :: "dict \<Rightarrow> dict" and r :: rkey and e now
  assume g: "overrides_kept K g"
  note wf = overrides_kept_wf [OF g]
  show "overrides_kept K (merge_node_with k f g)"
    by (rule overrides_keptI [OF g wf_merge_node_with [OF wf]]) simp
  show "overrides_kept K (set_node_with k h g)"
    by (rule overrides_keptI [OF g wf_set_node_with [OF wf]]) simp
  { assume "plain_rel (fst (fst r)) (fst (snd r)) (fst (snd (snd r)))"
    then show "overrides_kept K (merge_rel_with r f g)"
      by (intro overrides_keptI [OF g wf_merge_rel_with [OF wf]])
        (auto simp: rel_merge_rel_with plain_rel_def) }
  show "overrides_kept K (delete_area_edges_stmt e g)"
    unfolding delete_area_edges_stmt_def
    by (rule overrides_keptI [OF g wf_delete_rels [OF wf]])
      (auto simp: rel_delete_rels [OF wf] const_defs split: option.splits)
  show "overrides_kept K (ensure_schema_stmt now g)"
    unfolding ensure_schema_stmt_def
    by (rule overrides_keptI [OF g wf_merge_node_with [OF wf]]) simp
qed

section \<open>Predicates every write keeps\<close>

lemma keeps_graph_now_iso: "keeps (\<lambda>w. I (w_graph w)) now_iso"
  unfolding now_iso_def by (intro keeps_intros)

lemma keeps_merge_node_graph:
  "(\<And>g props. I g \<Longrightarrow> I (merge_node_stmt l i props g)) \<Longrightarrow> keeps (\<lambda>w. I (w_graph w)) (merge_node l i p s)"
  unfolding merge_node_def Let_def
  by (intro keeps_obind_result [OF wf_frame.sanitize_keeps] keeps_obind keeps_graph_now_iso
      keeps_graph_run_query_with_retry) (auto dest!: sanitize_label_result)

lemma keeps_merge_rel_graph:
  "(\<And>g k s now x. I g \<Longrightarrow> I (merge_rel_stmt k s now x g)) \<Longrightarrow>
   keeps (\<lambda>w. I (w_graph w)) (merge_relationship_with fl fi t el ei s p)"
  unfolding merge_relationship_with_def
  by (intro keeps_obind_result [OF wf_frame.sanitize_keeps] keeps_obind keeps_graph_now_iso
      keeps_graph_run_query_with_retry) (auto dest!: sanitize_label_result)

end
