(* ===== verification/Semantic_Classifier.thy ===== *)
theory Semantic_Classifier
  imports Graph_Frames
begin

text \<open>
  \<open>semantic_classifier.py\<close>: the rule table, the signals of an entity, the rules it matches, the
  energy role its signals give, and the writes of a classification, which leaves out a type the
  user has overridden.
\<close>

section \<open>Rules\<close>

record classification_rule =
  ru_label :: string
  ru_back_relationship :: string
  ru_domains :: "string list"
  ru_device_classes :: "string list"
  ru_keywords :: "string list"
  ru_manufacturers :: "string list"
  ru_exclude_manufacturers :: "string list"

definition RULES :: "classification_rule list" where
  "RULES =
    [\<lparr>ru_label = LABEL_GAS_CYLINDER, ru_back_relationship = REL_MEASURED_BY,
      ru_domains = [''sensor'', ''binary_sensor''], ru_device_classes = [''gas''],
      ru_keywords = [''gas'', ''cylinder'', ''propane'', ''lpg''],
      ru_manufacturers = [], ru_exclude_manufacturers = []\<rparr>,
     \<lparr>ru_label = LABEL_VEHICLE, ru_back_relationship = REL_MEASURED_BY,
      ru_domains = [''device_tracker'', ''sensor'', ''binary_sensor''], ru_device_classes = [],
      ru_keywords = [''car'', ''vehicle'', ''truck'', ''ev charger''],
      ru_manufacturers = [], ru_exclude_manufacturers = [''Reolink'']\<rparr>,
     \<lparr>ru_label = LABEL_ENERGY_ASSET, ru_back_relationship = REL_MEASURED_BY,
      ru_domains = [''sensor''], ru_device_classes = [''energy'', ''power'', ''voltage'', ''current''],
      ru_keywords = [''solar'', ''inverter'', ''energy'', ''power meter''],
      ru_manufacturers = [], ru_exclude_manufacturers = []\<rparr>,
     \<lparr>ru_label = LABEL_SECURITY_DEVICE, ru_back_relationship = REL_OBSERVED_BY,
      ru_domains = [''alarm_control_panel'', ''lock'', ''binary_sensor'', ''camera''],
      ru_device_classes = [''lock'', ''door'', ''window'', ''safety''],
      ru_keywords = [''alarm'', ''lock'', ''camera'', ''security''],
      ru_manufacturers = [], ru_exclude_manufacturers = []\<rparr>,
     \<lparr>ru_label = LABEL_OCCUPANCY_SENSOR, ru_back_relationship = REL_OBSERVED_BY,
      ru_domains = [''binary_sensor''], ru_device_classes = [''occupancy'', ''motion'', ''presence''],
      ru_keywords = [''occupancy'', ''motion'', ''presence''],
      ru_manufacturers = [], ru_exclude_manufacturers = []\<rparr>,
     \<lparr>ru_label = LABEL_CLIMATE_DEVICE, ru_back_relationship = REL_MEASURED_BY,
      ru_domains = [''climate'', ''sensor''], ru_device_classes = [''temperature'', ''humidity''],
      ru_keywords = [''thermostat'', ''climate'', ''hvac'', ''heater''],
      ru_manufacturers = [], ru_exclude_manufacturers = []\<rparr>,
     \<lparr>ru_label = LABEL_NETWORK_DEVICE, ru_back_relationship = REL_MEASURED_BY,
      ru_domains = [''device_tracker'', ''sensor'', ''binary_sensor''], ru_device_classes = [''connectivity''],
      ru_keywords = [''router'', ''wifi'', ''network'', ''access point''],
      ru_manufacturers = [], ru_exclude_manufacturers = []\<rparr>,
     \<lparr>ru_label = LABEL_BATTERY_POWERED_DEVICE, ru_back_relationship = REL_MEASURED_BY,
      ru_domains = [''sensor'', ''binary_sensor''], ru_device_classes = [''battery''],
      ru_keywords = [''battery''],
      ru_manufacturers = [], ru_exclude_manufacturers = []\<rparr>,
     \<lparr>ru_label = LABEL_CAMERA, ru_back_relationship = REL_OBSERVED_BY,
      ru_domains = [], ru_device_classes = [], ru_keywords = [],
      ru_manufacturers = [''Reolink''], ru_exclude_manufacturers = []\<rparr>]"

section \<open>Signals\<close>

text \<open>\<open>_resolve_area_id\<close>\<close>

definition resolve_area_id :: "hass \<Rightarrow> string \<Rightarrow> string option" where
  "resolve_area_id h entity_id =
     (case get_entry h entity_id of
        None \<Rightarrow> None
      | Some entry \<Rightarrow>
          if present (en_area_id entry) then en_area_id entry
          else if present (en_device_id entry) then
            (case get_device h (the (en_device_id entry)) of
               None \<Rightarrow> None
             | Some device \<Rightarrow> dv_area_id device)
          else None)"

text \<open>
  The text an attribute puts into an f-string.  Home Assistant keeps a string under
  \<open>friendly_name\<close>; of other values only whole numbers and truth values are rendered.
\<close>

fun text_of :: "pval \<Rightarrow> string" where
  "text_of (VStr s) = s"
| "text_of (VInt i) = str_of_int i"
| "text_of (VBool b) = (if b then ''True'' else ''False'')"
| "text_of _ = []"

record signals =
  sg_domain :: string
  sg_device_class :: pval
  sg_text :: string
  sg_has_device :: bool
  sg_friendly_name :: pval
  sg_manufacturer :: "string option"

definition entity_signals :: "hass \<Rightarrow> string \<Rightarrow> signals" where
  "entity_signals h entity_id =
     (let state = get_state h entity_id;
          entry = get_entry h entity_id;
          attribute = (\<lambda>k. case state of None \<Rightarrow> VNone | Some s \<Rightarrow> dget (st_attributes s) k);
          friendly_name = (if truthy (attribute ''friendly_name'') then attribute ''friendly_name''
                           else VStr entity_id);
          area_id = resolve_area_id h entity_id;
          area_name = (if present area_id
             then (case get_area h (the area_id) of None \<Rightarrow> [] | Some a \<Rightarrow> ar_name a) else []);
          device = (case entry of
             None \<Rightarrow> None
           | Some e \<Rightarrow> if present (en_device_id e) then get_device h (the (en_device_id e)) else None);
          device_name = (case device of None \<Rightarrow> []
           | Some d \<Rightarrow> the (str_or (dv_name_by_user d) (str_or (dv_name d) (Some []))));
          has_device = (case entry of None \<Rightarrow> False | Some e \<Rightarrow> present (en_device_id e))
      in \<lparr>sg_domain = domain_of entity_id,
          sg_device_class = attribute ''device_class'',
          sg_text = lower ('' '' @ entity_id @ '' '' @ text_of friendly_name @ '' '' @ device_name @ '' '' @
             area_name @ '' ''),
          sg_has_device = has_device,
          sg_friendly_name = friendly_name,
          sg_manufacturer = Option.bind device dv_manufacturer\<rparr>)"

definition manufacturer_in :: "signals \<Rightarrow> string list \<Rightarrow> bool" where
  "manufacturer_in s ms = (case sg_manufacturer s of None \<Rightarrow> False | Some m \<Rightarrow> m \<in> set ms)"

definition rule_matches :: "classification_rule \<Rightarrow> signals \<Rightarrow> bool" where
  "rule_matches rule s =
     (if ru_domains rule \<noteq> [] \<and> sg_domain s \<notin> set (ru_domains rule) then False
      else if manufacturer_in s (ru_exclude_manufacturers rule) then False
      else if ru_manufacturers rule \<noteq> [] then manufacturer_in s (ru_manufacturers rule)
      else if sg_device_class s \<in> VStr ` set (ru_device_classes rule) then True
      else if list_ex (\<lambda>k. contains k (sg_text s)) (ru_keywords rule) then True
      else ru_device_classes rule = [] \<and> ru_keywords rule = [])"

definition matching_rules :: "hass \<Rightarrow> string \<Rightarrow> classification_rule list" where
  "matching_rules h entity_id = filter (\<lambda>rule. rule_matches rule (entity_signals h entity_id)) RULES"

definition mentions :: "string list \<Rightarrow> string \<Rightarrow> bool" where
  "mentions markers text = list_ex (\<lambda>m. contains m text) markers"

definition infer_energy_role :: "hass \<Rightarrow> string \<Rightarrow> string option" where
  "infer_energy_role h entity_id =
     (let s = entity_signals h entity_id; text = sg_text s in
      if sg_device_class s \<notin> {VStr ''power'', VStr ''energy''} then None
      else if mentions [''grid export'', ''export to grid'', ''feed in''] text then Some ENERGY_ROLE_GRID_EXPORT
      else if mentions [''grid import'', ''import from grid''] text then Some ENERGY_ROLE_GRID_IMPORT
      else if mentions [''battery storage'', ''storage power''] text then Some ENERGY_ROLE_STORAGE
      else if mentions [''solar'', ''generation'', ''generator output''] text then Some ENERGY_ROLE_PRODUCER
      else if mentions [''consumption'', ''consuming'', ''appliance load''] text then Some ENERGY_ROLE_CONSUMER
      else if sg_has_device s then Some ENERGY_ROLE_CONSUMER
      else None)"

definition semantic_ha_id :: "string \<Rightarrow> string \<Rightarrow> string" where
  "semantic_ha_id entity_id label = entity_id @ ''::'' @ label"

section \<open>Writing a classification\<close>

definition override_key :: "string \<Rightarrow> string \<Rightarrow> rkey" where
  "override_key entity_id type_label =
     ((LABEL_ENTITY, entity_id), REL_OVERRIDE_OF, (LABEL_SEMANTIC_TYPE, type_label))"

definition has_user_override :: "string \<Rightarrow> string \<Rightarrow> ('z, bool) wop" where
  "has_user_override entity_id type_label =
     run_query (read_stmt (\<lambda>g. rel g (override_key entity_id type_label) \<noteq> None))"

definition write_classification :: "hass \<Rightarrow> string \<Rightarrow> pval \<Rightarrow> classification_rule \<Rightarrow> ('z, unit) wop" where
  "write_classification h entity_id friendly_name rule =
     (let label = ru_label rule; asset_id = semantic_ha_id entity_id label;
          area_id = resolve_area_id h entity_id in
      oseq (merge_node LABEL_SEMANTIC_TYPE label [(''name'', VStr label)] SOURCE_GENERATED)
     (oseq (merge_relationship LABEL_ENTITY entity_id REL_CLASSIFIED_AS LABEL_SEMANTIC_TYPE label SOURCE_INFERRED)
     (oseq (merge_node label asset_id [(''name'', friendly_name)] SOURCE_INFERRED)
     (oseq (merge_relationship label asset_id (ru_back_relationship rule) LABEL_ENTITY entity_id SOURCE_INFERRED)
       (owhen (present area_id)
         (merge_relationship label asset_id REL_LOCATED_IN LABEL_AREA (the area_id) SOURCE_INFERRED))))))"

text \<open>\<open>_classify_entity\<close>: the number of types applied.\<close>

definition classify_entity :: "hass \<Rightarrow> string \<Rightarrow> ('z, nat) wop" where
  "classify_entity h entity_id =
     (let friendly_name = sg_friendly_name (entity_signals h entity_id) in
      ofold (\<lambda>rule applied. obind (has_user_override entity_id (ru_label rule)) (\<lambda>overridden.
          if overridden then oret applied
          else oseq (write_classification h entity_id friendly_name rule) (oret (applied + 1))))
        (matching_rules h entity_id) 0)"

definition async_classify_entities :: "hass \<Rightarrow> ('z, nat) wop" where
  "async_classify_entities h =
     ofold (\<lambda>entry matched. obind (classify_entity h (en_entity_id entry)) (\<lambda>applied.
         oret (if applied \<noteq> 0 then matched + 1 else matched)))
       (foreign_entries h) 0"

definition async_refresh_semantics :: "hass \<Rightarrow> string option \<Rightarrow> ('z, nat) wop" where
  "async_refresh_semantics h entity_id =
     (case entity_id of
        Some e \<Rightarrow> classify_entity h e
      | None \<Rightarrow> async_classify_entities h)"

section \<open>Laws\<close>

lemma rule_labels:
  "rule \<in> set RULES \<Longrightarrow> plain_label (ru_label rule) \<and> ru_label rule \<noteq> LABEL_ONTOLOGY_SCHEMA \<and>
     ru_label rule \<noteq> LABEL_SEMANTIC_TYPE \<and> ru_back_relationship rule \<noteq> REL_OVERRIDE_OF"
proof -
  have "list_all (\<lambda>rule. ru_label rule \<noteq> LABEL_ENERGY_ROLE_ASSIGNMENT \<and> ru_label rule \<noteq> LABEL_ONTOLOGY_SCHEMA \<and>
     ru_label rule \<noteq> LABEL_SEMANTIC_TYPE \<and> ru_back_relationship rule \<noteq> REL_OVERRIDE_OF) RULES"
    by code_simp
  then show "rule \<in> set RULES \<Longrightarrow> ?thesis" by (simp add: list_all_iff plain_label_def)
qed

lemma matching_rules_subset: "rule \<in> set (matching_rules h e) \<Longrightarrow> rule \<in> set RULES"
  by (simp add: matching_rules_def)

lemma ofold_keeps_mem:
  "(\<And>x a. x \<in> set xs \<Longrightarrow> keeps P (f x a)) \<Longrightarrow> keeps P (ofold f xs a)"
  by (induction xs arbitrary: a) (auto intro!: keeps_obind keeps_oret)

context merge_invariant
begin

lemma write_classification_keeps:
  assumes "rule \<in> set RULES"
  shows "keeps (\<lambda>w. I (w_graph w)) (write_classification h e n rule)"
  unfolding write_classification_def Let_def
  using rule_labels [OF assms]
  by (intro keeps_oseq keeps_owhen merge_node_keeps merge_relationship_keeps) (auto simp: plain_defs)

lemma has_user_override_keeps: "keeps (\<lambda>w. I (w_graph w)) (has_user_override e l)"
  unfolding has_user_override_def by (rule keeps_graph_run_query) simp

lemma classify_entity_keeps: "keeps (\<lambda>w. I (w_graph w)) (classify_entity h e)"
  unfolding classify_entity_def Let_def
  by (rule ofold_keeps_mem)
    (intro keeps_obind has_user_override_keeps keeps_if keeps_oret keeps_oseq write_classification_keeps
      matching_rules_subset)

lemma classify_entities_keeps: "keeps (\<lambda>w. I (w_graph w)) (async_classify_entities h)"
  unfolding async_classify_entities_def
  by (intro keeps_ofold keeps_obind classify_entity_keeps keeps_oret)

lemma refresh_semantics_keeps: "keeps (\<lambda>w. I (w_graph w)) (async_refresh_semantics h e)"
  unfolding async_refresh_semantics_def
  by (intro keeps_case_option classify_entities_keeps classify_entity_keeps)

end

text \<open>An override, and what the classification would write for its type, stay as they are.\<close>

definition override_respected :: "string \<Rightarrow> string \<Rightarrow> dict option \<Rightarrow> dict option \<Rightarrow> graph \<Rightarrow> bool" where
  "override_respected e l R N g \<longleftrightarrow> rel g (override_key e l) \<noteq> None \<and>
     rel g ((LABEL_ENTITY, e), REL_CLASSIFIED_AS, (LABEL_SEMANTIC_TYPE, l)) = R \<and>
     node g (l, semantic_ha_id e l) = N"

lemma respected_node:
  "override_respected e l R N g \<Longrightarrow> k \<noteq> (l, semantic_ha_id e l) \<Longrightarrow>
   override_respected e l R N (merge_node_stmt (fst k) (snd k) props g)"
  by (auto simp: override_respected_def merge_node_stmt_def)

lemma respected_rel:
  "override_respected e l R N g \<Longrightarrow> k \<noteq> ((LABEL_ENTITY, e), REL_CLASSIFIED_AS, (LABEL_SEMANTIC_TYPE, l)) \<Longrightarrow>
   override_respected e l R N (merge_rel_stmt k s now extra g)"
  by (auto simp: override_respected_def merge_rel_stmt_def rel_merge_rel_with)

lemma respected_merge_node:
  assumes "(label, i) \<noteq> (l, semantic_ha_id e l)"
  shows "keeps (\<lambda>w. override_respected e l R N (w_graph w)) (merge_node label i props s)"
  unfolding merge_node_def Let_def
  using assms by (intro keeps_obind_result [OF wf_frame.sanitize_keeps] keeps_obind
      keeps_graph_run_query_with_retry)
    (auto dest!: sanitize_label_result simp: now_iso_def intro: keeps_intros
      dest: respected_node [where k = "(label, i)"])

lemma respected_merge_rel:
  assumes "((fl, fi), t, (el, ei)) \<noteq> ((LABEL_ENTITY, e), REL_CLASSIFIED_AS, (LABEL_SEMANTIC_TYPE, l))"
  shows "keeps (\<lambda>w. override_respected e l R N (w_graph w)) (merge_relationship_with fl fi t el ei s props)"
  unfolding merge_relationship_with_def
  using assms by (intro keeps_obind_result [OF wf_frame.sanitize_keeps] keeps_obind
      keeps_graph_run_query_with_retry)
    (auto dest!: sanitize_label_result simp: now_iso_def intro: keeps_intros intro!: respected_rel)

lemma respected_write:
  assumes "rule \<in> set RULES" and "l \<noteq> LABEL_SEMANTIC_TYPE" and "ru_label rule \<noteq> l"
  shows "keeps (\<lambda>w. override_respected e l R N (w_graph w)) (write_classification h e n rule)"
  unfolding write_classification_def Let_def
  using assms rule_labels [OF assms(1)]
  by (intro keeps_oseq keeps_owhen respected_merge_node respected_merge_rel) (auto simp: const_defs)

lemma has_user_override_result:
  "has_user_override e l s = (Inr b, t) \<Longrightarrow> b \<longleftrightarrow> rel (w_graph s) (override_key e l) \<noteq> None"
  by (auto simp: has_user_override_def run_query_eq read_stmt_def split: list.splits net.splits)

lemma respected_classify:
  assumes "l \<noteq> LABEL_SEMANTIC_TYPE"
  shows "keeps (\<lambda>w. override_respected e l R N (w_graph w)) (classify_entity h e)"
  unfolding classify_entity_def Let_def
proof (rule ofold_keeps_mem, rule keeps_obind_state)
  fix rule :: classification_rule and applied :: nat
  show "keeps (\<lambda>w. override_respected e l R N (w_graph w)) (has_user_override e (ru_label rule))"
    unfolding has_user_override_def by (rule keeps_graph_run_query) simp
  fix s :: "'a world_scheme" and b t
  assume r: "rule \<in> set (matching_rules h e)" and s: "override_respected e l R N (w_graph s)"
    and b: "has_user_override e (ru_label rule) s = (Inr b, t)"
  then have "b \<or> ru_label rule \<noteq> l"
    by (auto simp: override_respected_def dest: has_user_override_result)
  then show "keeps (\<lambda>w. override_respected e l R N (w_graph w))
      (if b then oret applied else oseq (write_classification h e
        (sg_friendly_name (entity_signals h e)) rule) (oret (applied + 1)))"
    by (cases b) (auto intro!: keeps_oret keeps_oseq respected_write [OF matching_rules_subset [OF r] assms])
qed

section \<open>What the classification promises\<close>

lemma mentions_append: "mentions (ms @ ns) t \<longleftrightarrow> mentions ms t \<or> mentions ns t"
  by (simp add: mentions_def)

lemma rules_labelled:
  "filter (\<lambda>rule. ru_label rule = LABEL_CAMERA) RULES =
     [\<lparr>ru_label = LABEL_CAMERA, ru_back_relationship = REL_OBSERVED_BY, ru_domains = [],
       ru_device_classes = [], ru_keywords = [], ru_manufacturers = [''Reolink''], ru_exclude_manufacturers = []\<rparr>]"
  "list_all (\<lambda>rule. ru_label rule = LABEL_VEHICLE \<longrightarrow> ru_exclude_manufacturers rule = [''Reolink'']) RULES"
  by code_simp+

text \<open>A home with one sensor of a car, and a graph in which its owner has overridden the vehicle type.\<close>

definition car_home :: hass where
  "car_home = empty_home\<lparr>ha_states := [\<lparr>st_entity_id = ''sensor.car'', st_state = ''home'', st_name = None,
     st_attributes = [], st_last_changed = 0, st_last_updated = 0\<rparr>]\<rparr>"

definition overridden_graph :: graph where
  "overridden_graph =
     \<lparr>g_nodes = [((LABEL_ENTITY, ''sensor.car''), []), ((LABEL_SEMANTIC_TYPE, LABEL_VEHICLE), [])],
      g_rels = [(((LABEL_ENTITY, ''sensor.car''), REL_OVERRIDE_OF, (LABEL_SEMANTIC_TYPE, LABEL_VEHICLE)),
        [(''source'', VStr SOURCE_USER)])],
      g_indexes = []\<rparr>"

text \<open>
  C16. A type the user has overridden for an entity is left alone: whatever rules match, and whatever
  faults occur, the classification writes neither the \<open>CLASSIFIED_AS\<close> relationship to the type nor the
  asset node of the type, and the override itself stays.
\<close>

theorem override_wins:
  assumes "l \<noteq> LABEL_SEMANTIC_TYPE" and "rel (w_graph w) (override_key e l) \<noteq> None"
  shows "let w' = snd (classify_entity h e w) in
    rel (w_graph w') (override_key e l) \<noteq> None \<and>
    rel (w_graph w') ((LABEL_ENTITY, e), REL_CLASSIFIED_AS, (LABEL_SEMANTIC_TYPE, l)) =
      rel (w_graph w) ((LABEL_ENTITY, e), REL_CLASSIFIED_AS, (LABEL_SEMANTIC_TYPE, l)) \<and>
    node (w_graph w') (l, semantic_ha_id e l) = node (w_graph w) (l, semantic_ha_id e l)"
  using keepsD [OF respected_classify [OF assms(1)], of e
      "rel (w_graph w) ((LABEL_ENTITY, e), REL_CLASSIFIED_AS, (LABEL_SEMANTIC_TYPE, l))"
      "node (w_graph w) (l, semantic_ha_id e l)" w h] assms(2)
  by (simp add: override_respected_def Let_def)

theorem override_wins_witness:
  "node (w_graph (snd (classify_entity car_home ''sensor.car'' (world_at overridden_graph []))))
     (LABEL_VEHICLE, ''sensor.car::Vehicle'') = None \<and>
   map ru_label (matching_rules car_home ''sensor.car'') = [LABEL_VEHICLE]"
proof -
  have "map ru_label (matching_rules car_home ''sensor.car'') = [LABEL_VEHICLE]" by code_simp
  moreover have "LABEL_VEHICLE \<noteq> LABEL_SEMANTIC_TYPE" by code_simp
  moreover have "rel overridden_graph (override_key ''sensor.car'' LABEL_VEHICLE) \<noteq> None" by code_simp
  moreover have "node overridden_graph (LABEL_VEHICLE, semantic_ha_id ''sensor.car'' LABEL_VEHICLE) = None" by code_simp
  moreover have "semantic_ha_id ''sensor.car'' LABEL_VEHICLE = ''sensor.car::Vehicle''" by code_simp
  ultimately show ?thesis
    using override_wins [of LABEL_VEHICLE "world_at overridden_graph []" "''sensor.car''" car_home]
    by (simp add: world_at_def Let_def)
qed

text \<open>
  An entity gets the camera type exactly when its device was made by Reolink, and such an entity
  never gets the vehicle type, whatever words its names contain.
\<close>

theorem reolink_is_camera:
  "(LABEL_CAMERA \<in> ru_label ` set (matching_rules h e) \<longleftrightarrow>
     sg_manufacturer (entity_signals h e) = Some ''Reolink'') \<and>
   \<not> (LABEL_VEHICLE \<in> ru_label ` set (matching_rules h e) \<and>
     sg_manufacturer (entity_signals h e) = Some ''Reolink'')"
proof
  have "LABEL_CAMERA \<in> ru_label ` set (matching_rules h e) \<longleftrightarrow>
      (\<exists>rule \<in> set (filter (\<lambda>rule. ru_label rule = LABEL_CAMERA) RULES). rule_matches rule (entity_signals h e))"
    by (auto simp: matching_rules_def image_iff)
  then show "LABEL_CAMERA \<in> ru_label ` set (matching_rules h e) \<longleftrightarrow>
     sg_manufacturer (entity_signals h e) = Some ''Reolink''"
    by (simp add: rules_labelled(1) rule_matches_def manufacturer_in_def split: option.splits)
  show "\<not> (LABEL_VEHICLE \<in> ru_label ` set (matching_rules h e) \<and>
     sg_manufacturer (entity_signals h e) = Some ''Reolink'')"
  proof
    assume v: "LABEL_VEHICLE \<in> ru_label ` set (matching_rules h e) \<and> sg_manufacturer (entity_signals h e) = Some ''Reolink''"
    then obtain rule where "rule \<in> set RULES" "ru_label rule = LABEL_VEHICLE"
      and m: "rule_matches rule (entity_signals h e)" unfolding matching_rules_def by fastforce
    then have "ru_exclude_manufacturers rule = [''Reolink'']"
      using rules_labelled(2) unfolding list_all_iff by blast
    then have "manufacturer_in (entity_signals h e) (ru_exclude_manufacturers rule)" using v
      by (simp add: manufacturer_in_def)
    then show False using m by (simp only: rule_matches_def if_True if_cancel)
  qed
qed

text \<open>
  An energy role is inferred exactly for power and energy entities that a marker word describes or
  that belong to a device, and it is one of the five roles the user may choose as well.
\<close>

theorem inferred_role_exact:
  "(infer_energy_role h e \<noteq> None \<longleftrightarrow>
     sg_device_class (entity_signals h e) \<in> {VStr ''power'', VStr ''energy''} \<and>
     (sg_has_device (entity_signals h e) \<or>
      mentions [''grid export'', ''export to grid'', ''feed in'', ''grid import'', ''import from grid'',
        ''battery storage'', ''storage power'', ''solar'', ''generation'', ''generator output'',
        ''consumption'', ''consuming'', ''appliance load''] (sg_text (entity_signals h e)))) \<and>
   set_option (infer_energy_role h e) \<subseteq> set ENERGY_ROLES"
proof
  let ?exports = "[''grid export'', ''export to grid'', ''feed in'']" and ?imports = "[''grid import'', ''import from grid'']"
    and ?storage = "[''battery storage'', ''storage power'']" and ?producer = "[''solar'', ''generation'', ''generator output'']"
    and ?consumer = "[''consumption'', ''consuming'', ''appliance load'']"
  let ?s = "entity_signals h e"
  define measured m1 m2 m3 m4 m5 where defs: "measured = (sg_device_class ?s \<in> {VStr ''power'', VStr ''energy''})"
    "m1 = mentions ?exports (sg_text ?s)" "m2 = mentions ?imports (sg_text ?s)" "m3 = mentions ?storage (sg_text ?s)"
    "m4 = mentions ?producer (sg_text ?s)" "m5 = mentions ?consumer (sg_text ?s)"
  have "infer_energy_role h e = (if \<not> measured then None else if m1 then Some ENERGY_ROLE_GRID_EXPORT
      else if m2 then Some ENERGY_ROLE_GRID_IMPORT else if m3 then Some ENERGY_ROLE_STORAGE
      else if m4 then Some ENERGY_ROLE_PRODUCER else if m5 then Some ENERGY_ROLE_CONSUMER
      else if sg_has_device ?s then Some ENERGY_ROLE_CONSUMER else None)"
    by (simp only: infer_energy_role_def Let_def defs)
  then have "infer_energy_role h e \<noteq> None \<longleftrightarrow> measured \<and> (sg_has_device ?s \<or> m1 \<or> m2 \<or> m3 \<or> m4 \<or> m5)"
    by simp
  then have "infer_energy_role h e \<noteq> None \<longleftrightarrow> sg_device_class ?s \<in> {VStr ''power'', VStr ''energy''} \<and>
      (sg_has_device ?s \<or> mentions (?exports @ ?imports @ ?storage @ ?producer @ ?consumer) (sg_text ?s))"
    by (simp only: defs mentions_append)
  then show "infer_energy_role h e \<noteq> None \<longleftrightarrow> sg_device_class ?s \<in> {VStr ''power'', VStr ''energy''} \<and>
      (sg_has_device ?s \<or>
      mentions [''grid export'', ''export to grid'', ''feed in'', ''grid import'', ''import from grid'',
        ''battery storage'', ''storage power'', ''solar'', ''generation'', ''generator output'',
        ''consumption'', ''consuming'', ''appliance load''] (sg_text ?s))"
    by (simp only: append_Cons append_Nil)
  show "set_option (infer_energy_role h e) \<subseteq> set ENERGY_ROLES"
    by (auto simp: infer_energy_role_def Let_def ENERGY_ROLES_def split: if_splits)
qed

end
