(* ===== verification/Overrides.thy ===== *)
theory Overrides
  imports Semantic_Classifier
begin

text \<open>
  \<open>overrides.py\<close>: the user's semantic overrides, one at a time and as an exported payload.  The
  locale \<open>override_invariant\<close> extends the contract of the writes to the two statements this module
  adds, so what survives a discovery survives an import as well.
\<close>

section \<open>Definitions\<close>

definition ALLOWED_SOURCE_LABELS :: "string list" where
  "ALLOWED_SOURCE_LABELS = [LABEL_ENTITY, LABEL_DEVICE, LABEL_AREA]"

text \<open>\<open>_sanitize_label\<close> of this module.\<close>

definition sanitize_source_label :: "string \<Rightarrow> ('s, string) op" where
  "sanitize_source_label label =
     (if label \<notin> set ALLOWED_SOURCE_LABELS
      then oraise (ValueError (''Unsupported override source label: '' @ label)) else oret label)"

definition async_create_override :: "string \<Rightarrow> string \<Rightarrow> string \<Rightarrow> ('z, unit) wop" where
  "async_create_override source_label source_ha_id type_label =
     oseq (sanitize_source_label source_label)
    (oseq (merge_node LABEL_SEMANTIC_TYPE type_label [(''name'', VStr type_label)] SOURCE_USER)
      (merge_relationship source_label source_ha_id REL_OVERRIDE_OF LABEL_SEMANTIC_TYPE type_label SOURCE_USER))"

definition delete_override_stmt :: "string \<Rightarrow> string \<Rightarrow> string \<Rightarrow> graph \<Rightarrow> graph" where
  "delete_override_stmt label source_ha_id type_label = delete_rels (\<lambda>k d.
     k = ((label, source_ha_id), REL_OVERRIDE_OF, (LABEL_SEMANTIC_TYPE, type_label)))"

definition async_delete_override :: "string \<Rightarrow> string \<Rightarrow> string \<Rightarrow> ('z, unit) wop" where
  "async_delete_override source_label source_ha_id type_label =
     obind (sanitize_source_label source_label) (\<lambda>label.
       run_query (write_stmt (delete_override_stmt label source_ha_id type_label)))"

text \<open>A listed override: source label, source id, type.\<close>

type_synonym override = "string \<times> string \<times> string"

text \<open>The rows of the query: a node has one label.\<close>

definition override_rows :: "graph \<Rightarrow> override list" where
  "override_rows g = map (\<lambda>(((sl, si), t, (tl, ti)), d). (sl, si, ti))
     (rels_where (\<lambda>(a, t, b) d. t = REL_OVERRIDE_OF \<and> dget d ''source'' = VStr SOURCE_USER \<and>
        fst b = LABEL_SEMANTIC_TYPE) g)"

definition async_list_overrides :: "('z, override list) wop" where
  "async_list_overrides = obind (run_query (read_stmt override_rows)) (\<lambda>rows.
     oret (filter (\<lambda>(source_label, _, _). source_label \<in> set ALLOWED_SOURCE_LABELS) rows))"

definition override_object :: "override \<Rightarrow> pval" where
  "override_object ov = (case ov of (source_label, source_ha_id, type_label) \<Rightarrow>
     VDict [(''relationship_type'', VStr REL_OVERRIDE_OF), (''source_label'', VStr source_label),
       (''source_ha_id'', VStr source_ha_id), (''type_label'', VStr type_label)])"

definition async_export_overrides :: "('z, pval) wop" where
  "async_export_overrides = obind now_iso (\<lambda>now. obind async_list_overrides (\<lambda>overrides.
     oret (VDict [(''version'', VInt (int OVERRIDES_EXPORT_VERSION)), (''exported_at'', now),
       (''overrides'', VList (map override_object overrides))])))"

text \<open>
  \<open>_validate_entry\<close>.  The \<open>repr\<close> of the offending value at the end of a message is left out.
\<close>

fun string_value :: "pval \<Rightarrow> string option" where
  "string_value (VStr s) = Some s"
| "string_value _ = None"

definition entry_error :: "nat \<Rightarrow> string \<Rightarrow> exn" where
  "entry_error index what = OverrideImportRejected (''Entry '' @ str_of_nat index @ '': '' @ what)"

definition validate_entry :: "pval \<Rightarrow> nat \<Rightarrow> exn + override" where
  "validate_entry entry index =
     (case entry of
        VDict d \<Rightarrow>
          (case string_value (dget d ''source_label'') of
             None \<Rightarrow> Inl (entry_error index ''invalid source_label'')
           | Some source_label \<Rightarrow>
               if source_label \<notin> set ALLOWED_SOURCE_LABELS
               then Inl (entry_error index ''invalid source_label'')
               else if \<not> present (string_value (dget d ''source_ha_id''))
               then Inl (entry_error index ''invalid source_ha_id'')
               else if \<not> present (string_value (dget d ''type_label''))
               then Inl (entry_error index ''invalid type_label'')
               else Inr (source_label, the (string_value (dget d ''source_ha_id'')),
                      the (string_value (dget d ''type_label''))))
      | _ \<Rightarrow> Inl (entry_error index ''not an object''))"

fun validate_entries :: "nat \<Rightarrow> pval list \<Rightarrow> exn + override list" where
  "validate_entries i [] = Inr []"
| "validate_entries i (e # es) =
     (case validate_entry e i of
        Inl x \<Rightarrow> Inl x
      | Inr ov \<Rightarrow> (case validate_entries (Suc i) es of Inl x \<Rightarrow> Inl x | Inr ovs \<Rightarrow> Inr (ov # ovs)))"

text \<open>Python's \<open>==\<close> with a whole number: \<open>True\<close> and \<open>1.0\<close> equal \<open>1\<close>.\<close>

fun equals_int :: "pval \<Rightarrow> int \<Rightarrow> bool" where
  "equals_int (VInt i) n = (i = n)"
| "equals_int (VBool b) n = ((if b then 1 else 0) = n)"
| "equals_int (VFloat (Fin q)) n = (q = of_int n)"
| "equals_int _ n = False"

definition validate_payload :: "pval \<Rightarrow> exn + override list" where
  "validate_payload payload =
     (case payload of
        VDict d \<Rightarrow>
          if \<not> equals_int (dget d ''version'') (int OVERRIDES_EXPORT_VERSION)
          then Inl (OverrideImportRejected ''Unsupported overrides export version'')
          else (case dget d ''overrides'' of
                  VList entries \<Rightarrow> validate_entries 0 entries
                | _ \<Rightarrow> Inl (OverrideImportRejected ''Payload 'overrides' must be a list''))
      | _ \<Rightarrow> Inl (OverrideImportRejected ''Payload is not an object''))"

definition async_import_overrides :: "pval \<Rightarrow> ('z, nat) wop" where
  "async_import_overrides payload =
     (case validate_payload payload of
        Inl e \<Rightarrow> oraise e
      | Inr validated \<Rightarrow>
          oseq (oforeach validated (\<lambda>(source_label, source_ha_id, type_label).
                  async_create_override source_label source_ha_id type_label))
            (oret (length validated)))"

section \<open>Laws\<close>

lemma sanitize_source_keeps: "keeps P (sanitize_source_label l)"
  by (auto simp: sanitize_source_label_def intro: keeps_intros)

lemma sanitize_source_result: "sanitize_source_label l s = (Inr l', t) \<Longrightarrow> l' = l \<and> l \<in> set ALLOWED_SOURCE_LABELS"
  by (auto simp: sanitize_source_label_def split: if_splits)

locale override_invariant = owner_invariant +
  assumes override_rel_law:
      "I g \<Longrightarrow> fst (snd r) = REL_OVERRIDE_OF \<Longrightarrow> fst (fst r) \<in> set ALLOWED_SOURCE_LABELS \<Longrightarrow>
       fst (snd (snd r)) = LABEL_SEMANTIC_TYPE \<Longrightarrow> (\<And>d. sourced (f d)) \<Longrightarrow> I (merge_rel_with r f g)"
    and override_delete_law: "I g \<Longrightarrow> I (delete_rels (\<lambda>k d. k = r) g)"
begin

lemma merge_override_keeps:
  assumes "l \<in> set ALLOWED_SOURCE_LABELS"
  shows "keeps (\<lambda>w. I (w_graph w)) (merge_relationship l i REL_OVERRIDE_OF LABEL_SEMANTIC_TYPE t s)"
  unfolding merge_relationship_with_def
  using assms by (intro keeps_obind_result [OF sanitize_keeps] keeps_obind now_iso_keeps
      keeps_graph_run_query_with_retry)
    (auto dest!: sanitize_label_result simp: merge_rel_stmt_def sourced_def dget_set_props_absent
      intro!: override_rel_law)

lemma create_override_keeps: "keeps (\<lambda>w. I (w_graph w)) (async_create_override l i t)"
  unfolding async_create_override_def oseq_def [of "sanitize_source_label l"]
  by (intro keeps_obind_result [OF sanitize_source_keeps] keeps_oseq merge_node_keeps merge_override_keeps)
    (auto simp: plain_defs dest: sanitize_source_result)

lemma delete_override_keeps: "keeps (\<lambda>w. I (w_graph w)) (async_delete_override l i t)"
  unfolding async_delete_override_def delete_override_stmt_def
  by (intro keeps_obind_result [OF sanitize_source_keeps] keeps_graph_run_query)
    (simp add: override_delete_law)

lemma import_overrides_keeps: "keeps (\<lambda>w. I (w_graph w)) (async_import_overrides p)"
  by (auto simp: async_import_overrides_def split: sum.splits
      intro!: keeps_oraise keeps_oseq keeps_oforeach keeps_oret keeps_case_prod create_override_keeps)

lemma list_overrides_keeps: "keeps (\<lambda>w. I (w_graph w)) async_list_overrides"
  unfolding async_list_overrides_def by (intro keeps_obind keeps_graph_run_query keeps_oret) simp

lemma export_overrides_keeps: "keeps (\<lambda>w. I (w_graph w)) async_export_overrides"
  unfolding async_export_overrides_def by (intro keeps_obind now_iso_keeps list_overrides_keeps keeps_oret)

end

lemma allowed_labels: "l \<in> set ALLOWED_SOURCE_LABELS \<Longrightarrow> l \<noteq> LABEL_ONTOLOGY_SCHEMA"
  by (auto simp: ALLOWED_SOURCE_LABELS_def const_defs)

lemma semantic_not_schema: "LABEL_SEMANTIC_TYPE \<noteq> LABEL_ONTOLOGY_SCHEMA"
  by (simp add: const_defs)

interpretation wf_override: override_invariant wf_graph
  by unfold_locales (simp_all add: wf_merge_rel_with wf_delete_rels)

interpretation source_override: override_invariant valid_sources
  by unfold_locales (simp_all add: valid_merge_rel valid_delete_rels allowed_labels semantic_not_schema)

interpretation role_override: override_invariant "roles_kept K" for K
proof unfold_locales
  fix g and r :: rkey and f and s :: rkey
  assume g: "roles_kept K g"
  note wf = roles_kept_wf [OF g]
  show "roles_kept K (merge_rel_with r f g)" by (rule roles_keptI [OF g wf_merge_rel_with [OF wf]]) simp
  show "roles_kept K (delete_rels (\<lambda>k d. k = s) g)" by (rule roles_keptI [OF g wf_delete_rels [OF wf]]) simp
qed

section \<open>Validation\<close>

lemma validate_entries_ok:
  "validate_entries i es = Inr ovs \<Longrightarrow>
   length ovs = length es \<and> (\<forall>j < length es. validate_entry (es ! j) (i + j) = Inr (ovs ! j))"
proof (induction es arbitrary: i ovs)
  case Nil
  then show ?case by simp
next
  case (Cons e es)
  from Cons.prems obtain ov ovs' where v: "validate_entry e i = Inr ov"
    "validate_entries (Suc i) es = Inr ovs'" "ovs = ov # ovs'"
    by (auto split: sum.splits)
  from Cons.IH [OF v(2)] v show ?case by (auto simp: nth_Cons split: nat.splits)
qed

lemma validate_entries_objects:
  assumes "\<And>l i t. (l, i, t) \<in> set ovs \<Longrightarrow> l \<in> set ALLOWED_SOURCE_LABELS \<and> i \<noteq> [] \<and> t \<noteq> []"
  shows "validate_entries n (map override_object ovs) = Inr ovs"
  using assms
proof (induction ovs arbitrary: n)
  case Nil
  then show ?case by simp
next
  case (Cons ov ovs)
  obtain l i t where ov: "ov = (l, i, t)" by (cases ov)
  have "validate_entries (Suc n) (map override_object ovs) = Inr ovs"
    by (rule Cons.IH) (use Cons.prems in auto)
  moreover have "validate_entry (override_object ov) n = Inr ov"
    using Cons.prems [of l i t] ov by (simp add: validate_entry_def override_object_def dget_def)
  ultimately show ?case by simp
qed

section \<open>What an export lists\<close>

definition listed_overrides :: "graph \<Rightarrow> override list" where
  "listed_overrides g = filter (\<lambda>(l, i, t). l \<in> set ALLOWED_SOURCE_LABELS) (override_rows g)"

lemma list_overrides_result:
  "async_list_overrides s = (Inr ovs, t) \<Longrightarrow> ovs = listed_overrides (w_graph s) \<and> w_graph t = w_graph s"
  by (auto simp: async_list_overrides_def listed_overrides_def run_query_eq read_stmt_def elim!: obind_result
      split: list.splits net.splits)

lemma validate_entries_exported:
  "validate_entries n (map override_object ovs) = Inr ovs' \<Longrightarrow> ovs' = ovs"
proof (induction ovs arbitrary: n ovs')
  case Nil
  then show ?case by simp
next
  case (Cons ov ovs)
  obtain l i t where ov: "ov = (l, i, t)" by (cases ov)
  from Cons.prems obtain x xs where x: "validate_entry (override_object ov) n = Inr x"
    and xs: "validate_entries (Suc n) (map override_object ovs) = Inr xs" and r: "ovs' = x # xs"
    by (auto split: sum.splits)
  have "x = ov" using x ov
    by (auto simp: validate_entry_def override_object_def dget_def split: if_splits)
  then show ?case using Cons.IH [OF xs] r by simp
qed

lemma export_validates:
  assumes "async_export_overrides s = (Inr p, t)" and "validate_payload p = Inr ovs"
  shows "ovs = listed_overrides (w_graph s)"
proof -
  let ?w = "snd (utc_now s)"
  have "w_graph ?w = w_graph s" by simp
  moreover from assms(1) obtain xs where xs: "async_list_overrides ?w = (Inr xs, t)"
    and p: "p = VDict [(''version'', VInt (int OVERRIDES_EXPORT_VERSION)), (''exported_at'', VTime (w_now s)),
       (''overrides'', VList (map override_object xs))]"
    unfolding async_export_overrides_def obind_Inr [OF now_iso_step] by (auto elim!: obind_result)
  ultimately show ?thesis
    using assms(2) list_overrides_result [OF xs] validate_entries_exported [of 0 xs ovs]
    by (auto simp: validate_payload_def dget_def split: if_splits)
qed

section \<open>What an import leaves behind\<close>

definition user_override :: "graph \<Rightarrow> override \<Rightarrow> bool" where
  "user_override g ov \<longleftrightarrow> (case ov of (l, i, t) \<Rightarrow>
     (case rel g ((l, i), REL_OVERRIDE_OF, (LABEL_SEMANTIC_TYPE, t)) of
        None \<Rightarrow> False | Some d \<Rightarrow> dget d ''source'' = VStr SOURCE_USER))"

definition override_source :: "override \<Rightarrow> nkey" where
  "override_source ov = (fst ov, fst (snd ov))"

text \<open>The nodes \<open>N\<close> are there, and so are the overrides among \<open>A\<close> whose source is one of them.\<close>

definition import_state :: "nkey set \<Rightarrow> override set \<Rightarrow> graph \<Rightarrow> bool" where
  "import_state N A g \<longleftrightarrow> (\<forall>k \<in> N. has_node g k) \<and>
     (\<forall>ov \<in> A. override_source ov \<in> N \<longrightarrow> user_override g ov)"

lemma listed_user_override:
  assumes "wf_graph g" and "ov \<in> set (listed_overrides g)"
  shows "user_override g ov"
proof -
  from assms(2) obtain l i t d where ov: "ov = (l, i, t)"
    and d: "(((l, i), REL_OVERRIDE_OF, (LABEL_SEMANTIC_TYPE, t)), d) \<in> set (g_rels g)" "dget d ''source'' = VStr SOURCE_USER"
    by (auto simp: listed_overrides_def override_rows_def rels_where_def)
  then show ?thesis
    using wf_rels_distinct [OF assms(1)] by (simp add: user_override_def rel_def)
qed

lemma user_override_source: "dget (set_props (set_props d [(''source'', VStr s), (''updated_at'', now)]) []) ''source'' = VStr s"
  by simp

lemma import_state_node: "import_state N A g \<Longrightarrow> import_state N A (merge_node_with k f g)"
  by (auto simp: import_state_def user_override_def)

lemma import_state_rel:
  assumes "import_state N A g" and "has_node g (LABEL_SEMANTIC_TYPE, t)"
  shows "import_state N (insert (l, i, t) A)
    (merge_rel_stmt ((l, i), REL_OVERRIDE_OF, (LABEL_SEMANTIC_TYPE, t)) SOURCE_USER now [] g)"
  using assms
  by (auto simp: import_state_def override_source_def user_override_def merge_rel_stmt_def rel_merge_rel_with
      split: option.splits)

lemma yields_sanitize: "yields P (sanitize_label l) (\<lambda>x s. x = l \<and> P s)"
  by (auto simp: yields_def sanitize_label_def Let_def split: if_splits)

lemma yields_now: "yields (\<lambda>w. P (w_graph w)) now_iso (\<lambda>_ w. P (w_graph w))"
  by (auto simp: yields_def now_iso_def utc_now_def elim!: obind_result)

lemma yields_merge_node:
  "(\<And>g props. P g \<Longrightarrow> Q (merge_node_stmt l i props g) \<and> P (merge_node_stmt l i props g)) \<Longrightarrow>
   yields (\<lambda>w. P (w_graph w)) (merge_node l i props s) (\<lambda>_ w. Q (w_graph w))"
  unfolding merge_node_def Let_def
proof (rule yields_obind [OF yields_sanitize])
  fix x now
  assume law: "\<And>g props. P g \<Longrightarrow> Q (merge_node_stmt l i props g) \<and> P (merge_node_stmt l i props g)"
  have "yields (\<lambda>w. P (w_graph w)) (obind now_iso (\<lambda>now. run_query_with_retry (write_stmt (merge_node_stmt l i
      (dset ''updated_at'' now (dset ''source'' (VStr s) props)))))) (\<lambda>_ w. Q (w_graph w))"
    by (rule yields_obind [OF yields_now], rule yields_run_query_with_retry) (simp add: law)
  then show "yields (\<lambda>w. x = l \<and> P (w_graph w)) (obind now_iso (\<lambda>now. run_query_with_retry (write_stmt
      (merge_node_stmt x i (dset ''updated_at'' now (dset ''source'' (VStr s) props)))))) (\<lambda>_ w. Q (w_graph w))"
    by (auto simp: yields_def)
qed

lemma create_override_yields:
  "yields (\<lambda>w. import_state N A (w_graph w)) (async_create_override l i t)
    (\<lambda>_ w. import_state N (insert (l, i, t) A) (w_graph w))"
proof (rule yieldsI)
  fix s x and w :: "'a world_scheme"
  assume s: "import_state N A (w_graph s)" and r: "async_create_override l i t s = (Inr x, w)"
  let ?J = "\<lambda>A g. import_state N A g \<and> has_node g (LABEL_SEMANTIC_TYPE, t)"
  from r obtain y u z v where u: "sanitize_source_label l s = (Inr y, u)"
    and v: "merge_node LABEL_SEMANTIC_TYPE t [(''name'', VStr t)] SOURCE_USER u = (Inr z, v)"
    and w: "merge_relationship l i REL_OVERRIDE_OF LABEL_SEMANTIC_TYPE t SOURCE_USER v = (Inr x, w)"
    by (auto simp: async_create_override_def elim!: oseq_result)
  have "u = s" using u by (auto simp: sanitize_source_label_def split: if_splits)
  then have "import_state N A (w_graph u)" using s by simp
  moreover have "yields (\<lambda>w. import_state N A (w_graph w))
      (merge_node LABEL_SEMANTIC_TYPE t [(''name'', VStr t)] SOURCE_USER) (\<lambda>_ w. ?J A (w_graph w))"
    by (rule yields_merge_node) (simp add: merge_node_stmt_def import_state_node)
  ultimately have "?J A (w_graph v)" using v by (blast dest: yieldsD)
  moreover from w obtain now w' where
    q: "run_query_with_retry (write_stmt (merge_rel_stmt ((l, i), REL_OVERRIDE_OF, (LABEL_SEMANTIC_TYPE, t)) SOURCE_USER now [])) w' = (Inr x, w)"
    and w': "w_graph w' = w_graph v"
    by (auto simp: merge_relationship_with_def sanitize_label_def Let_def now_iso_def utc_now_def
        elim!: obind_result split: if_splits)
  have "yields (\<lambda>w. ?J A (w_graph w))
      (run_query_with_retry (write_stmt (merge_rel_stmt ((l, i), REL_OVERRIDE_OF, (LABEL_SEMANTIC_TYPE, t)) SOURCE_USER now [])))
      (\<lambda>_ w. ?J (insert (l, i, t) A) (w_graph w))"
    by (rule yields_run_query_with_retry)
      (use import_state_rel in \<open>auto simp: merge_rel_stmt_def import_state_def\<close>)
  ultimately have "?J (insert (l, i, t) A) (w_graph w)"
    using q w' yieldsD by (metis (mono_tags, lifting))
  then show "import_state N (insert (l, i, t) A) (w_graph w)" by blast
qed

lemma import_yields:
  assumes v: "validate_payload p = Inr ovs"
  shows "yields (\<lambda>w. import_state N {} (w_graph w)) (async_import_overrides p)
    (\<lambda>n w. n = length ovs \<and> import_state N (set ovs) (w_graph w))"
proof -
  have "yields (\<lambda>w. import_state N {} (w_graph w))
      (oforeach ovs (\<lambda>(l, i, t). async_create_override l i t))
      (\<lambda>_ w. import_state N ({} \<union> set ovs) (w_graph w))"
    by (rule yields_oforeach) (auto intro: create_override_yields)
  then show ?thesis unfolding async_import_overrides_def v sum.case
    by (intro yields_oseq [OF _ yields_oret]) auto
qed

lemma safe_label_healthy: "l \<in> set [LABEL_ENTITY, LABEL_DEVICE, LABEL_AREA, LABEL_SEMANTIC_TYPE, REL_OVERRIDE_OF] \<Longrightarrow>
  healthy (sanitize_label l)"
proof -
  have "list_all (\<lambda>l. filter (\<lambda>c. c \<noteq> CHR ''_'') l \<noteq> [] \<and> list_all is_alnum (filter (\<lambda>c. c \<noteq> CHR ''_'') l))
    [LABEL_ENTITY, LABEL_DEVICE, LABEL_AREA, LABEL_SEMANTIC_TYPE, REL_OVERRIDE_OF]" by code_simp
  then show "l \<in> set [LABEL_ENTITY, LABEL_DEVICE, LABEL_AREA, LABEL_SEMANTIC_TYPE, REL_OVERRIDE_OF] \<Longrightarrow> ?thesis"
    by (auto simp: sanitize_label_def Let_def healthy_oret)
qed

lemma import_healthy: "validate_payload p = Inr ovs \<Longrightarrow>
  (\<And>l i t. (l, i, t) \<in> set ovs \<Longrightarrow> l \<in> set ALLOWED_SOURCE_LABELS) \<Longrightarrow> healthy (async_import_overrides p)"
proof -
  assume v: "validate_payload p = Inr ovs"
    and l: "\<And>l i t. (l, i, t) \<in> set ovs \<Longrightarrow> l \<in> set ALLOWED_SOURCE_LABELS"
  have "healthy (async_create_override l i t :: ('a, unit) wop)" if "(l, i, t) \<in> set ovs" for l i t
  proof -
    have a: "l \<in> set ALLOWED_SOURCE_LABELS" using l that by blast
    then have h: "healthy (sanitize_label l :: ('a, string) wop)"
      by (intro safe_label_healthy) (auto simp: ALLOWED_SOURCE_LABELS_def)
    show ?thesis
      unfolding async_create_override_def merge_node_def merge_relationship_with_def Let_def now_iso_def
        sanitize_source_label_def
      using a by (simp, intro healthy_intros h safe_label_healthy) simp_all
  qed
  then show ?thesis unfolding async_import_overrides_def v sum.case
    by (intro healthy_intros) auto
qed

lemma validate_entry_label: "validate_entry e i = Inr (l, j, t) \<Longrightarrow> l \<in> set ALLOWED_SOURCE_LABELS"
  by (auto simp: validate_entry_def split: pval.splits option.splits if_splits)

section \<open>What a user of overrides can rely on\<close>

text \<open>The payload of the export of \<open>overridden_graph\<close>.\<close>

definition overridden_payload :: pval where
  "overridden_payload = VDict [(''version'', VInt 1), (''exported_at'', VTime 0),
     (''overrides'', VList [override_object (LABEL_ENTITY, ''sensor.car'', LABEL_VEHICLE)])]"

text \<open>
  C17. An import writes nothing unless the whole payload is well formed: the version is the supported one,
  the overrides are a list, and every entry of it is valid.
\<close>

theorem import_all_or_nothing:
  assumes "async_import_overrides payload w = (r, w')" and "w' \<noteq> w"
  shows "\<exists>d entries. payload = VDict d \<and> equals_int (dget d ''version'') (int OVERRIDES_EXPORT_VERSION) \<and>
    dget d ''overrides'' = VList entries \<and>
    (\<forall>i < length entries. \<not> isl (validate_entry (entries ! i) i))"
proof -
  obtain ovs where "validate_payload payload = Inr ovs"
    using assms by (cases "validate_payload payload") (auto simp: async_import_overrides_def oraise_def)
  then show ?thesis
    by (auto simp: validate_payload_def dest!: validate_entries_ok split: pval.splits if_splits)
qed

theorem import_all_or_nothing_witness:
  "\<exists>d entries. overridden_payload = VDict d \<and> equals_int (dget d ''version'') (int OVERRIDES_EXPORT_VERSION) \<and>
    dget d ''overrides'' = VList entries \<and>
    (\<forall>i < length entries. \<not> isl (validate_entry (entries ! i) i))"
  by (rule import_all_or_nothing [where w = "world_at empty_graph []", OF surjective_pairing]) code_simp

text \<open>
  C18. What an export lists, an import restores: every listed override whose source is a node of the
  graph imported into is there afterwards, and the import reports how many it was given.
\<close>

theorem export_import_restores:
  assumes "async_export_overrides s = (Inr payload, s')" and "async_import_overrides payload w = (Inr n, w')"
  shows "n = length (listed_overrides (w_graph s)) \<and>
    (\<forall>ov \<in> set (listed_overrides (w_graph s)).
       has_node (w_graph w) (override_source ov) \<longrightarrow> user_override (w_graph w') ov)"
proof -
  obtain ovs where v: "validate_payload payload = Inr ovs"
    using assms(2) by (cases "validate_payload payload") (auto simp: async_import_overrides_def)
  let ?N = "{k. has_node (w_graph w) k}"
  have "n = length ovs \<and> import_state ?N (set ovs) (w_graph w')"
    using yieldsD [OF import_yields [OF v, of ?N] _ assms(2)] by (simp add: import_state_def)
  then show ?thesis using export_validates [OF assms(1) v] by (auto simp: import_state_def)
qed

theorem export_import_restores_witness:
  "user_override (w_graph (snd (async_import_overrides overridden_payload (world_at overridden_graph []))))
     (LABEL_ENTITY, ''sensor.car'', LABEL_VEHICLE)"
proof -
  have "async_export_overrides (world_at overridden_graph []) = (Inr overridden_payload,
      snd (async_export_overrides (world_at overridden_graph [])))" by code_simp
  moreover have "async_import_overrides overridden_payload (world_at overridden_graph []) = (Inr 1,
      snd (async_import_overrides overridden_payload (world_at overridden_graph [])))" by code_simp
  moreover have "listed_overrides overridden_graph = [(LABEL_ENTITY, ''sensor.car'', LABEL_VEHICLE)]" by code_simp
  moreover have "has_node overridden_graph (override_source (LABEL_ENTITY, ''sensor.car'', LABEL_VEHICLE))" by code_simp
  moreover have "w_graph (world_at overridden_graph []) = overridden_graph" by (simp add: world_at_def)
  ultimately show ?thesis
    using export_import_restores [where s = "world_at overridden_graph []" and payload = overridden_payload
      and w = "world_at overridden_graph []" and n = 1] by simp
qed

end
