(* ===== verification/User_Knowledge.thy ===== *)
theory User_Knowledge
  imports Overrides
begin

text \<open>
  \<open>user_knowledge.py\<close>: energy roles.  An assignment node belongs to one source, the user or the
  inference, and one measurement entity; its id is a name-based UUID of the two.  The UUID function is
  library code and a parameter (\<open>uuid\<close>).  The bindings to the entities are generated and repaired.
\<close>

section \<open>Definitions\<close>

definition energy_role_assignment_id :: "(string \<Rightarrow> string) \<Rightarrow> string \<Rightarrow> string \<Rightarrow> string" where
  "energy_role_assignment_id uuid source measurement_entity_id =
     uuid (''home-assistant-ontology:energy-role:'' @ source @ '':'' @ measurement_entity_id)"

definition validate_role :: "pval \<Rightarrow> ('s, string) op" where
  "validate_role role =
     (case role of
        VStr r \<Rightarrow> if r \<notin> set ENERGY_ROLES then oraise (EnergyRoleRejected ''Invalid energy role'') else oret r
      | _ \<Rightarrow> oraise (EnergyRoleRejected ''Invalid energy role''))"

record power_row =
  pr_entity_id :: string
  pr_name :: string
  pr_measurement_kind :: pval

text \<open>\<open>coalesce(entity.name, '')\<close>; a name is a string.\<close>

definition coalesce_name :: "dict \<Rightarrow> string" where
  "coalesce_name d = (case dget d ''name'' of VStr s \<Rightarrow> s | _ \<Rightarrow> [])"

definition power_entity_rows :: "string \<Rightarrow> graph \<Rightarrow> power_row list" where
  "power_entity_rows identifier g =
     (let found = nodes_where (\<lambda>k d. fst k = LABEL_ENTITY \<and>
            (snd k = identifier \<or> lower (coalesce_name d) = lower identifier)) g;
          rows = map (\<lambda>(k, d). \<lparr>pr_entity_id = snd k, pr_name = coalesce_name d,
            pr_measurement_kind = dget d MEASUREMENT_KIND\<rparr>) found
      in take 3 (sort_key (\<lambda>r. if pr_entity_id r = identifier then 0 else 1 :: nat)
           (sort_key (\<lambda>r. lower (pr_name r)) (sort_key pr_entity_id rows))))"

definition resolve_power_entity :: "string \<Rightarrow> ('z, string) wop" where
  "resolve_power_entity identifier =
     obind (run_query (read_stmt (power_entity_rows identifier))) (\<lambda>rows.
       let exact = filter (\<lambda>r. pr_entity_id r = identifier) rows;
           candidates = (if exact \<noteq> [] then exact else rows)
       in (case candidates of
             [] \<Rightarrow> oraise (EnergyRoleRejected ''Power measurement entity not found'')
           | candidate # others \<Rightarrow>
               if others \<noteq> [] then oraise (EnergyRoleRejected ''Power measurement entity is ambiguous'')
               else if pr_measurement_kind candidate \<noteq> VStr MEASUREMENT_KIND_POWER
               then oraise (EnergyRoleRejected ''Entity is not a power measurement'')
               else oret (pr_entity_id candidate)))"

text \<open>The statement that upserts an assignment and its binding, shared by the user and the inference.\<close>

definition assignment_props :: "string \<Rightarrow> string \<Rightarrow> string \<Rightarrow> pval \<Rightarrow> dict option \<Rightarrow> dict" where
  "assignment_props entity_id role source now d =
     set_props (case d of None \<Rightarrow> [(''created_at'', now)] | Some x \<Rightarrow> x)
       [(''measurement_entity_id'', VStr entity_id), (''role'', VStr role), (''source'', VStr source),
        (''updated_at'', now)]"

definition binding_key :: "string \<Rightarrow> string \<Rightarrow> rkey" where
  "binding_key assignment_id entity_id =
     ((LABEL_ENERGY_ROLE_ASSIGNMENT, assignment_id), REL_ASSIGNS_ROLE_TO, (LABEL_ENTITY, entity_id))"

definition bind_stmt :: "string \<Rightarrow> string \<Rightarrow> graph \<Rightarrow> graph" where
  "bind_stmt assignment_id entity_id = merge_rel_with (binding_key assignment_id entity_id)
     (\<lambda>d. set_props (or_empty d) [(''source'', VStr SOURCE_GENERATED)])"

definition upsert_assignment_stmt ::
  "string \<Rightarrow> string \<Rightarrow> string \<Rightarrow> string \<Rightarrow> pval \<Rightarrow> graph \<Rightarrow> graph" where
  "upsert_assignment_stmt assignment_id entity_id role source now g =
     (if has_node g (LABEL_ENTITY, entity_id)
      then bind_stmt assignment_id entity_id
             (merge_node_with (LABEL_ENERGY_ROLE_ASSIGNMENT, assignment_id)
               (assignment_props entity_id role source now) g)
      else g)"

record role_result =
  rr_assignment_id :: string
  rr_entity_id :: string
  rr_role :: string
  rr_source :: string
  rr_effective_role :: string
  rr_effective_source :: string

definition set_role_stmt ::
  "string \<Rightarrow> string \<Rightarrow> string \<Rightarrow> pval \<Rightarrow> (role_result option) stmt" where
  "set_role_stmt assignment_id entity_id role now g =
     (if has_node g (LABEL_ENTITY, entity_id)
      then Some \<lparr>rr_assignment_id = assignment_id, rr_entity_id = entity_id, rr_role = role,
             rr_source = SOURCE_USER, rr_effective_role = role, rr_effective_source = SOURCE_USER\<rparr>
      else None,
      upsert_assignment_stmt assignment_id entity_id role SOURCE_USER now g)"

definition async_set_energy_role :: "(string \<Rightarrow> string) \<Rightarrow> string \<Rightarrow> pval \<Rightarrow> ('z, role_result) wop" where
  "async_set_energy_role uuid entity role =
     obind (validate_role role) (\<lambda>validated_role.
     obind (resolve_power_entity entity) (\<lambda>entity_id.
     let assignment_id = energy_role_assignment_id uuid SOURCE_USER entity_id in
     obind now_iso (\<lambda>now.
     obind (run_query (set_role_stmt assignment_id entity_id validated_role now)) (\<lambda>row.
       case row of
         None \<Rightarrow> oraise (EnergyRoleRejected ''Power measurement entity no longer exists'')
       | Some r \<Rightarrow> oret r))))"

record delete_result =
  dr_deleted :: bool
  dr_entity_id :: pval
  dr_effective_role :: pval
  dr_effective_source :: pval

definition has_source :: "string \<Rightarrow> dict \<Rightarrow> bool" where
  "has_source s d = (dget d ''source'' = VStr s)"

definition delete_assignment_stmt :: "string \<Rightarrow> string \<Rightarrow> graph \<Rightarrow> graph" where
  "delete_assignment_stmt assignment_id source = detach_delete (\<lambda>k d.
     k = (LABEL_ENERGY_ROLE_ASSIGNMENT, assignment_id) \<and> has_source source d)"

text \<open>The row names the entity of the deleted assignment, and the inferred assignment of that entity.\<close>

definition delete_role_stmt :: "string \<Rightarrow> ((pval \<times> pval \<times> pval) option) stmt" where
  "delete_role_stmt assignment_id g =
     (let g' = delete_assignment_stmt assignment_id SOURCE_USER g in
      (case node g (LABEL_ENERGY_ROLE_ASSIGNMENT, assignment_id) of
         None \<Rightarrow> None
       | Some d \<Rightarrow>
           if \<not> has_source SOURCE_USER d then None
           else (let entity_id = dget d ''measurement_entity_id'';
                     inferred = nodes_where (\<lambda>k x. fst k = LABEL_ENERGY_ROLE_ASSIGNMENT \<and> entity_id \<noteq> VNone \<and>
                       dget x ''measurement_entity_id'' = entity_id \<and> has_source SOURCE_INFERRED x) g'
                 in Some (entity_id,
                      case inferred of [] \<Rightarrow> VNone | (_, x) # _ \<Rightarrow> dget x ''role'',
                      case inferred of [] \<Rightarrow> VNone | (_, x) # _ \<Rightarrow> dget x ''source'')), g'))"

definition async_delete_user_energy_role :: "(string \<Rightarrow> string) \<Rightarrow> string \<Rightarrow> ('z, delete_result) wop" where
  "async_delete_user_energy_role uuid entity =
     obind (resolve_power_entity entity) (\<lambda>entity_id.
     obind (run_query (delete_role_stmt (energy_role_assignment_id uuid SOURCE_USER entity_id))) (\<lambda>row.
       oret (case row of
         None \<Rightarrow> \<lparr>dr_deleted = False, dr_entity_id = VStr entity_id, dr_effective_role = VNone,
                   dr_effective_source = VNone\<rparr>
       | Some (e, role, source) \<Rightarrow>
           \<lparr>dr_deleted = True, dr_entity_id = (if truthy e then e else VStr entity_id),
             dr_effective_role = role, dr_effective_source = source\<rparr>)))"

definition upsert_inferred_energy_role :: "(string \<Rightarrow> string) \<Rightarrow> string \<Rightarrow> string \<Rightarrow> ('z, unit) wop" where
  "upsert_inferred_energy_role uuid entity_id role =
     obind now_iso (\<lambda>now. run_query_with_retry (write_stmt (upsert_assignment_stmt
       (energy_role_assignment_id uuid SOURCE_INFERRED entity_id) entity_id role SOURCE_INFERRED now)))"

text \<open>Every binding goes; one per assignment whose entity exists comes back.\<close>

definition rebind_stmt :: "nkey \<times> dict \<Rightarrow> graph \<Rightarrow> graph" where
  "rebind_stmt a g = (case dget (snd a) ''measurement_entity_id'' of
     VStr e \<Rightarrow> bind_stmt (snd (fst a)) e g | _ \<Rightarrow> g)"

definition repair_bindings_stmt :: "graph \<Rightarrow> graph" where
  "repair_bindings_stmt g =
     unwind rebind_stmt (nodes_where (\<lambda>k d. fst k = LABEL_ENERGY_ROLE_ASSIGNMENT) g)
       (delete_rels (\<lambda>k d. fst (fst k) = LABEL_ENERGY_ROLE_ASSIGNMENT \<and> fst (snd k) = REL_ASSIGNS_ROLE_TO) g)"

definition async_repair_energy_role_bindings :: "('z, unit) wop" where
  "async_repair_energy_role_bindings = run_query_with_retry (write_stmt repair_bindings_stmt)"

definition async_reconcile_energy_role_for_entity ::
  "(string \<Rightarrow> string) \<Rightarrow> hass \<Rightarrow> string \<Rightarrow> ('z, bool) wop" where
  "async_reconcile_energy_role_for_entity uuid h entity_id =
     (case infer_energy_role h entity_id of
        None \<Rightarrow>
          oseq (run_query_with_retry (write_stmt (delete_assignment_stmt
                  (energy_role_assignment_id uuid SOURCE_INFERRED entity_id) SOURCE_INFERRED)))
            (oret False)
      | Some role \<Rightarrow> oseq (upsert_inferred_energy_role uuid entity_id role) (oret True))"

definition async_reconcile_energy_roles ::
  "(string \<Rightarrow> string) \<Rightarrow> hass \<Rightarrow> string option \<Rightarrow> ('z, nat) wop" where
  "async_reconcile_energy_roles uuid h entity_id =
     obind (ofold (\<lambda>candidate inferred_count.
              obind (async_reconcile_energy_role_for_entity uuid h candidate) (\<lambda>inferred.
                oret (if inferred then inferred_count + 1 else inferred_count)))
            (case entity_id of None \<Rightarrow> sort (map st_entity_id (ha_states h)) | Some e \<Rightarrow> [e]) 0)
       (\<lambda>inferred_count. oseq async_repair_energy_role_bindings (oret inferred_count))"

section \<open>Laws\<close>

lemma assignment_props_source: "dget (assignment_props e r s now d) ''source'' = VStr s"
  unfolding assignment_props_def by (rule dget_set_props) simp_all

lemma assignment_props_role: "dget (assignment_props e r s now d) ''role'' = VStr r"
  unfolding assignment_props_def by (rule dget_set_props) simp_all

lemma assignment_props_entity: "dget (assignment_props e r s now d) ''measurement_entity_id'' = VStr e"
  unfolding assignment_props_def by (rule dget_set_props) simp_all

lemma node_bind_stmt [simp]: "node (bind_stmt a e g) k = node g k"
  by (simp add: bind_stmt_def)

lemma has_node_bind_stmt [simp]: "has_node (bind_stmt a e g) k = has_node g k"
  by (simp add: bind_stmt_def)

lemma node_upsert_assignment:
  "node (upsert_assignment_stmt a e r s now g) k =
     (if has_node g (LABEL_ENTITY, e) \<and> k = (LABEL_ENERGY_ROLE_ASSIGNMENT, a)
      then Some (assignment_props e r s now (node g k)) else node g k)"
  by (simp add: upsert_assignment_stmt_def)

text \<open>The contract of the statements on energy roles: the bindings, and the inferred assignments.\<close>

locale role_invariant =
  fixes I :: "graph \<Rightarrow> bool"
  assumes bind_law: "I g \<Longrightarrow> I (bind_stmt a e g)"
    and unbind_law: "I g \<Longrightarrow> I (delete_rels (\<lambda>k d. fst (fst k) = LABEL_ENERGY_ROLE_ASSIGNMENT \<and>
      fst (snd k) = REL_ASSIGNS_ROLE_TO) g)"
begin

lemma repair_stmt_keeps: "I g \<Longrightarrow> I (repair_bindings_stmt g)"
  unfolding repair_bindings_stmt_def
  by (rule unwind_invariant [where I = I]) (auto simp: rebind_stmt_def unbind_law bind_law split: pval.splits)

lemma repair_keeps: "keeps (\<lambda>w. I (w_graph w)) async_repair_energy_role_bindings"
  unfolding async_repair_energy_role_bindings_def
  by (rule keeps_graph_run_query_with_retry) (simp add: repair_stmt_keeps)

end

locale inference_invariant = role_invariant +
  fixes uuid :: "string \<Rightarrow> string"
  assumes upsert_law: "I g \<Longrightarrow> I (upsert_assignment_stmt (energy_role_assignment_id uuid SOURCE_INFERRED e)
      e r SOURCE_INFERRED now g)"
    and unassign_law: "I g \<Longrightarrow> I (delete_assignment_stmt a SOURCE_INFERRED g)"
begin

lemma reconcile_entity_keeps: "keeps (\<lambda>w. I (w_graph w)) (async_reconcile_energy_role_for_entity uuid h e)"
  unfolding async_reconcile_energy_role_for_entity_def upsert_inferred_energy_role_def
  by (intro keeps_case_option keeps_oseq keeps_obind keeps_graph_now_iso keeps_oret
      keeps_graph_run_query_with_retry)
    (simp_all add: upsert_law unassign_law)

lemma reconcile_keeps: "keeps (\<lambda>w. I (w_graph w)) (async_reconcile_energy_roles uuid h e)"
  unfolding async_reconcile_energy_roles_def
  by (intro keeps_obind keeps_ofold keeps_oseq keeps_oret reconcile_entity_keeps repair_keeps)

end

lemma wf_bind: "wf_graph g \<Longrightarrow> wf_graph (bind_stmt a e g)"
  by (simp add: bind_stmt_def wf_merge_rel_with)

lemma wf_upsert_assignment: "wf_graph g \<Longrightarrow> wf_graph (upsert_assignment_stmt a e r s now g)"
  by (simp add: upsert_assignment_stmt_def wf_bind wf_merge_node_with)

interpretation wf_role: inference_invariant wf_graph uuid for uuid
  by unfold_locales (simp_all add: wf_bind wf_delete_rels wf_upsert_assignment wf_detach_delete delete_assignment_stmt_def)

lemma valid_bind: "valid_sources g \<Longrightarrow> valid_sources (bind_stmt a e g)"
  unfolding bind_stmt_def
  by (rule valid_merge_rel) (simp_all add: sourced_def binding_key_def const_defs)

lemma valid_upsert_assignment: "valid_sources g \<Longrightarrow> valid_sources (upsert_assignment_stmt a e r s now g)"
  by (simp add: upsert_assignment_stmt_def valid_bind valid_merge_node sourced_def assignment_props_source)

interpretation source_role: inference_invariant valid_sources uuid for uuid
  by unfold_locales
    (simp_all add: valid_bind valid_delete_rels valid_upsert_assignment valid_detach_delete delete_assignment_stmt_def)

text \<open>
  The user's roles are safe from the inference when no inferred id is the id of one of them, which the
  UUIDs promise and the ids in use witness.
\<close>

definition ids_apart :: "(string \<Rightarrow> string) \<Rightarrow> (nkey \<Rightarrow> dict option) \<Rightarrow> bool" where
  "ids_apart uuid K \<longleftrightarrow>
     (\<forall>e. K (LABEL_ENERGY_ROLE_ASSIGNMENT, energy_role_assignment_id uuid SOURCE_INFERRED e) = None)"

definition roles_apart :: "(string \<Rightarrow> string) \<Rightarrow> (nkey \<Rightarrow> dict option) \<Rightarrow> graph \<Rightarrow> bool" where
  "roles_apart uuid K g \<longleftrightarrow> ids_apart uuid K \<and> roles_kept K g"

lemma roles_kept_bind: "roles_kept K g \<Longrightarrow> roles_kept K (bind_stmt a e g)"
  by (rule roles_keptI, assumption) (simp_all add: wf_bind roles_kept_wf)

lemma roles_kept_delete_rels: "roles_kept K g \<Longrightarrow> roles_kept K (delete_rels p g)"
  by (rule roles_keptI, assumption) (simp_all add: wf_delete_rels roles_kept_wf)

lemma user_role_inferred: "user_role (Some (assignment_props e r SOURCE_INFERRED now d)) = None"
  by (simp add: user_role_def assignment_props_source const_defs)

lemma roles_kept_upsert_inferred:
  assumes g: "roles_kept K g" and a: "K (LABEL_ENERGY_ROLE_ASSIGNMENT, a) = None"
  shows "roles_kept K (upsert_assignment_stmt a e r SOURCE_INFERRED now g)"
proof (rule roles_keptI [OF g wf_upsert_assignment [OF roles_kept_wf [OF g]]])
  fix k :: nkey
  have "user_role (node g (LABEL_ENERGY_ROLE_ASSIGNMENT, a)) = None"
    using g a by (auto simp: roles_kept_def user_roles_def dest!: fun_cong [of _ _ "(LABEL_ENERGY_ROLE_ASSIGNMENT, a)"])
  then show "user_role (node (upsert_assignment_stmt a e r SOURCE_INFERRED now g) k) = user_role (node g k)"
    by (simp add: node_upsert_assignment user_role_inferred)
qed

lemma roles_kept_unassign:
  assumes g: "roles_kept K g"
  shows "roles_kept K (delete_assignment_stmt a SOURCE_INFERRED g)"
  unfolding delete_assignment_stmt_def
proof (rule roles_keptI [OF g wf_detach_delete [OF roles_kept_wf [OF g]]])
  fix k :: nkey
  show "user_role (node (detach_delete (\<lambda>k d. k = (LABEL_ENERGY_ROLE_ASSIGNMENT, a) \<and> has_source SOURCE_INFERRED d) g) k)
      = user_role (node g k)"
    by (auto simp: user_role_def node_detach_delete [OF wf_nodes_distinct [OF roles_kept_wf [OF g]]] has_source_def
        const_defs split: option.splits)
qed

interpretation role_role: inference_invariant "roles_apart uuid K" uuid for uuid K
proof unfold_locales
  fix g e a role now
  assume g: "roles_apart uuid K g"
  then have kept: "roles_kept K g" and apart: "ids_apart uuid K" by (simp_all add: roles_apart_def)
  show "roles_apart uuid K (bind_stmt a e g)"
    "roles_apart uuid K (delete_rels (\<lambda>k d. fst (fst k) = LABEL_ENERGY_ROLE_ASSIGNMENT \<and>
      fst (snd k) = REL_ASSIGNS_ROLE_TO) g)"
    "roles_apart uuid K (delete_assignment_stmt a SOURCE_INFERRED g)"
    using roles_kept_bind [OF kept] roles_kept_delete_rels [OF kept] roles_kept_unassign [OF kept] apart
    by (simp_all add: roles_apart_def)
  show "roles_apart uuid K (upsert_assignment_stmt (energy_role_assignment_id uuid SOURCE_INFERRED e) e role
      SOURCE_INFERRED now g)"
    using roles_kept_upsert_inferred [OF kept] apart by (simp add: roles_apart_def ids_apart_def)
qed

interpretation role_apart: override_invariant "roles_apart uuid K" for uuid K
proof unfold_locales
  fix g and k :: nkey and f :: "dict option \<Rightarrow> dict" and h :: "dict \<Rightarrow> dict" and r s :: rkey
    and e now P
  assume g: "roles_apart uuid K g"
  then have kept: "roles_kept K g" and apart: "ids_apart uuid K" by (simp_all add: roles_apart_def)
  { assume "plain_label (fst k)" "\<And>d. sourced (f d)"
    then show "roles_apart uuid K (merge_node_with k f g)"
      using role_frame.merge_node_law [OF kept] apart by (simp add: roles_apart_def) }
  { assume "plain_label (fst k)" "\<And>d. sourced (h d)"
    then show "roles_apart uuid K (set_node_with k h g)"
      using role_frame.set_node_law [OF kept] apart by (simp add: roles_apart_def) }
  { assume "plain_rel (fst (fst r)) (fst (snd r)) (fst (snd (snd r)))" "\<And>d. sourced (f d)"
    then show "roles_apart uuid K (merge_rel_with r f g)"
      using role_frame.merge_rel_law [OF kept] apart by (simp add: roles_apart_def) }
  { assume "fst (snd r) = REL_OVERRIDE_OF" "fst (fst r) \<in> set ALLOWED_SOURCE_LABELS"
      "fst (snd (snd r)) = LABEL_SEMANTIC_TYPE" "\<And>d. sourced (f d)"
    then show "roles_apart uuid K (merge_rel_with r f g)"
      using role_override.override_rel_law [OF kept] apart by (simp add: roles_apart_def) }
  show "roles_apart uuid K (delete_area_edges_stmt e g)" "roles_apart uuid K (ensure_schema_stmt now g)"
    "roles_apart uuid K (detach_delete (\<lambda>k d. P k \<and> owned d) g)" "roles_apart uuid K (delete_rels (\<lambda>k d. k = s) g)"
    using role_frame.area_edges_law [OF kept] role_frame.schema_law [OF kept] role_frame.delete_owned_law [OF kept]
      role_override.override_delete_law [OF kept] apart by (simp_all add: roles_apart_def)
qed

section \<open>What a reconciliation settles\<close>

text \<open>The role and the entity of the inferred assignment of an entity.\<close>

definition inferred_role :: "dict option \<Rightarrow> (pval \<times> pval) option" where
  "inferred_role d = (case d of
     Some x \<Rightarrow> if has_source SOURCE_INFERRED x then Some (dget x ''role'', dget x ''measurement_entity_id'') else None
   | None \<Rightarrow> None)"

definition inferred_key :: "(string \<Rightarrow> string) \<Rightarrow> string \<Rightarrow> nkey" where
  "inferred_key uuid e = (LABEL_ENERGY_ROLE_ASSIGNMENT, energy_role_assignment_id uuid SOURCE_INFERRED e)"

text \<open>The entities \<open>N\<close> are nodes, and the assignments of the entities \<open>A\<close> are those of the signals.\<close>

definition settled_roles :: "(string \<Rightarrow> string) \<Rightarrow> hass \<Rightarrow> string set \<Rightarrow> string set \<Rightarrow> graph \<Rightarrow> bool" where
  "settled_roles uuid h N A g \<longleftrightarrow> wf_graph g \<and> (\<forall>e \<in> N. has_node g (LABEL_ENTITY, e)) \<and>
     (\<forall>e \<in> A \<inter> N. inferred_role (node g (inferred_key uuid e)) =
        map_option (\<lambda>r. (VStr r, VStr e)) (infer_energy_role h e))"

lemma inferred_key_inj: "inj uuid \<Longrightarrow> inferred_key uuid e = inferred_key uuid f \<longleftrightarrow> e = f"
  by (simp add: inferred_key_def energy_role_assignment_id_def inj_eq)

lemma inferred_not_entity: "(LABEL_ENTITY, e) \<noteq> inferred_key uuid f"
  by (simp add: inferred_key_def const_defs)

lemma node_unassign:
  "wf_graph g \<Longrightarrow> node (delete_assignment_stmt a s g) k =
     (case node g k of None \<Rightarrow> None
      | Some d \<Rightarrow> if k = (LABEL_ENERGY_ROLE_ASSIGNMENT, a) \<and> has_source s d then None else Some d)"
  by (auto simp: delete_assignment_stmt_def node_detach_delete [OF wf_nodes_distinct] split: option.splits)

lemma settled_unassign:
  assumes u: "inj uuid" and g: "settled_roles uuid h N A g" and e: "infer_energy_role h e = None"
  shows "settled_roles uuid h N (insert e A)
    (delete_assignment_stmt (energy_role_assignment_id uuid SOURCE_INFERRED e) SOURCE_INFERRED g)" (is "settled_roles _ _ _ _ ?g")
proof -
  have wf: "wf_graph g" using g by (simp add: settled_roles_def)
  have n: "node ?g k = (case node g k of None \<Rightarrow> None
      | Some d \<Rightarrow> if k = inferred_key uuid e \<and> has_source SOURCE_INFERRED d then None else Some d)" for k
    unfolding node_unassign [OF wf] inferred_key_def ..
  have "wf_graph ?g" using wf by (simp add: delete_assignment_stmt_def wf_detach_delete)
  moreover have "has_node ?g (LABEL_ENTITY, f)" if "f \<in> N" for f
    using g that by (auto simp: settled_roles_def has_node_def n inferred_not_entity)
  moreover have "inferred_role (node ?g (inferred_key uuid f)) = map_option (\<lambda>r. (VStr r, VStr f)) (infer_energy_role h f)"
    if "f \<in> insert e A" "f \<in> N" for f
  proof (cases "f = e")
    case True
    then show ?thesis using e by (auto simp: n inferred_role_def split: option.split)
  next
    case False
    then have "node ?g (inferred_key uuid f) = node g (inferred_key uuid f)"
      by (simp add: n inferred_key_inj [OF u] split: option.split)
    then show ?thesis using g that False by (simp add: settled_roles_def)
  qed
  ultimately show ?thesis by (simp add: settled_roles_def)
qed

lemma settled_upsert:
  assumes u: "inj uuid" and g: "settled_roles uuid h N A g" and e: "infer_energy_role h e = Some r"
  shows "settled_roles uuid h N (insert e A)
    (upsert_assignment_stmt (energy_role_assignment_id uuid SOURCE_INFERRED e) e r SOURCE_INFERRED now g)"
    (is "settled_roles _ _ _ _ ?g")
proof -
  have n: "node ?g k = (if has_node g (LABEL_ENTITY, e) \<and> k = inferred_key uuid e
      then Some (assignment_props e r SOURCE_INFERRED now (node g k)) else node g k)" for k
    unfolding node_upsert_assignment inferred_key_def ..
  have "wf_graph ?g" using g by (simp add: settled_roles_def wf_upsert_assignment)
  moreover have "has_node ?g (LABEL_ENTITY, f)" if "f \<in> N" for f
    using g that by (simp add: settled_roles_def has_node_def n)
  moreover have "inferred_role (node ?g (inferred_key uuid f)) = map_option (\<lambda>r. (VStr r, VStr f)) (infer_energy_role h f)"
    if "f \<in> insert e A" "f \<in> N" for f
    using g that e unfolding settled_roles_def n
    by (cases "f = e") (auto simp: inferred_key_inj [OF u] inferred_role_def has_source_def
        assignment_props_source assignment_props_role assignment_props_entity)
  ultimately show ?thesis by (simp add: settled_roles_def)
qed

lemma reconcile_entity_settles:
  assumes u: "inj uuid"
  shows "yields (\<lambda>w. settled_roles uuid h N A (w_graph w)) (async_reconcile_energy_role_for_entity uuid h e)
    (\<lambda>_ w. settled_roles uuid h N (insert e A) (w_graph w))"
proof -
  have less: "settled_roles uuid h N (insert e A) g \<Longrightarrow> settled_roles uuid h N A g" for g
    by (auto simp: settled_roles_def)
  have now: "yields (\<lambda>w. P (w_graph w)) now_iso (\<lambda>_ w. P (w_graph w))" for P
    by (rule yields_keeps [OF keeps_graph_now_iso])
  show ?thesis
  proof (cases "infer_energy_role h e")
    case None
    then show ?thesis unfolding async_reconcile_energy_role_for_entity_def
      by (simp, intro yields_oseq [OF yields_run_query_with_retry yields_oret])
        (auto intro: settled_unassign [OF u] less)
  next
    case (Some r)
    then show ?thesis unfolding async_reconcile_energy_role_for_entity_def upsert_inferred_energy_role_def
      by (simp, intro yields_oseq [OF yields_obind [OF now yields_run_query_with_retry] yields_oret])
        (auto intro: settled_upsert [OF u] less)
  qed
qed

text \<open>After a repair every assignment whose entity is a node is bound to it.\<close>

definition bound :: "graph \<Rightarrow> nkey \<times> dict \<Rightarrow> bool" where
  "bound g a \<longleftrightarrow> (case dget (snd a) ''measurement_entity_id'' of
     VStr e \<Rightarrow> \<not> has_node g (LABEL_ENTITY, e) \<or> rel g (binding_key (snd (fst a)) e) \<noteq> None | _ \<Rightarrow> True)"

lemma nodes_rebind [simp]: "g_nodes (rebind_stmt a g) = g_nodes g"
  by (auto simp: rebind_stmt_def bind_stmt_def split: pval.split)

lemma has_node_rebind [simp]: "has_node (rebind_stmt a g) k = has_node g k"
  by (simp add: has_node_def node_def)

lemma bound_rebind_other: "bound g b \<Longrightarrow> bound (rebind_stmt a g) b"
  by (auto simp: bound_def rebind_stmt_def bind_stmt_def rel_merge_rel_with split: pval.splits)

lemma bound_rebind: "fst (fst a) = LABEL_ENERGY_ROLE_ASSIGNMENT \<Longrightarrow> has_node g (fst a) \<Longrightarrow> bound (rebind_stmt a g) a"
  by (cases a) (auto simp: bound_def rebind_stmt_def bind_stmt_def rel_merge_rel_with binding_key_def split: pval.split)

lemma bound_unwind:
  "(\<And>a. a \<in> set rows \<Longrightarrow> fst (fst a) = LABEL_ENERGY_ROLE_ASSIGNMENT \<and> has_node g (fst a)) \<Longrightarrow>
   (\<forall>a \<in> B. bound g a) \<Longrightarrow> \<forall>a \<in> B \<union> set rows. bound (unwind rebind_stmt rows g) a"
proof (induction rows arbitrary: g B)
  case Nil
  then show ?case by (simp add: unwind_def)
next
  case (Cons r rows)
  have "\<forall>a \<in> insert r B. bound (rebind_stmt r g) a"
    using Cons.prems bound_rebind bound_rebind_other by auto
  then have "\<forall>a \<in> insert r B \<union> set rows. bound (unwind rebind_stmt rows (rebind_stmt r g)) a"
    using Cons.prems(1) by (intro Cons.IH) auto
  then show ?case by (simp add: unwind_def)
qed

lemma nodes_unwind_rebind: "g_nodes (unwind rebind_stmt rows g) = g_nodes g"
  by (rule unwind_invariant [where I = "\<lambda>h. g_nodes h = g_nodes g"]) simp_all

lemma nodes_repair: "g_nodes (repair_bindings_stmt g) = g_nodes g"
  by (simp add: repair_bindings_stmt_def nodes_unwind_rebind delete_rels_def)

lemma node_repair: "node (repair_bindings_stmt g) k = node g k"
  by (simp add: node_def nodes_repair)

lemma repair_bound:
  assumes "node g (LABEL_ENERGY_ROLE_ASSIGNMENT, a) = Some d"
  shows "bound (repair_bindings_stmt g) ((LABEL_ENERGY_ROLE_ASSIGNMENT, a), d)"
proof -
  let ?rows = "nodes_where (\<lambda>k d. fst k = LABEL_ENERGY_ROLE_ASSIGNMENT) g"
  have "((LABEL_ENERGY_ROLE_ASSIGNMENT, a), d) \<in> set ?rows"
    using assms by (auto simp: nodes_where_def node_def dest: map_of_SomeD)
  moreover have "has_node g (fst x)" if "x \<in> set ?rows" for x
  proof -
    have "x \<in> set (g_nodes g)" using that by (auto simp: nodes_where_def)
    then show ?thesis by (simp add: has_node_def node_def map_of_eq_None_iff)
  qed
  ultimately show ?thesis
    using bound_unwind [of ?rows "delete_rels (\<lambda>k d. fst (fst k) = LABEL_ENERGY_ROLE_ASSIGNMENT \<and>
        fst (snd k) = REL_ASSIGNS_ROLE_TO) g" "{}"]
    by (auto simp: repair_bindings_stmt_def nodes_where_def)
qed

definition roles_bound :: "graph \<Rightarrow> bool" where
  "roles_bound g \<longleftrightarrow> (\<forall>a d. node g (LABEL_ENERGY_ROLE_ASSIGNMENT, a) = Some d \<longrightarrow>
     bound g ((LABEL_ENERGY_ROLE_ASSIGNMENT, a), d))"

lemma reconcile_settles:
  assumes u: "inj uuid"
  shows "yields (\<lambda>w. settled_roles uuid h N {} (w_graph w)) (async_reconcile_energy_roles uuid h None)
    (\<lambda>_ w. settled_roles uuid h N (set (map st_entity_id (ha_states h))) (w_graph w) \<and> roles_bound (w_graph w))"
proof -
  let ?J = "\<lambda>A w. settled_roles uuid h N A (w_graph w)"
  let ?es = "sort (map st_entity_id (ha_states h))"
  have "yields (?J {}) (ofold (\<lambda>candidate inferred_count.
              obind (async_reconcile_energy_role_for_entity uuid h candidate) (\<lambda>inferred.
                oret (if inferred then inferred_count + 1 else inferred_count))) ?es 0)
     (\<lambda>_. ?J ({} \<union> set ?es))"
    by (intro yields_ofold [where J = ?J] yields_obind [OF reconcile_entity_settles [OF u] yields_oret])
  moreover have "yields (?J (set ?es)) async_repair_energy_role_bindings
     (\<lambda>_ w. ?J (set ?es) w \<and> roles_bound (w_graph w))"
    unfolding async_repair_energy_role_bindings_def
    by (rule yields_run_query_with_retry [of "settled_roles uuid h N (set ?es)"])
      (simp add: settled_roles_def roles_bound_def has_node_def node_repair wf_role.repair_stmt_keeps repair_bound)
  ultimately show ?thesis unfolding async_reconcile_energy_roles_def
    by (intro yields_obind yields_oseq yields_oret) (auto intro: yields_weaken)
qed

section \<open>The roles and the overrides of the user side by side\<close>

text \<open>An override of an entity, a device or an area survives what the inference writes.\<close>

definition override_present :: "override \<Rightarrow> graph \<Rightarrow> bool" where
  "override_present ov g \<longleftrightarrow> wf_graph g \<and> fst ov \<in> set ALLOWED_SOURCE_LABELS \<and> user_override g ov"

lemma allowed_not_role: "l \<in> set ALLOWED_SOURCE_LABELS \<Longrightarrow> l \<noteq> LABEL_ENERGY_ROLE_ASSIGNMENT"
  by (auto simp: ALLOWED_SOURCE_LABELS_def const_defs)

lemma semantic_not_role: "LABEL_SEMANTIC_TYPE \<noteq> LABEL_ENERGY_ROLE_ASSIGNMENT"
  by (simp add: const_defs)

lemma user_override_rel:
  "rel h ((fst ov, fst (snd ov)), REL_OVERRIDE_OF, (LABEL_SEMANTIC_TYPE, snd (snd ov))) =
   rel g ((fst ov, fst (snd ov)), REL_OVERRIDE_OF, (LABEL_SEMANTIC_TYPE, snd (snd ov))) \<Longrightarrow>
   user_override h ov = user_override g ov"
  by (cases ov) (simp add: user_override_def)

lemma override_presentI:
  assumes "override_present ov g" and "wf_graph h"
    and "rel h ((fst ov, fst (snd ov)), REL_OVERRIDE_OF, (LABEL_SEMANTIC_TYPE, snd (snd ov))) =
      rel g ((fst ov, fst (snd ov)), REL_OVERRIDE_OF, (LABEL_SEMANTIC_TYPE, snd (snd ov)))"
  shows "override_present ov h"
  using assms user_override_rel [OF assms(3)] by (simp add: override_present_def)

lemma rel_bind_other: "fst (snd k) \<noteq> REL_ASSIGNS_ROLE_TO \<Longrightarrow> rel (bind_stmt a e g) k = rel g k"
  by (auto simp: bind_stmt_def rel_merge_rel_with binding_key_def)

lemma override_not_binding: "REL_OVERRIDE_OF \<noteq> REL_ASSIGNS_ROLE_TO"
  by (simp add: const_defs)

lemma rel_unassign_other:
  assumes wf: "wf_graph g" and "fst (fst k) \<noteq> LABEL_ENERGY_ROLE_ASSIGNMENT" "fst (snd (snd k)) \<noteq> LABEL_ENERGY_ROLE_ASSIGNMENT"
  shows "rel (delete_assignment_stmt a s g) k = rel g k"
proof -
  have "has_node (delete_assignment_stmt a s g) c \<longleftrightarrow> has_node g c" if "fst c \<noteq> LABEL_ENERGY_ROLE_ASSIGNMENT" for c
    using that by (auto simp: delete_assignment_stmt_def has_node_def node_detach_delete [OF wf_nodes_distinct [OF wf]]
        split: option.splits)
  then have "rel (delete_assignment_stmt a s g) k = Some d \<longleftrightarrow> rel g k = Some d" for d
    using assms rel_detach_delete [OF wf, of _ k d] wf_rel_ends [OF wf, of k d]
    unfolding delete_assignment_stmt_def by blast
  then show ?thesis by (metis not_Some_eq)
qed

interpretation override_role: inference_invariant "override_present ov" uuid for ov uuid
proof unfold_locales
  fix g a e r now
  assume g: "override_present ov g"
  then have wf: "wf_graph g" and l: "fst ov \<in> set ALLOWED_SOURCE_LABELS" by (simp_all add: override_present_def)
  show "override_present ov (bind_stmt a e g)"
    by (rule override_presentI [OF g wf_bind [OF wf]]) (simp add: rel_bind_other override_not_binding)
  show "override_present ov (delete_rels (\<lambda>k d. fst (fst k) = LABEL_ENERGY_ROLE_ASSIGNMENT \<and>
      fst (snd k) = REL_ASSIGNS_ROLE_TO) g)"
    by (rule override_presentI [OF g wf_delete_rels [OF wf]])
      (simp add: rel_delete_rels [OF wf] override_not_binding split: option.splits)
  show "override_present ov (upsert_assignment_stmt (energy_role_assignment_id uuid SOURCE_INFERRED e) e r
      SOURCE_INFERRED now g)"
    by (rule override_presentI [OF g wf_upsert_assignment [OF wf]])
      (simp add: upsert_assignment_stmt_def rel_bind_other override_not_binding)
  have "wf_graph (delete_assignment_stmt a SOURCE_INFERRED g)"
    by (simp add: wf wf_detach_delete delete_assignment_stmt_def)
  then show "override_present ov (delete_assignment_stmt a SOURCE_INFERRED g)"
    by (rule override_presentI [OF g])
      (simp add: rel_unassign_other [OF wf] allowed_not_role [OF l] semantic_not_role)
qed

interpretation override_writes: merge_invariant "override_present ov" for ov
proof unfold_locales
  fix g and k :: nkey and f and h :: "dict \<Rightarrow> dict" and r :: rkey and e now
  assume g: "override_present ov g"
  then have wf: "wf_graph g" by (simp add: override_present_def)
  show "override_present ov (merge_node_with k f g)"
    by (rule override_presentI [OF g wf_merge_node_with [OF wf]]) simp
  show "override_present ov (set_node_with k h g)"
    by (rule override_presentI [OF g wf_set_node_with [OF wf]]) simp
  { assume "plain_rel (fst (fst r)) (fst (snd r)) (fst (snd (snd r)))"
    then show "override_present ov (merge_rel_with r f g)"
      by (intro override_presentI [OF g wf_merge_rel_with [OF wf]])
        (auto simp: rel_merge_rel_with plain_rel_def) }
  show "override_present ov (delete_area_edges_stmt e g)"
    unfolding delete_area_edges_stmt_def
    by (rule override_presentI [OF g wf_delete_rels [OF wf]])
      (auto simp: rel_delete_rels [OF wf] const_defs split: option.splits)
  show "override_present ov (ensure_schema_stmt now g)"
    unfolding ensure_schema_stmt_def
    by (rule override_presentI [OF g wf_merge_node_with [OF wf]]) simp
qed

section \<open>What a user of energy roles can rely on\<close>

text \<open>A home with a solar sensor and a lamp, and its graph.\<close>

definition solar_home :: hass where
  "solar_home = empty_home\<lparr>ha_states :=
     [\<lparr>st_entity_id = ''sensor.solar'', st_state = ''5'', st_name = None,
        st_attributes = [(''device_class'', VStr ''power'')], st_last_changed = 0, st_last_updated = 0\<rparr>,
      \<lparr>st_entity_id = ''light.hall'', st_state = ''on'', st_name = None, st_attributes = [],
        st_last_changed = 0, st_last_updated = 0\<rparr>]\<rparr>"

definition solar_graph :: graph where
  "solar_graph =
     \<lparr>g_nodes = [((LABEL_ENTITY, ''sensor.solar''), [(''name'', VStr ''Solar''),
          (MEASUREMENT_KIND, VStr MEASUREMENT_KIND_POWER)]), ((LABEL_ENTITY, ''light.hall''), [])],
      g_rels = [], g_indexes = []\<rparr>"

text \<open>
  C19. A full reconciliation that succeeds leaves, for every entity with a state and a node, exactly the
  inferred assignment its signals give, bound to the entity, and none when they give none.  Ids are
  name-based UUIDs, which are distinct for distinct names.
\<close>

theorem reconciliation_exact:
  assumes "inj uuid" and "wf_graph (w_graph s)"
    and "async_reconcile_energy_roles uuid h None s = (Inr n, t)"
    and "e \<in> set (map st_entity_id (ha_states h))" and "has_node (w_graph s) (LABEL_ENTITY, e)"
  shows "inferred_role (node (w_graph t) (inferred_key uuid e)) =
      map_option (\<lambda>r. (VStr r, VStr e)) (infer_energy_role h e) \<and>
    (infer_energy_role h e = None \<or>
     rel (w_graph t) (binding_key (energy_role_assignment_id uuid SOURCE_INFERRED e) e) \<noteq> None)"
proof -
  let ?N = "{e. has_node (w_graph s) (LABEL_ENTITY, e)}"
  have "settled_roles uuid h ?N {} (w_graph s)" using assms(2) by (simp add: settled_roles_def)
  then have t: "settled_roles uuid h ?N (set (map st_entity_id (ha_states h))) (w_graph t)" "roles_bound (w_graph t)"
    using yieldsD [OF reconcile_settles [OF assms(1)] _ assms(3)] by blast+
  then have r: "inferred_role (node (w_graph t) (inferred_key uuid e)) =
      map_option (\<lambda>r. (VStr r, VStr e)) (infer_energy_role h e)" and n: "has_node (w_graph t) (LABEL_ENTITY, e)"
    using assms(4,5) by (auto simp: settled_roles_def)
  moreover have "rel (w_graph t) (binding_key (energy_role_assignment_id uuid SOURCE_INFERRED e) e) \<noteq> None"
    if "infer_energy_role h e = Some role" for role
  proof -
    from r that obtain d where "node (w_graph t) (inferred_key uuid e) = Some d"
      "dget d ''measurement_entity_id'' = VStr e"
      by (auto simp: inferred_role_def split: option.splits if_splits)
    then show ?thesis using t(2) n by (fastforce simp: roles_bound_def bound_def inferred_key_def)
  qed
  ultimately show ?thesis by (cases "infer_energy_role h e") auto
qed

theorem reconciliation_exact_witness:
  "inferred_role (node (w_graph (snd (async_reconcile_energy_roles (\<lambda>x. x) solar_home None (world_at solar_graph []))))
      (inferred_key (\<lambda>x. x) ''sensor.solar'')) = Some (VStr ENERGY_ROLE_PRODUCER, VStr ''sensor.solar'')"
proof -
  have "infer_energy_role solar_home ''sensor.solar'' = Some ENERGY_ROLE_PRODUCER" by code_simp
  moreover have "async_reconcile_energy_roles (\<lambda>x. x) solar_home None (world_at solar_graph [])
      = (Inr 1, snd (async_reconcile_energy_roles (\<lambda>x. x) solar_home None (world_at solar_graph [])))"
    by code_simp
  moreover have "wf_graph solar_graph" "has_node solar_graph (LABEL_ENTITY, ''sensor.solar'')"
    "''sensor.solar'' \<in> set (map st_entity_id (ha_states solar_home))" by code_simp+
  ultimately show ?thesis
    using reconciliation_exact [of "\<lambda>x. x" "world_at solar_graph []" solar_home 1] by (simp add: world_at_def)
qed

lemma resolve_power_result:
  assumes "resolve_power_entity identifier w = (Inr i, t)" and "wf_graph (w_graph w)"
  shows "w_graph t = w_graph w \<and> (\<exists>d. node (w_graph w) (LABEL_ENTITY, i) = Some d \<and>
    dget d MEASUREMENT_KIND = VStr MEASUREMENT_KIND_POWER)"
proof -
  let ?rows = "power_entity_rows identifier (w_graph w)"
  obtain rows u where q: "run_query (read_stmt (power_entity_rows identifier)) w = (Inr rows, u)"
    and c: "(let exact = filter (\<lambda>r. pr_entity_id r = identifier) rows;
           candidates = (if exact \<noteq> [] then exact else rows)
       in (case candidates of
             [] \<Rightarrow> oraise (EnergyRoleRejected ''Power measurement entity not found'')
           | candidate # others \<Rightarrow>
               if others \<noteq> [] then oraise (EnergyRoleRejected ''Power measurement entity is ambiguous'')
               else if pr_measurement_kind candidate \<noteq> VStr MEASUREMENT_KIND_POWER
               then oraise (EnergyRoleRejected ''Entity is not a power measurement'')
               else oret (pr_entity_id candidate))) u = (Inr i, t)"
    using assms(1) unfolding resolve_power_entity_def by (rule obind_result)
  have rows: "rows = ?rows" "w_graph u = w_graph w"
    using q by (auto simp: run_query_eq read_stmt_def split: list.splits net.splits)
  obtain r others where m: "(if filter (\<lambda>r. pr_entity_id r = identifier) rows \<noteq> []
      then filter (\<lambda>r. pr_entity_id r = identifier) rows else rows) = r # others"
    and kind: "pr_measurement_kind r = VStr MEASUREMENT_KIND_POWER" and i: "i = pr_entity_id r" and tu: "t = u"
    using c by (auto simp: Let_def split: list.splits if_splits)
  have "r \<in> set rows"
  proof (cases "filter (\<lambda>r. pr_entity_id r = identifier) rows = []")
    case False
    then have "r \<in> set (filter (\<lambda>r. pr_entity_id r = identifier) rows)" using m by simp
    then show ?thesis by simp
  qed (use m in simp)
  then have "\<exists>r \<in> set ?rows. pr_entity_id r = i \<and> pr_measurement_kind r = VStr MEASUREMENT_KIND_POWER"
    using kind i rows by auto
  moreover have t: "w_graph t = w_graph w" using tu rows by simp
  ultimately obtain r where r: "r \<in> set ?rows" "pr_entity_id r = i" "pr_measurement_kind r = VStr MEASUREMENT_KIND_POWER" by blast
  from r(1) obtain k d where "(k, d) \<in> set (g_nodes (w_graph w))" "fst k = LABEL_ENTITY"
    "pr_entity_id r = snd k" "pr_measurement_kind r = dget d MEASUREMENT_KIND"
    by (auto simp: power_entity_rows_def Let_def nodes_where_def dest!: in_set_takeD)
  then have "node (w_graph w) (LABEL_ENTITY, i) = Some d"
    using wf_nodes_distinct [OF assms(2)] r(2) by (cases k) (simp add: node_def)
  then show ?thesis using t r \<open>pr_measurement_kind r = dget d MEASUREMENT_KIND\<close> by simp
qed

text \<open>
  Setting an energy role that succeeds has stored exactly that role, one of the five, as the user's
  assignment of a power measurement that is in the graph, bound to it, and reports what it stored.
\<close>

theorem set_energy_role_stores:
  assumes "wf_graph (w_graph w)" and "async_set_energy_role uuid entity role w = (Inr res, w')"
  shows "role = VStr (rr_role res) \<and> rr_role res \<in> set ENERGY_ROLES \<and> rr_source res = SOURCE_USER \<and>
    rr_assignment_id res = energy_role_assignment_id uuid SOURCE_USER (rr_entity_id res) \<and>
    (\<exists>d. node (w_graph w) (LABEL_ENTITY, rr_entity_id res) = Some d \<and> dget d MEASUREMENT_KIND = VStr MEASUREMENT_KIND_POWER) \<and>
    (\<exists>d. node (w_graph w') (LABEL_ENERGY_ROLE_ASSIGNMENT, rr_assignment_id res) = Some d \<and>
      dget d ''role'' = role \<and> dget d ''source'' = VStr SOURCE_USER \<and>
      dget d ''measurement_entity_id'' = VStr (rr_entity_id res)) \<and>
    rel (w_graph w') (binding_key (rr_assignment_id res) (rr_entity_id res)) \<noteq> None"
proof -
  from assms(2) obtain r u i v row x where r: "validate_role role w = (Inr r, u)"
    and i: "resolve_power_entity entity u = (Inr i, v)"
    and q: "run_query (set_role_stmt (energy_role_assignment_id uuid SOURCE_USER i) i r (VTime (w_now v)))
       (snd (utc_now v)) = (Inr row, x)"
    and o: "(case row of None \<Rightarrow> oraise (EnergyRoleRejected ''Power measurement entity no longer exists'')
          | Some y \<Rightarrow> oret y) x = (Inr res, w')"
    unfolding async_set_energy_role_def Let_def
    by (elim obind_result) (auto simp: now_iso_step)
  have u: "u = w" "role = VStr r" "r \<in> set ENERGY_ROLES"
    using r by (auto simp: validate_role_def split: pval.splits if_splits)
  note p = resolve_power_result [OF i] u assms(1)
  let ?a = "energy_role_assignment_id uuid SOURCE_USER i"
  have n: "has_node (w_graph w) (LABEL_ENTITY, i)" and g: "w_graph v = w_graph w" using p by (auto simp: has_node_def)
  have res: "res = \<lparr>rr_assignment_id = ?a, rr_entity_id = i, rr_role = r, rr_source = SOURCE_USER,
      rr_effective_role = r, rr_effective_source = SOURCE_USER\<rparr>"
    and w': "w_graph w' = upsert_assignment_stmt ?a i r SOURCE_USER (VTime (w_now v)) (w_graph w)"
    using q o n g by (auto simp: run_query_eq set_role_stmt_def split: list.splits net.splits)
  have "node (w_graph w') (LABEL_ENERGY_ROLE_ASSIGNMENT, ?a) =
      Some (assignment_props i r SOURCE_USER (VTime (w_now v)) (node (w_graph w) (LABEL_ENERGY_ROLE_ASSIGNMENT, ?a)))"
    using n by (simp add: w' node_upsert_assignment)
  moreover have "rel (w_graph w') (binding_key ?a i) \<noteq> None"
    using n by (simp add: w' upsert_assignment_stmt_def bind_stmt_def rel_merge_rel_with binding_key_def)
  ultimately show ?thesis using p res u
    by (simp add: assignment_props_source assignment_props_role assignment_props_entity)
qed

theorem set_energy_role_stores_witness:
  "user_role (node (w_graph (snd (async_set_energy_role (\<lambda>x. x) ''SOLAR'' (VStr ENERGY_ROLE_STORAGE) (world_at solar_graph []))))
     (LABEL_ENERGY_ROLE_ASSIGNMENT, energy_role_assignment_id (\<lambda>x. x) SOURCE_USER ''sensor.solar'')) \<noteq> None"
proof -
  let ?r = "\<lparr>rr_assignment_id = energy_role_assignment_id (\<lambda>x. x) SOURCE_USER ''sensor.solar'', rr_entity_id = ''sensor.solar'',
      rr_role = ENERGY_ROLE_STORAGE, rr_source = SOURCE_USER, rr_effective_role = ENERGY_ROLE_STORAGE,
      rr_effective_source = SOURCE_USER\<rparr>"
  have r: "async_set_energy_role (\<lambda>x. x) ''SOLAR'' (VStr ENERGY_ROLE_STORAGE) (world_at solar_graph []) =
      (Inr ?r, snd (async_set_energy_role (\<lambda>x. x) ''SOLAR'' (VStr ENERGY_ROLE_STORAGE) (world_at solar_graph [])))"
    by code_simp
  have "wf_graph (w_graph (world_at solar_graph []))" by code_simp
  from set_energy_role_stores [OF this r] show ?thesis by (auto simp: user_role_def)
qed

text \<open>
  Deleting the user's role of an entity removes that assignment and nothing else of the nodes, says
  whether there was one, and offers as the role now in effect only one the inference holds.
\<close>

theorem delete_energy_role_exact:
  assumes "wf_graph (w_graph w)" and "async_delete_user_energy_role uuid entity w = (Inr res, w')"
  shows "\<exists>i v. let a = (LABEL_ENERGY_ROLE_ASSIGNMENT, energy_role_assignment_id uuid SOURCE_USER i) in
    resolve_power_entity entity w = (Inr i, v) \<and>
    (dr_deleted res \<longleftrightarrow> user_role (node (w_graph w) a) \<noteq> None) \<and> user_role (node (w_graph w') a) = None \<and>
    (\<forall>k. k \<noteq> a \<longrightarrow> node (w_graph w') k = node (w_graph w) k) \<and>
    (dr_effective_role res \<noteq> VNone \<longrightarrow> (\<exists>k d. node (w_graph w') k = Some d \<and> has_source SOURCE_INFERRED d \<and>
      dget d ''role'' = dr_effective_role res))"
proof -
  let ?answer = "\<lambda>i. \<lambda>None \<Rightarrow> \<lparr>dr_deleted = False, dr_entity_id = VStr i, dr_effective_role = VNone, dr_effective_source = VNone\<rparr>
       | Some (e, role, source) \<Rightarrow>
           \<lparr>dr_deleted = True, dr_entity_id = (if truthy e then e else VStr i),
             dr_effective_role = role, dr_effective_source = source\<rparr>"
  from assms(2) obtain i v where i: "resolve_power_entity entity w = (Inr i, v)"
    and rest: "obind (run_query (delete_role_stmt (energy_role_assignment_id uuid SOURCE_USER i)))
      (\<lambda>row. oret (?answer i row)) v = (Inr res, w')"
    unfolding async_delete_user_energy_role_def by (rule obind_result)
  from rest obtain row t where "run_query (delete_role_stmt (energy_role_assignment_id uuid SOURCE_USER i)) v = (Inr row, t)"
    and o: "oret (?answer i row) t = (Inr res, w')" by (rule obind_result)
  then have q: "run_query (delete_role_stmt (energy_role_assignment_id uuid SOURCE_USER i)) v = (Inr row, w')"
    and res: "res = ?answer i row" by simp_all
  let ?id = "energy_role_assignment_id uuid SOURCE_USER i"
  let ?a = "(LABEL_ENERGY_ROLE_ASSIGNMENT, ?id)"
  have g: "w_graph v = w_graph w" using resolve_power_result [OF i assms(1)] by simp
  have row: "row = fst (delete_role_stmt ?id (w_graph w))" and w': "w_graph w' = delete_assignment_stmt ?id SOURCE_USER (w_graph w)"
    using q g by (auto simp: run_query_eq delete_role_stmt_def Let_def split: list.splits net.splits)
  note n = node_unassign [OF assms(1), of ?id SOURCE_USER]
  have d: "dr_deleted res \<longleftrightarrow> user_role (node (w_graph w) ?a) \<noteq> None"
    unfolding res row delete_role_stmt_def Let_def user_role_def by (simp add: has_source_def split: option.split)
  moreover have "user_role (node (w_graph w') ?a) = None"
    by (auto simp: w' n user_role_def has_source_def split: option.split)
  moreover have "node (w_graph w') k = node (w_graph w) k" if "k \<noteq> ?a" for k
    using that by (auto simp: w' n split: option.split)
  moreover have "\<exists>k d. node (w_graph w') k = Some d \<and> has_source SOURCE_INFERRED d \<and> dget d ''role'' = dr_effective_role res"
    if eff: "dr_effective_role res \<noteq> VNone"
  proof -
    obtain e source where "row = Some (e, dr_effective_role res, source)"
      using eff res by (cases row) auto
    then obtain k x where "(k, x) \<in> set (nodes_where (\<lambda>k x. fst k = LABEL_ENERGY_ROLE_ASSIGNMENT \<and> e \<noteq> VNone \<and>
          dget x ''measurement_entity_id'' = e \<and> has_source SOURCE_INFERRED x) (w_graph w'))"
      and x: "dget x ''role'' = dr_effective_role res"
      using eff unfolding row delete_role_stmt_def Let_def w'
      by (auto split: option.splits if_splits list.splits prod.splits)
    then have m: "(k, x) \<in> set (g_nodes (w_graph w'))" and s: "has_source SOURCE_INFERRED x" by (auto simp: nodes_where_def)
    have "wf_graph (w_graph w')" using assms(1) by (simp add: w' delete_assignment_stmt_def wf_detach_delete)
    then have "node (w_graph w') k = Some x" using m wf_nodes_distinct by (simp add: node_def)
    then show ?thesis using s x by blast
  qed
  ultimately show ?thesis using i unfolding Let_def by blast
qed

theorem delete_energy_role_exact_witness:
  "\<exists>res i. fst (async_delete_user_energy_role (\<lambda>x. x) ''SOLAR'' (world_at solar_graph [])) = Inr res \<and>
     dr_deleted res = (user_role (node solar_graph
       (LABEL_ENERGY_ROLE_ASSIGNMENT, energy_role_assignment_id (\<lambda>x. x) SOURCE_USER i)) \<noteq> None)"
proof -
  let ?r = "\<lparr>dr_deleted = False, dr_entity_id = VStr ''sensor.solar'', dr_effective_role = VNone, dr_effective_source = VNone\<rparr>"
  have r: "async_delete_user_energy_role (\<lambda>x. x) ''SOLAR'' (world_at solar_graph []) =
      (Inr ?r, snd (async_delete_user_energy_role (\<lambda>x. x) ''SOLAR'' (world_at solar_graph [])))"
    by code_simp
  have "wf_graph (w_graph (world_at solar_graph []))" by code_simp
  from delete_energy_role_exact [OF this r] obtain i where
    "dr_deleted ?r = (user_role (node (w_graph (world_at solar_graph []))
       (LABEL_ENERGY_ROLE_ASSIGNMENT, energy_role_assignment_id (\<lambda>x. x) SOURCE_USER i)) \<noteq> None)"
    unfolding Let_def by blast
  then have "dr_deleted ?r = (user_role (node solar_graph
       (LABEL_ENERGY_ROLE_ASSIGNMENT, energy_role_assignment_id (\<lambda>x. x) SOURCE_USER i)) \<noteq> None)"
    by (simp only: world_at_def world.simps)
  then show ?thesis using r by (metis fst_conv)
qed

end
