(* ===== verification/Dashboard_Sync.thy ===== *)
theory Dashboard_Sync
  imports Graph_Frames
begin

text \<open>
  \<open>dashboard_sync.py\<close>: dashboards, their cards by position, and the entities a card's configuration
  mentions.  The check of an entity id is Home Assistant's and a parameter (\<open>valid_entity_id\<close>).
\<close>

section \<open>Definitions\<close>

definition dashboard_card_ha_id :: "string \<Rightarrow> nat \<Rightarrow> nat \<Rightarrow> string" where
  "dashboard_card_ha_id dashboard_ha_id view_index card_index =
     dashboard_ha_id @ ''::'' @ str_of_nat view_index @ ''::'' @ str_of_nat card_index"

text \<open>\<open>value or []\<close>, iterated.\<close>

definition iterate_or_empty :: "pval \<Rightarrow> exn + pval list" where
  "iterate_or_empty v =
     (if \<not> truthy v then Inr []
      else (case v of
              VList xs \<Rightarrow> Inr xs
            | VDict d \<Rightarrow> Inr (map (\<lambda>(k, _). VStr k) d)
            | VStr s \<Rightarrow> Inr (map (\<lambda>c. VStr [c]) s)
            | _ \<Rightarrow> Inl (TypeError ''object is not iterable'')))"

text \<open>\<open>value.get(key)\<close> on something that should be a dictionary.\<close>

definition py_get :: "pval \<Rightarrow> string \<Rightarrow> exn + pval" where
  "py_get v k = (case v of VDict d \<Rightarrow> Inr (dget d k) | _ \<Rightarrow> Inl (AttributeError ''object has no attribute get''))"

definition cards_of :: "pval \<Rightarrow> exn + pval list" where
  "cards_of v = (case py_get v ''cards'' of Inl e \<Rightarrow> Inl e | Inr c \<Rightarrow> iterate_or_empty c)"

fun section_cards :: "pval list \<Rightarrow> exn + pval list" where
  "section_cards [] = Inr []"
| "section_cards (s # ss) =
     (case cards_of s of
        Inl e \<Rightarrow> Inl e
      | Inr cards \<Rightarrow> (case section_cards ss of Inl e \<Rightarrow> Inl e | Inr more_cards \<Rightarrow> Inr (cards @ more_cards)))"

definition view_cards :: "pval \<Rightarrow> exn + pval list" where
  "view_cards view =
     (case cards_of view of
        Inl e \<Rightarrow> Inl e
      | Inr cards \<Rightarrow>
          (case py_get view ''sections'' of
             Inl e \<Rightarrow> Inl e
           | Inr s \<Rightarrow>
               (case iterate_or_empty s of
                  Inl e \<Rightarrow> Inl e
                | Inr sections \<Rightarrow>
                    (case section_cards sections of Inl e \<Rightarrow> Inl e | Inr more_cards \<Rightarrow> Inr (cards @ more_cards)))))"

fun number_views :: "nat \<Rightarrow> pval list \<Rightarrow> exn + (nat \<times> nat \<times> pval) list" where
  "number_views i [] = Inr []"
| "number_views i (view # views) =
     (case view_cards view of
        Inl e \<Rightarrow> Inl e
      | Inr cards \<Rightarrow>
          (case number_views (Suc i) views of
             Inl e \<Rightarrow> Inl e
           | Inr rest \<Rightarrow> Inr (map (\<lambda>(j, c). (i, j, c)) (enumerate 0 cards) @ rest)))"

definition iter_cards :: "dict \<Rightarrow> exn + (nat \<times> nat \<times> pval) list" where
  "iter_cards config =
     (case iterate_or_empty (dget config ''views'') of
        Inl e \<Rightarrow> Inl e
      | Inr views \<Rightarrow> number_views 0 views)"

text \<open>The nested function \<open>collect\<close>: the ids found so far are the accumulator.\<close>

fun collect_ids :: "(string \<Rightarrow> bool) \<Rightarrow> pval \<Rightarrow> string list \<Rightarrow> string list"
  and collect_ids_values :: "(string \<Rightarrow> bool) \<Rightarrow> dict \<Rightarrow> string list \<Rightarrow> string list"
  and collect_ids_list :: "(string \<Rightarrow> bool) \<Rightarrow> pval list \<Rightarrow> string list \<Rightarrow> string list" where
  "collect_ids valid (VStr s) found = (if valid s \<and> s \<notin> set found then found @ [s] else found)"
| "collect_ids valid (VDict d) found = collect_ids_values valid d found"
| "collect_ids valid (VList xs) found = collect_ids_list valid xs found"
| "collect_ids valid _ found = found"
| "collect_ids_values valid [] found = found"
| "collect_ids_values valid ((k, v) # d) found = collect_ids_values valid d (collect_ids valid v found)"
| "collect_ids_list valid [] found = found"
| "collect_ids_list valid (v # vs) found = collect_ids_list valid vs (collect_ids valid v found)"

definition card_entity_ids :: "(string \<Rightarrow> bool) \<Rightarrow> pval \<Rightarrow> string list" where
  "card_entity_ids valid conf = collect_ids valid conf []"

definition ofallible :: "exn + 'a \<Rightarrow> ('s, 'a) op" where
  "ofallible r = (case r of Inl e \<Rightarrow> oraise e | Inr x \<Rightarrow> oret x)"

definition sync_card :: "(string \<Rightarrow> bool) \<Rightarrow> string \<Rightarrow> nat \<times> nat \<times> pval \<Rightarrow> ('z, unit) wop" where
  "sync_card valid dashboard_ha_id c = (case c of (view_index, card_index, conf) \<Rightarrow>
     (let card_ha_id = dashboard_card_ha_id dashboard_ha_id view_index card_index in
      obind (ofallible (py_get conf ''type'')) (\<lambda>card_type.
      oseq (merge_node LABEL_DASHBOARD_CARD card_ha_id [(''card_type'', card_type)] SOURCE_GENERATED)
     (oseq (merge_relationship LABEL_DASHBOARD dashboard_ha_id REL_CONTAINS_CARD LABEL_DASHBOARD_CARD card_ha_id
              SOURCE_GENERATED)
       (oforeach (card_entity_ids valid conf) (\<lambda>entity_id.
          otry (merge_relationship LABEL_DASHBOARD_CARD card_ha_id REL_DISPLAYS_ENTITY LABEL_ENTITY entity_id
                  SOURCE_GENERATED) (\<lambda>_. oret ())))))))"

definition sync_one_dashboard ::
  "(string \<Rightarrow> bool) \<Rightarrow> string \<Rightarrow> string option \<Rightarrow> dict \<Rightarrow> ('z, unit) wop" where
  "sync_one_dashboard valid dashboard_ha_id title config =
     oseq (merge_node LABEL_DASHBOARD dashboard_ha_id
             (if present title then [(''title'', opt_str title)] else []) SOURCE_GENERATED)
    (obind (ofallible (iter_cards config)) (\<lambda>cards. oforeach cards (sync_card valid dashboard_ha_id)))"

definition sync_dashboard_step :: "(string \<Rightarrow> bool) \<Rightarrow> dashboard \<Rightarrow> nat \<Rightarrow> ('z, nat) wop" where
  "sync_dashboard_step valid db synced =
     (let key = (case db_key db of Some k \<Rightarrow> k | None \<Rightarrow> ''lovelace'') in
      case db_config db of
        None \<Rightarrow> oret synced
      | Some config \<Rightarrow>
          otry (oseq (sync_one_dashboard valid key (db_title db) config) (oret (synced + 1))) (\<lambda>_. oret synced))"

definition async_sync_dashboards :: "(string \<Rightarrow> bool) \<Rightarrow> hass \<Rightarrow> ('z, nat) wop" where
  "async_sync_dashboards valid h =
     (case ha_dashboards h of
        None \<Rightarrow> oret 0
      | Some dbs \<Rightarrow> ofold (sync_dashboard_step valid) dbs 0)"

section \<open>Laws\<close>

lemma ofallible_keeps: "keeps P (ofallible r)"
  by (cases r) (simp_all add: ofallible_def keeps_oret keeps_oraise)

context merge_invariant
begin

lemma sync_card_keeps: "keeps (\<lambda>w. I (w_graph w)) (sync_card valid k c)"
  unfolding sync_card_def Let_def
  by (intro keeps_case_prod keeps_obind ofallible_keeps keeps_oseq keeps_oforeach keeps_otry keeps_oret
      merge_node_keeps merge_relationship_keeps) (simp_all add: plain_defs)

lemma sync_one_keeps: "keeps (\<lambda>w. I (w_graph w)) (sync_one_dashboard valid k t c)"
  unfolding sync_one_dashboard_def
  by (intro keeps_oseq keeps_obind ofallible_keeps keeps_oforeach sync_card_keeps merge_node_keeps)
    (simp_all add: plain_defs)

lemma sync_dashboards_keeps: "keeps (\<lambda>w. I (w_graph w)) (async_sync_dashboards valid h)"
  unfolding async_sync_dashboards_def sync_dashboard_step_def Let_def
  by (intro keeps_case_option keeps_oret keeps_ofold keeps_otry keeps_oseq sync_one_keeps)

end

text \<open>An operation that never raises.\<close>

definition never_raises :: "('s, 'a) op \<Rightarrow> bool" where
  "never_raises m \<longleftrightarrow> (\<forall>s. \<not> isl (fst (m s)))"

lemma never_raises_oret: "never_raises (oret x)"
  by (simp add: never_raises_def oret_def)

lemma never_raises_otry: "(\<And>e. never_raises (h e)) \<Longrightarrow> never_raises (otry m h)"
  unfolding never_raises_def otry_def by (auto split: prod.splits sum.splits)

lemma never_raises_obind: "never_raises m \<Longrightarrow> (\<And>x. never_raises (f x)) \<Longrightarrow> never_raises (obind m f)"
proof (unfold never_raises_def, intro allI)
  fix s
  assume m: "\<forall>s. \<not> isl (fst (m s))" and f: "\<And>x. \<forall>s. \<not> isl (fst (f x s))"
  obtain r t where r: "m s = (r, t)" by (cases "m s")
  with m have "\<not> isl r" by (metis fst_conv)
  then show "\<not> isl (fst (obind m f s))" using r f by (cases r) (auto simp: obind_def)
qed

lemma never_raises_ofold:
  "(\<And>x a. never_raises (f x a)) \<Longrightarrow> never_raises (ofold f xs a)"
proof (induction xs arbitrary: a)
  case Nil
  then show ?case by (simp add: never_raises_oret)
next
  case (Cons x xs)
  have "never_raises (obind (f x a) (ofold f xs))"
    by (rule never_raises_obind [OF Cons.prems Cons.IH [OF Cons.prems]])
  then show ?case by simp
qed

lemma sync_step_never_raises: "never_raises (sync_dashboard_step valid db n)"
  by (auto simp: sync_dashboard_step_def Let_def intro!: never_raises_oret never_raises_otry split: option.splits)

lemma sync_dashboards_never_raises: "never_raises (async_sync_dashboards valid h)"
  by (auto simp: async_sync_dashboards_def intro!: never_raises_oret never_raises_ofold sync_step_never_raises
      split: option.splits)

text \<open>What the collection finds: the strings in the configuration that are entity ids, once each.\<close>

fun strings_in :: "pval \<Rightarrow> string set"
  and strings_in_values :: "dict \<Rightarrow> string set"
  and strings_in_list :: "pval list \<Rightarrow> string set" where
  "strings_in (VStr s) = {s}"
| "strings_in (VDict d) = strings_in_values d"
| "strings_in (VList xs) = strings_in_list xs"
| "strings_in _ = {}"
| "strings_in_values [] = {}"
| "strings_in_values ((k, v) # d) = strings_in v \<union> strings_in_values d"
| "strings_in_list [] = {}"
| "strings_in_list (v # vs) = strings_in v \<union> strings_in_list vs"

lemma collect_ids_set:
  "set (collect_ids p v found) = set found \<union> {s \<in> strings_in v. p s}"
  "set (collect_ids_values p d found) = set found \<union> {s \<in> strings_in_values d. p s}"
  "set (collect_ids_list p vs found) = set found \<union> {s \<in> strings_in_list vs. p s}"
  by (induction p v found and p d found and p vs found
      rule: collect_ids_collect_ids_values_collect_ids_list.induct) auto

lemma collect_ids_distinct:
  "distinct found \<Longrightarrow> distinct (collect_ids p v found)"
  "distinct found \<Longrightarrow> distinct (collect_ids_values p d found)"
  "distinct found \<Longrightarrow> distinct (collect_ids_list p vs found)"
  by (induction p v found and p d found and p vs found
      rule: collect_ids_collect_ids_values_collect_ids_list.induct) auto

lemma number_views_indices:
  "number_views i views = Inr cards \<Longrightarrow> distinct (map (\<lambda>(v, c, _). (v, c)) cards) \<and>
     (\<forall>x \<in> set cards. i \<le> fst x)"
proof (induction i views arbitrary: cards rule: number_views.induct)
  case (1 i)
  then show ?case by simp
next
  case (2 i view views)
  from "2.prems" obtain cs rest where cs: "view_cards view = Inr cs"
    and rest: "number_views (Suc i) views = Inr rest"
    and cards: "cards = map (\<lambda>(j, c). (i, j, c)) (enumerate 0 cs) @ rest"
    by (auto split: sum.splits)
  have ih: "distinct (map (\<lambda>(v, c, _). (v, c)) rest)" "\<forall>x \<in> set rest. Suc i \<le> fst x"
    using "2.IH" [OF cs rest] by simp_all
  have e: "map (\<lambda>(v, c, _). (v, c)) (map (\<lambda>(j, c). (i, j, c)) (enumerate 0 cs))
      = map (Pair i) (map fst (enumerate 0 cs))"
    by (simp add: case_prod_unfold comp_def del: map_fst_enumerate)
  have "distinct (map (Pair i) (map fst (enumerate 0 cs)))"
    by (simp add: distinct_map inj_on_def map_fst_enumerate del: map_map)
  then show ?case using ih e by (fastforce simp: cards)
qed

section \<open>What the dashboards contribute\<close>

text \<open>
  A broken dashboard, or a database that fails, never makes the synchronisation of the dashboards raise.
\<close>

theorem dashboards_never_raise:
  "\<not> isl (fst (async_sync_dashboards valid h w))"
  using sync_dashboards_never_raises unfolding never_raises_def by blast

text \<open>
  The entities a card displays are exactly the strings anywhere in its configuration that are entity
  ids, each once.
\<close>

theorem card_entities_exact:
  "set (card_entity_ids valid conf) = {s \<in> strings_in conf. valid s} \<and> distinct (card_entity_ids valid conf)"
  by (simp add: card_entity_ids_def collect_ids_set collect_ids_distinct)

end
