(* ===== verification/Full_Sync.thy ===== *)
theory Full_Sync
  imports User_Knowledge Dashboard_Sync
begin

text \<open>
  \<open>build_full_graph\<close> of \<open>graph_builder.py\<close>: the discoveries in their order, then the classification
  and the dashboards.
\<close>

record sync_counts =
  sc_entities :: nat
  sc_domains :: nat
  sc_integrations :: nat
  sc_automations :: nat
  sc_scenes :: nat
  sc_scripts :: nat
  sc_classified :: nat

definition build_full_graph :: "(string \<Rightarrow> bool) \<Rightarrow> hass \<Rightarrow> bool \<Rightarrow> ('z, sync_counts) wop" where
  "build_full_graph valid_entity_id h auto_classify =
     oseq ensure_home_node
    (oseq (collect_floors h)
    (oseq (collect_areas h)
    (oseq (collect_devices h)
    (oseq (collect_labels h)
    (obind (collect_entities h) (\<lambda>(entity_ids, domains, integrations).
     oseq (collect_domains domains)
    (oseq (collect_integrations integrations)
    (obind (collect_automations h) (\<lambda>automation_ids.
     obind (collect_scenes h) (\<lambda>scene_ids.
     obind (collect_scripts h) (\<lambda>script_ids.
     oseq ensure_schema_node
    (obind (if auto_classify then async_classify_entities h else oret 0) (\<lambda>classified.
     oseq (otry (oseq (async_sync_dashboards valid_entity_id h) (oret ())) (\<lambda>_. oret ()))
      (oret \<lparr>sc_entities = length entity_ids, sc_domains = length domains,
         sc_integrations = length integrations, sc_automations = length automation_ids,
         sc_scenes = length scene_ids, sc_scripts = length script_ids, sc_classified = classified\<rparr>))))))))))))))"

text \<open>What survives the single writes survives the whole synchronisation, wherever it stops.\<close>

context merge_invariant
begin

lemma build_full_graph_keeps: "keeps (\<lambda>w. I (w_graph w)) (build_full_graph valid h auto)"
  unfolding build_full_graph_def
  by (intro keeps_oseq keeps_obind keeps_if keeps_otry keeps_oret keeps_case_prod ensure_home_node_keeps
      collect_floors_keeps collect_areas_keeps collect_devices_keeps collect_labels_keeps
      collect_entities_keeps collect_domains_keeps collect_integrations_keeps collect_scripts_keeps
      ensure_schema_node_keeps classify_entities_keeps sync_dashboards_keeps)

end

end
