(* ===== verification/Schema_Migrations.thy ===== *)
theory Schema_Migrations
  imports Graph_Builder
begin

text \<open>
  \<open>schema_migrations.py\<close>: the migration from the one supported predecessor, in a transaction, and the
  indexes it makes sure of first.
\<close>

section \<open>Definitions\<close>

definition migrate_props :: "pval \<Rightarrow> dict \<Rightarrow> dict" where
  "migrate_props now d = set_props d
     [(''previous_version'', VStr SCHEMA_PREVIOUS_VERSION), (''migrated_at'', now), (''updated_at'', now),
      (''version'', VStr SCHEMA_VERSION)]"

text \<open>\<open>_migrate_supported_schema\<close>, the body of the transaction; its clock reading is the argument.\<close>

definition migrate_supported_schema :: "pval \<Rightarrow> graph \<Rightarrow> (exn + pval) \<times> graph" where
  "migrate_supported_schema now g =
     (case schema_version g of
        None \<Rightarrow> (Inr VNone, g)
      | Some version \<Rightarrow>
          if version \<noteq> VStr SCHEMA_PREVIOUS_VERSION then (Inr version, g)
          else (Inr (VStr SCHEMA_VERSION), set_node_with schema_key (migrate_props now) g))"

definition create_index_stmt :: "string \<Rightarrow> graph \<Rightarrow> graph" where
  "create_index_stmt label g =
     (if (label, [''ha_id'']) \<in> set (g_indexes g) then g
      else g\<lparr>g_indexes := g_indexes g @ [(label, [''ha_id''])]\<rparr>)"

fun is_connection_error :: "exn \<Rightarrow> bool" where
  "is_connection_error (CannotConnect _) = True"
| "is_connection_error (InvalidAuth _) = True"
| "is_connection_error _ = False"

definition ensure_index :: "(string \<times> string list) list \<Rightarrow> string \<Rightarrow> ('z, unit) wop" where
  "ensure_index existing label =
     (if (label, [''ha_id'']) \<in> set existing then oret ()
      else oseq (sanitize_label label)
        (otry (run_query (write_stmt (create_index_stmt label)))
          (\<lambda>e. if is_connection_error e then oraise e else oret ())))"

definition ensure_v3_indexes :: "('z, unit) wop" where
  "ensure_v3_indexes = obind (run_query (read_stmt g_indexes)) (\<lambda>existing.
     oforeach (keep_first HA_ID_INDEXED_LABELS) (ensure_index existing))"

definition migrate_schema_if_supported :: "('z, pval) wop" where
  "migrate_schema_if_supported =
     obind (run_query (read_stmt schema_version)) (\<lambda>rows.
     let version = (case rows of None \<Rightarrow> VNone | Some v \<Rightarrow> v) in
     if version \<notin> {VNone, VStr SCHEMA_PREVIOUS_VERSION, VStr SCHEMA_VERSION} then oret version
     else oseq ensure_v3_indexes
       (if version \<noteq> VStr SCHEMA_PREVIOUS_VERSION then oret version
        else obind now_iso (\<lambda>now. execute_write (migrate_supported_schema now))))"

section \<open>Laws\<close>

text \<open>What a migration leaves alone: every relationship, and every node but the schema node.\<close>

definition schema_only :: "graph \<Rightarrow> graph \<Rightarrow> bool" where
  "schema_only g h \<longleftrightarrow> g_rels h = g_rels g \<and> (\<forall>k. k \<noteq> schema_key \<longrightarrow> node h k = node g k) \<and>
     (node h schema_key = node g schema_key \<or>
      (\<exists>d now. node g schema_key = Some d \<and> dget d ''version'' = VStr SCHEMA_PREVIOUS_VERSION \<and>
         node h schema_key = Some (migrate_props now d)))"

lemma schema_version_node: "schema_version g = Some v \<longleftrightarrow> (\<exists>d. node g schema_key = Some d \<and> dget d ''version'' = v)"
  by (auto simp: schema_version_def)

lemma migrate_step:
  "schema_only g h \<Longrightarrow> schema_only g (snd (migrate_supported_schema now h))"
proof (cases "schema_version h = Some (VStr SCHEMA_PREVIOUS_VERSION)")
  case False
  then show "schema_only g h \<Longrightarrow> ?thesis"
    by (auto simp: migrate_supported_schema_def split: option.splits)
next
  case True
  assume so: "schema_only g h"
  from True obtain d where d: "node h schema_key = Some d" "dget d ''version'' = VStr SCHEMA_PREVIOUS_VERSION"
    by (auto simp: schema_version_node)
  have "dget (migrate_props n x) ''version'' = VStr SCHEMA_VERSION" for n x
    unfolding migrate_props_def by (rule dget_set_props) simp_all
  then have "node g schema_key = Some d"
    using so d by (auto simp: schema_only_def const_defs)
  then show ?thesis
    using so d True by (auto simp: schema_only_def migrate_supported_schema_def set_node_with_def [of schema_key])
      (auto simp: set_node_with_def [symmetric])
qed

lemma node_create_index [simp]: "node (create_index_stmt l g) k = node g k"
  by (simp add: create_index_stmt_def node_def)

lemma rels_create_index [simp]: "g_rels (create_index_stmt l g) = g_rels g"
  by (simp add: create_index_stmt_def)

lemma ensure_index_keeps: "keeps (\<lambda>w. schema_only g (w_graph w)) (ensure_index ex l)"
  by (auto simp: ensure_index_def sanitize_label_def Let_def schema_only_def intro!: keeps_intros)

lemma migrate_keeps: "keeps (\<lambda>w. schema_only g (w_graph w)) migrate_schema_if_supported"
  unfolding migrate_schema_if_supported_def ensure_v3_indexes_def Let_def now_iso_def
  by (intro keeps_obind keeps_if keeps_oseq keeps_oret keeps_oforeach ensure_index_keeps keeps_graph_utc_now
      keeps_graph_run_query keeps_graph_execute_write migrate_step) simp_all

section \<open>What a migration promises\<close>

text \<open>
  A migration, wherever a fault stops it, leaves every relationship and every node but the schema node
  as it was; the schema node changes only from the one supported predecessor, to the current version
  with a note of the previous one.
\<close>

theorem migration_touches_schema_only:
  assumes "migrate_schema_if_supported w = (r, w')"
  shows "g_rels (w_graph w') = g_rels (w_graph w) \<and>
    (\<forall>k. node (w_graph w') k = node (w_graph w) k \<or>
       k = schema_key \<and> (\<exists>d now. node (w_graph w) k = Some d \<and> dget d ''version'' = VStr SCHEMA_PREVIOUS_VERSION \<and>
         node (w_graph w') k = Some (migrate_props now d)))"
proof -
  have "schema_only (w_graph w) (w_graph w)" by (simp add: schema_only_def)
  from keepsD [OF migrate_keeps this] assms have so: "schema_only (w_graph w) (w_graph w')" by simp
  have "node (w_graph w') k = node (w_graph w) k \<or>
       k = schema_key \<and> (\<exists>d now. node (w_graph w) k = Some d \<and> dget d ''version'' = VStr SCHEMA_PREVIOUS_VERSION \<and>
         node (w_graph w') k = Some (migrate_props now d))" for k
    using so unfolding schema_only_def by (cases "k = schema_key") blast+
  then show ?thesis using so unfolding schema_only_def by blast
qed

text \<open>A graph with the schema node of a version.\<close>

definition schema_graph :: "string \<Rightarrow> graph" where
  "schema_graph version = \<lparr>g_nodes = [(schema_key, [(''version'', VStr version)])], g_rels = [], g_indexes = []\<rparr>"

theorem migration_touches_schema_only_witness:
  "g_rels (w_graph (snd (migrate_schema_if_supported (world_at (schema_graph SCHEMA_PREVIOUS_VERSION) [Up, Down Timeout True])))) = []"
  using migration_touches_schema_only [OF surjective_pairing, of "world_at (schema_graph SCHEMA_PREVIOUS_VERSION) [Up, Down Timeout True]"]
  by (simp add: world_at_def schema_graph_def)

lemma ensure_indexes_keeps_nodes: "keeps (\<lambda>w. \<forall>k. node (w_graph w) k = node g k) ensure_v3_indexes"
  unfolding ensure_v3_indexes_def ensure_index_def
  by (intro keeps_obind keeps_oforeach keeps_if keeps_oret keeps_oseq keeps_otry keeps_oraise
      keeps_graph_run_query [where I = "\<lambda>h. \<forall>k. node h k = node g k"])
    (auto simp: sanitize_label_def Let_def intro: keeps_intros)

lemma run_read: "run_query (read_stmt f) w = (Inr x, w') \<Longrightarrow> x = f (w_graph w) \<and> w_graph w' = w_graph w"
  by (auto simp: run_query_eq read_stmt_def split: list.splits net.splits)

lemma transaction_result:
  "execute_write work w = (Inr x, w') \<Longrightarrow> work (w_graph w) = (Inr x, w_graph w')"
  by (auto simp: execute_write_def run_query_eq transaction_def elim!: obind_result
      split: list.splits net.splits sum.splits prod.splits)

lemma schema_version_migrated:
  "schema_version (set_node_with schema_key (migrate_props now) g) = map_option (\<lambda>_. VStr SCHEMA_VERSION) (schema_version g)"
proof -
  have "dget (migrate_props now d) ''version'' = VStr SCHEMA_VERSION" for d
    unfolding migrate_props_def by (rule dget_set_props) simp_all
  then show ?thesis by (simp add: schema_version_def option.map_comp comp_def)
qed

text \<open>
  A migration that returns a version returns the one the graph has now; it is the current version when
  the graph had the supported predecessor, and otherwise the one the graph had, nothing when there was
  none.
\<close>

theorem migration_returns_version:
  assumes "migrate_schema_if_supported w = (Inr v, w')"
  shows "v = (case schema_version (w_graph w') of None \<Rightarrow> VNone | Some x \<Rightarrow> x) \<and>
    v = (case schema_version (w_graph w) of None \<Rightarrow> VNone
         | Some x \<Rightarrow> if x = VStr SCHEMA_PREVIOUS_VERSION then VStr SCHEMA_VERSION else x)"
proof -
  let ?version = "case schema_version (w_graph w) of None \<Rightarrow> VNone | Some x \<Rightarrow> x"
  from assms obtain rows u where u: "run_query (read_stmt schema_version) w = (Inr rows, u)"
    and rest': "(let version = (case rows of None \<Rightarrow> VNone | Some v \<Rightarrow> v) in
     if version \<notin> {VNone, VStr SCHEMA_PREVIOUS_VERSION, VStr SCHEMA_VERSION} then oret version
     else oseq ensure_v3_indexes
       (if version \<noteq> VStr SCHEMA_PREVIOUS_VERSION then oret version
        else obind now_iso (\<lambda>now. execute_write (migrate_supported_schema now)))) u = (Inr v, w')"
    unfolding migrate_schema_if_supported_def by (rule obind_result)
  have g: "w_graph u = w_graph w" and rows: "rows = schema_version (w_graph w)" using run_read [OF u] by simp_all
  have rest: "(if ?version \<notin> {VNone, VStr SCHEMA_PREVIOUS_VERSION, VStr SCHEMA_VERSION} then oret ?version
     else oseq ensure_v3_indexes
       (if ?version \<noteq> VStr SCHEMA_PREVIOUS_VERSION then oret ?version
        else obind now_iso (\<lambda>now. execute_write (migrate_supported_schema now)))) u = (Inr v, w')"
    using rest' unfolding Let_def rows .
  show ?thesis
  proof (cases "?version \<in> {VNone, VStr SCHEMA_PREVIOUS_VERSION, VStr SCHEMA_VERSION}")
    case False
    then have "v = ?version" "w_graph w' = w_graph w" using rest g by auto
    then show ?thesis using False by (auto split: option.splits)
  next
    case True
    then obtain x t where t: "ensure_v3_indexes u = (Inr x, t)"
      and last: "(if ?version \<noteq> VStr SCHEMA_PREVIOUS_VERSION then oret ?version
        else obind now_iso (\<lambda>now. execute_write (migrate_supported_schema now))) t = (Inr v, w')"
      using rest by (auto elim!: oseq_result)
    have "\<forall>k. node (w_graph t) k = node (w_graph w) k"
      using keeps_step [OF ensure_indexes_keeps_nodes _ t] g by simp
    then have "node (w_graph t) schema_key = node (w_graph w) schema_key" by blast
    then have sv: "schema_version (w_graph t) = schema_version (w_graph w)" by (simp add: schema_version_def)
    show ?thesis
    proof (cases "?version = VStr SCHEMA_PREVIOUS_VERSION")
      case False
      then show ?thesis using last sv by (auto split: option.splits)
    next
      case pre: True
      then obtain now t' where "migrate_supported_schema now (w_graph t) = (Inr v, w_graph w')"
        using last transaction_result [of "migrate_supported_schema (VTime (w_now t))" "snd (utc_now t)" v w']
        by (auto simp: obind_Inr [OF now_iso_step])
      moreover have "schema_version (w_graph w) = Some (VStr SCHEMA_PREVIOUS_VERSION)"
        using pre by (auto split: option.splits)
      ultimately have "w_graph w' = set_node_with schema_key (migrate_props now) (w_graph t)" "v = VStr SCHEMA_VERSION"
        using sv by (simp_all add: migrate_supported_schema_def)
      then show ?thesis using sv pre \<open>schema_version (w_graph w) = Some (VStr SCHEMA_PREVIOUS_VERSION)\<close>
        by (simp add: schema_version_migrated)
    qed
  qed
qed

theorem migration_returns_version_witness:
  "\<exists>w'. migrate_schema_if_supported (world_at (schema_graph SCHEMA_PREVIOUS_VERSION) []) = (Inr (VStr SCHEMA_VERSION), w') \<and>
     schema_version (w_graph w') = Some (VStr SCHEMA_VERSION)"
proof -
  have "fst (migrate_schema_if_supported (world_at (schema_graph SCHEMA_PREVIOUS_VERSION) [])) = Inr (VStr SCHEMA_VERSION)"
    by code_simp
  then obtain w' where r: "migrate_schema_if_supported (world_at (schema_graph SCHEMA_PREVIOUS_VERSION) []) = (Inr (VStr SCHEMA_VERSION), w')"
    by (cases "migrate_schema_if_supported (world_at (schema_graph SCHEMA_PREVIOUS_VERSION) [])") simp
  with migration_returns_version [OF r] show ?thesis by (auto split: option.splits)
qed

end
