(* ===== verification/Validation.thy ===== *)
theory Validation
  imports Semantic_Classifier Schema_Migrations
begin

text \<open>
  \<open>validation.py\<close>: eleven detections, each a read of the graph (two also read Home Assistant's state),
  and the reconciliation of the findings of a category: opened when detected, resolved when no longer
  detected, deleted by a later run.  \<open>finding_step\<close> is the life cycle as a specification.
\<close>

section \<open>Detections\<close>

type_synonym detected = "(string \<times> string) list"

definition CATEGORY_SEVERITY :: "string \<Rightarrow> string" where
  "CATEGORY_SEVERITY category =
     (if category \<in> {FINDING_UNAVAILABLE_CRITICAL_ENTITY, FINDING_INVALID_RELATIONSHIP, FINDING_SCHEMA_MISMATCH}
      then SEVERITY_ERROR
      else if category \<in> {FINDING_ORPHAN_ENTITY, FINDING_ORPHAN_DEVICE, FINDING_DUPLICATE_ENTITY}
      then SEVERITY_WARNING
      else SEVERITY_INFO)"

definition finding_ha_id :: "string \<Rightarrow> string \<Rightarrow> string" where
  "finding_ha_id category target_ha_id = category @ ''::'' @ target_ha_id"

text \<open>Patterns with one relationship.\<close>

definition rel_exists :: "(rkey \<Rightarrow> bool) \<Rightarrow> graph \<Rightarrow> bool" where
  "rel_exists p g = list_ex (\<lambda>x. p (fst x)) (g_rels g)"

definition ids_of :: "string \<Rightarrow> (nkey \<Rightarrow> dict \<Rightarrow> bool) \<Rightarrow> graph \<Rightarrow> string list" where
  "ids_of label p g = map (\<lambda>(k, d). snd k) (nodes_where (\<lambda>k d. fst k = label \<and> p k d) g)"

definition as_targets :: "string \<Rightarrow> string list \<Rightarrow> detected" where
  "as_targets label ids = map (\<lambda>i. (i, label)) ids"

definition missing_area_rows :: "graph \<Rightarrow> string list" where
  "missing_area_rows g = ids_of LABEL_DEVICE (\<lambda>k d. \<not> rel_exists (\<lambda>(a, t, b).
     fst a = LABEL_AREA \<and> t = REL_HAS_DEVICE \<and> b = k) g) g"

definition missing_device_rows :: "graph \<Rightarrow> string list" where
  "missing_device_rows g = ids_of LABEL_ENTITY (\<lambda>k d. \<not> rel_exists (\<lambda>(a, t, b).
     fst a = LABEL_DEVICE \<and> t = REL_HAS_ENTITY \<and> b = k) g) g"

definition orphan_entity_rows :: "graph \<Rightarrow> string list" where
  "orphan_entity_rows g = ids_of LABEL_ENTITY (\<lambda>k d.
     \<not> rel_exists (\<lambda>(a, t, b). fst a = LABEL_DEVICE \<and> t = REL_HAS_ENTITY \<and> b = k) g \<and>
     \<not> rel_exists (\<lambda>(a, t, b). a = k \<and> t = REL_IN_DOMAIN) g) g"

definition orphan_device_rows :: "graph \<Rightarrow> string list" where
  "orphan_device_rows g = ids_of LABEL_DEVICE (\<lambda>k d. \<not> rel_exists (\<lambda>(a, t, b).
     a = k \<and> t = REL_HAS_ENTITY \<and> fst b = LABEL_ENTITY) g) g"

definition detect_rows :: "string \<Rightarrow> (graph \<Rightarrow> string list) \<Rightarrow> ('z, detected) wop" where
  "detect_rows label q = obind (run_query (read_stmt q)) (\<lambda>ids. oret (as_targets label ids))"

definition detect_missing_area :: "('z, detected) wop" where
  "detect_missing_area = detect_rows LABEL_DEVICE missing_area_rows"

definition detect_missing_device :: "('z, detected) wop" where
  "detect_missing_device = detect_rows LABEL_ENTITY missing_device_rows"

definition detect_orphan_entity :: "('z, detected) wop" where
  "detect_orphan_entity = detect_rows LABEL_ENTITY orphan_entity_rows"

definition detect_orphan_device :: "('z, detected) wop" where
  "detect_orphan_device = detect_rows LABEL_DEVICE orphan_device_rows"

text \<open>Names with the ids of the entities that bear them, more than one.\<close>

definition name_groups :: "graph \<Rightarrow> string list list" where
  "name_groups g =
     (let named = nodes_where (\<lambda>k d. fst k = LABEL_ENTITY \<and> dget d ''name'' \<noteq> VNone) g;
          names = keep_first (map (\<lambda>(k, d). dget d ''name'') named)
      in filter (\<lambda>ids. 1 < length ids)
           (map (\<lambda>n. map (\<lambda>(k, d). snd k) (filter (\<lambda>(k, d). dget d ''name'' = n) named)) names))"

definition object_ids :: "string list \<Rightarrow> string list" where
  "object_ids ids = remdups (concat (map (\<lambda>i. case after CHR ''.'' i of None \<Rightarrow> [] | Some s \<Rightarrow> [s]) ids))"

definition duplicate_ids :: "string list list \<Rightarrow> string list" where
  "duplicate_ids groups = concat (filter (\<lambda>ids. 1 < length (object_ids ids)) groups)"

definition detect_duplicate_entity :: "('z, detected) wop" where
  "detect_duplicate_entity = obind (run_query (read_stmt name_groups)) (\<lambda>groups.
     oret (as_targets LABEL_ENTITY (duplicate_ids groups)))"

definition classified_rows :: "(rkey \<Rightarrow> bool) \<Rightarrow> graph \<Rightarrow> string list" where
  "classified_rows p g = keep_first (map (\<lambda>(k, d). snd (fst k)) (rels_where (\<lambda>k d.
     fst (fst k) = LABEL_ENTITY \<and> fst (snd k) = REL_CLASSIFIED_AS \<and> p k) g))"

definition unavailable :: "hass \<Rightarrow> string \<Rightarrow> bool" where
  "unavailable h entity_id =
     (case get_state h entity_id of None \<Rightarrow> False | Some s \<Rightarrow> st_state s = ''unavailable'')"

definition detect_unavailable_critical_entity :: "hass \<Rightarrow> ('z, detected) wop" where
  "detect_unavailable_critical_entity h =
     obind (run_query (read_stmt (classified_rows (\<lambda>k. fst (snd (snd k)) = LABEL_SEMANTIC_TYPE)))) (\<lambda>rows.
       oret (as_targets LABEL_ENTITY (filter (unavailable h) rows)))"

text \<open>A relationship, or one of its end points, without a source.\<close>

definition node_source :: "graph \<Rightarrow> nkey \<Rightarrow> pval" where
  "node_source g k = (case node g k of None \<Rightarrow> VNone | Some d \<Rightarrow> dget d ''source'')"

definition invalid_relationship_rows :: "graph \<Rightarrow> string list" where
  "invalid_relationship_rows g = keep_first (map (\<lambda>(k, d). snd (fst k)) (rels_where (\<lambda>k d.
     dget d ''source'' = VNone \<or> node_source g (fst k) = VNone \<or> node_source g (snd (snd k)) = VNone) g))"

definition detect_invalid_relationship :: "('z, detected) wop" where
  "detect_invalid_relationship = detect_rows LABEL_ENTITY invalid_relationship_rows"

definition detect_schema_mismatch :: "('z, detected) wop" where
  "detect_schema_mismatch = obind get_schema_version (\<lambda>current.
     oret (if current \<noteq> VNone \<and> current \<noteq> VStr SCHEMA_VERSION
           then [(SCHEMA_SINGLETON_ID, LABEL_ONTOLOGY_SCHEMA)] else []))"

definition detect_missing_semantic_classification :: "hass \<Rightarrow> ('z, detected) wop" where
  "detect_missing_semantic_classification h =
     obind (run_query (read_stmt (classified_rows (\<lambda>k. True)))) (\<lambda>already_classified.
       oret (as_targets LABEL_ENTITY (filter (\<lambda>e. e \<notin> set already_classified \<and> matching_rules h e \<noteq> [])
         (map en_entity_id (foreign_entries h)))))"

definition floor_covered :: "graph \<Rightarrow> nkey \<Rightarrow> bool" where
  "floor_covered g f \<longleftrightarrow> rel_exists (\<lambda>(a, t, b). fst a = LABEL_WALL \<and> t = REL_ON_FLOOR \<and> b = f) g \<or>
     rel_exists (\<lambda>(a, t, b). fst a = LABEL_ENTITY \<and> t = REL_PINNED_ON_FLOOR \<and> b = f) g"

definition floor_missing_rows :: "graph \<Rightarrow> string list" where
  "floor_missing_rows g = keep_first (map (\<lambda>(k, d). snd (snd (snd k))) (rels_where (\<lambda>(a, t, b) d.
     fst a = LABEL_AREA \<and> t = REL_ON_FLOOR \<and> fst b = LABEL_FLOOR \<and> \<not> floor_covered g b) g))"

definition detect_floor_missing_spatial_coverage :: "('z, detected) wop" where
  "detect_floor_missing_spatial_coverage = detect_rows LABEL_FLOOR floor_missing_rows"

definition missing_pin_rows :: "graph \<Rightarrow> string list" where
  "missing_pin_rows g = keep_first (map (\<lambda>(k, d). snd (fst k)) (rels_where (\<lambda>(e, t, a) d.
     fst e = LABEL_ENTITY \<and> t = REL_HAS_AREA \<and> fst a = LABEL_AREA \<and>
     rel_exists (\<lambda>(x, u, f). x = a \<and> u = REL_ON_FLOOR \<and> fst f = LABEL_FLOOR \<and> floor_covered g f \<and>
       \<not> rel_exists (\<lambda>k. k = (e, REL_PINNED_ON_FLOOR, f)) g) g) g))"

definition detect_entity_missing_floor_pin :: "('z, detected) wop" where
  "detect_entity_missing_floor_pin = detect_rows LABEL_ENTITY missing_pin_rows"

section \<open>Reconciling a category\<close>

definition finding_props :: "string \<Rightarrow> string \<Rightarrow> pval \<Rightarrow> dict option \<Rightarrow> dict" where
  "finding_props category severity now d =
     set_props (case d of None \<Rightarrow> [(''first_detected_at'', now)] | Some x \<Rightarrow> x)
       [(''category'', VStr category), (''severity'', VStr severity), (''status'', VStr FINDING_STATUS_OPEN),
        (''last_detected_at'', now), (''resolved_at'', VNone), (''source'', VStr SOURCE_GENERATED),
        (''updated_at'', now)]"

definition merge_finding_stmt ::
  "string \<Rightarrow> string \<Rightarrow> string \<Rightarrow> string \<Rightarrow> pval \<Rightarrow> graph \<Rightarrow> graph" where
  "merge_finding_stmt category target_ha_id target_label severity now g =
     (let f = (LABEL_VALIDATION_FINDING, finding_ha_id category target_ha_id)
      in merge_rel_with (f, REL_RELATES_TO, (target_label, target_ha_id))
           (\<lambda>d. set_props (or_empty d) [(''source'', VStr SOURCE_GENERATED)])
           (merge_node_with f (finding_props category severity now) g))"

definition merge_finding :: "string \<Rightarrow> string \<Rightarrow> string \<Rightarrow> string \<Rightarrow> ('z, string) wop" where
  "merge_finding category target_ha_id target_label severity =
     obind now_iso (\<lambda>now.
     oseq (run_query (write_stmt (merge_finding_stmt category target_ha_id target_label severity now)))
      (oret (finding_ha_id category target_ha_id)))"

definition finding_of :: "string \<Rightarrow> string \<Rightarrow> nkey \<Rightarrow> dict \<Rightarrow> bool" where
  "finding_of category status k d \<longleftrightarrow> fst k = LABEL_VALIDATION_FINDING \<and>
     dget d ''category'' = VStr category \<and> dget d ''status'' = VStr status"

definition delete_resolved_stmt :: "string \<Rightarrow> string list \<Rightarrow> pval \<Rightarrow> graph \<Rightarrow> graph" where
  "delete_resolved_stmt category detected_ids now = detach_delete (\<lambda>k d.
     finding_of category FINDING_STATUS_RESOLVED k d \<and> snd k \<notin> set detected_ids \<and>
     dget d ''resolved_at'' \<noteq> VNone \<and> dget d ''resolved_at'' \<noteq> now)"

definition resolve_props :: "pval \<Rightarrow> dict \<Rightarrow> dict" where
  "resolve_props now d = set_props d
     [(''status'', VStr FINDING_STATUS_RESOLVED), (''resolved_at'', now), (''updated_at'', now)]"

definition set_nodes_where :: "(nkey \<Rightarrow> dict \<Rightarrow> bool) \<Rightarrow> (dict \<Rightarrow> dict) \<Rightarrow> graph \<Rightarrow> graph" where
  "set_nodes_where p f g = g\<lparr>g_nodes := map (\<lambda>(k, d). (k, if p k d then f d else d)) (g_nodes g)\<rparr>"

definition resolve_stmt :: "string \<Rightarrow> string list \<Rightarrow> pval \<Rightarrow> graph \<Rightarrow> graph" where
  "resolve_stmt category detected_ids now = set_nodes_where (\<lambda>k d.
     finding_of category FINDING_STATUS_OPEN k d \<and> snd k \<notin> set detected_ids) (resolve_props now)"

text \<open>The ids of the findings merged; a merge that raises is skipped.\<close>

definition merge_findings :: "string \<Rightarrow> detected \<Rightarrow> string \<Rightarrow> ('z, string list) wop" where
  "merge_findings category detected severity =
     ofold (\<lambda>(target_ha_id, target_label) detected_ids.
         otry (obind (merge_finding category target_ha_id target_label severity) (\<lambda>finding_id.
                 oret (List.insert finding_id detected_ids)))
           (\<lambda>_. oret detected_ids))
       detected []"

definition reconcile_category :: "string \<Rightarrow> detected \<Rightarrow> string \<Rightarrow> ('z, nat) wop" where
  "reconcile_category category detected severity =
     obind (merge_findings category detected severity) (\<lambda>detected_ids.
     obind now_iso (\<lambda>now.
     oseq (run_query (write_stmt (delete_resolved_stmt category detected_ids now)))
    (oseq (run_query (write_stmt (resolve_stmt category detected_ids now)))
      (oret (length detected_ids)))))"

definition detections :: "hass \<Rightarrow> (string \<times> ('z, detected) wop) list" where
  "detections h =
     [(FINDING_MISSING_AREA, detect_missing_area),
      (FINDING_MISSING_DEVICE, detect_missing_device),
      (FINDING_ORPHAN_ENTITY, detect_orphan_entity),
      (FINDING_ORPHAN_DEVICE, detect_orphan_device),
      (FINDING_DUPLICATE_ENTITY, detect_duplicate_entity),
      (FINDING_UNAVAILABLE_CRITICAL_ENTITY, detect_unavailable_critical_entity h),
      (FINDING_INVALID_RELATIONSHIP, detect_invalid_relationship),
      (FINDING_SCHEMA_MISMATCH, detect_schema_mismatch),
      (FINDING_MISSING_SEMANTIC_CLASSIFICATION, detect_missing_semantic_classification h),
      (FINDING_FLOOR_MISSING_SPATIAL_COVERAGE, detect_floor_missing_spatial_coverage),
      (FINDING_ENTITY_MISSING_FLOOR_PIN, detect_entity_missing_floor_pin)]"

definition async_run_validation :: "hass \<Rightarrow> ('z, (string \<times> nat) list) wop" where
  "async_run_validation h =
     obind (omap (\<lambda>(category, detect). obind detect (\<lambda>d. oret (category, d))) (detections h)) (\<lambda>detected.
     omap (\<lambda>(category, d). obind (reconcile_category category d (CATEGORY_SEVERITY category)) (\<lambda>n.
       oret (category, n))) detected)"

section \<open>Laws of the statements\<close>

lemma finding_ha_id_inject: "finding_ha_id c t = finding_ha_id c t' \<longleftrightarrow> t = t'"
  by (simp add: finding_ha_id_def)

lemma map_of_map_if:
  "map_of (map (\<lambda>(k, d). (k, if p k d then f d else d)) al) k =
     map_option (\<lambda>d. if p k d then f d else d) (map_of al k)"
  by (induction al) auto

lemma node_set_nodes_where:
  "node (set_nodes_where p f g) k = map_option (\<lambda>d. if p k d then f d else d) (node g k)"
  by (simp add: node_def set_nodes_where_def map_of_map_if)

lemma rels_set_nodes_where [simp]: "g_rels (set_nodes_where p f g) = g_rels g"
  by (simp add: set_nodes_where_def)

lemma has_node_set_nodes_where [simp]: "has_node (set_nodes_where p f g) k = has_node g k"
  by (simp add: has_node_def node_set_nodes_where)

lemma wf_set_nodes_where:
  assumes "wf_graph g"
  shows "wf_graph (set_nodes_where p f g)"
proof (rule wf_graphI)
  have "map fst (g_nodes (set_nodes_where p f g)) = map fst (g_nodes g)"
    by (simp add: set_nodes_where_def case_prod_unfold comp_def)
  then show "distinct (map fst (g_nodes (set_nodes_where p f g)))" using wf_nodes_distinct [OF assms] by simp
qed (simp_all add: wf_rels_distinct [OF assms] wf_ends_mem [OF assms])

lemma finding_props_get:
  "dget (finding_props c s now d) ''category'' = VStr c"
  "dget (finding_props c s now d) ''status'' = VStr FINDING_STATUS_OPEN"
  "dget (finding_props c s now d) ''source'' = VStr SOURCE_GENERATED"
  "dget (finding_props c s now d) ''resolved_at'' = VNone"
  unfolding finding_props_def by (rule dget_set_props; simp)+

lemma resolve_props_get:
  "dget (resolve_props now d) ''status'' = VStr FINDING_STATUS_RESOLVED"
  "dget (resolve_props now d) ''resolved_at'' = now"
  unfolding resolve_props_def by (rule dget_set_props; simp)+

lemma resolve_props_other: "k \<notin> {''status'', ''resolved_at'', ''updated_at''} \<Longrightarrow> dget (resolve_props now d) k = dget d k"
  unfolding resolve_props_def by (rule dget_set_props_absent) auto

lemma node_merge_finding:
  "node (merge_finding_stmt c t l s now g) k =
     (if k = (LABEL_VALIDATION_FINDING, finding_ha_id c t) then Some (finding_props c s now (node g k))
      else node g k)"
  by (simp add: merge_finding_stmt_def Let_def)

lemma wf_merge_finding: "wf_graph g \<Longrightarrow> wf_graph (merge_finding_stmt c t l s now g)"
  by (simp add: merge_finding_stmt_def Let_def wf_merge_node_with wf_merge_rel_with)

section \<open>The life cycle of a finding\<close>

datatype finding_status = Absent | Open | Resolved pval

definition status_of :: "string \<Rightarrow> graph \<Rightarrow> string \<Rightarrow> finding_status" where
  "status_of category g finding_id =
     (case node g (LABEL_VALIDATION_FINDING, finding_id) of
        None \<Rightarrow> Absent
      | Some d \<Rightarrow> if dget d ''category'' = VStr category then
            (if dget d ''status'' = VStr FINDING_STATUS_OPEN then Open
             else if dget d ''status'' = VStr FINDING_STATUS_RESOLVED then Resolved (dget d ''resolved_at'')
             else Absent)
          else Absent)"

fun finding_step :: "pval \<Rightarrow> bool \<Rightarrow> finding_status \<Rightarrow> finding_status" where
  "finding_step now True st = Open"
| "finding_step now False Absent = Absent"
| "finding_step now False Open = Resolved now"
| "finding_step now False (Resolved t) = (if t = VNone \<or> t = now then Resolved t else Absent)"

text \<open>One pass over the three statements.\<close>

definition merged :: "string \<Rightarrow> string list \<Rightarrow> graph \<Rightarrow> graph \<Rightarrow> bool" where
  "merged category ids g h \<longleftrightarrow> wf_graph h \<and> (\<forall>k. node h k = node g k \<or>
     fst k = LABEL_VALIDATION_FINDING \<and> snd k \<in> set ids \<and>
     (\<exists>d. node h k = Some d \<and> dget d ''category'' = VStr category \<and> dget d ''status'' = VStr FINDING_STATUS_OPEN)) \<and>
     (\<forall>i \<in> set ids. status_of category h i = Open)"

lemma merged_start: "wf_graph g \<Longrightarrow> merged c [] g g"
  by (simp add: merged_def)

lemma status_merge_finding:
  "status_of c (merge_finding_stmt c t l s now h) i =
     (if i = finding_ha_id c t then Open else status_of c h i)"
  by (simp add: status_of_def node_merge_finding finding_props_get)

lemma merged_step:
  assumes "merged c ids g h"
  shows "merged c (List.insert (finding_ha_id c t) ids) g (merge_finding_stmt c t l s now h)"
proof -
  let ?h = "merge_finding_stmt c t l s now h"
  have "node ?h k = node g k \<or> fst k = LABEL_VALIDATION_FINDING \<and> snd k \<in> set (List.insert (finding_ha_id c t) ids) \<and>
     (\<exists>d. node ?h k = Some d \<and> dget d ''category'' = VStr c \<and> dget d ''status'' = VStr FINDING_STATUS_OPEN)" for k
  proof (cases "k = (LABEL_VALIDATION_FINDING, finding_ha_id c t)")
    case True
    then show ?thesis by (simp add: node_merge_finding finding_props_get)
  next
    case False
    then have "node ?h k = node h k" by (simp add: node_merge_finding)
    moreover have "node h k = node g k \<or> fst k = LABEL_VALIDATION_FINDING \<and> snd k \<in> set ids \<and>
       (\<exists>d. node h k = Some d \<and> dget d ''category'' = VStr c \<and> dget d ''status'' = VStr FINDING_STATUS_OPEN)"
      using assms unfolding merged_def by blast
    ultimately show ?thesis by auto
  qed
  moreover have "wf_graph ?h" using assms by (simp add: merged_def wf_merge_finding)
  moreover have "status_of c ?h i = Open" if "i \<in> set (List.insert (finding_ha_id c t) ids)" for i
    using that assms by (auto simp: merged_def status_merge_finding)
  ultimately show ?thesis unfolding merged_def by blast
qed

text \<open>With a healthy server no finding is skipped.\<close>

lemma healthy_write: "w_net w = [] \<Longrightarrow>
  run_query (write_stmt f) w = (Inr (), w\<lparr>w_open := True, w_graph := f (w_graph w)\<rparr>)"
  by (simp add: run_query_eq write_stmt_def)

lemma merge_finding_healthy:
  assumes "w_net w = []"
  shows "\<exists>w'. merge_finding c t l s w = (Inr (finding_ha_id c t), w') \<and> w_net w' = [] \<and>
    w_graph w' = merge_finding_stmt c t l s (VTime (w_now w)) (w_graph w)"
  using assms by (simp add: merge_finding_def now_iso_def utc_now_def obind_def oseq_apply healthy_write oret_def)

lemma merge_findings_loop:
  assumes "w_net w = []" and "merged c ids g (w_graph w)"
  shows "\<exists>w'. ofold (\<lambda>(t, l) ids. otry (obind (merge_finding c t l s) (\<lambda>i. oret (List.insert i ids))) (\<lambda>_. oret ids))
      ds ids w = (Inr (fold (\<lambda>(t, l). List.insert (finding_ha_id c t)) ds ids), w') \<and> w_net w' = [] \<and>
    merged c (fold (\<lambda>(t, l). List.insert (finding_ha_id c t)) ds ids) g (w_graph w')"
  using assms
proof (induction ds arbitrary: w ids)
  case Nil
  then show ?case by simp
next
  case (Cons x ds)
  obtain t l where x: "x = (t, l)" by (cases x)
  from merge_finding_healthy [OF Cons.prems(1), of c t l s] obtain u where
    u: "merge_finding c t l s w = (Inr (finding_ha_id c t), u)" "w_net u = []"
      "w_graph u = merge_finding_stmt c t l s (VTime (w_now w)) (w_graph w)" by blast
  have "merged c (List.insert (finding_ha_id c t) ids) g (w_graph u)"
    unfolding u(3) by (rule merged_step [OF Cons.prems(2)])
  from Cons.IH [OF u(2) this] show ?case
    using u(1) x by (simp add: obind_def otry_def oret_def)
qed

lemma fold_insert_set: "set (fold (\<lambda>(t, l). List.insert (f t)) ds ids) = set ids \<union> f ` fst ` set ds"
  by (induction ds arbitrary: ids) auto

lemma fold_insert_distinct: "distinct ids \<Longrightarrow> distinct (fold (\<lambda>(t, l). List.insert (f t)) ds ids)"
  by (induction ds arbitrary: ids) auto

text \<open>The two statements that close findings.\<close>

lemma status_close:
  assumes h: "merged c ids g h"
  shows "status_of c (resolve_stmt c ids now (delete_resolved_stmt c ids now h)) i =
    finding_step now (i \<in> set ids) (status_of c g i)"
proof -
  note d = node_detach_delete [OF wf_nodes_distinct, of h]
  have wf: "wf_graph h" using h by (simp add: merged_def)
  let ?k = "(LABEL_VALIDATION_FINDING, i)"
  show ?thesis
  proof (cases "i \<in> set ids")
    case True
    then have "status_of c h i = Open" using h by (simp add: merged_def)
    then show ?thesis using True
      by (auto simp: status_of_def resolve_stmt_def delete_resolved_stmt_def node_set_nodes_where d [OF wf]
          split: option.splits if_splits)
  next
    case False
    then have "node h ?k = node g ?k" using h unfolding merged_def by (metis fst_conv snd_conv)
    then show ?thesis using False
      by (auto simp: status_of_def resolve_stmt_def delete_resolved_stmt_def node_set_nodes_where d [OF wf]
          finding_of_def resolve_props_get resolve_props_other FINDING_STATUS_OPEN_def FINDING_STATUS_RESOLVED_def
          split: option.splits if_splits)
  qed
qed

lemma reconcile_healthy:
  assumes "w_net w = []" and "wf_graph (w_graph w)"
  shows "\<exists>ids h now w'. reconcile_category c ds s w = (Inr (length ids), w') \<and> w_net w' = [] \<and>
    merged c ids (w_graph w) h \<and> w_graph w' = resolve_stmt c ids (VTime now) (delete_resolved_stmt c ids (VTime now) h) \<and>
    set ids = finding_ha_id c ` fst ` set ds \<and> distinct ids"
proof -
  let ?ids = "fold (\<lambda>(t, l). List.insert (finding_ha_id c t)) ds []"
  from merge_findings_loop [OF assms(1) merged_start [OF assms(2)], of c s ds] obtain u where
    u: "merge_findings c ds s w = (Inr ?ids, u)" "w_net u = []" "merged c ?ids (w_graph w) (w_graph u)"
    unfolding merge_findings_def by blast
  let ?v = "snd (utc_now u)"
  have v: "w_net ?v = []" "w_graph ?v = w_graph u" using u(2) by (simp_all add: utc_now_def)
  have now: "now_iso u = (Inr (VTime (w_now u)), ?v)" by (simp add: now_iso_def utc_now_def obind_def oret_def)
  let ?w = "?v\<lparr>w_open := True, w_graph := resolve_stmt c ?ids (VTime (w_now u))
    (delete_resolved_stmt c ?ids (VTime (w_now u)) (w_graph u))\<rparr>"
  have "reconcile_category c ds s w = (Inr (length ?ids), ?w)"
    unfolding reconcile_category_def
    by (simp add: obind_def oseq_apply u(1) now healthy_write v oret_def)
  moreover have "set ?ids = finding_ha_id c ` fst ` set ds" "distinct ?ids"
    by (simp_all add: fold_insert_set fold_insert_distinct)
  ultimately show ?thesis using u(3) v by (intro exI [of _ ?ids]) auto
qed

section \<open>The detections on a graph with complete bookkeeping\<close>

lemma valid_sources_no_invalid:
  assumes "valid_sources g"
  shows "invalid_relationship_rows g = []"
proof -
  note wf = valid_sourcesD(1) [OF assms]
  have "rels_where (\<lambda>k d. dget d ''source'' = VNone \<or> node_source g (fst k) = VNone \<or>
      node_source g (snd (snd k)) = VNone) g = []"
  proof (rule ccontr)
    assume "rels_where (\<lambda>k d. dget d ''source'' = VNone \<or> node_source g (fst k) = VNone \<or>
      node_source g (snd (snd k)) = VNone) g \<noteq> []"
    then obtain x where x: "x \<in> set (g_rels g)" and bad: "dget (snd x) ''source'' = VNone \<or>
        node_source g (fst (fst x)) = VNone \<or> node_source g (snd (snd (fst x))) = VNone"
      by (fastforce simp: rels_where_def filter_empty_conv case_prod_unfold)
    have r: "rel g (fst x) = Some (snd x)"
      using x wf_rels_distinct [OF wf] by (simp add: rel_def)
    note s = valid_sourcesD(3) [OF assms r] and e = wf_rel_ends [OF wf r]
    have "node_source g k \<noteq> VNone" if "has_node g k" "fst k \<noteq> LABEL_ONTOLOGY_SCHEMA" for k
      using that valid_sourcesD(2) [OF assms, of k] by (auto simp: has_node_def node_source_def sourced_def)
    then show False using bad s e by (auto simp: sourced_def)
  qed
  then show ?thesis by (simp add: invalid_relationship_rows_def)
qed

section \<open>What a validation run promises\<close>

text \<open>
  C12. With a database that answers, reconciling a category moves every finding of the category along its
  life cycle: detected ones are open, those no longer detected are resolved at this run, and those an
  earlier run resolved are gone; the result is the number of findings detected.
\<close>

theorem reconcile_follows_life_cycle:
  assumes "w_net w = []" and "wf_graph (w_graph w)"
  shows "\<exists>now w'. reconcile_category category ds severity w =
      (Inr (card (finding_ha_id category ` fst ` set ds)), w') \<and>
    (\<forall>i. status_of category (w_graph w') i =
      finding_step (VTime now) (i \<in> finding_ha_id category ` fst ` set ds) (status_of category (w_graph w) i))"
proof -
  obtain ids h now w' where r: "reconcile_category category ds severity w = (Inr (length ids), w')"
    and h: "merged category ids (w_graph w) h"
    and g: "w_graph w' = resolve_stmt category ids (VTime now) (delete_resolved_stmt category ids (VTime now) h)"
    and ids: "set ids = finding_ha_id category ` fst ` set ds" "distinct ids"
    using reconcile_healthy [OF assms, of category ds severity] by blast
  have "length ids = card (finding_ha_id category ` fst ` set ds)"
    using distinct_card [OF ids(2)] ids(1) by simp
  then show ?thesis using r status_close [OF h, of "VTime now"] g ids(1) by auto
qed

text \<open>A graph with an open finding about an entity that is there.\<close>

definition finding_graph :: graph where
  "finding_graph =
     \<lparr>g_nodes = [((LABEL_ENTITY, ''light.hall''), [(''source'', VStr SOURCE_HOME_ASSISTANT)]),
        ((LABEL_VALIDATION_FINDING, finding_ha_id FINDING_MISSING_DEVICE ''light.hall''),
         [(''category'', VStr FINDING_MISSING_DEVICE), (''status'', VStr FINDING_STATUS_OPEN),
          (''source'', VStr SOURCE_GENERATED)])],
      g_rels = [], g_indexes = []\<rparr>"

theorem reconcile_follows_life_cycle_witness:
  "\<exists>now w'. reconcile_category FINDING_MISSING_DEVICE [] SEVERITY_INFO (world_at finding_graph []) = (Inr 0, w') \<and>
     status_of FINDING_MISSING_DEVICE (w_graph w') (finding_ha_id FINDING_MISSING_DEVICE ''light.hall'') = Resolved (VTime now)"
proof -
  have "wf_graph finding_graph" by code_simp
  moreover have "status_of FINDING_MISSING_DEVICE finding_graph (finding_ha_id FINDING_MISSING_DEVICE ''light.hall'') = Open"
    by code_simp
  ultimately show ?thesis
    using reconcile_follows_life_cycle [of "world_at finding_graph []" FINDING_MISSING_DEVICE "[]" SEVERITY_INFO]
    by (fastforce simp: world_at_def)
qed

text \<open>
  The life cycle needs the database: when merging a detected finding fails, the finding counts as not
  detected, and one that was open is resolved although its problem is still there.
\<close>

theorem failed_merge_resolves_finding:
  "let (r, w') = reconcile_category FINDING_MISSING_DEVICE [(''light.hall'', LABEL_ENTITY)] SEVERITY_INFO
         (world_at finding_graph [Down Timeout False])
   in r = Inr 0 \<and> status_of FINDING_MISSING_DEVICE finding_graph (finding_ha_id FINDING_MISSING_DEVICE ''light.hall'') = Open \<and>
      isl r = False \<and>
      status_of FINDING_MISSING_DEVICE (w_graph w') (finding_ha_id FINDING_MISSING_DEVICE ''light.hall'') = Resolved (VTime 0)"
  by code_simp

text \<open>
  On a graph with complete bookkeeping no relationship is reported as invalid.
\<close>

theorem complete_bookkeeping_valid:
  assumes "valid_sources g"
  shows "invalid_relationship_rows g = []"
  using assms by (rule valid_sources_no_invalid)

theorem complete_bookkeeping_valid_witness:
  "invalid_relationship_rows (merge_node_with (LABEL_AREA, ''hall'') (\<lambda>_. [(''source'', VStr SOURCE_HOME_ASSISTANT)])
     empty_graph) = []"
proof (rule complete_bookkeeping_valid)
  have "valid_sources empty_graph"
    by (simp add: valid_sources_def wf_graph_def empty_graph_def node_def rel_def)
  then show "valid_sources (merge_node_with (LABEL_AREA, ''hall'') (\<lambda>_. [(''source'', VStr SOURCE_HOME_ASSISTANT)]) empty_graph)"
    by (rule valid_merge_node) (simp add: sourced_def dget_def)
qed

text \<open>
  But a finding about the schema makes one: the finding points to the schema node, which carries no
  source, so a later run reports the finding itself as an entity with an invalid relationship.
\<close>

theorem schema_finding_reported_as_invalid:
  "let g = schema_graph ''1.0'';
       w = snd (reconcile_category FINDING_SCHEMA_MISMATCH [(SCHEMA_SINGLETON_ID, LABEL_ONTOLOGY_SCHEMA)]
             SEVERITY_ERROR (world_at g []))
   in invalid_relationship_rows g = [] \<and>
      invalid_relationship_rows (w_graph w) = [finding_ha_id FINDING_SCHEMA_MISMATCH SCHEMA_SINGLETON_ID]"
  by code_simp

end
