(* ===== verification/Spatial_Sync.thy ===== *)
theory Spatial_Sync
  imports Dashboard_Sync
begin

text \<open>
  \<open>spatial_sync.py\<close>: walls and pin coordinates from the floor plan another integration serves.  Its
  response is data (\<open>response\<close>); \<open>str_of\<close> is Python's \<open>str\<close> for the numbers in a wall's name.
\<close>

section \<open>Definitions\<close>

definition iterate :: "pval \<Rightarrow> exn + pval list" where
  "iterate v = (case v of
     VList xs \<Rightarrow> Inr xs
   | VDict d \<Rightarrow> Inr (map (\<lambda>(k, _). VStr k) d)
   | VStr s \<Rightarrow> Inr (map (\<lambda>c. VStr [c]) s)
   | _ \<Rightarrow> Inl (TypeError ''object is not iterable''))"

text \<open>\<open>value.get(key, [])\<close>, iterated.\<close>

definition get_items :: "pval \<Rightarrow> string \<Rightarrow> exn + pval list" where
  "get_items v k = (case v of
     VDict d \<Rightarrow> (case map_of d k of None \<Rightarrow> Inr [] | Some x \<Rightarrow> iterate x)
   | _ \<Rightarrow> Inl (AttributeError ''object has no attribute get''))"

definition opening_complete :: "pval \<Rightarrow> exn + bool" where
  "opening_complete v = (case v of
     VDict d \<Rightarrow> Inr (dget d ''x_m'' \<noteq> VNone \<and> dget d ''y_m'' \<noteq> VNone \<and> dget d ''width_m'' \<noteq> VNone)
   | _ \<Rightarrow> Inl (AttributeError ''object has no attribute get''))"

fun complete_openings :: "pval list \<Rightarrow> exn + pval list" where
  "complete_openings [] = Inr []"
| "complete_openings (o1 # os) =
     (case opening_complete o1 of
        Inl e \<Rightarrow> Inl e
      | Inr b \<Rightarrow>
          (case complete_openings os of Inl e \<Rightarrow> Inl e | Inr r \<Rightarrow> Inr (if b then o1 # r else r)))"

definition field :: "string \<Rightarrow> pval \<Rightarrow> pval" where
  "field k v = (case v of VDict d \<Rightarrow> dget d k | _ \<Rightarrow> VNone)"

text \<open>\<open>_opening_arrays\<close>: always the four keys, of the same length.\<close>

definition opening_arrays :: "dict \<Rightarrow> exn + dict" where
  "opening_arrays wall =
     (case iterate_or_empty (dget wall ''openings'') of
        Inl e \<Rightarrow> Inl e
      | Inr all_openings \<Rightarrow>
          (case complete_openings all_openings of
             Inl e \<Rightarrow> Inl e
           | Inr openings \<Rightarrow>
               Inr [(''opening_types'', VList (map (field ''type'') openings)),
                    (''opening_x'', VList (map (field ''x_m'') openings)),
                    (''opening_y'', VList (map (field ''y_m'') openings)),
                    (''opening_width'', VList (map (field ''width_m'') openings))]))"

definition spatial_context_available :: "hass \<Rightarrow> bool" where
  "spatial_context_available h = has_service h SPATIAL_CONTEXT_DOMAIN SPATIAL_CONTEXT_GET_MAP_SERVICE"

text \<open>\<open>point[i]\<close>\<close>

definition coordinate :: "nat \<Rightarrow> pval \<Rightarrow> exn + pval" where
  "coordinate i v = (case v of
     VList xs \<Rightarrow> if i < length xs then Inr (xs ! i) else Inl (IndexError ''list index out of range'')
   | VStr s \<Rightarrow> if i < length s then Inr (VStr [s ! i]) else Inl (IndexError ''string index out of range'')
   | VDict d \<Rightarrow> Inl (KeyError (str_of_nat i))
   | _ \<Rightarrow> Inl (TypeError ''object is not subscriptable''))"

fun coordinates :: "nat \<Rightarrow> pval list \<Rightarrow> exn + pval list" where
  "coordinates i [] = Inr []"
| "coordinates i (p # ps) =
     (case coordinate i p of
        Inl e \<Rightarrow> Inl e
      | Inr x \<Rightarrow> (case coordinates i ps of Inl e \<Rightarrow> Inl e | Inr xs \<Rightarrow> Inr (x # xs)))"

text \<open>
  Ids are strings; another truthy value matches no node, so only the count moves.
\<close>

definition sync_pin :: "string \<Rightarrow> pval \<Rightarrow> nat \<Rightarrow> ('z, nat) wop" where
  "sync_pin floor_id device pinned =
     obind (ofallible (py_get device ''entity_id'')) (\<lambda>entity_id.
       if \<not> truthy entity_id then oret pinned
       else oseq (case entity_id of
                VStr e \<Rightarrow> merge_relationship_with LABEL_ENTITY e REL_PINNED_ON_FLOOR LABEL_FLOOR floor_id
                  SOURCE_HOME_ASSISTANT
                  [(''x'', field ''x_m'' device), (''y'', field ''y_m'' device), (''z'', field ''height_m'' device)]
              | _ \<Rightarrow> oret ())
            (oret (pinned + 1)))"

definition wall_name :: "(pval \<Rightarrow> string) \<Rightarrow> string \<Rightarrow> dict \<Rightarrow> string" where
  "wall_name str_of wall_id wall =
     (if truthy (dget wall ''material'')
      then str_of (dget wall ''material'') @ '' wall ('' @ str_of (dget wall ''thickness_cm'') @ ''cm)''
      else wall_id)"

definition wall_props :: "(pval \<Rightarrow> string) \<Rightarrow> string \<Rightarrow> dict \<Rightarrow> exn + dict" where
  "wall_props str_of wall_id wall =
     (case iterate (dget wall ''points_m'') of
        Inl e \<Rightarrow> Inl e
      | Inr points \<Rightarrow>
          (case coordinates 0 points of
             Inl e \<Rightarrow> Inl e
           | Inr xs \<Rightarrow>
               (case coordinates 1 points of
                  Inl e \<Rightarrow> Inl e
                | Inr ys \<Rightarrow>
                    (case opening_arrays wall of
                       Inl e \<Rightarrow> Inl e
                     | Inr arrays \<Rightarrow>
                         Inr ([(''name'', VStr (wall_name str_of wall_id wall)),
                               (''material'', dget wall ''material''),
                               (''thickness_cm'', dget wall ''thickness_cm''),
                               (''attenuation_db'', dget wall ''attenuation_db''),
                               (''points_x'', VList xs), (''points_y'', VList ys)] @ arrays)))))"

definition sync_wall :: "(pval \<Rightarrow> string) \<Rightarrow> string \<Rightarrow> pval \<Rightarrow> nat \<Rightarrow> ('z, nat) wop" where
  "sync_wall str_of floor_id v walls =
     obind (ofallible (py_get v ''id'')) (\<lambda>wall_id.
       if \<not> truthy wall_id \<or> \<not> truthy (field ''points_m'' v) then oret walls
       else (case (v, wall_id) of
               (VDict wall, VStr i) \<Rightarrow>
                 obind (ofallible (wall_props str_of i wall)) (\<lambda>props.
                 oseq (merge_node LABEL_WALL i props SOURCE_HOME_ASSISTANT)
                (oseq (merge_relationship LABEL_WALL i REL_ON_FLOOR LABEL_FLOOR floor_id SOURCE_HOME_ASSISTANT)
                 (oret (walls + 1))))
             | _ \<Rightarrow> oraise (TypeError ''wall id is not a string'')))"

definition sync_floor :: "(pval \<Rightarrow> string) \<Rightarrow> pval \<Rightarrow> nat \<times> nat \<Rightarrow> ('z, nat \<times> nat) wop" where
  "sync_floor str_of fl counts =
     obind (ofallible (py_get fl ''floor_id'')) (\<lambda>floor_id.
       case floor_id of
         VStr f \<Rightarrow>
           if f = [] then oret counts
           else obind (ofallible (get_items fl ''rooms'')) (\<lambda>rooms.
                obind (ofold (\<lambda>room pinned. obind (ofallible (get_items room ''devices''))
                         (\<lambda>devices. ofold (sync_pin f) devices pinned)) rooms (snd counts)) (\<lambda>pinned.
                obind (ofallible (get_items fl ''walls'')) (\<lambda>walls.
                obind (ofold (sync_wall str_of f) walls (fst counts)) (\<lambda>n.
                oret (n, pinned)))))
       | _ \<Rightarrow> oret counts)"

text \<open>The numbers of walls and pins; \<open>response\<close> is what the service returned.\<close>

definition async_sync_spatial_layout ::
  "(pval \<Rightarrow> string) \<Rightarrow> hass \<Rightarrow> dict option \<Rightarrow> ('z, nat \<times> nat) wop" where
  "async_sync_spatial_layout str_of h response =
     (if \<not> spatial_context_available h then oret (0, 0)
      else obind (ofallible (get_items (VDict (case response of None \<Rightarrow> [] | Some d \<Rightarrow> d)) ''floors'')) (\<lambda>floors.
        ofold (sync_floor str_of) floors (0, 0)))"

section \<open>Laws\<close>

lemma opening_arrays_keys: "opening_arrays wall = Inr d \<Longrightarrow>
  map fst d = [''opening_types'', ''opening_x'', ''opening_y'', ''opening_width'']"
  by (auto simp: opening_arrays_def split: sum.splits)

lemma wall_props_distinct: "wall_props str_of i wall = Inr p \<Longrightarrow> distinct (map fst p)"
proof -
  assume "wall_props str_of i wall = Inr p"
  then obtain a b arrays where p: "p = a # b @ arrays" and arrays: "opening_arrays wall = Inr arrays"
    and keys: "map fst (a # b) = [''name'', ''material'', ''thickness_cm'', ''attenuation_db'', ''points_x'', ''points_y'']"
    by (auto simp: wall_props_def split: sum.splits)
  have "map fst p = map fst (a # b) @ map fst arrays" using p by simp
  then show ?thesis unfolding keys opening_arrays_keys [OF arrays] by simp
qed

lemma ofallible_result: "ofallible r s = (Inr x, t) \<Longrightarrow> r = Inr x"
  by (cases r) (auto simp: ofallible_def)

context merge_invariant
begin

lemma sync_pin_keeps: "keeps (\<lambda>w. I (w_graph w)) (sync_pin f v n)"
proof -
  have "keeps (\<lambda>w. I (w_graph w)) (case e of VStr i \<Rightarrow> merge_relationship_with LABEL_ENTITY i
      REL_PINNED_ON_FLOOR LABEL_FLOOR f SOURCE_HOME_ASSISTANT
      [(''x'', field ''x_m'' v), (''y'', field ''y_m'' v), (''z'', field ''height_m'' v)] | _ \<Rightarrow> oret ())" for e
    by (cases e) (auto intro!: keeps_oret merge_relationship_keeps simp: plain_defs)
  then show ?thesis unfolding sync_pin_def
    by (intro keeps_obind ofallible_keeps keeps_if keeps_oret keeps_oseq)
qed

lemma sync_wall_keeps: "keeps (\<lambda>w. I (w_graph w)) (sync_wall str_of f v n)"
proof -
  have "keeps (\<lambda>w. I (w_graph w)) (obind (ofallible (wall_props str_of i wall)) (\<lambda>props.
      oseq (merge_node LABEL_WALL i props SOURCE_HOME_ASSISTANT)
     (oseq (merge_relationship LABEL_WALL i REL_ON_FLOOR LABEL_FLOOR f SOURCE_HOME_ASSISTANT) (oret (n + 1)))))" for i wall
    by (intro keeps_obind_result [OF ofallible_keeps] keeps_oseq keeps_oret merge_node_keeps merge_relationship_keeps)
      (auto simp: plain_defs dest!: ofallible_result intro: wall_props_distinct)
  then show ?thesis unfolding sync_wall_def
    by (intro keeps_obind ofallible_keeps keeps_if keeps_oret)
      (auto split: pval.splits intro: keeps_oraise)
qed

lemma sync_floor_keeps: "keeps (\<lambda>w. I (w_graph w)) (sync_floor str_of v c)"
proof -
  have "keeps (\<lambda>w. I (w_graph w)) (obind (ofallible (get_items v ''rooms'')) (\<lambda>rooms.
      obind (ofold (\<lambda>room pinned. obind (ofallible (get_items room ''devices''))
               (\<lambda>devices. ofold (sync_pin f) devices pinned)) rooms (snd c)) (\<lambda>pinned.
      obind (ofallible (get_items v ''walls'')) (\<lambda>walls.
      obind (ofold (sync_wall str_of f) walls (fst c)) (\<lambda>n. oret (n, pinned))))))" for f
    by (intro keeps_obind ofallible_keeps keeps_ofold sync_pin_keeps sync_wall_keeps keeps_oret)
  then show ?thesis unfolding sync_floor_def
    by (intro keeps_obind ofallible_keeps) (auto split: pval.splits intro: keeps_oret)
qed

lemma sync_spatial_keeps: "keeps (\<lambda>w. I (w_graph w)) (async_sync_spatial_layout str_of h r)"
  unfolding async_sync_spatial_layout_def
  by (intro keeps_if keeps_oret keeps_obind ofallible_keeps keeps_ofold sync_floor_keeps)

end

end
