(* ===== verification/Change_Buffer.thy ===== *)
theory Change_Buffer
  imports Const
begin

text \<open>
  \<open>GraphChangeBuffer\<close> of \<open>coordinator.py\<close>: a bounded buffer of numbered events with subscribers.  The
  history of everything ever published is its specification: the buffer holds the end of it.
\<close>

section \<open>Definitions\<close>

record change_event =
  ev_revision :: nat
  ev_kind :: string
  ev_node_ids :: "string list"
  ev_relationship_ids :: "string list"
  ev_changed_properties :: "string list"
  ev_occurred_at :: pval

definition change_event_dict :: "change_event \<Rightarrow> dict" where
  "change_event_dict e =
     [(''revision'', VInt (int (ev_revision e))), (''kind'', VStr (ev_kind e)),
      (''node_ids'', VList (map VStr (ev_node_ids e))),
      (''relationship_ids'', VList (map VStr (ev_relationship_ids e))),
      (''changed_properties'', VList (map VStr (ev_changed_properties e))),
      (''occurred_at'', ev_occurred_at e)]"

text \<open>
  A subscriber is its id; what has been handed to it is logged, in order, and what it raises is
  swallowed.
\<close>

record change_buffer =
  cb_max_size :: nat
  cb_revision :: nat
  cb_events :: "change_event list"
  cb_subscribers :: "string list"
  cb_delivered :: "(string \<times> change_event) list"

definition new_change_buffer :: "nat \<Rightarrow> change_buffer" where
  "new_change_buffer max_size =
     \<lparr>cb_max_size = max_size, cb_revision = 0, cb_events = [], cb_subscribers = [], cb_delivered = []\<rparr>"

text \<open>\<open>deque(maxlen)\<close>: appending drops from the front.\<close>

definition deque_append :: "nat \<Rightarrow> 'a list \<Rightarrow> 'a \<Rightarrow> 'a list" where
  "deque_append max_size xs x = drop (Suc (length xs) - max_size) (xs @ [x])"

definition next_revision :: "change_buffer \<Rightarrow> change_buffer" where
  "next_revision b = b\<lparr>cb_revision := cb_revision b + 1\<rparr>"

definition publish :: "change_event \<Rightarrow> change_buffer \<Rightarrow> change_buffer" where
  "publish e b = b\<lparr>cb_events := deque_append (cb_max_size b) (cb_events b) e,
     cb_delivered := cb_delivered b @ map (\<lambda>s. (s, e)) (cb_subscribers b)\<rparr>"

definition publish_event ::
  "string \<Rightarrow> string list \<Rightarrow> string list \<Rightarrow> string list \<Rightarrow> pval \<Rightarrow> change_buffer \<Rightarrow> change_buffer" where
  "publish_event kind node_ids relationship_ids changed now b =
     (let b' = next_revision b in
      publish \<lparr>ev_revision = cb_revision b', ev_kind = kind, ev_node_ids = node_ids,
        ev_relationship_ids = relationship_ids, ev_changed_properties = changed, ev_occurred_at = now\<rparr> b')"

definition publish_upsert ::
  "string list \<Rightarrow> string list \<Rightarrow> string list \<Rightarrow> pval \<Rightarrow> change_buffer \<Rightarrow> change_buffer" where
  "publish_upsert node_ids relationship_ids changed = publish_event ''upsert'' node_ids relationship_ids changed"

definition publish_remove :: "string list \<Rightarrow> string list \<Rightarrow> pval \<Rightarrow> change_buffer \<Rightarrow> change_buffer" where
  "publish_remove node_ids relationship_ids = publish_event ''remove'' node_ids relationship_ids []"

definition publish_reconcile :: "pval \<Rightarrow> change_buffer \<Rightarrow> change_buffer" where
  "publish_reconcile = publish_event ''reconcile'' [] [] []"

definition events_since :: "change_buffer \<Rightarrow> int \<Rightarrow> change_event list option" where
  "events_since b revision =
     (if int (cb_revision b) < revision then None
      else (case cb_events b of
              [] \<Rightarrow> Some []
            | oldest # _ \<Rightarrow>
                if revision < int (ev_revision oldest) - 1 then None
                else Some (filter (\<lambda>e. revision < int (ev_revision e)) (cb_events b))))"

text \<open>A dictionary: subscribing again under an id keeps its place.\<close>

definition subscribe :: "string \<Rightarrow> change_buffer \<Rightarrow> change_buffer" where
  "subscribe i b = b\<lparr>cb_subscribers := (if i \<in> set (cb_subscribers b) then cb_subscribers b else cb_subscribers b @ [i])\<rparr>"

definition unsubscribe :: "string \<Rightarrow> change_buffer \<Rightarrow> change_buffer" where
  "unsubscribe i b = b\<lparr>cb_subscribers := filter (\<lambda>s. s \<noteq> i) (cb_subscribers b)\<rparr>"

section \<open>The history\<close>

definition buffers :: "change_buffer \<Rightarrow> change_event list \<Rightarrow> bool" where
  "buffers b history \<longleftrightarrow> 0 < cb_max_size b \<and> cb_revision b = length history \<and>
     map ev_revision history = [1..<Suc (length history)] \<and>
     cb_events b = drop (length history - cb_max_size b) history"

inductive buffer_run :: "nat \<Rightarrow> change_buffer \<Rightarrow> change_event list \<Rightarrow> bool" for n where
  run_new: "buffer_run n (new_change_buffer n) []"
| run_publish: "buffer_run n b history \<Longrightarrow>
    buffer_run n (publish_event kind nodes rels changed now b)
      (history @ [\<lparr>ev_revision = Suc (cb_revision b), ev_kind = kind, ev_node_ids = nodes,
        ev_relationship_ids = rels, ev_changed_properties = changed, ev_occurred_at = now\<rparr>])"
| run_subscribe: "buffer_run n b history \<Longrightarrow> buffer_run n (subscribe i b) history"
| run_unsubscribe: "buffer_run n b history \<Longrightarrow> buffer_run n (unsubscribe i b) history"

lemma deque_append_drop:
  "0 < m \<Longrightarrow> deque_append m (drop (length xs - m) xs) x = drop (length (xs @ [x]) - m) (xs @ [x])"
  by (cases "m \<le> length xs") (auto simp: deque_append_def Suc_diff_le)

lemma buffers_publish:
  assumes "buffers b history"
  shows "buffers (publish_event kind nodes rels changed now b)
    (history @ [\<lparr>ev_revision = Suc (cb_revision b), ev_kind = kind, ev_node_ids = nodes,
        ev_relationship_ids = rels, ev_changed_properties = changed, ev_occurred_at = now\<rparr>])"
  using assms deque_append_drop [of "cb_max_size b" history]
  by (simp add: buffers_def publish_event_def publish_def next_revision_def Let_def)

lemma buffer_run_buffers: "buffer_run n b history \<Longrightarrow> 0 < n \<Longrightarrow> buffers b history \<and> cb_max_size b = n"
proof (induction rule: buffer_run.induct)
  case run_new
  then show ?case by (simp add: buffers_def new_change_buffer_def)
next
  case (run_publish b history)
  then show ?case using buffers_publish
    by (fastforce simp: publish_event_def publish_def next_revision_def Let_def)
next
  case (run_subscribe b history i)
  then show ?case by (simp add: buffers_def subscribe_def)
next
  case (run_unsubscribe b history i)
  then show ?case by (simp add: buffers_def unsubscribe_def)
qed

lemma history_nth: "map ev_revision history = [1..<Suc (length history)] \<Longrightarrow> i < length history \<Longrightarrow>
  ev_revision (history ! i) = Suc i"
proof -
  assume m: "map ev_revision history = [1..<Suc (length history)]" and i: "i < length history"
  have "map ev_revision history ! i = [1..<Suc (length history)] ! i" by (simp only: m)
  then show ?thesis using i by (simp del: upt_Suc)
qed

lemma filter_later:
  assumes "map ev_revision history = [1..<Suc (length history)]" and "k \<le> r"
  shows "filter (\<lambda>e. r < ev_revision e) (drop k history) = drop r history"
proof -
  have "drop k history = take (r - k) (drop k history) @ drop r history"
    using append_take_drop_id [of "r - k" "drop k history"] assms(2) by (simp add: add.commute)
  moreover have "filter (\<lambda>e. r < ev_revision e) (take (r - k) (drop k history)) = []"
    using history_nth [OF assms(1)] assms(2)
    by (auto simp: filter_empty_conv in_set_conv_nth)
  moreover have "filter (\<lambda>e. r < ev_revision e) (drop r history) = drop r history"
    using history_nth [OF assms(1)] by (auto simp: filter_id_conv in_set_conv_nth)
  ultimately show ?thesis by (metis filter_append append_Nil)
qed

text \<open>What the buffer can still bridge is answered exactly, and nothing else is answered.\<close>

lemma events_since_history:
  assumes "buffers b history"
  shows "events_since b r =
    (if int (length history) < r \<or> (history \<noteq> [] \<and> r < int (length history - cb_max_size b)) then None
     else Some (drop (nat r) history))"
proof (cases "history = []")
  case True
  then show ?thesis using assms by (auto simp: events_since_def buffers_def)
next
  case False
  let ?k = "length history - cb_max_size b"
  note b = assms [unfolded buffers_def]
  have k: "?k < length history" using b False by (cases history) auto
  then obtain e es where ev: "drop ?k history = e # es" by (cases "drop ?k history") auto
  then have "e = history ! ?k" using k by (simp add: hd_drop_conv_nth [symmetric])
  moreover have m: "map ev_revision history = [1..<Suc (length history)]" using b by blast
  ultimately have rev: "ev_revision e = Suc ?k" using history_nth [OF m k] by simp
  have "filter (\<lambda>e. r < int (ev_revision e)) (drop ?k history) = drop (nat r) history" if "int ?k \<le> r"
  proof -
    have le: "?k \<le> nat r" using that by linarith
    have eq: "r < int (ev_revision x) \<longleftrightarrow> nat r < ev_revision x" for x :: change_event using that by linarith
    show ?thesis unfolding eq by (rule filter_later [OF m le])
  qed
  then show ?thesis using b ev rev by (auto simp: events_since_def)
qed

section \<open>What a client of the buffer can rely on\<close>

text \<open>
  C13. Whatever was published, subscribed and unsubscribed: a client that asks for what came after a
  revision gets exactly the events published since, in order, or is told to reload; it is told so exactly
  when its revision lies ahead, or when the event after it has left the buffer; and the buffer never
  holds more than its size.
\<close>

theorem events_since_exact:
  assumes "buffer_run n b history" and "0 < n"
  shows "events_since b r =
      (if int (length history) < r \<or> (history \<noteq> [] \<and> r < int (length history - n)) then None
       else Some (drop (nat r) history)) \<and>
    length (cb_events b) \<le> n \<and> map ev_revision history = [1..<Suc (length history)]"
  using buffer_run_buffers [OF assms] events_since_history [of b history r]
  by (auto simp: buffers_def)

theorem events_since_exact_witness:
  "let b = publish_remove [''Entity:a''] [] (VTime 2) (publish_reconcile (VTime 1) (new_change_buffer 1))
   in events_since b 0 = None \<and> map_option (map ev_revision) (events_since b 1) = Some [2] \<and> length (cb_events b) \<le> 1"
proof -
  let ?b = "publish_remove [''Entity:a''] [] (VTime 2) (publish_reconcile (VTime 1) (new_change_buffer 1))"
  let ?e = "\<lparr>ev_revision = 1, ev_kind = ''reconcile'', ev_node_ids = [], ev_relationship_ids = [],
      ev_changed_properties = [], ev_occurred_at = VTime 1\<rparr>"
    and ?f = "\<lparr>ev_revision = 2, ev_kind = ''remove'', ev_node_ids = [''Entity:a''], ev_relationship_ids = [],
      ev_changed_properties = [], ev_occurred_at = VTime 2\<rparr>"
  have r: "buffer_run 1 ?b [?e, ?f]"
    unfolding publish_remove_def publish_reconcile_def
    using run_publish [OF run_publish [OF run_new], of 1 "''remove''" "[''Entity:a'']" "[]" "[]" "VTime 2" "''reconcile''" "[]" "[]" "[]" "VTime 1"]
    by (simp add: publish_event_def publish_def next_revision_def new_change_buffer_def Let_def numeral_2_eq_2)
  show ?thesis
    using events_since_exact [OF r zero_less_one, of 0] events_since_exact [OF r zero_less_one, of 1] by (simp add: Let_def)
qed

end
