(* ===== verification/Sync_Activity.thy ===== *)
theory Sync_Activity
  imports Const
begin

text \<open>
  The sync-activity counters of \<open>coordinator.py\<close>: one bucket per minute, circular over the window.
  The specification is a log of what was recorded, with its minute: the buckets hold the part of the
  log that lies in the window.
\<close>

section \<open>Definitions\<close>

record activity =
  ac_event_buckets :: "nat list"
  ac_batch_buckets :: "nat list"
  ac_synced_buckets :: "nat list"
  ac_bucket_minute :: "int option"

definition new_activity :: activity where
  "new_activity = \<lparr>ac_event_buckets = replicate SYNC_ACTIVITY_WINDOW_MINUTES 0,
     ac_batch_buckets = replicate SYNC_ACTIVITY_WINDOW_MINUTES 0,
     ac_synced_buckets = replicate SYNC_ACTIVITY_WINDOW_MINUTES 0, ac_bucket_minute = None\<rparr>"

definition bucket_index :: "int \<Rightarrow> nat" where
  "bucket_index minute = nat (minute mod int SYNC_ACTIVITY_WINDOW_MINUTES)"

fun zero_buckets :: "int \<Rightarrow> nat \<Rightarrow> nat list \<Rightarrow> nat list" where
  "zero_buckets previous 0 xs = xs"
| "zero_buckets previous (Suc k) xs = (zero_buckets previous k xs)[bucket_index (previous + int (Suc k)) := 0]"

definition activity_roll :: "int \<Rightarrow> activity \<Rightarrow> activity" where
  "activity_roll now_minute a =
     (case ac_bucket_minute a of
        None \<Rightarrow> a\<lparr>ac_bucket_minute := Some now_minute\<rparr>
      | Some previous \<Rightarrow>
          (let elapsed = now_minute - previous;
               steps = min (nat elapsed) SYNC_ACTIVITY_WINDOW_MINUTES
           in if elapsed \<le> 0 then a
              else a\<lparr>ac_event_buckets := zero_buckets previous steps (ac_event_buckets a),
                     ac_batch_buckets := zero_buckets previous steps (ac_batch_buckets a),
                     ac_synced_buckets := zero_buckets previous steps (ac_synced_buckets a),
                     ac_bucket_minute := Some now_minute\<rparr>))"

definition bump :: "int \<Rightarrow> nat \<Rightarrow> nat list \<Rightarrow> nat list" where
  "bump minute n xs = xs[bucket_index minute := xs ! bucket_index minute + n]"

definition record_sync_event :: "int \<Rightarrow> activity \<Rightarrow> activity" where
  "record_sync_event now_minute a =
     (let a' = activity_roll now_minute a
      in a'\<lparr>ac_event_buckets := bump now_minute 1 (ac_event_buckets a')\<rparr>)"

definition record_sync_batch :: "int \<Rightarrow> nat \<Rightarrow> activity \<Rightarrow> activity" where
  "record_sync_batch now_minute batch_size a =
     (let a' = activity_roll now_minute a
      in a'\<lparr>ac_batch_buckets := bump now_minute 1 (ac_batch_buckets a'),
            ac_synced_buckets := bump now_minute batch_size (ac_synced_buckets a')\<rparr>)"

text \<open>\<open>async_publish_sync_activity\<close>: events, batches, and the mean size of a batch, to one decimal.\<close>

definition round1 :: "rat \<Rightarrow> rat" where
  "round1 x = of_int (round_half_even (x * 10)) / 10"

definition sync_snapshot :: "int \<Rightarrow> activity \<Rightarrow> (nat \<times> nat \<times> rat) \<times> activity" where
  "sync_snapshot now_minute a =
     (let a' = activity_roll now_minute a;
          events = sum_list (ac_event_buckets a');
          batches = sum_list (ac_batch_buckets a');
          synced = sum_list (ac_synced_buckets a')
      in ((events, batches, if batches \<noteq> 0 then round1 (of_nat synced / of_nat batches) else 0), a'))"

section \<open>Buckets hold the window of a log\<close>

definition amount_at :: "(int \<times> nat) list \<Rightarrow> int \<Rightarrow> nat" where
  "amount_at lg minute = sum_list (map snd (filter (\<lambda>x. fst x = minute) lg))"

definition window :: int where
  "window = int SYNC_ACTIVITY_WINDOW_MINUTES"

definition buckets_ok :: "nat list \<Rightarrow> (int \<times> nat) list \<Rightarrow> int \<Rightarrow> bool" where
  "buckets_ok xs lg m \<longleftrightarrow> length xs = SYNC_ACTIVITY_WINDOW_MINUTES \<and> (\<forall>x \<in> set lg. fst x \<le> m) \<and>
     (\<forall>j. m - window < j \<and> j \<le> m \<longrightarrow> xs ! bucket_index j = amount_at lg j)"

lemma window_pos: "0 < window" "0 < SYNC_ACTIVITY_WINDOW_MINUTES"
  by (simp_all add: window_def const_defs)

lemma bucket_index_less: "bucket_index j < SYNC_ACTIVITY_WINDOW_MINUTES"
proof -
  have "0 \<le> j mod window" "j mod window < window" using window_pos by simp_all
  then show ?thesis unfolding bucket_index_def window_def by linarith
qed

lemma bucket_index_eq: "bucket_index i = bucket_index j \<longleftrightarrow> i mod window = j mod window"
proof -
  have "0 \<le> i mod window" "0 \<le> j mod window" using window_pos by simp_all
  then show ?thesis unfolding bucket_index_def window_def by linarith
qed

text \<open>Within less than a window, different minutes have different buckets.\<close>

lemma bucket_index_apart:
  assumes "bucket_index i = bucket_index j" and "\<bar>i - j\<bar> < window"
  shows "i = j"
proof -
  have "window dvd i - j" using assms(1) by (simp add: bucket_index_eq mod_eq_dvd_iff)
  then show ?thesis using assms(2) by (metis dvd_imp_le_int abs_ge_zero abs_of_pos eq_iff_diff_eq_0
        linorder_not_less window_pos(1))
qed

lemma length_zero_buckets [simp]: "length (zero_buckets previous k xs) = length xs"
  by (induction k) simp_all

lemma nth_zero_buckets:
  "i < length xs \<Longrightarrow> zero_buckets previous k xs ! i =
     (if \<exists>s \<in> {1..k}. bucket_index (previous + int s) = i then 0 else xs ! i)"
proof (induction k)
  case 0
  then show ?case by simp
next
  case (Suc k)
  have "(\<exists>s \<in> {1..Suc k}. bucket_index (previous + int s) = i) \<longleftrightarrow>
      bucket_index (previous + int (Suc k)) = i \<or> (\<exists>s \<in> {1..k}. bucket_index (previous + int s) = i)"
  proof -
    have e: "{1..Suc k} = insert (Suc k) {1..k}" by auto
    show ?thesis unfolding e by blast
  qed
  then show ?case using Suc
    by (cases "bucket_index (previous + int (Suc k)) = i") (simp_all del: of_nat_Suc)
qed

lemma amount_future: "\<forall>x \<in> set lg. fst x \<le> m \<Longrightarrow> m < j \<Longrightarrow> amount_at lg j = 0"
  by (fastforce simp: amount_at_def filter_empty_conv)

lemma buckets_ok_roll:
  assumes ok: "buckets_ok xs lg m" and n: "m < n"
  shows "buckets_ok (zero_buckets m (min (nat (n - m)) SYNC_ACTIVITY_WINDOW_MINUTES) xs) lg n"
proof -
  let ?k = "min (nat (n - m)) SYNC_ACTIVITY_WINDOW_MINUTES"
  have len: "length xs = SYNC_ACTIVITY_WINDOW_MINUTES" and lg: "\<forall>x \<in> set lg. fst x \<le> m"
    and old: "m - window < j \<Longrightarrow> j \<le> m \<Longrightarrow> xs ! bucket_index j = amount_at lg j" for j
    using ok by (simp_all add: buckets_ok_def)
  have "zero_buckets m ?k xs ! bucket_index j = amount_at lg j" if j: "n - window < j" "j \<le> n" for j
  proof (cases "m < j")
    case True
    obtain q where q: "q = (j - m - 1) mod window" by blast
    have r: "0 \<le> q" "q < int SYNC_ACTIVITY_WINDOW_MINUTES" using window_pos by (simp_all add: q window_def)
    have "q \<le> j - m - 1" unfolding q using True by (intro zmod_le_nonneg_dividend) simp
    then have "nat q + 1 \<in> {1..?k}" using r j by auto
    moreover have "m + int (nat q + 1) = m + 1 + q" using r by simp
    then have "(m + int (nat q + 1)) mod window = j mod window"
      using mod_add_right_eq [of "m + 1" "j - m - 1" window] by (simp only: q) simp
    then have "bucket_index (m + int (nat q + 1)) = bucket_index j" by (simp add: bucket_index_eq)
    ultimately have "\<exists>s \<in> {1..?k}. bucket_index (m + int s) = bucket_index j" by blast
    then show ?thesis
      using amount_future [OF lg True] by (simp add: nth_zero_buckets len bucket_index_less)
  next
    case False
    have "bucket_index (m + int s) \<noteq> bucket_index j" if s: "s \<in> {1..?k}" for s
    proof
      assume "bucket_index (m + int s) = bucket_index j"
      moreover have "\<bar>m + int s - j\<bar> < window" using s j False by auto
      ultimately have "m + int s = j" by (rule bucket_index_apart)
      then show False using s False by simp
    qed
    then have "zero_buckets m ?k xs ! bucket_index j = xs ! bucket_index j"
      by (auto simp: nth_zero_buckets len bucket_index_less)
    then show ?thesis using old j False n by simp
  qed
  then show ?thesis using len lg n by (fastforce simp: buckets_ok_def)
qed

lemma buckets_ok_bump:
  assumes "buckets_ok xs lg m"
  shows "buckets_ok (bump m n xs) (lg @ [(m, n)]) m"
proof -
  have "bump m n xs ! bucket_index j = amount_at (lg @ [(m, n)]) j" if "m - window < j" "j \<le> m" for j
  proof (cases "j = m")
    case True
    then show ?thesis using assms that bucket_index_less [of m]
      by (simp add: buckets_ok_def bump_def amount_at_def)
  next
    case False
    then have "bucket_index m \<noteq> bucket_index j" using bucket_index_apart [of m j] that by auto
    then show ?thesis using assms that False by (simp add: buckets_ok_def bump_def amount_at_def)
  qed
  then show ?thesis using assms by (auto simp: buckets_ok_def bump_def)
qed

text \<open>The buckets together are the part of the log that is younger than the window.\<close>

lemma buckets_sum:
  assumes ok: "buckets_ok xs lg m"
  shows "sum_list xs = sum_list (map snd (filter (\<lambda>x. m - window < fst x) lg))"
proof -
  let ?J = "{m - window + 1..m}"
  have inj: "inj_on bucket_index ?J"
    by (rule inj_onI) (rule bucket_index_apart, auto)
  have "card (bucket_index ` ?J) = card ?J" by (rule card_image [OF inj])
  also have "\<dots> = SYNC_ACTIVITY_WINDOW_MINUTES" by (simp add: window_def)
  finally have "card (bucket_index ` ?J) = SYNC_ACTIVITY_WINDOW_MINUTES" .
  moreover
  have "bucket_index ` ?J \<subseteq> {..<SYNC_ACTIVITY_WINDOW_MINUTES}" using bucket_index_less by auto
  ultimately have img: "bucket_index ` ?J = {..<SYNC_ACTIVITY_WINDOW_MINUTES}"
    by (intro card_subset_eq) simp_all
  have "sum_list xs = (\<Sum>i < SYNC_ACTIVITY_WINDOW_MINUTES. xs ! i)"
    using ok by (simp add: buckets_ok_def sum_list_sum_nth lessThan_atLeast0)
  also have "\<dots> = (\<Sum>j \<in> ?J. xs ! bucket_index j)"
    unfolding img [symmetric] by (rule sum.reindex [OF inj, unfolded comp_def])
  also have "\<dots> = (\<Sum>j \<in> ?J. amount_at lg j)"
    using ok by (intro sum.cong) (auto simp: buckets_ok_def)
  also have "\<dots> = sum_list (map snd (filter (\<lambda>x. m - window < fst x) lg))"
  proof -
    have "\<forall>x \<in> set lg. fst x \<le> m" using ok by (simp add: buckets_ok_def)
    then show ?thesis
    proof (induction lg)
      case Nil
      then show ?case by (simp add: amount_at_def)
    next
      case (Cons x lg)
      have "amount_at (x # lg) j = (if j = fst x then snd x else 0) + amount_at lg j" for j
        by (auto simp: amount_at_def)
      then have "(\<Sum>j \<in> ?J. amount_at (x # lg) j) = (\<Sum>j \<in> ?J. if j = fst x then snd x else 0) + (\<Sum>j \<in> ?J. amount_at lg j)"
        by (simp add: sum.distrib)
      then show ?case using Cons by (auto simp: sum.delta)
    qed
  qed
  finally show ?thesis .
qed

section \<open>The counters as a whole\<close>

text \<open>What is recorded, with its minute.\<close>

datatype activity_entry = EventAt int | BatchAt int nat

fun entry_minute :: "activity_entry \<Rightarrow> int" where
  "entry_minute (EventAt m) = m"
| "entry_minute (BatchAt m n) = m"

fun apply_entry :: "activity_entry \<Rightarrow> activity \<Rightarrow> activity" where
  "apply_entry (EventAt m) a = record_sync_event m a"
| "apply_entry (BatchAt m n) a = record_sync_batch m n a"

definition event_log :: "activity_entry list \<Rightarrow> (int \<times> nat) list" where
  "event_log es = concat (map (\<lambda>e. case e of EventAt m \<Rightarrow> [(m, 1)] | BatchAt m n \<Rightarrow> []) es)"

definition batch_log :: "activity_entry list \<Rightarrow> (int \<times> nat) list" where
  "batch_log es = concat (map (\<lambda>e. case e of EventAt m \<Rightarrow> [] | BatchAt m n \<Rightarrow> [(m, 1)]) es)"

definition synced_log :: "activity_entry list \<Rightarrow> (int \<times> nat) list" where
  "synced_log es = concat (map (\<lambda>e. case e of EventAt m \<Rightarrow> [] | BatchAt m n \<Rightarrow> [(m, n)]) es)"

definition activity_ok :: "activity \<Rightarrow> activity_entry list \<Rightarrow> int \<Rightarrow> bool" where
  "activity_ok a es m \<longleftrightarrow> ac_bucket_minute a = Some m \<and> buckets_ok (ac_event_buckets a) (event_log es) m \<and>
     buckets_ok (ac_batch_buckets a) (batch_log es) m \<and> buckets_ok (ac_synced_buckets a) (synced_log es) m"

lemma activity_roll_ok: "activity_ok a es m \<Longrightarrow> m \<le> n \<Longrightarrow> activity_ok (activity_roll n a) es n"
  by (cases "m = n") (simp_all add: activity_ok_def activity_roll_def Let_def buckets_ok_roll)

lemma bucket_index_replicate: "replicate SYNC_ACTIVITY_WINDOW_MINUTES 0 ! bucket_index j = (0 :: nat)"
  using bucket_index_less by simp

lemma activity_start_ok: "activity_ok (activity_roll n new_activity) [] n"
  by (simp add: activity_ok_def activity_roll_def new_activity_def buckets_ok_def amount_at_def event_log_def
      batch_log_def synced_log_def bucket_index_replicate)

lemma apply_entry_ok:
  assumes "activity_ok (activity_roll (entry_minute e) a) es (entry_minute e)"
  shows "activity_ok (apply_entry e a) (es @ [e]) (entry_minute e)"
  using assms
  by (cases e) (auto simp: activity_ok_def record_sync_event_def record_sync_batch_def Let_def
      event_log_def batch_log_def synced_log_def buckets_ok_bump simp del: One_nat_def)

lemma activity_run_ok:
  "es \<noteq> [] \<Longrightarrow> sorted (map entry_minute es) \<Longrightarrow>
   activity_ok (fold apply_entry es new_activity) es (entry_minute (last es))"
proof (induction es rule: rev_induct)
  case Nil
  then show ?case by simp
next
  case (snoc e es)
  show ?case
  proof (cases "es = []")
    case True
    then show ?thesis using apply_entry_ok [OF activity_start_ok [of "entry_minute e"]] by simp
  next
    case False
    then have "activity_ok (fold apply_entry es new_activity) es (entry_minute (last es))"
      using snoc by (simp add: sorted_append)
    moreover have "entry_minute (last es) \<le> entry_minute e"
      using snoc.prems(2) False by (simp add: sorted_append)
    ultimately show ?thesis using apply_entry_ok [OF activity_roll_ok] by simp
  qed
qed

section \<open>What the sensors show\<close>

text \<open>
  C15. The snapshot counts exactly what lies in the window: the events and the batches recorded in the last
  \<open>SYNC_ACTIVITY_WINDOW_MINUTES\<close> minutes, and the mean size of those batches, however long the pauses
  between the records were.
\<close>

theorem snapshot_is_window:
  assumes "es \<noteq> []" and "sorted (map entry_minute es)" and "entry_minute (last es) \<le> now"
  shows "let young = (\<lambda>lg. sum_list (map snd (filter (\<lambda>x. now - int SYNC_ACTIVITY_WINDOW_MINUTES < fst x) lg)))
    in fst (sync_snapshot now (fold apply_entry es new_activity)) =
      (young (event_log es), young (batch_log es),
       if young (batch_log es) = 0 then 0
       else round1 (of_nat (young (synced_log es)) / of_nat (young (batch_log es))))"
proof -
  have "activity_ok (activity_roll now (fold apply_entry es new_activity)) es now"
    by (rule activity_roll_ok [OF activity_run_ok [OF assms(1,2)] assms(3)])
  then show ?thesis
    by (auto simp: activity_ok_def sync_snapshot_def Let_def window_def simp del: sum_list_eq_0_iff
        dest!: buckets_sum)
qed

theorem snapshot_is_window_witness:
  "fst (sync_snapshot 100 (fold apply_entry [EventAt 1, EventAt 97, BatchAt 100 7] new_activity)) = (1, 1, 7)"
proof -
  have "round1 7 = 7" by code_simp
  moreover have "SYNC_ACTIVITY_WINDOW_MINUTES = 5" by (simp add: const_defs)
  ultimately show ?thesis
    using snapshot_is_window [of "[EventAt 1, EventAt 97, BatchAt 100 7]" 100]
    by (simp add: event_log_def batch_log_def synced_log_def Let_def)
qed

end
