(* ===== verification/Coordinator.thy ===== *)
theory Coordinator
  imports Full_Sync Validation Spatial_Sync Query_Safety Change_Buffer Sync_Activity
begin

text \<open>
  \<open>OntologyCoordinator\<close> of \<open>coordinator.py\<close>: the observable state, the full and incremental
  synchronisations and their error handling.  Its state extends the state of the database client; every
  operation here runs while it holds the lock, whose protocol is the theory \<open>Op_Lock\<close>.
\<close>

section \<open>State\<close>

record failed_update =
  fu_kind :: string
  fu_id :: string
  fu_attempts :: nat
  fu_error :: string

text \<open>
  What the callbacks and the sensors are told: the sustained-failure and the cleared callback, and
  \<open>async_set_updated_data\<close>.
\<close>

datatype coord_signal = SustainedFailure | FailureCleared | StateNotified

record coord = world +
  co_health :: string
  co_node_count :: nat
  co_relationship_count :: nat
  co_last_sync :: pval
  co_last_error :: "string option"
  co_schema_version :: pval
  co_consecutive_failures :: nat
  co_failed_updates :: "failed_update list"
  co_validation_findings :: "(string \<times> nat) list"
  co_sync_activity :: "nat \<times> nat \<times> rat"
  co_last_batch_ms :: "rat option"
  co_spatial_duration_ms :: "rat option"
  co_spatial_walls :: "int option"
  co_spatial_pinned :: "int option"
  co_mesh_duration_ms :: "rat option"
  co_mesh_links :: "int option"
  co_buffer :: change_buffer
  co_activity :: activity
  co_signals :: "coord_signal list"

type_synonym 'a cop = "(coord, 'a) op"

definition new_coord :: "graph \<Rightarrow> coord" where
  "new_coord g = \<lparr>w_graph = g, w_net = [], w_now = 0, w_ticks = [], w_sleeps = [], w_open = False,
     co_health = HEALTH_UNAVAILABLE, co_node_count = 0, co_relationship_count = 0, co_last_sync = VNone,
     co_last_error = None, co_schema_version = VNone, co_consecutive_failures = 0, co_failed_updates = [],
     co_validation_findings = [], co_sync_activity = (0, 0, 0), co_last_batch_ms = None,
     co_spatial_duration_ms = None, co_spatial_walls = None, co_spatial_pinned = None, co_mesh_duration_ms = None, co_mesh_links = None,
     co_buffer = new_change_buffer GRAPH_REVISION_BUFFER_SIZE, co_activity = new_activity, co_signals = []\<rparr>"

definition notify_state_changed :: "unit cop" where
  "notify_state_changed = omodify (\<lambda>s. s\<lparr>co_signals := co_signals s @ [StateNotified]\<rparr>)"

definition record_success :: "unit cop" where
  "record_success = obind now_iso (\<lambda>now.
     oseq (omodify (\<lambda>s. s\<lparr>co_health := HEALTH_OK, co_last_error := None, co_consecutive_failures := 0,
             co_last_sync := now, co_signals := co_signals s @ [FailureCleared]\<rparr>))
       notify_state_changed)"

definition count_failure :: "exn \<Rightarrow> coord \<Rightarrow> coord" where
  "count_failure err s =
     (let n = co_consecutive_failures s + 1
      in s\<lparr>co_health := HEALTH_ERROR, co_last_error := Some (redact_exception err), co_consecutive_failures := n,
           co_signals := co_signals s @ (if SUSTAINED_FAILURE_THRESHOLD \<le> n then [SustainedFailure] else [])\<rparr>)"

definition record_failure :: "exn \<Rightarrow> unit cop" where
  "record_failure err = oseq (omodify (count_failure err)) notify_state_changed"

text \<open>\<open>try: body; except Exception: record, raise; else: success\<close>\<close>

definition recorded :: "'a cop \<Rightarrow> ('a \<Rightarrow> 'b cop) \<Rightarrow> 'b cop" where
  "recorded body success =
     obind (otry body (\<lambda>err. oseq (record_failure err) (oraise err))) success"

definition refresh_counts :: "unit cop" where
  "refresh_counts =
     obind (run_query (read_stmt (\<lambda>g. length (g_nodes g)))) (\<lambda>nodes.
     obind (run_query (read_stmt (\<lambda>g. length (g_rels g)))) (\<lambda>rels.
     omodify (\<lambda>s. s\<lparr>co_node_count := nodes, co_relationship_count := rels\<rparr>)))"

definition publish_op :: "(pval \<Rightarrow> change_buffer \<Rightarrow> change_buffer) \<Rightarrow> unit cop" where
  "publish_op f = obind now_iso (\<lambda>now. omodify (\<lambda>s. s\<lparr>co_buffer := f now (co_buffer s)\<rparr>))"

text \<open>\<open>time.time() // 60\<close>, and milliseconds between two readings, to one decimal.\<close>

definition minute_of :: "int \<Rightarrow> int" where
  "minute_of t = t div 60000000"

definition milliseconds :: "int \<Rightarrow> int \<Rightarrow> rat" where
  "milliseconds t u = of_int (u - t) / 1000"

definition record_sync_event_op :: "unit cop" where
  "record_sync_event_op = obind utc_now (\<lambda>t.
     omodify (\<lambda>s. s\<lparr>co_activity := record_sync_event (minute_of t) (co_activity s)\<rparr>))"

definition record_sync_batch_op :: "rat \<Rightarrow> nat \<Rightarrow> unit cop" where
  "record_sync_batch_op duration_ms batch_size = obind utc_now (\<lambda>t.
     omodify (\<lambda>s. s\<lparr>co_activity := record_sync_batch (minute_of t) batch_size (co_activity s),
       co_last_batch_ms := Some (round1 duration_ms)\<rparr>))"

definition async_publish_sync_activity :: "unit cop" where
  "async_publish_sync_activity = obind utc_now (\<lambda>t.
     oseq (omodify (\<lambda>s. let (snapshot, a) = sync_snapshot (minute_of t) (co_activity s)
             in s\<lparr>co_activity := a, co_sync_activity := snapshot\<rparr>))
       notify_state_changed)"

section \<open>Full synchronisation\<close>

text \<open>The surroundings an operation runs in: Home Assistant, its id check, the UUID function, an option.\<close>

record surroundings =
  su_hass :: hass
  su_valid_entity_id :: "string \<Rightarrow> bool"
  su_uuid :: "string \<Rightarrow> string"
  su_auto_classify :: bool

definition clear_for_rebuild :: "pval cop" where
  "clear_for_rebuild = obind async_export_overrides (\<lambda>payload. oseq clear_generated_graph (oret payload))"

definition full_sync_body :: "surroundings \<Rightarrow> bool \<Rightarrow> unit cop" where
  "full_sync_body u clear_first =
     obind (if clear_first then obind clear_for_rebuild (\<lambda>p. oret (Some p)) else oret None) (\<lambda>overrides_payload.
     oseq (build_full_graph (su_valid_entity_id u) (su_hass u) (su_auto_classify u))
    (oseq (case overrides_payload of
             None \<Rightarrow> oret ()
           | Some p \<Rightarrow> oseq (async_import_overrides p) (oret ()))
    (oseq (async_reconcile_energy_roles (su_uuid u) (su_hass u) None)
    (obind get_schema_version (\<lambda>version.
     oseq (omodify (\<lambda>s. s\<lparr>co_schema_version := version\<rparr>))
       refresh_counts)))))"

definition execute_full_sync :: "surroundings \<Rightarrow> bool \<Rightarrow> unit cop" where
  "execute_full_sync u clear_first =
     recorded (full_sync_body u clear_first) (\<lambda>_. oseq record_success (publish_op publish_reconcile))"

definition async_rebuild :: "surroundings \<Rightarrow> unit cop" where
  "async_rebuild u = execute_full_sync u True"

definition async_resync :: "surroundings \<Rightarrow> unit cop" where
  "async_resync u = execute_full_sync u False"

definition async_update_data :: "surroundings \<Rightarrow> unit cop" where
  "async_update_data u = otry (execute_full_sync u False) (\<lambda>err. oraise (UpdateFailed (redact_exception err)))"

section \<open>One entity\<close>

definition entity_node_id :: "string \<Rightarrow> string" where
  "entity_node_id entity_id = ''Entity:'' @ entity_id"

definition publish_entity :: "bool \<Rightarrow> string \<Rightarrow> unit cop" where
  "publish_entity removed entity_id =
     publish_op (if removed then publish_remove [entity_node_id entity_id] []
       else publish_upsert [entity_node_id entity_id] [] [''state'', ''ha_id''])"

definition execute_entity_sync :: "surroundings \<Rightarrow> string \<Rightarrow> entity_sync_context option \<Rightarrow> unit cop" where
  "execute_entity_sync u entity_id context =
     recorded
       (oseq (update_entity (su_hass u) entity_id context)
       (oseq (async_reconcile_energy_roles (su_uuid u) (su_hass u) (Some entity_id))
         refresh_counts))
       (\<lambda>_. oseq record_success (publish_entity (entity_gone (su_hass u) entity_id) entity_id))"

definition async_sync_entity :: "surroundings \<Rightarrow> string \<Rightarrow> unit cop" where
  "async_sync_entity u entity_id =
     (if entity_gone (su_hass u) entity_id
      then oraise (ValueError (''Entity '' @ entity_id @ '' does not exist''))
      else execute_entity_sync u entity_id None)"

section \<open>A batch of entities\<close>

type_synonym batch = "(string \<times> entity_sync_context option) list"
type_synonym results = "(string \<times> exn option) list"

definition write_state_only_updates :: "surroundings \<Rightarrow> batch \<Rightarrow> string list cop" where
  "write_state_only_updates u entities =
     (let candidates = filter (\<lambda>(entity_id, context). \<not> own_entity (su_hass u) entity_id \<and>
            get_state (su_hass u) entity_id \<noteq> None) entities
      in if candidates = [] then oret []
         else otry (obind (update_entity_states_bulk (su_hass u) candidates) (\<lambda>updated.
                 oret (filter (\<lambda>i. i \<in> fst ` set candidates) updated)))
               (\<lambda>_. oret []))"

definition sync_batch_entity ::
  "surroundings \<Rightarrow> string list \<Rightarrow> string \<times> entity_sync_context option \<Rightarrow> results \<times> bool \<Rightarrow> (results \<times> bool) cop" where
  "sync_batch_entity u state_updated x acc =
     (case x of (entity_id, context) \<Rightarrow>
       obind (otry
           (oseq (owhen (entity_id \<notin> set state_updated) (update_entity (su_hass u) entity_id context))
             (obind (async_reconcile_energy_role_for_entity (su_uuid u) (su_hass u) entity_id) (\<lambda>role.
               oret (Inr role))))
           (\<lambda>err. oret (Inl err)))
         (\<lambda>outcome. oret (case outcome of
            Inl err \<Rightarrow> (fst acc @ [(entity_id, Some err)], snd acc)
          | Inr role \<Rightarrow> (fst acc @ [(entity_id, None)], snd acc \<or> role))))"

definition fail_succeeded :: "string list \<Rightarrow> exn \<Rightarrow> results \<Rightarrow> results" where
  "fail_succeeded succeeded err results =
     map (\<lambda>(i, r). (i, if i \<in> set succeeded then Some err else r)) results"

text \<open>A step the whole batch shares: if it fails, the entities that succeeded so far fail with it.\<close>

definition shared_step :: "bool \<Rightarrow> unit cop \<Rightarrow> string list \<Rightarrow> results \<Rightarrow> results cop \<Rightarrow> results cop" where
  "shared_step needed m succeeded results rest =
     (if \<not> needed then rest
      else obind (otry (oseq m (oret None)) (\<lambda>err. oret (Some err))) (\<lambda>outcome.
        case outcome of
          None \<Rightarrow> rest
        | Some err \<Rightarrow> oseq (record_failure err) (oret (fail_succeeded succeeded err results))))"

definition execute_entity_sync_batch :: "surroundings \<Rightarrow> batch \<Rightarrow> results cop" where
  "execute_entity_sync_batch u entities =
     obind (write_state_only_updates u entities) (\<lambda>state_updated.
     obind (ofold (sync_batch_entity u state_updated) entities ([], False)) (\<lambda>(results, any_role_assigned).
     let succeeded = map fst (filter (\<lambda>(i, r). r = None) results);
         removed = filter (entity_gone (su_hass u)) succeeded
     in if succeeded = [] then
          oseq (case results of
                  (_, Some err) # _ \<Rightarrow> record_failure err
                | _ \<Rightarrow> oret ())
            (oret results)
        else
          shared_step (removed \<noteq> []) refresh_counts succeeded results
         (shared_step (any_role_assigned \<or> removed \<noteq> []) async_repair_energy_role_bindings succeeded results
         (oseq record_success
         (oseq (oforeach succeeded (\<lambda>i. publish_entity (i \<in> set removed) i))
           (oret results))))))"

section \<open>Failed updates\<close>

fun track_failed :: "string \<Rightarrow> string \<Rightarrow> string \<Rightarrow> failed_update list \<Rightarrow> failed_update list" where
  "track_failed kind target_id err [] =
     [\<lparr>fu_kind = kind, fu_id = target_id, fu_attempts = 1, fu_error = err\<rparr>]"
| "track_failed kind target_id err (item # items) =
     (if fu_kind item = kind \<and> fu_id item = target_id
      then item\<lparr>fu_attempts := fu_attempts item + 1, fu_error := err\<rparr> # items
      else item # track_failed kind target_id err items)"

definition clear_failed :: "string \<Rightarrow> string \<Rightarrow> failed_update list \<Rightarrow> failed_update list" where
  "clear_failed kind target_id items = filter (\<lambda>item. \<not> (fu_kind item = kind \<and> fu_id item = target_id)) items"

definition track_failed_update :: "string \<Rightarrow> string \<Rightarrow> exn \<Rightarrow> unit cop" where
  "track_failed_update kind target_id err =
     oseq (omodify (\<lambda>s. s\<lparr>co_failed_updates :=
             track_failed kind target_id (redact_exception err) (co_failed_updates s)\<rparr>))
       notify_state_changed"

definition clear_failed_update :: "string \<Rightarrow> string \<Rightarrow> unit cop" where
  "clear_failed_update kind target_id =
     oseq (omodify (\<lambda>s. s\<lparr>co_failed_updates := clear_failed kind target_id (co_failed_updates s)\<rparr>))
       notify_state_changed"

text \<open>\<open>try: run; except: track; else: clear\<close>: what the handlers of bus events share.\<close>

definition tracked :: "string \<Rightarrow> string \<Rightarrow> unit cop \<Rightarrow> unit cop" where
  "tracked kind target_id m =
     obind (otry (oseq m (oret None)) (\<lambda>err. oret (Some err))) (\<lambda>outcome.
       case outcome of
         None \<Rightarrow> clear_failed_update kind target_id
       | Some err \<Rightarrow> track_failed_update kind target_id err)"

definition async_handle_entity_change ::
  "surroundings \<Rightarrow> string \<Rightarrow> entity_sync_context option \<Rightarrow> unit cop" where
  "async_handle_entity_change u entity_id context =
     tracked ''entity'' entity_id (execute_entity_sync u entity_id context)"

definition async_handle_device_change :: "surroundings \<Rightarrow> string \<Rightarrow> unit cop" where
  "async_handle_device_change u device_id = tracked ''device'' device_id (update_device (su_hass u) device_id)"

definition async_handle_area_change :: "surroundings \<Rightarrow> string \<Rightarrow> unit cop" where
  "async_handle_area_change u area_id = tracked ''area'' area_id (update_area (su_hass u) area_id)"

definition async_handle_entity_changes_batch :: "surroundings \<Rightarrow> batch \<Rightarrow> unit cop" where
  "async_handle_entity_changes_batch u entities =
     (if entities = [] then oret ()
      else obind utc_now (\<lambda>start.
           obind (execute_entity_sync_batch u entities) (\<lambda>results.
           obind utc_now (\<lambda>stop.
           oseq (record_sync_batch_op (milliseconds start stop) (length entities))
             (oforeach results (\<lambda>(entity_id, err). case err of
                Some e \<Rightarrow> track_failed_update ''entity'' entity_id e
              | None \<Rightarrow> clear_failed_update ''entity'' entity_id))))))"

definition retry_failed_update :: "surroundings \<Rightarrow> failed_update \<Rightarrow> unit cop" where
  "retry_failed_update u item =
     (if fu_kind item = ''entity'' then async_handle_entity_change u (fu_id item) None
      else if fu_kind item = ''device'' then async_handle_device_change u (fu_id item)
      else if fu_kind item = ''area'' then async_handle_area_change u (fu_id item)
      else oret ())"

definition async_retry_failed_updates :: "surroundings \<Rightarrow> unit cop" where
  "async_retry_failed_updates u =
     obind (oget co_failed_updates) (\<lambda>items. oforeach items (retry_failed_update u))"

section \<open>The other operations\<close>

definition execute_validate :: "surroundings \<Rightarrow> unit cop" where
  "execute_validate u =
     recorded
       (oseq test_connection
       (obind get_schema_version (\<lambda>current_version.
        oseq (omodify (\<lambda>s. s\<lparr>co_schema_version := current_version\<rparr>))
       (obind (async_run_validation (su_hass u)) (\<lambda>findings.
        omodify (\<lambda>s. s\<lparr>co_validation_findings := findings\<rparr>))))))
       (\<lambda>_. record_success)"

definition execute_sync_spatial_layout ::
  "surroundings \<Rightarrow> (pval \<Rightarrow> string) \<Rightarrow> dict option \<Rightarrow> (nat \<times> nat) cop" where
  "execute_sync_spatial_layout u str_of response =
     obind utc_now (\<lambda>start.
     obind (otry (async_sync_spatial_layout str_of (su_hass u) response) (\<lambda>err.
         obind utc_now (\<lambda>stop.
         oseq (omodify (\<lambda>s. s\<lparr>co_spatial_duration_ms := Some (round1 (milliseconds start stop))\<rparr>))
        (oseq (record_failure err) (oraise err)))))
       (\<lambda>result.
         obind utc_now (\<lambda>stop.
         oseq (omodify (\<lambda>s. s\<lparr>co_spatial_duration_ms := Some (round1 (milliseconds start stop)),
                 co_spatial_walls := Some (int (fst result)), co_spatial_pinned := Some (int (snd result))\<rparr>))
        (oseq record_success
        (oseq refresh_counts (oret result))))))"

definition execute_semantic_refresh :: "surroundings \<Rightarrow> string option \<Rightarrow> nat cop" where
  "execute_semantic_refresh u entity_id =
     obind (async_refresh_semantics (su_hass u) entity_id) (\<lambda>classified.
     oseq (async_reconcile_energy_roles (su_uuid u) (su_hass u) entity_id)
       (oret classified))"

definition async_query ::
  "(string \<Rightarrow> 'r list stmt) \<Rightarrow> string \<Rightarrow> int option \<Rightarrow> 'r query_answer cop" where
  "async_query server cypher limit = execute_query server cypher limit"

end
