(* ===== verification/Coordinator_Frames.thy ===== *)
theory Coordinator_Frames
  imports Coordinator
begin

text \<open>
  What the operations of the coordinator keep of the graph.  The locale \<open>coordinator_invariant\<close> puts
  the contracts of the writers together; it is discharged for well-formedness, for the source
  bookkeeping and for the user's energy roles.
\<close>

section \<open>Bookkeeping leaves the graph alone\<close>

lemma keeps_graph_bookkeeping:
  "keeps (\<lambda>w. I (w_graph w)) notify_state_changed"
  "keeps (\<lambda>w. I (w_graph w)) record_success"
  "keeps (\<lambda>w. I (w_graph w)) (record_failure e)"
  "keeps (\<lambda>w. I (w_graph w)) refresh_counts"
  "keeps (\<lambda>w. I (w_graph w)) (publish_op f)"
  "keeps (\<lambda>w. I (w_graph w)) (publish_entity b i)"
  "keeps (\<lambda>w. I (w_graph w)) (track_failed_update k t e)"
  "keeps (\<lambda>w. I (w_graph w)) (clear_failed_update k t)"
  "keeps (\<lambda>w. I (w_graph w)) (record_sync_batch_op d n)"
  unfolding record_success_def record_failure_def refresh_counts_def publish_op_def publish_entity_def
    track_failed_update_def clear_failed_update_def record_sync_batch_op_def notify_state_changed_def
  by (intro keeps_oseq keeps_obind keeps_omodify keeps_graph_now_iso keeps_graph_utc_now keeps_graph_run_query;
      simp add: count_failure_def Let_def)+

lemma keeps_recorded:
  "keeps (\<lambda>w. I (w_graph w)) m \<Longrightarrow> (\<And>x. keeps (\<lambda>w. I (w_graph w)) (f x)) \<Longrightarrow> keeps (\<lambda>w. I (w_graph w)) (recorded m f)"
  unfolding recorded_def
  by (intro keeps_obind keeps_otry keeps_oseq keeps_graph_bookkeeping keeps_oraise)

lemma keeps_tracked: "keeps (\<lambda>w. I (w_graph w)) m \<Longrightarrow> keeps (\<lambda>w. I (w_graph w)) (tracked k t m)"
  unfolding tracked_def
  by (intro keeps_obind keeps_otry keeps_oseq keeps_oret keeps_case_option keeps_graph_bookkeeping)

lemma keeps_shared_step:
  "keeps (\<lambda>w. I (w_graph w)) m \<Longrightarrow> keeps (\<lambda>w. I (w_graph w)) k \<Longrightarrow>
   keeps (\<lambda>w. I (w_graph w)) (shared_step b m s r k)"
  unfolding shared_step_def
  by (intro keeps_if keeps_obind keeps_otry keeps_oseq keeps_oret keeps_case_option keeps_graph_bookkeeping)

section \<open>The contract of the coordinator\<close>

locale coordinator_invariant = override_invariant I + inference_invariant I uuid for I uuid
begin

lemma full_sync_keeps: "su_uuid u = uuid \<Longrightarrow> keeps (\<lambda>w. I (w_graph w)) (execute_full_sync u c)"
  unfolding execute_full_sync_def full_sync_body_def clear_for_rebuild_def get_schema_version_def
  by (intro keeps_recorded keeps_oseq keeps_obind keeps_if keeps_oret keeps_case_option keeps_omodify
      keeps_graph_bookkeeping export_overrides_keeps clear_generated_graph_keeps build_full_graph_keeps
      import_overrides_keeps keeps_graph_run_query) (simp_all add: reconcile_keeps)

lemma entity_sync_keeps: "su_uuid u = uuid \<Longrightarrow> keeps (\<lambda>w. I (w_graph w)) (execute_entity_sync u i c)"
  unfolding execute_entity_sync_def
  by (intro keeps_recorded keeps_oseq keeps_graph_bookkeeping update_entity_keeps)
    (simp_all add: reconcile_keeps)

lemma write_state_only_keeps: "keeps (\<lambda>w. I (w_graph w)) (write_state_only_updates u b)"
  unfolding write_state_only_updates_def Let_def
  by (intro keeps_if keeps_oret keeps_otry keeps_obind update_entity_states_bulk_keeps)

lemma sync_batch_entity_keeps: "su_uuid u = uuid \<Longrightarrow> keeps (\<lambda>w. I (w_graph w)) (sync_batch_entity u ids x acc)"
  unfolding sync_batch_entity_def
  by (intro keeps_case_prod keeps_obind keeps_otry keeps_oseq keeps_owhen keeps_oret update_entity_keeps)
    (simp add: reconcile_entity_keeps)

lemma entity_sync_batch_keeps:
  assumes "su_uuid u = uuid"
  shows "keeps (\<lambda>w. I (w_graph w)) (execute_entity_sync_batch u b)"
proof -
  have f: "keeps (\<lambda>w. I (w_graph w)) (case results of (a, Some err) # c \<Rightarrow> record_failure err | _ \<Rightarrow> oret ())"
    for results :: results
    by (auto split: list.splits option.splits intro: keeps_oret keeps_graph_bookkeeping)
  show ?thesis unfolding execute_entity_sync_batch_def Let_def
    by (intro keeps_obind write_state_only_keeps keeps_ofold sync_batch_entity_keeps [OF assms] keeps_case_prod
        keeps_if keeps_oseq f keeps_oret keeps_shared_step keeps_graph_bookkeeping repair_keeps keeps_oforeach)
qed

lemma batch_change_keeps: "su_uuid u = uuid \<Longrightarrow> keeps (\<lambda>w. I (w_graph w)) (async_handle_entity_changes_batch u b)"
  unfolding async_handle_entity_changes_batch_def
  by (intro keeps_if keeps_oret keeps_obind keeps_oseq keeps_oforeach keeps_case_prod keeps_case_option
      keeps_graph_utc_now keeps_graph_bookkeeping entity_sync_batch_keeps)

lemma entity_change_keeps: "su_uuid u = uuid \<Longrightarrow> keeps (\<lambda>w. I (w_graph w)) (async_handle_entity_change u i c)"
  unfolding async_handle_entity_change_def by (intro keeps_tracked entity_sync_keeps)

lemma device_change_keeps: "keeps (\<lambda>w. I (w_graph w)) (async_handle_device_change u i)"
  unfolding async_handle_device_change_def by (intro keeps_tracked update_device_keeps)

lemma area_change_keeps: "keeps (\<lambda>w. I (w_graph w)) (async_handle_area_change u i)"
  unfolding async_handle_area_change_def by (intro keeps_tracked update_area_keeps)

lemma retry_keeps: "su_uuid u = uuid \<Longrightarrow> keeps (\<lambda>w. I (w_graph w)) (async_retry_failed_updates u)"
  unfolding async_retry_failed_updates_def retry_failed_update_def
  by (intro keeps_obind keeps_oget keeps_oforeach keeps_if keeps_oret entity_change_keeps device_change_keeps
      area_change_keeps)

lemma semantic_refresh_keeps: "su_uuid u = uuid \<Longrightarrow> keeps (\<lambda>w. I (w_graph w)) (execute_semantic_refresh u e)"
  unfolding execute_semantic_refresh_def
  by (intro keeps_obind keeps_oseq keeps_oret refresh_semantics_keeps) (simp add: reconcile_keeps)

lemma spatial_keeps: "keeps (\<lambda>w. I (w_graph w)) (execute_sync_spatial_layout u f r)"
  unfolding execute_sync_spatial_layout_def
  by (intro keeps_obind keeps_otry keeps_oseq keeps_oret keeps_oraise keeps_omodify keeps_graph_utc_now
      keeps_graph_bookkeeping sync_spatial_keeps) simp_all

end

interpretation wf_coordinator: coordinator_invariant wf_graph uuid for uuid
  by unfold_locales

interpretation source_coordinator: coordinator_invariant valid_sources uuid for uuid
  by unfold_locales

interpretation role_coordinator: coordinator_invariant "roles_apart uuid K" uuid for uuid K
  by unfold_locales

section \<open>Commands\<close>

text \<open>The writing operations as commands, so that what they keep holds of every sequence of them.\<close>

datatype command =
    Rebuild
  | Resync
  | EntityChanged string "entity_sync_context option"
  | EntitiesChanged batch
  | DeviceChanged string
  | AreaChanged string
  | RetryFailed
  | RefreshSemantics "string option"
  | ImportOverrides pval
  | DeleteOverride string string string
  | SyncSpatial "dict option"

definition ignore :: "'a cop \<Rightarrow> unit cop" where
  "ignore m = oseq m (oret ())"

fun run_command :: "surroundings \<Rightarrow> (pval \<Rightarrow> string) \<Rightarrow> command \<Rightarrow> unit cop" where
  "run_command u str_of Rebuild = async_rebuild u"
| "run_command u str_of Resync = async_resync u"
| "run_command u str_of (EntityChanged i c) = async_handle_entity_change u i c"
| "run_command u str_of (EntitiesChanged b) = async_handle_entity_changes_batch u b"
| "run_command u str_of (DeviceChanged i) = async_handle_device_change u i"
| "run_command u str_of (AreaChanged i) = async_handle_area_change u i"
| "run_command u str_of RetryFailed = async_retry_failed_updates u"
| "run_command u str_of (RefreshSemantics e) = ignore (execute_semantic_refresh u e)"
| "run_command u str_of (ImportOverrides p) = ignore (async_import_overrides p)"
| "run_command u str_of (DeleteOverride l i t) = async_delete_override l i t"
| "run_command u str_of (SyncSpatial r) = ignore (execute_sync_spatial_layout u str_of r)"

text \<open>
  The states a coordinator goes through: before every command Home Assistant, the faults to come and the
  clock may have changed; an exception of a command does not end the run.
\<close>

inductive coordinator_run :: "(string \<Rightarrow> string) \<Rightarrow> coord \<Rightarrow> coord \<Rightarrow> bool" for uuid s0 where
  coord_start: "coordinator_run uuid s0 s0"
| coord_command: "coordinator_run uuid s0 s \<Longrightarrow> su_uuid u = uuid \<Longrightarrow>
    coordinator_run uuid s0 (snd (run_command u str_of c (s\<lparr>w_net := net, w_ticks := ticks\<rparr>)))"

context coordinator_invariant
begin

lemma command_keeps: "su_uuid u = uuid \<Longrightarrow> keeps (\<lambda>w. I (w_graph w)) (run_command u f c)"
  by (cases c) (simp_all add: ignore_def async_rebuild_def async_resync_def keeps_oseq keeps_oret full_sync_keeps
      entity_change_keeps batch_change_keeps device_change_keeps area_change_keeps retry_keeps
      semantic_refresh_keeps import_overrides_keeps delete_override_keeps spatial_keeps)

lemma run_keeps: "coordinator_run uuid s0 s \<Longrightarrow> I (w_graph s0) \<Longrightarrow> I (w_graph s)"
proof (induction rule: coordinator_run.induct)
  case coord_start
  then show ?case .
next
  case coord_command
  then show ?case by (intro keepsD [OF command_keeps [OF coord_command.hyps(2)]]) simp
qed

end

section \<open>Overrides across a resynchronisation and a rebuild\<close>

lemma resync_override_keeps: "keeps (\<lambda>w. override_present ov (w_graph w)) (async_resync u)"
  unfolding async_resync_def execute_full_sync_def full_sync_body_def get_schema_version_def
  by (simp, intro keeps_recorded keeps_oseq keeps_obind keeps_oret keeps_case_option keeps_omodify
      keeps_graph_bookkeeping override_writes.build_full_graph_keeps override_role.reconcile_keeps keeps_graph_run_query)
    simp_all

text \<open>
  A rebuild: the overrides that were listed before the clearing come back for every source that is a
  node again.
\<close>

text \<open>The sources are fixed by the nodes after the build: what follows makes no such node.\<close>

definition sources_among :: "nkey set \<Rightarrow> graph \<Rightarrow> bool" where
  "sources_among N g \<longleftrightarrow> wf_graph g \<and> (\<forall>k. fst k \<in> set ALLOWED_SOURCE_LABELS \<longrightarrow> has_node g k \<longrightarrow> k \<in> N)"

lemma sources_amongI:
  "sources_among N g \<Longrightarrow> wf_graph h \<Longrightarrow>
   (\<And>k. fst k \<in> set ALLOWED_SOURCE_LABELS \<Longrightarrow> has_node h k \<Longrightarrow> has_node g k) \<Longrightarrow> sources_among N h"
  unfolding sources_among_def by blast

lemma sources_among_wf: "sources_among N g \<Longrightarrow> wf_graph g"
  by (simp add: sources_among_def)

interpretation among_role: inference_invariant "sources_among N" uuid for N uuid
proof unfold_locales
  fix g a e r now
  assume g: "sources_among N g"
  note wf = sources_among_wf [OF g]
  show "sources_among N (bind_stmt a e g)"
    by (rule sources_amongI [OF g wf_bind [OF wf]]) simp
  show "sources_among N (delete_rels (\<lambda>k d. fst (fst k) = LABEL_ENERGY_ROLE_ASSIGNMENT \<and>
      fst (snd k) = REL_ASSIGNS_ROLE_TO) g)"
    by (rule sources_amongI [OF g wf_delete_rels [OF wf]]) simp
  show "sources_among N (upsert_assignment_stmt (energy_role_assignment_id uuid SOURCE_INFERRED e) e r
      SOURCE_INFERRED now g)"
    by (rule sources_amongI [OF g wf_upsert_assignment [OF wf]])
      (auto simp: has_node_def node_upsert_assignment dest: allowed_not_role split: if_splits)
  have "wf_graph (delete_assignment_stmt a SOURCE_INFERRED g)"
    by (simp add: wf wf_detach_delete delete_assignment_stmt_def)
  then show "sources_among N (delete_assignment_stmt a SOURCE_INFERRED g)"
    by (rule sources_amongI [OF g])
      (auto simp: has_node_def delete_assignment_stmt_def node_detach_delete [OF wf_nodes_distinct [OF wf]]
        split: option.splits if_splits)
qed

lemma semantic_not_allowed: "LABEL_SEMANTIC_TYPE \<notin> set ALLOWED_SOURCE_LABELS"
  by (simp add: ALLOWED_SOURCE_LABELS_def const_defs)

lemma among_import_keeps: "keeps (\<lambda>w. sources_among N (w_graph w)) (async_import_overrides p)"
proof -
  have "sources_among N (merge_node_stmt LABEL_SEMANTIC_TYPE t props g)" if "sources_among N g" for g t props
    using that semantic_not_allowed
    by (auto simp: merge_node_stmt_def intro: sources_amongI wf_merge_node_with [OF sources_among_wf])
  moreover have "sources_among N (merge_rel_stmt k s now x g)" if "sources_among N g" for g k s now x
    using that by (auto simp: merge_rel_stmt_def intro: sources_amongI wf_merge_rel_with [OF sources_among_wf])
  ultimately have "keeps (\<lambda>w. sources_among N (w_graph w)) (async_create_override l i t)" for l i t
    unfolding async_create_override_def
    by (intro keeps_oseq sanitize_source_keeps keeps_merge_node_graph keeps_merge_rel_graph)
  then show ?thesis
    by (auto simp: async_import_overrides_def split: sum.splits
        intro!: keeps_oraise keeps_oseq keeps_oforeach keeps_oret keeps_case_prod)
qed

lemma export_keeps_graph: "async_export_overrides s = (Inr p, t) \<Longrightarrow> w_graph t = w_graph s"
  by (auto simp: async_export_overrides_def now_iso_def utc_now_def elim!: obind_result dest!: list_overrides_result)

text \<open>A source that is a node stays one under everything a rebuild does after the clearing.\<close>

definition source_present :: "nkey \<Rightarrow> graph \<Rightarrow> bool" where
  "source_present k g \<longleftrightarrow> wf_graph g \<and> fst k \<in> set ALLOWED_SOURCE_LABELS \<and> has_node g k"

lemma source_presentI:
  "source_present k g \<Longrightarrow> wf_graph h \<Longrightarrow> (has_node g k \<Longrightarrow> has_node h k) \<Longrightarrow> source_present k h"
  unfolding source_present_def by blast

interpretation present_writes: merge_invariant "source_present k" for k
proof unfold_locales
  fix g and j :: nkey and f and h :: "dict \<Rightarrow> dict" and r :: rkey and e now
  assume g: "source_present k g"
  then have wf: "wf_graph g" by (simp add: source_present_def)
  show "source_present k (merge_node_with j f g)"
    by (rule source_presentI [OF g wf_merge_node_with [OF wf]]) simp
  show "source_present k (set_node_with j h g)"
    by (rule source_presentI [OF g wf_set_node_with [OF wf]]) simp
  show "source_present k (merge_rel_with r f g)"
    by (rule source_presentI [OF g wf_merge_rel_with [OF wf]]) simp
  show "source_present k (delete_area_edges_stmt e g)"
    unfolding delete_area_edges_stmt_def by (rule source_presentI [OF g wf_delete_rels [OF wf]]) simp
  show "source_present k (ensure_schema_stmt now g)"
    unfolding ensure_schema_stmt_def by (rule source_presentI [OF g wf_merge_node_with [OF wf]]) simp
qed

interpretation present_role: inference_invariant "source_present k" uuid for k uuid
proof unfold_locales
  fix g a e r now
  assume g: "source_present k g"
  then have wf: "wf_graph g" and l: "fst k \<in> set ALLOWED_SOURCE_LABELS" by (simp_all add: source_present_def)
  show "source_present k (bind_stmt a e g)"
    by (rule source_presentI [OF g wf_bind [OF wf]]) simp
  show "source_present k (delete_rels (\<lambda>k d. fst (fst k) = LABEL_ENERGY_ROLE_ASSIGNMENT \<and>
      fst (snd k) = REL_ASSIGNS_ROLE_TO) g)"
    by (rule source_presentI [OF g wf_delete_rels [OF wf]]) simp
  show "source_present k (upsert_assignment_stmt (energy_role_assignment_id uuid SOURCE_INFERRED e) e r
      SOURCE_INFERRED now g)"
    by (rule source_presentI [OF g wf_upsert_assignment [OF wf]]) (simp add: has_node_def node_upsert_assignment)
  have "wf_graph (delete_assignment_stmt a SOURCE_INFERRED g)"
    by (simp add: wf wf_detach_delete delete_assignment_stmt_def)
  then show "source_present k (delete_assignment_stmt a SOURCE_INFERRED g)"
    by (rule source_presentI [OF g])
      (use allowed_not_role [OF l] in \<open>auto simp: has_node_def node_unassign [OF wf] split: option.split\<close>)
qed

lemma recorded_result:
  assumes "recorded m f s = (Inr y, t)"
  obtains x v where "m s = (Inr x, v)" "f x v = (Inr y, t)"
  using assms by (auto simp: recorded_def otry_def elim!: obind_result oseq_result split: prod.splits sum.splits)

lemma success_keeps_graph:
  "(oseq record_success (publish_op publish_reconcile)) v = (Inr y, t) \<Longrightarrow> w_graph t = w_graph v"
  using keepsD [of "\<lambda>w. w_graph w = w_graph v" "oseq record_success (publish_op publish_reconcile)" v]
    keeps_graph_bookkeeping(2,5) [of "\<lambda>g. g = w_graph v"]
  by (simp add: keeps_oseq)

text \<open>
  The end of a rebuild, from the graph the discovery left: the payload is imported, and what follows
  only writes energy roles.
\<close>

definition after_import :: "surroundings \<Rightarrow> unit cop" where
  "after_import u = oseq (async_reconcile_energy_roles (su_uuid u) (su_hass u) None)
    (obind get_schema_version (\<lambda>version.
     oseq (omodify (\<lambda>s. s\<lparr>co_schema_version := version\<rparr>))
       refresh_counts))"

definition after_build :: "surroundings \<Rightarrow> pval \<Rightarrow> unit cop" where
  "after_build u p = oseq (oseq (async_import_overrides p) (oret ())) (after_import u)"

context inference_invariant
begin

lemma after_import_keeps:
  "su_uuid u = uuid \<Longrightarrow> keeps (\<lambda>w. I (w_graph w)) (after_import u)"
  unfolding after_import_def get_schema_version_def
  by (intro keeps_oseq keeps_obind keeps_omodify keeps_graph_bookkeeping keeps_graph_run_query keeps_oret)
    (simp_all add: reconcile_keeps)

end

lemma rebuild_result:
  assumes "async_rebuild u s = (Inr (), t)"
  obtains p v w x n y where "async_export_overrides s = (Inr p, v)" "async_import_overrides p w = (Inr n, x)"
    "after_import u x = (Inr (), y)" "w_graph t = w_graph y"
    "wf_graph (w_graph s) \<Longrightarrow> wf_graph (w_graph w)"
    "\<And>k. source_present k (clear_stmt (w_graph s)) \<Longrightarrow> source_present k (w_graph w)"
proof -
  from assms obtain y where y: "full_sync_body u True s = (Inr (), y)" and t: "w_graph t = w_graph y"
    by (auto simp: async_rebuild_def execute_full_sync_def elim!: recorded_result dest: success_keeps_graph)
  from y obtain p v v2 where clear: "clear_for_rebuild s = (Inr p, v2)"
    and rest: "oseq (build_full_graph (su_valid_entity_id u) (su_hass u) (su_auto_classify u)) (after_build u p) v2 = (Inr (), y)"
    unfolding full_sync_body_def after_build_def after_import_def by (auto elim!: obind_result)
  from clear obtain v where v: "async_export_overrides s = (Inr p, v)"
    by (auto simp: clear_for_rebuild_def elim!: obind_result oseq_result)
  from rest obtain z w where b: "build_full_graph (su_valid_entity_id u) (su_hass u) (su_auto_classify u) v2 = (Inr z, w)"
    and "after_build u p w = (Inr (), y)" by (auto elim!: oseq_result)
  moreover have "source_present k (w_graph w)" if k: "source_present k (clear_stmt (w_graph s))" for k
  proof -
    from clear obtain z1 z2 where e: "async_export_overrides s = (Inr p, z1)"
      and c: "clear_generated_graph z1 = (Inr z2, v2)"
      by (auto simp: clear_for_rebuild_def elim!: obind_result oseq_result)
    with export_keeps_graph [OF e] have "w_graph v2 = clear_stmt (w_graph s)"
      using retry_loop_applied [of "write_stmt clear_stmt" RETRY_MAX_ATTEMPTS RETRY_INITIAL_DELAY_SECONDS z1 "Inr z2" v2]
      by (simp add: clear_generated_graph_def run_query_with_retry_def clear_stmt_def detach_delete_twice)
    then show ?thesis using keeps_step [OF present_writes.build_full_graph_keeps _ b] k by simp
  qed
  moreover have "wf_graph (w_graph s) \<Longrightarrow> wf_graph (w_graph w)"
  proof -
    assume wf: "wf_graph (w_graph s)"
    have "keeps (\<lambda>w. wf_graph (w_graph w)) clear_for_rebuild"
      unfolding clear_for_rebuild_def
      by (intro keeps_obind keeps_oseq wf_override.export_overrides_keeps wf_frame.clear_generated_graph_keeps
          keeps_oret)
    then have "wf_graph (w_graph v2)" using wf clear by (rule keeps_step)
    then show ?thesis using b by (rule keeps_step [OF wf_frame.build_full_graph_keeps])
  qed
  ultimately obtain n x where "async_import_overrides p w = (Inr n, x)" "after_import u x = (Inr (), y)"
    unfolding after_build_def by (auto elim!: oseq_result)
  then show ?thesis
    using that [OF v _ _ t \<open>wf_graph (w_graph s) \<Longrightarrow> wf_graph (w_graph w)\<close>]
      \<open>\<And>k. source_present k (clear_stmt (w_graph s)) \<Longrightarrow> source_present k (w_graph w)\<close> by blast
qed

lemma rebuild_keeps_source:
  assumes r: "async_rebuild u s = (Inr (), t)" and k: "source_present k (clear_stmt (w_graph s))"
  shows "has_node (w_graph t) k"
proof -
  from r obtain p v w x n y where i: "async_import_overrides p w = (Inr n, x)"
    and a: "after_import u x = (Inr (), y)" and t: "w_graph t = w_graph y" and w: "source_present k (w_graph w)"
    by (rule rebuild_result) (use k in blast)
  obtain ovs where val: "validate_payload p = Inr ovs"
    using i by (cases "validate_payload p") (auto simp: async_import_overrides_def)
  have "has_node (w_graph x) k"
    using yieldsD [OF import_yields [OF val, of "{k}"] _ i] w by (auto simp: import_state_def source_present_def)
  moreover have "wf_graph (w_graph x)"
    using keeps_step [OF wf_override.import_overrides_keeps _ i] w by (simp add: source_present_def)
  ultimately have "source_present k (w_graph x)" using k by (simp add: source_present_def)
  then have "source_present k (w_graph y)" by (rule keeps_step [OF present_role.after_import_keeps [OF refl] _ a])
  then show ?thesis using t by (simp add: source_present_def)
qed

lemma restored_overrides:
  assumes wf: "wf_graph (w_graph s)" and r: "async_rebuild u s = (Inr (), t)"
    and ov: "ov \<in> set (listed_overrides (w_graph s))" and src: "has_node (w_graph t) (override_source ov)"
  shows "user_override (w_graph t) ov"
proof -
  from r obtain p v w x n y where p: "async_export_overrides s = (Inr p, v)"
    and i: "async_import_overrides p w = (Inr n, x)" and a: "after_import u x = (Inr (), y)"
    and t: "w_graph t = w_graph y" and w: "wf_graph (w_graph w)"
    by (rule rebuild_result) (use wf in blast)
  let ?N = "{k. fst k \<in> set ALLOWED_SOURCE_LABELS \<and> has_node (w_graph w) k}"
  obtain ovs where val: "validate_payload p = Inr ovs"
    using i by (cases "validate_payload p") (auto simp: async_import_overrides_def)
  have ovs: "ovs = listed_overrides (w_graph s)" by (rule export_validates [OF p val])
  have l: "fst ov \<in> set ALLOWED_SOURCE_LABELS" using ov by (auto simp: listed_overrides_def)
  have "sources_among ?N (w_graph w)" using w by (simp add: sources_among_def)
  then have "sources_among ?N (w_graph y)"
    using keeps_step [OF among_import_keeps _ i] keeps_step [OF among_role.after_import_keeps [OF refl] _ a] by blast
  then have "override_source ov \<in> ?N"
    using src l t by (simp add: sources_among_def override_source_def)
  moreover have "import_state ?N {} (w_graph w)" by (simp add: import_state_def)
  ultimately have "user_override (w_graph x) ov"
    using yieldsD [OF import_yields [OF val, of ?N] _ i] ov ovs by (auto simp: import_state_def)
  moreover have "wf_graph (w_graph x)" using keeps_step [OF wf_override.import_overrides_keeps _ i] w by blast
  ultimately have "override_present ov (w_graph y)"
    using keeps_step [OF override_role.after_import_keeps [OF refl, where ov = ov] _ a] l by (auto simp: override_present_def)
  then show ?thesis using t by (simp add: override_present_def)
qed

end
