(* ===== verification/Full_Sync_Liveness.thy ===== *)
theory Full_Sync_Liveness
  imports Coordinator_Frames
begin

text \<open>
  While the database answers every call, a full synchronisation succeeds: it raises nothing of its own,
  provided every list of referenced entities in a state can be iterated and, for a rebuild, no listed
  override has an empty id.
\<close>

section \<open>Success of the combinators\<close>

definition calm :: "('z, 'a) wop \<Rightarrow> bool" where
  "calm m \<longleftrightarrow> keeps (\<lambda>w. w_net w = []) m"

lemma healthy_calm: "healthy m \<Longrightarrow> calm m"
  unfolding calm_def healthy_def keeps_def by (metis snd_conv)

lemma calm_obind: "calm m \<Longrightarrow> (\<And>x. calm (f x)) \<Longrightarrow> calm (obind m f)"
  unfolding calm_def by (rule keeps_obind)

lemma calm_oseq: "calm m \<Longrightarrow> calm n \<Longrightarrow> calm (oseq m n)"
  unfolding calm_def by (rule keeps_oseq)

lemma calm_oforeach: "(\<And>x. calm (f x)) \<Longrightarrow> calm (oforeach xs f)"
  unfolding calm_def by (rule keeps_oforeach)

lemma calm_ofallible: "calm (ofallible r)"
  unfolding calm_def by (rule ofallible_keeps)

lemma healthy_otry [healthy_intros]:
  fixes m :: "('z, 'a) wop"
  assumes m: "calm m" and h: "\<And>e. healthy (h e)"
  shows "healthy (otry m h)"
  unfolding healthy_def
proof (intro allI impI)
  fix w :: "'z world_scheme"
  assume w: "w_net w = []"
  obtain r t where r: "m w = (r, t)" by (cases "m w")
  with m w have t: "w_net t = []" unfolding calm_def keeps_def by (metis snd_conv)
  show "\<exists>x w'. otry m h w = (Inr x, w') \<and> w_net w' = []"
    using r t healthyD [OF h t] by (cases r) (auto simp: otry_def)
qed

lemma healthy_ofold [healthy_intros]: "(\<And>x a. x \<in> set xs \<Longrightarrow> healthy (f x a)) \<Longrightarrow> healthy (ofold f xs a)"
  by (induction xs arbitrary: a) (auto intro!: healthy_obind healthy_oret)

lemma healthy_omap_mem: "(\<And>x. x \<in> set xs \<Longrightarrow> healthy (f x)) \<Longrightarrow> healthy (omap f xs)"
  by (induction xs) (auto intro!: healthy_obind healthy_oret)

lemma healthy_omodify [healthy_intros]: "(\<And>s. w_net (f s) = w_net s) \<Longrightarrow> healthy (omodify f)"
  by (simp add: healthy_def omodify_def)

lemma healthy_oget [healthy_intros]: "healthy (oget f)"
  by (simp add: healthy_def oget_def)

lemma healthy_now_iso [healthy_intros]: "healthy now_iso"
  unfolding now_iso_def by (intro healthy_intros)

lemma healthy_case_prod [healthy_intros]: "(\<And>a b. healthy (f a b)) \<Longrightarrow> healthy (case x of (a, b) \<Rightarrow> f a b)"
  by (cases x) simp

lemma healthy_if [healthy_intros]: "(b \<Longrightarrow> healthy m) \<Longrightarrow> (\<not> b \<Longrightarrow> healthy n) \<Longrightarrow> healthy (if b then m else n)"
  by simp

section \<open>Safe labels\<close>

definition safe_label :: "string \<Rightarrow> bool" where
  "safe_label l \<longleftrightarrow> (let t = filter (\<lambda>c. c \<noteq> CHR ''_'') l in t \<noteq> [] \<and> list_all is_alnum t)"

lemma healthy_sanitize: "safe_label l \<Longrightarrow> healthy (sanitize_label l)"
  by (simp add: safe_label_def sanitize_label_def Let_def healthy_oret)

definition written_labels :: "string list" where
  "written_labels = [LABEL_HOME, LABEL_FLOOR, LABEL_AREA, LABEL_DEVICE, LABEL_LABEL, LABEL_ENTITY, LABEL_DOMAIN,
     LABEL_INTEGRATION, LABEL_AUTOMATION, LABEL_SCENE, LABEL_SCRIPT, LABEL_SEMANTIC_TYPE, LABEL_DASHBOARD,
     LABEL_DASHBOARD_CARD, REL_HAS_FLOOR, REL_HAS_AREA, REL_ON_FLOOR, REL_HAS_DEVICE, REL_IN_DOMAIN,
     REL_HAS_ENTITY, REL_PROVIDED_BY, REL_HAS_LABEL, REL_REFERENCES, REL_CONTROLS, REL_CLASSIFIED_AS,
     REL_LOCATED_IN, REL_CONTAINS_CARD, REL_DISPLAYS_ENTITY]"

lemma written_labels_safe: "l \<in> set written_labels \<Longrightarrow> safe_label l"
proof -
  have "list_all safe_label written_labels" by code_simp
  then show "l \<in> set written_labels \<Longrightarrow> safe_label l" by (simp add: list_all_iff)
qed

lemma rule_labels_safe: "rule \<in> set RULES \<Longrightarrow> safe_label (ru_label rule) \<and> safe_label (ru_back_relationship rule)"
proof -
  have "list_all (\<lambda>rule. safe_label (ru_label rule) \<and> safe_label (ru_back_relationship rule)) RULES" by code_simp
  then show "rule \<in> set RULES \<Longrightarrow> ?thesis" by (simp add: list_all_iff)
qed

section \<open>Success of the writes\<close>

lemma healthy_merge_node: "safe_label l \<Longrightarrow> healthy (merge_node l i p s)"
  unfolding merge_node_def Let_def by (intro healthy_intros healthy_sanitize)

lemma healthy_merge_rel:
  "safe_label fl \<Longrightarrow> safe_label t \<Longrightarrow> safe_label el \<Longrightarrow> healthy (merge_relationship_with fl fi t el ei s p)"
  unfolding merge_relationship_with_def by (intro healthy_intros healthy_sanitize)

lemma healthy_nodes_bulk: "safe_label l \<Longrightarrow> healthy (merge_nodes_bulk l nodes s)"
  unfolding merge_nodes_bulk_def Let_def by (intro healthy_intros healthy_sanitize)

lemma healthy_rels_bulk:
  "safe_label fl \<Longrightarrow> safe_label t \<Longrightarrow> safe_label el \<Longrightarrow> healthy (merge_relationships_bulk fl t el pairs s)"
  unfolding merge_relationships_bulk_def by (intro healthy_intros healthy_sanitize)

lemmas healthy_writes = healthy_merge_node healthy_merge_rel healthy_nodes_bulk healthy_rels_bulk

lemma safe_labels:
  "safe_label LABEL_HOME" "safe_label LABEL_FLOOR" "safe_label LABEL_AREA" "safe_label LABEL_DEVICE"
  "safe_label LABEL_LABEL" "safe_label LABEL_ENTITY" "safe_label LABEL_DOMAIN" "safe_label LABEL_INTEGRATION"
  "safe_label LABEL_AUTOMATION" "safe_label LABEL_SCENE" "safe_label LABEL_SCRIPT" "safe_label LABEL_SEMANTIC_TYPE"
  "safe_label LABEL_DASHBOARD" "safe_label LABEL_DASHBOARD_CARD" "safe_label REL_HAS_FLOOR" "safe_label REL_HAS_AREA"
  "safe_label REL_ON_FLOOR" "safe_label REL_HAS_DEVICE" "safe_label REL_IN_DOMAIN" "safe_label REL_HAS_ENTITY"
  "safe_label REL_PROVIDED_BY" "safe_label REL_HAS_LABEL" "safe_label REL_REFERENCES" "safe_label REL_CONTROLS"
  "safe_label REL_CLASSIFIED_AS" "safe_label REL_LOCATED_IN" "safe_label REL_CONTAINS_CARD" "safe_label REL_DISPLAYS_ENTITY"
  by (simp_all add: written_labels_safe written_labels_def)

lemma healthy_entity_node_properties: "healthy (entity_node_properties h e c)"
  unfolding entity_node_properties_def Let_def by (intro healthy_intros)

lemma healthy_collect:
  "healthy ensure_home_node" "healthy (collect_floors h)" "healthy (collect_areas h)" "healthy (collect_devices h)"
  "healthy (collect_labels h)" "healthy (collect_entities h)" "healthy (collect_domains ds)"
  "healthy (collect_integrations is)" "healthy ensure_schema_node"
  unfolding ensure_home_node_def collect_floors_def collect_areas_def collect_devices_def collect_labels_def
    collect_entities_def collect_domains_def collect_integrations_def ensure_schema_node_def
    collect_entity_nodes_def collect_entity_edges_def Let_def
  by (intro healthy_intros healthy_writes healthy_entity_node_properties safe_labels)+

text \<open>What a state lists under \<open>entity_id\<close> can be iterated.\<close>

definition references_ok :: "hass \<Rightarrow> bool" where
  "references_ok h \<longleftrightarrow> (\<forall>s \<in> set (ha_states h). case map_of (st_attributes s) ''entity_id'' of
     Some (VInt i) \<Rightarrow> False | Some (VBool b) \<Rightarrow> False | Some (VFloat f) \<Rightarrow> False | Some VNone \<Rightarrow> False | _ \<Rightarrow> True)"

lemma get_state_mem: "get_state h i = Some s \<Longrightarrow> s \<in> set (ha_states h)"
  by (auto simp: get_state_def find_Some_iff)

lemma healthy_referenced: "references_ok h \<Longrightarrow> healthy (referenced_entity_ids h d i)"
  by (auto simp: referenced_entity_ids_def references_ok_def intro!: healthy_oret dest!: get_state_mem
      split: option.split pval.split)

lemma healthy_referencing:
  "references_ok h \<Longrightarrow> safe_label l \<Longrightarrow> safe_label t \<Longrightarrow> healthy (collect_referencing_domain h d l t)"
  unfolding collect_referencing_domain_def Let_def
  by (intro healthy_intros healthy_writes healthy_referenced safe_labels)

lemma healthy_classify_entity: "healthy (classify_entity h e)"
  unfolding classify_entity_def has_user_override_def write_classification_def Let_def
  by (intro healthy_intros healthy_writes safe_labels) (auto dest: matching_rules_subset rule_labels_safe)

lemma healthy_classify: "healthy (async_classify_entities h)"
  unfolding async_classify_entities_def by (intro healthy_intros healthy_classify_entity)

lemma calm_sync_one: "calm (sync_one_dashboard valid k t c)"
  unfolding sync_one_dashboard_def sync_card_def Let_def case_prod_unfold
  by (intro calm_obind calm_oseq calm_oforeach calm_ofallible)
    (intro healthy_calm healthy_intros healthy_writes safe_labels)+

lemma healthy_dashboards: "healthy (async_sync_dashboards valid h)"
proof -
  have "calm (oseq (sync_one_dashboard valid k t c) (oret n))" for k t c and n :: nat
    by (intro calm_oseq calm_sync_one healthy_calm healthy_oret)
  then show ?thesis
    unfolding async_sync_dashboards_def sync_dashboard_step_def Let_def
    by (auto intro!: healthy_otry healthy_ofold healthy_oret split: option.split)
qed

lemma healthy_build: "references_ok h \<Longrightarrow> healthy (build_full_graph valid h auto)"
  unfolding build_full_graph_def collect_automations_def collect_scenes_def collect_scripts_def
  by (intro healthy_intros healthy_collect healthy_referencing healthy_classify healthy_calm healthy_dashboards safe_labels)

lemma healthy_reconcile: "healthy (async_reconcile_energy_roles uuid h e)"
  unfolding async_reconcile_energy_roles_def async_reconcile_energy_role_for_entity_def
    upsert_inferred_energy_role_def async_repair_energy_role_bindings_def
  by (intro healthy_intros) (auto intro!: healthy_intros split: option.split)

lemma healthy_bookkeeping:
  "healthy record_success" "healthy refresh_counts" "healthy (publish_op f)" "healthy get_schema_version"
  unfolding record_success_def notify_state_changed_def refresh_counts_def publish_op_def get_schema_version_def
  by (intro healthy_intros; simp)+

lemma healthy_after_import: "healthy (after_import u)"
  unfolding after_import_def by (intro healthy_intros healthy_reconcile healthy_bookkeeping) simp

section \<open>A full synchronisation succeeds\<close>

lemma recorded_healthy:
  assumes "m s = (Inr x, v)" and "w_net v = []" and "healthy (f x)"
  shows "\<exists>y t. recorded m f s = (Inr y, t) \<and> w_net t = []"
  using assms healthyD [OF assms(3,2)] by (auto simp: recorded_def otry_def obind_def)

lemma full_sync_success: "healthy (oseq record_success (publish_op publish_reconcile))"
  by (intro healthy_intros healthy_bookkeeping)

lemma resync_body_healthy: "references_ok (su_hass u) \<Longrightarrow> healthy (full_sync_body u False)"
  unfolding full_sync_body_def
  by (simp, intro healthy_intros healthy_build healthy_reconcile healthy_bookkeeping) simp_all

lemma export_healthy:
  fixes s :: "'z world_scheme"
  assumes "w_net s = []"
  shows "\<exists>p t. async_export_overrides s = (Inr p, t) \<and> w_net t = [] \<and> w_graph t = w_graph s \<and>
    (\<exists>now. p = VDict [(''version'', VInt (int OVERRIDES_EXPORT_VERSION)), (''exported_at'', now),
       (''overrides'', VList (map override_object (listed_overrides (w_graph s))))])"
proof -
  have h: "healthy (async_export_overrides :: ('z, pval) wop)"
    unfolding async_export_overrides_def async_list_overrides_def by (intro healthy_intros)
  obtain p t where r: "async_export_overrides s = (Inr p, t)" "w_net t = []"
    using healthyD [OF h assms] by blast
  let ?w = "snd (utc_now s)"
  from r(1) obtain ovs where l: "async_list_overrides ?w = (Inr ovs, t)"
    and p: "p = VDict [(''version'', VInt (int OVERRIDES_EXPORT_VERSION)), (''exported_at'', VTime (w_now s)),
       (''overrides'', VList (map override_object ovs))]"
    unfolding async_export_overrides_def obind_Inr [OF now_iso_step] by (elim obind_result) simp
  have "ovs = listed_overrides (w_graph s)"
    using list_overrides_result [OF l] by simp
  then show ?thesis using r p export_keeps_graph [OF r(1)] by blast
qed

lemma rebuild_body_healthy:
  assumes u: "references_ok (su_hass u)" and s: "w_net s = []"
    and ids: "\<And>l i t. (l, i, t) \<in> set (listed_overrides (w_graph s)) \<Longrightarrow> i \<noteq> [] \<and> t \<noteq> []"
  shows "\<exists>t. full_sync_body u True s = (Inr (), t) \<and> w_net t = []"
proof -
  let ?ovs = "listed_overrides (w_graph s)"
  obtain p v now where p: "async_export_overrides s = (Inr p, v)" "w_net v = []"
    and obj: "p = VDict [(''version'', VInt (int OVERRIDES_EXPORT_VERSION)), (''exported_at'', now),
       (''overrides'', VList (map override_object ?ovs))]"
    using export_healthy [OF s] by blast
  have l: "(l, i, t) \<in> set ?ovs \<Longrightarrow> l \<in> set ALLOWED_SOURCE_LABELS" for l i t
    by (auto simp: listed_overrides_def)
  have "validate_entries 0 (map override_object ?ovs) = Inr ?ovs"
    by (rule validate_entries_objects) (use l ids in blast)
  then have "validate_payload p = Inr ?ovs" by (simp add: obj validate_payload_def dget_def)
  then have imp: "healthy (async_import_overrides p)" by (rule import_healthy) (rule l)
  have "healthy (clear_generated_graph :: unit cop)" unfolding clear_generated_graph_def by (intro healthy_intros)
  from healthyD [OF this p(2)] obtain x v2 where c: "clear_generated_graph v = (Inr x, v2)" "w_net v2 = []" by blast
  have "clear_for_rebuild s = (Inr p, v2)"
    using p c by (simp add: clear_for_rebuild_def obind_def oseq_def oret_def)
  moreover have "healthy (oseq (build_full_graph (su_valid_entity_id u) (su_hass u) (su_auto_classify u)) (after_build u p))"
    unfolding after_build_def by (intro healthy_intros healthy_build [OF u] imp healthy_after_import)
  ultimately show ?thesis
    using healthyD [of "oseq (build_full_graph (su_valid_entity_id u) (su_hass u) (su_auto_classify u)) (after_build u p)" v2] c(2)
    unfolding full_sync_body_def after_build_def after_import_def
    by (simp add: obind_def [of clear_for_rebuild] obind_Inr)
qed

lemma success_state:
  assumes "oseq record_success (publish_op g) v = (Inr y, t)"
  shows "co_health t = HEALTH_OK \<and> co_last_error t = None \<and> co_consecutive_failures t = 0 \<and>
    co_last_sync t = VTime (w_now v)"
  using assms
  unfolding record_success_def oseq_apply obind_Inr [OF now_iso_step] publish_op_def notify_state_changed_def
  by (auto simp: omodify_def obind_def now_iso_def utc_now_def oret_def oseq_apply)

lemma full_sync_healthy:
  assumes u: "references_ok (su_hass u)" and s: "w_net s = []"
    and ids: "\<And>l i t. c \<Longrightarrow> (l, i, t) \<in> set (listed_overrides (w_graph s)) \<Longrightarrow> i \<noteq> [] \<and> t \<noteq> []"
  shows "\<exists>t. execute_full_sync u c s = (Inr (), t) \<and> w_net t = []"
proof -
  have "\<exists>v. full_sync_body u c s = (Inr (), v) \<and> w_net v = []"
  proof (cases c)
    case True
    then show ?thesis using rebuild_body_healthy [OF u s ids [OF True]] by simp
  next
    case False
    then show ?thesis using healthyD [OF resync_body_healthy [OF u] s] by simp
  qed
  then obtain v where "full_sync_body u c s = (Inr (), v)" "w_net v = []" by blast
  then show ?thesis
    using recorded_healthy [where f = "\<lambda>_. oseq record_success (publish_op publish_reconcile)"
        and m = "full_sync_body u c" and s = s] full_sync_success
    unfolding execute_full_sync_def by simp
qed

text \<open>The parts of \<open>recorded\<close> that succeed and fail.\<close>

lemma success_never_raises: "never_raises (oseq record_success (publish_op g))"
proof -
  have m: "never_raises (omodify k)" for k :: "coord \<Rightarrow> coord" by (simp add: never_raises_def omodify_def)
  have n: "never_raises (now_iso :: pval cop)" by (simp add: never_raises_def now_iso_step)
  show ?thesis
    unfolding record_success_def publish_op_def notify_state_changed_def oseq_def
    by (intro never_raises_obind m n)
qed

lemma recorded_failure:
  assumes r: "recorded m f s = (Inl e, t)" and f: "\<And>x. never_raises (f x)"
  shows "\<exists>v. m s = (Inl e, v) \<and> t = snd (record_failure e v)"
proof (cases "m s")
  case (Pair x v)
  show ?thesis
  proof (cases x)
    case (Inl e')
    have "record_failure e' v = (Inr (), snd (record_failure e' v))"
      by (simp add: record_failure_def notify_state_changed_def oseq_apply omodify_def)
    then show ?thesis using r Pair Inl
      by (cases "record_failure e' v") (auto simp: recorded_def otry_def obind_def oseq_apply oraise_def)
  next
    case (Inr y)
    then have "f y v = (Inl e, t)" using r Pair by (simp add: recorded_def otry_def obind_def)
    then show ?thesis using f [of y] by (auto simp: never_raises_def) (metis fst_conv isl_def)
  qed
qed

text \<open>A rebuild whose first write after the clearing fails for good.\<close>

lemma rebuild_cut_short:
  assumes "clear_for_rebuild s = (Inr p, v)" and "ensure_home_node v = (Inl e, x)"
  shows "async_rebuild u s = (Inl e, snd (record_failure e x))"
proof -
  have "build_full_graph a b c v = (Inl e, x)" for a b c
    using assms(2) by (simp add: build_full_graph_def oseq_apply)
  then have "full_sync_body u True s = (Inl e, x)"
    using assms(1) by (simp add: full_sync_body_def obind_def oseq_apply oret_def)
  moreover have "record_failure e x = (Inr (), snd (record_failure e x))"
    by (simp add: record_failure_def notify_state_changed_def oseq_apply omodify_def)
  ultimately show ?thesis
    by (cases "record_failure e x")
      (simp add: async_rebuild_def execute_full_sync_def recorded_def otry_def obind_def oseq_apply oraise_def)
qed

end
