(* ===== verification/Event_Listener.thy ===== *)
theory Event_Listener
  imports Graph_Builder
begin

text \<open>
  \<open>event_listener.py\<close>: which bus events reach the coordinator, and the debouncer that gathers state
  changes into one batch per window.  Its specification is the list of the changes accepted since the
  last batch.
\<close>

section \<open>Definitions\<close>

text \<open>\<open>_parse_csv\<close>: a set, as a list.\<close>

definition parse_csv :: "string \<Rightarrow> string list" where
  "parse_csv value =
     (if value = [] then []
      else filter (\<lambda>item. item \<noteq> []) (map strip (split_on CHR '','' value)))"

record listener_options =
  lo_debounce_seconds :: rat
  lo_excluded_domains :: string
  lo_excluded_entities :: string

record state_event =
  se_entity_id :: "string option"
  se_old_state :: "ha_state option"
  se_new_state :: "ha_state option"

text \<open>
  The pending contexts and the timer (the delay it was armed with); the batches handed to the
  coordinator and the number of events counted there are logged.
\<close>

record debouncer =
  de_timer :: "rat option"
  de_pending :: "(string \<times> entity_sync_context) list"
  de_batches :: "(string \<times> entity_sync_context) list list"
  de_recorded :: nat

definition new_debouncer :: debouncer where
  "new_debouncer = \<lparr>de_timer = None, de_pending = [], de_batches = [], de_recorded = 0\<rparr>"

definition watched_attributes :: "string list" where
  "watched_attributes = [''friendly_name'', ''device_class'', ''unit_of_measurement'']"

definition changed_attributes :: "ha_state \<Rightarrow> ha_state \<Rightarrow> string list" where
  "changed_attributes old_state new_state =
     filter (\<lambda>key. dget (st_attributes old_state) key \<noteq> dget (st_attributes new_state) key) watched_attributes"

definition excluded :: "listener_options \<Rightarrow> string \<Rightarrow> bool" where
  "excluded opts entity_id \<longleftrightarrow> entity_id \<in> set (parse_csv (lo_excluded_entities opts)) \<or>
     domain_of entity_id \<in> set (parse_csv (lo_excluded_domains opts))"

text \<open>The guards of \<open>async_handle_state_changed\<close>: what an accepted event makes pending.\<close>

definition accept_event :: "listener_options \<Rightarrow> state_event \<Rightarrow> (string \<times> entity_sync_context) option" where
  "accept_event opts e =
     (case (se_entity_id e, se_new_state e) of
        (Some entity_id, Some new_state) \<Rightarrow>
          if excluded opts entity_id then None
          else (case se_old_state e of
                  None \<Rightarrow> Some (entity_id, \<lparr>cx_state = new_state, cx_measurement_last_updated = st_last_updated new_state\<rparr>)
                | Some old_state \<Rightarrow>
                    if st_state old_state = st_state new_state then
                      (if changed_attributes old_state new_state = [] then None
                       else Some (entity_id, \<lparr>cx_state = new_state, cx_measurement_last_updated =
                         (if changed_attributes old_state new_state = [''friendly_name'']
                          then st_last_updated old_state else st_last_updated new_state)\<rparr>))
                    else Some (entity_id, \<lparr>cx_state = new_state,
                      cx_measurement_last_updated = st_last_updated new_state\<rparr>))
      | _ \<Rightarrow> None)"

definition async_handle_state_changed :: "listener_options \<Rightarrow> state_event \<Rightarrow> debouncer \<Rightarrow> debouncer" where
  "async_handle_state_changed opts e d =
     (case accept_event opts e of
        None \<Rightarrow> d
      | Some (entity_id, context) \<Rightarrow>
          (let was_empty = (de_pending d = [])
           in d\<lparr>de_recorded := de_recorded d + 1,
                de_pending := AList.update entity_id context (de_pending d),
                de_timer := (if was_empty then Some (lo_debounce_seconds opts) else de_timer d)\<rparr>))"

definition fire :: "debouncer \<Rightarrow> debouncer" where
  "fire d = d\<lparr>de_timer := None, de_batches := de_batches d @ [de_pending d], de_pending := []\<rparr>"

definition async_cancel_all :: "debouncer \<Rightarrow> debouncer" where
  "async_cancel_all d = d\<lparr>de_timer := None, de_pending := []\<rparr>"

section \<open>The bus\<close>

datatype bus_event =
    AreaRegistryUpdated "string option"
  | DeviceRegistryUpdated "string option"
  | EntityRegistryUpdated "string option"
  | StateChanged state_event

datatype listener_call = AreaChange string | DeviceChange string | EntityChange string

text \<open>The callbacks of \<open>async_register_listeners\<close>; nothing happens before Home Assistant runs.\<close>

definition on_bus_event ::
  "listener_options \<Rightarrow> bool \<Rightarrow> bus_event \<Rightarrow> debouncer \<Rightarrow> listener_call list \<times> debouncer" where
  "on_bus_event opts running e d =
     (if \<not> running then ([], d)
      else (case e of
              AreaRegistryUpdated i \<Rightarrow> (if present i then [AreaChange (the i)] else [], d)
            | DeviceRegistryUpdated i \<Rightarrow> (if present i then [DeviceChange (the i)] else [], d)
            | EntityRegistryUpdated i \<Rightarrow> (if present i then [EntityChange (the i)] else [], d)
            | StateChanged s \<Rightarrow> ([], async_handle_state_changed opts s d)))"

section \<open>Runs of the debouncer\<close>

text \<open>The timer fires when it is armed; the options may change from one event to the next.\<close>

inductive debouncer_run :: "(string \<times> entity_sync_context) list list \<Rightarrow> (string \<times> entity_sync_context) list \<Rightarrow>
    debouncer \<Rightarrow> bool" where
  run_start: "debouncer_run [] [] new_debouncer"
| run_ignored: "debouncer_run past now d \<Longrightarrow> accept_event opts e = None \<Longrightarrow>
    debouncer_run past now (async_handle_state_changed opts e d)"
| run_accepted: "debouncer_run past now d \<Longrightarrow> accept_event opts e = Some c \<Longrightarrow>
    debouncer_run past (now @ [c]) (async_handle_state_changed opts e d)"
| run_fire: "debouncer_run past now d \<Longrightarrow> de_timer d \<noteq> None \<Longrightarrow> debouncer_run (past @ [now]) [] (fire d)"
| run_cancel: "debouncer_run past now d \<Longrightarrow> debouncer_run past [] (async_cancel_all d)"

text \<open>What a list of accepted changes leaves pending: the last context of each entity.\<close>

definition holds_last :: "(string \<times> entity_sync_context) list \<Rightarrow> (string \<times> entity_sync_context) list \<Rightarrow> bool" where
  "holds_last batch changes \<longleftrightarrow> distinct (map fst batch) \<and> map_of batch = map_of (rev changes)"

lemma holds_last_append: "holds_last batch changes \<Longrightarrow> holds_last (AList.update k c batch) (changes @ [(k, c)])"
  by (simp add: holds_last_def distinct_update)

lemma holds_last_empty: "holds_last batch changes \<Longrightarrow> batch = [] \<longleftrightarrow> changes = []"
  unfolding holds_last_def by (metis map_of_eq_empty_iff rev_is_Nil_conv)

lemma debouncer_run_pending:
  "debouncer_run past now d \<Longrightarrow> holds_last (de_pending d) now \<and> (de_timer d = None \<longleftrightarrow> de_pending d = []) \<and>
     list_all2 holds_last (de_batches d) past \<and> [] \<notin> set past"
proof (induction rule: debouncer_run.induct)
  case run_start
  then show ?case by (simp add: new_debouncer_def holds_last_def)
next
  case (run_ignored past now d opts e)
  then show ?case by (simp add: async_handle_state_changed_def)
next
  case (run_accepted past now d opts e c)
  obtain i x where c: "c = (i, x)" by (cases c)
  have "AList.update i x (de_pending d) \<noteq> []" by (cases "de_pending d") auto
  then show ?case using run_accepted c
    by (auto simp: async_handle_state_changed_def Let_def holds_last_append)
next
  case (run_fire past now d)
  then have "now \<noteq> []" using holds_last_empty by blast
  then show ?case using run_fire by (simp add: fire_def holds_last_def list_all2_appendI)
next
  case (run_cancel past now d)
  then show ?case by (simp add: async_cancel_all_def holds_last_def)
qed

lemma changed_attributes_empty:
  "changed_attributes s t = [] \<longleftrightarrow> (\<forall>k \<in> set watched_attributes. dget (st_attributes s) k = dget (st_attributes t) k)"
  by (simp add: changed_attributes_def filter_empty_conv)

section \<open>What the coordinator gets\<close>

text \<open>
  C14. No accepted change is lost and none is invented: each batch handed over holds, for every entity with
  an accepted change since the batch before, its last context, and nothing else; batches are never
  empty; and the timer is armed exactly while changes are pending.
\<close>

theorem batches_hold_last_changes:
  assumes "debouncer_run past now d"
  shows "list_all2 holds_last (de_batches d) past \<and> holds_last (de_pending d) now \<and> [] \<notin> set past \<and>
    (de_timer d \<noteq> None \<longleftrightarrow> now \<noteq> [])"
  using debouncer_run_pending [OF assms] holds_last_empty by blast

definition lamp_turns_on :: state_event where
  "lamp_turns_on = \<lparr>se_entity_id = Some ''light.hall'', se_old_state = None,
     se_new_state = Some \<lparr>st_entity_id = ''light.hall'', st_state = ''on'', st_name = None, st_attributes = [],
       st_last_changed = 5, st_last_updated = 5\<rparr>\<rparr>"

definition no_exclusions :: listener_options where
  "no_exclusions = \<lparr>lo_debounce_seconds = 1, lo_excluded_domains = [], lo_excluded_entities = []\<rparr>"

theorem batches_hold_last_changes_witness:
  "de_timer (async_handle_state_changed no_exclusions lamp_turns_on new_debouncer) \<noteq> None"
proof -
  have "accept_event no_exclusions lamp_turns_on \<noteq> None" by code_simp
  then obtain c where "accept_event no_exclusions lamp_turns_on = Some c" by blast
  from batches_hold_last_changes [OF run_accepted [OF run_start this]] show ?thesis by simp
qed

text \<open>
  Which state changes are accepted: those of a known, not excluded entity that still exists, and that
  change the state or a watched attribute; and a change of the name alone keeps the time of the
  measurement.
\<close>

theorem accepted_changes:
  "accept_event opts e = Some (i, c) \<longleftrightarrow>
     se_entity_id e = Some i \<and> se_new_state e = Some (cx_state c) \<and> \<not> excluded opts i \<and>
     (case se_old_state e of
        None \<Rightarrow> cx_measurement_last_updated c = st_last_updated (cx_state c)
      | Some old \<Rightarrow>
          (st_state old \<noteq> st_state (cx_state c) \<or>
           (\<exists>k \<in> set watched_attributes. dget (st_attributes old) k \<noteq> dget (st_attributes (cx_state c)) k)) \<and>
          cx_measurement_last_updated c =
            (if st_state old = st_state (cx_state c) \<and>
                changed_attributes old (cx_state c) = [''friendly_name'']
             then st_last_updated old else st_last_updated (cx_state c)))"
  using changed_attributes_empty
  by (cases c) (auto simp: accept_event_def split: option.splits if_splits)

theorem accepted_changes_witness:
  "accept_event no_exclusions lamp_turns_on = Some (''light.hall'',
     \<lparr>cx_state = \<lparr>st_entity_id = ''light.hall'', st_state = ''on'', st_name = None, st_attributes = [],
         st_last_changed = 5, st_last_updated = 5\<rparr>, cx_measurement_last_updated = 5\<rparr>)"
proof -
  have "\<not> excluded no_exclusions ''light.hall''" by code_simp
  then show ?thesis by (simp add: accepted_changes lamp_turns_on_def)
qed

end
