(* ===== verification/Op_Lock.thy ===== *)
theory Op_Lock
  imports Prelude
begin

text \<open>
  The serialisation of graph writes in \<open>coordinator.py\<close> (\<open>_run_serialized\<close>, \<open>_run_incremental\<close>,
  \<open>async_run_operation\<close>) as a state machine.  \<open>asyncio.Lock\<close> is the standard library's: it is taken at
  once when it is free and nobody waits, and otherwise handed to the waiters in the order of their
  arrival; between a release and the moment the first waiter runs the lock is free but not to be had.
  A step is what the event loop runs without a suspension.
\<close>

section \<open>States and steps\<close>

datatype request_kind = Serialized | Incremental

record request =
  rq_id :: nat
  rq_kind :: request_kind

record op_lock =
  ol_holder :: "request option"
  ol_queue :: "request list"
  ol_waiting :: bool

definition new_lock :: op_lock where
  "new_lock = \<lparr>ol_holder = None, ol_queue = [], ol_waiting = False\<rparr>"

datatype lock_label = Accepted request | Rejected request | Acquired request | Finished request

definition is_serialized :: "request \<Rightarrow> bool" where
  "is_serialized r = (rq_kind r = Serialized)"

text \<open>\<open>async with self._lock\<close> is entered: \<open>self._waiting\<close> is reset by the serialized operations only.\<close>

definition enter :: "request \<Rightarrow> op_lock \<Rightarrow> op_lock" where
  "enter r s = s\<lparr>ol_holder := Some r, ol_waiting := (if is_serialized r then False else ol_waiting s)\<rparr>"

definition acquire_or_wait :: "request \<Rightarrow> op_lock \<Rightarrow> lock_label list \<times> op_lock" where
  "acquire_or_wait r s =
     (if ol_holder s = None \<and> ol_queue s = [] then ([Accepted r, Acquired r], enter r s)
      else ([Accepted r], s\<lparr>ol_queue := ol_queue s @ [r]\<rparr>))"

text \<open>A call of \<open>_run_serialized\<close> or \<open>_run_incremental\<close>, up to its first suspension.\<close>

definition arrive :: "request \<Rightarrow> op_lock \<Rightarrow> lock_label list \<times> op_lock" where
  "arrive r s =
     (if is_serialized r \<and> ol_holder s \<noteq> None then
        (if ol_waiting s then ([Rejected r], s)
         else acquire_or_wait r (s\<lparr>ol_waiting := True\<rparr>))
      else acquire_or_wait r s)"

text \<open>The first waiter wakes up and takes the free lock.\<close>

definition wake :: "op_lock \<Rightarrow> (lock_label list \<times> op_lock) option" where
  "wake s = (case (ol_holder s, ol_queue s) of
     (None, r # rs) \<Rightarrow> Some ([Acquired r], enter r (s\<lparr>ol_queue := rs\<rparr>))
   | _ \<Rightarrow> None)"

text \<open>The operation returns or raises: the lock is released, then the \<open>finally\<close> clause runs.\<close>

definition finish :: "op_lock \<Rightarrow> (lock_label list \<times> op_lock) option" where
  "finish s = (case ol_holder s of
     Some r \<Rightarrow> Some ([Finished r],
       s\<lparr>ol_holder := None, ol_waiting := (if is_serialized r then False else ol_waiting s)\<rparr>)
   | None \<Rightarrow> None)"

inductive lock_step :: "op_lock \<Rightarrow> lock_label list \<Rightarrow> op_lock \<Rightarrow> bool" where
  step_arrive: "arrive r s = (ls, t) \<Longrightarrow> lock_step s ls t"
| step_wake: "wake s = Some (ls, t) \<Longrightarrow> lock_step s ls t"
| step_finish: "finish s = Some (ls, t) \<Longrightarrow> lock_step s ls t"

inductive_cases lock_stepE: "lock_step s ls t"

text \<open>The runs from the new lock, with what happened so far.\<close>

inductive lock_run :: "lock_label list \<Rightarrow> op_lock \<Rightarrow> bool" where
  lock_run_new: "lock_run [] new_lock"
| lock_run_step: "lock_run tr s \<Longrightarrow> lock_step s ls t \<Longrightarrow> lock_run (tr @ ls) t"

section \<open>What a trace says\<close>

fun accepted :: "lock_label list \<Rightarrow> request list" where
  "accepted [] = []"
| "accepted (Accepted r # ls) = r # accepted ls"
| "accepted (_ # ls) = accepted ls"

fun acquired :: "lock_label list \<Rightarrow> request list" where
  "acquired [] = []"
| "acquired (Acquired r # ls) = r # acquired ls"
| "acquired (_ # ls) = acquired ls"

fun finished :: "lock_label list \<Rightarrow> request list" where
  "finished [] = []"
| "finished (Finished r # ls) = r # finished ls"
| "finished (_ # ls) = finished ls"

lemma accepted_append [simp]: "accepted (xs @ ys) = accepted xs @ accepted ys"
  by (induction xs rule: accepted.induct) simp_all

lemma acquired_append [simp]: "acquired (xs @ ys) = acquired xs @ acquired ys"
  by (induction xs rule: acquired.induct) simp_all

lemma finished_append [simp]: "finished (xs @ ys) = finished xs @ finished ys"
  by (induction xs rule: finished.induct) simp_all

definition holders :: "op_lock \<Rightarrow> request list" where
  "holders s = (case ol_holder s of None \<Rightarrow> [] | Some r \<Rightarrow> [r])"

lemmas lock_defs = arrive_def acquire_or_wait_def wake_def finish_def enter_def holders_def

section \<open>Invariants\<close>

text \<open>Requests run in the order they were accepted, one at a time, and none is lost.\<close>

lemma lock_run_fifo:
  "lock_run tr s \<Longrightarrow> accepted tr = acquired tr @ ol_queue s \<and> acquired tr = finished tr @ holders s"
proof (induction rule: lock_run.induct)
  case lock_run_new
  then show ?case by (simp add: new_lock_def holders_def)
next
  case (lock_run_step tr s ls t)
  from lock_run_step.hyps(2) lock_run_step.IH show ?case
    by (cases rule: lock_step.cases)
      (auto simp: lock_defs split: if_splits option.splits list.splits)
qed

text \<open>The flag is only up while a serialized operation waits.\<close>

lemma lock_run_waiting: "lock_run tr s \<Longrightarrow> ol_waiting s \<Longrightarrow> \<exists>r \<in> set (ol_queue s). is_serialized r"
proof (induction rule: lock_run.induct)
  case lock_run_new
  then show ?case by (simp add: new_lock_def)
next
  case (lock_run_step tr s ls t)
  from lock_run_step.hyps(2) lock_run_step.IH lock_run_step.prems show ?case
    by (cases rule: lock_step.cases)
      (auto simp: lock_defs split: if_splits option.splits list.splits)
qed

text \<open>What is left to do shrinks with every step that is not an arrival.\<close>

definition work_left :: "op_lock \<Rightarrow> nat" where
  "work_left s = 2 * length (ol_queue s) + length (holders s)"

lemma wake_work: "wake s = Some (ls, t) \<Longrightarrow> work_left t < work_left s"
  by (auto simp: lock_defs work_left_def split: option.splits list.splits)

lemma finish_work: "finish s = Some (ls, t) \<Longrightarrow> work_left t < work_left s"
  by (auto simp: lock_defs work_left_def split: option.splits)

lemma lock_enabled: "work_left s \<noteq> 0 \<Longrightarrow> wake s \<noteq> None \<or> finish s \<noteq> None"
  by (auto simp: lock_defs work_left_def split: option.splits list.splits)

text \<open>Without arrivals, the waiting operations run to their end one after the other.\<close>

inductive lock_settles :: "op_lock \<Rightarrow> lock_label list \<Rightarrow> op_lock \<Rightarrow> bool" where
  settles_refl: "lock_settles s [] s"
| settles_wake: "wake s = Some (ls, t) \<Longrightarrow> lock_settles t ls' u \<Longrightarrow> lock_settles s (ls @ ls') u"
| settles_finish: "finish s = Some (ls, t) \<Longrightarrow> lock_settles t ls' u \<Longrightarrow> lock_settles s (ls @ ls') u"

lemma settles_work: "\<exists>ls t. lock_settles s ls t \<and> work_left t = 0"
proof (induction "work_left s" arbitrary: s rule: less_induct)
  case less
  show ?case
  proof (cases "work_left s = 0")
    case True
    then show ?thesis using settles_refl by blast
  next
    case False
    from lock_enabled [OF this] consider ls t where "wake s = Some (ls, t)" | ls t where "finish s = Some (ls, t)"
      by fastforce
    then show ?thesis
    proof cases
      case (1 ls t)
      with less [OF wake_work] show ?thesis by (meson settles_wake)
    next
      case (2 ls t)
      with less [OF finish_work] show ?thesis by (meson settles_finish)
    qed
  qed
qed

lemma settles_run: "lock_settles s ls t \<Longrightarrow> lock_run tr s \<Longrightarrow> lock_run (tr @ ls) t"
proof (induction arbitrary: tr rule: lock_settles.induct)
  case (settles_refl s)
  then show ?case by simp
next
  case (settles_wake s ls t ls' u)
  from settles_wake.IH [OF lock_run_step [OF settles_wake.prems step_wake [OF settles_wake.hyps(1)]]]
  show ?case by simp
next
  case (settles_finish s ls t ls' u)
  from settles_finish.IH [OF lock_run_step [OF settles_finish.prems step_finish [OF settles_finish.hyps(1)]]]
  show ?case by simp
qed

text \<open>Events of a schedule, to compute a run.\<close>

datatype lock_event = Arrive request | Wake | Finish

fun lock_schedule :: "lock_event list \<Rightarrow> lock_label list \<Rightarrow> op_lock \<Rightarrow> (lock_label list \<times> op_lock) option" where
  "lock_schedule [] tr s = Some (tr, s)"
| "lock_schedule (Arrive r # es) tr s = (case arrive r s of (ls, t) \<Rightarrow> lock_schedule es (tr @ ls) t)"
| "lock_schedule (Wake # es) tr s =
     (case wake s of None \<Rightarrow> None | Some (ls, t) \<Rightarrow> lock_schedule es (tr @ ls) t)"
| "lock_schedule (Finish # es) tr s =
     (case finish s of None \<Rightarrow> None | Some (ls, t) \<Rightarrow> lock_schedule es (tr @ ls) t)"

lemma lock_schedule_run:
  "lock_schedule es tr s = Some (tr', t) \<Longrightarrow> lock_run tr s \<Longrightarrow> lock_run tr' t"
proof (induction es tr s rule: lock_schedule.induct)
  case (1 tr s)
  then show ?case by simp
next
  case (2 r es tr s)
  obtain ls u where u: "arrive r s = (ls, u)" by (cases "arrive r s")
  then show ?case using 2 lock_run_step [OF "2.prems"(2) step_arrive [OF u]] by simp
next
  case (3 es tr s)
  from "3.prems"(1) obtain ls u where u: "wake s = Some (ls, u)"
    and r: "lock_schedule es (tr @ ls) u = Some (tr', t)" by (auto split: option.splits)
  show ?case by (rule "3.IH" [OF u refl r lock_run_step [OF "3.prems"(2) step_wake [OF u]]])
next
  case (4 es tr s)
  from "4.prems"(1) obtain ls u where u: "finish s = Some (ls, u)"
    and r: "lock_schedule es (tr @ ls) u = Some (tr', t)" by (auto split: option.splits)
  show ?case by (rule "4.IH" [OF u refl r lock_run_step [OF "4.prems"(2) step_finish [OF u]]])
qed

section \<open>What callers of the lock can rely on\<close>

lemma settles_accepted: "lock_settles s ls t \<Longrightarrow> accepted ls = []"
  by (induction rule: lock_settles.induct) (auto simp: lock_defs split: option.splits list.splits)

text \<open>
  C10. The operations run one at a time, in the order in which they were accepted, and none is lost: what
  was accepted is what finished, then what runs, then what waits.
\<close>

theorem lock_serves_in_order:
  assumes "lock_run tr s"
  shows "accepted tr = finished tr @ (case ol_holder s of None \<Rightarrow> [] | Some r \<Rightarrow> [r]) @ ol_queue s"
  using lock_run_fifo [OF assms] by (simp add: holders_def)

theorem lock_serves_in_order_witness:
  "let r = \<lparr>rq_id = 1, rq_kind = Serialized\<rparr>; q = \<lparr>rq_id = 2, rq_kind = Incremental\<rparr>
   in accepted [Accepted r, Acquired r, Accepted q] = finished [Accepted r, Acquired r, Accepted q] @ [r] @ [q]"
  using lock_serves_in_order [OF lock_schedule_run [OF _ lock_run_new,
      where es = "[Arrive \<lparr>rq_id = 1, rq_kind = Serialized\<rparr>, Arrive \<lparr>rq_id = 2, rq_kind = Incremental\<rparr>]"]]
  by (simp add: lock_defs new_lock_def is_serialized_def)

text \<open>
  A request is only ever rejected when a serialized operation is waiting, and a rejection changes
  nothing; an incremental request is never rejected.
\<close>

theorem rejection_is_justified:
  assumes "lock_run tr s" and "arrive r s = (ls, t)" and "Rejected r \<in> set ls"
  shows "t = s \<and> ls = [Rejected r] \<and> rq_kind r = Serialized \<and> ol_holder s \<noteq> None \<and>
    (\<exists>q \<in> set (ol_queue s). rq_kind q = Serialized)"
  using assms(2,3) lock_run_waiting [OF assms(1)]
  by (auto simp: arrive_def acquire_or_wait_def is_serialized_def split: if_splits)

theorem rejection_is_justified_witness:
  "let r = (\<lambda>i. \<lparr>rq_id = i, rq_kind = Serialized\<rparr>);
       s = \<lparr>ol_holder = Some (r 1), ol_queue = [r 2], ol_waiting = True\<rparr>
   in arrive (r 3) s = ([Rejected (r 3)], s) \<and> ol_holder s \<noteq> None"
proof -
  let ?r = "\<lambda>i. \<lparr>rq_id = i, rq_kind = Serialized\<rparr>"
  let ?s = "\<lparr>ol_holder = Some (?r 1), ol_queue = [?r 2], ol_waiting = True\<rparr>"
  have "lock_run [Accepted (?r 1), Acquired (?r 1), Accepted (?r 2)] ?s"
    by (rule lock_schedule_run [OF _ lock_run_new, where es = "[Arrive (?r 1), Arrive (?r 2)]"])
      (simp add: lock_defs new_lock_def is_serialized_def)
  moreover have "arrive (?r 3) ?s = ([Rejected (?r 3)], ?s)"
    by (simp add: arrive_def is_serialized_def)
  ultimately show ?thesis using rejection_is_justified by (metis list.set_intros(1))
qed

text \<open>
  C11. Every accepted operation gets to finish: from any reachable state the lock, with no further
  arrivals, runs to a state in which everything accepted has finished.
\<close>

theorem accepted_operations_finish:
  assumes "lock_run tr s"
  shows "\<exists>ls t. lock_settles s ls t \<and> lock_run (tr @ ls) t \<and> finished (tr @ ls) = accepted tr \<and>
    ol_holder t = None \<and> ol_queue t = []"
proof -
  obtain ls t where t: "lock_settles s ls t" "work_left t = 0" using settles_work [of s] by blast
  then have r: "lock_run (tr @ ls) t" using settles_run assms by blast
  have "ol_holder t = None" "ol_queue t = []"
    using t(2) by (auto simp: work_left_def holders_def split: option.splits)
  then show ?thesis
    using t(1) r lock_run_fifo [OF r] settles_accepted [OF t(1)] by (auto simp: holders_def)
qed

theorem accepted_operations_finish_witness:
  "\<exists>ls t. lock_run ([Accepted \<lparr>rq_id = 1, rq_kind = Serialized\<rparr>, Acquired \<lparr>rq_id = 1, rq_kind = Serialized\<rparr>] @ ls) t \<and>
     finished ([Accepted \<lparr>rq_id = 1, rq_kind = Serialized\<rparr>, Acquired \<lparr>rq_id = 1, rq_kind = Serialized\<rparr>] @ ls)
       = [\<lparr>rq_id = 1, rq_kind = Serialized\<rparr>]"
  using accepted_operations_finish [OF lock_schedule_run [OF _ lock_run_new,
      where es = "[Arrive \<lparr>rq_id = 1, rq_kind = Serialized\<rparr>]"]]
  by (auto simp: lock_defs new_lock_def is_serialized_def)

text \<open>
  The slot for one waiting operation is not kept: the flag is cleared by the operation that ends, not
  by the one that waits, so a request that comes before the waiting one has woken up joins the queue, and
  while the second operation runs two serialized ones are waiting.
\<close>

theorem two_serialized_wait:
  "let r = (\<lambda>i. \<lparr>rq_id = i, rq_kind = Serialized\<rparr>)
   in map_option (\<lambda>(tr, s). (ol_holder s, ol_queue s))
        (lock_schedule [Arrive (r 1), Arrive (r 2), Finish, Arrive (r 3), Wake, Arrive (r 4)] [] new_lock)
      = Some (Some (r 2), [r 3, r 4])"
  by code_simp

end
