(* ===== verification/Query_Tools.thy ===== *)
theory Query_Tools
  imports Memgraph_Client
begin

text \<open>
  \<open>query_tools.py\<close>: the predefined read-only tools.  Every tool runs one or a few queries, shapes the rows
  and wraps the answer in one envelope, whose values are redacted.  The answers are JSON values, dictionaries
  of \<open>pval\<close>; rows come in the order of the graph where a query states none.
\<close>

section \<open>The envelope\<close>

text \<open>
  A node in a row is what \<open>serialize_value\<close> makes of it.  Element ids are chosen by the server and read by
  nothing; they are left empty here.  The \<open>ha_id\<close> is one of the properties.
\<close>

definition node_props :: "nkey \<times> dict \<Rightarrow> dict" where
  "node_props x = (''ha_id'', VStr (snd (fst x))) # snd x"

definition node_value :: "nkey \<times> dict \<Rightarrow> pval" where
  "node_value x = serialize_value (DNode [] [fst (fst x)] (map (\<lambda>(k, v). (k, DPlain v)) (node_props x)))"

text \<open>
  \<open>node_properties\<close>: \<open>dict(...)\<close> of anything but a mapping raises; no row holds such a value in this place.
\<close>

definition node_properties :: "pval \<Rightarrow> exn + dict option" where
  "node_properties value =
     (case value of
        VNone \<Rightarrow> Inr None
      | VDict d \<Rightarrow>
          if ''properties'' \<in> fst ` set d \<and> ''labels'' \<in> fst ` set d
          then (case dget d ''properties'' of
              VDict p \<Rightarrow> Inr (Some p)
            | _ \<Rightarrow> Inl (TypeError ''dict() of a value that is not a mapping''))
          else Inr (Some d)
      | _ \<Rightarrow> Inl (TypeError ''dict() of a value that is not a mapping''))"

lemma node_properties_None [simp]: "node_properties VNone = Inr None"
  by (simp add: node_properties_def)

lemma node_properties_node [simp]: "node_properties (node_value x) = Inr (Some (node_props x))"
  by (simp add: node_properties_def node_value_def serialize_plain dget_def)

definition build_tool_result :: "string \<Rightarrow> string \<Rightarrow> pval \<Rightarrow> string list \<Rightarrow> string \<Rightarrow> dict" where
  "build_tool_result target result_type result warnings outcome =
     [(''target'', redact_value (VStr target)), (''result_type'', VStr result_type),
      (''outcome'', VStr outcome), (''result'', if result \<noteq> VNone then redact_value result else VNone),
      (''warnings'', if warnings \<noteq> [] then redact_value (VList (map VStr warnings)) else VList [])]"

definition not_found_result :: "string \<Rightarrow> dict" where
  "not_found_result target = build_tool_result target RESULT_TYPE_NOT_FOUND VNone [] OUTCOME_NOT_FOUND"

text \<open>\<open>_bounded_collection\<close> returns what it keeps and the warnings, with one more when it cut something.\<close>

definition bounded_collection :: "'a list \<Rightarrow> string \<Rightarrow> string list \<Rightarrow> 'a list \<times> string list" where
  "bounded_collection items name warnings =
     (take DEFAULT_QUERY_LIMIT items,
      if DEFAULT_QUERY_LIMIT < length items
      then warnings @ [name @ '' truncated to '' @ str_of_nat DEFAULT_QUERY_LIMIT @ '' items''] else warnings)"

text \<open>\<open>count_results\<close>: the length of the first list among the values of a dictionary.\<close>

fun first_list_length :: "dict \<Rightarrow> nat" where
  "first_list_length [] = 1"
| "first_list_length ((k, v) # kvs) = (case v of VList xs \<Rightarrow> length xs | _ \<Rightarrow> first_list_length kvs)"

definition count_results :: "pval \<Rightarrow> nat" where
  "count_results result =
     (case result of
        VNone \<Rightarrow> 0
      | VList xs \<Rightarrow> length xs
      | VDict d \<Rightarrow> first_list_length d
      | _ \<Rightarrow> 1)"

section \<open>Matching a name\<close>

text \<open>
  \<open>n.ha_id = $identifier OR toLower(n.name) = toLower($identifier)\<close>; a missing name compares to null.
\<close>

definition named :: "string \<Rightarrow> nkey \<times> dict \<Rightarrow> bool" where
  "named identifier x \<longleftrightarrow> snd (fst x) = identifier \<or>
     (case dget (snd x) ''name'' of VStr s \<Rightarrow> lower s = lower identifier | _ \<Rightarrow> False)"

definition matching :: "string \<Rightarrow> string \<Rightarrow> graph \<Rightarrow> (nkey \<times> dict) list" where
  "matching label identifier g = filter (\<lambda>x. fst (fst x) = label \<and> named identifier x) (g_nodes g)"

text \<open>The nodes an edge of one of the types leads to or from, one per node (\<open>collect(DISTINCT ...)\<close>).\<close>

definition nodes_of :: "graph \<Rightarrow> nkey list \<Rightarrow> (nkey \<times> dict) list" where
  "nodes_of g ks = map (\<lambda>k. (k, or_empty (node g k))) (keep_first ks)"

definition sources_of :: "graph \<Rightarrow> string \<Rightarrow> string list \<Rightarrow> nkey \<Rightarrow> nkey list" where
  "sources_of g label types target =
     map (fst \<circ> fst) (filter (\<lambda>((a, t, b), d). b = target \<and> t \<in> set types \<and> fst a = label) (g_rels g))"

definition targets_of :: "graph \<Rightarrow> nkey \<Rightarrow> string list \<Rightarrow> (string \<Rightarrow> bool) \<Rightarrow> nkey list" where
  "targets_of g source types label =
     map (snd \<circ> snd \<circ> fst) (filter (\<lambda>((a, t, b), d). a = source \<and> t \<in> set types \<and> label (fst b)) (g_rels g))"

end
