(* ===== verification/Agent_Audit.thy ===== *)
theory Agent_Audit
  imports Memgraph_Client
begin

text \<open>
  \<open>agent_audit.py\<close>: the redacted log of what agents asked.  A record is projected to the fields its
  event may have and redacted before it is stored; records past the retention window are dropped on
  every append and by the periodic sweep.  Home Assistant's \<open>Store\<close> of one config entry is a field of
  the state: what was saved last, \<open>None\<close> before the first save.
\<close>

record audited = world +
  au_store :: "dict list option"

type_synonym ('z, 'a) aop = "('z audited_scheme, 'a) op"

definition COMMON_FIELDS :: "string list" where
  "COMMON_FIELDS = [''event'', ''status'', ''result_count'', ''error_category'', ''timestamp'']"

definition EVENT_FIELDS :: "(string \<times> string list) list" where
  "EVENT_FIELDS =
     [(''assist_query'', COMMON_FIELDS @ [''intent'']),
      (''mcp_tool_call'', COMMON_FIELDS @ [''tool'', ''client_id'']),
      (''mcp_write_rejected'', COMMON_FIELDS @ [''tool'', ''client_id'', ''rejected_operation'']),
      (''mcp_auth_rejected'', COMMON_FIELDS @ [''tool'', ''client_id'']),
      (''impact_analysis'', COMMON_FIELDS @ [''scope'', ''has_dependencies'']),
      (''context_export'', COMMON_FIELDS @ [''export_type''])]"

text \<open>
  \<open>_EVENT_FIELDS.get(str(record.get("event")), _COMMON_FIELDS)\<close>: no name of the table is the \<open>str\<close> of
  anything but a string.  The sets are given an order here, which nothing depends on.
\<close>

definition allowed_fields :: "dict \<Rightarrow> string list" where
  "allowed_fields r =
     (case dget r ''event'' of
        VStr event \<Rightarrow> (case map_of EVENT_FIELDS event of None \<Rightarrow> COMMON_FIELDS | Some names \<Rightarrow> names)
      | _ \<Rightarrow> COMMON_FIELDS)"

text \<open>
  \<open>_is_expired\<close>.  Of the strings, \<open>fromisoformat\<close> reads the texts of the instants, \<open>VTime\<close>; any other
  string counts as one it rejects.  A value that is not a string raises, and the caller does not catch it.
\<close>

definition microseconds_per_day :: int where
  "microseconds_per_day = 24 * 3600 * 1000000"

definition is_expired :: "int \<Rightarrow> dict \<Rightarrow> exn + bool" where
  "is_expired now r =
     (let timestamp = dget r ''timestamp''
      in if \<not> truthy timestamp then Inr False
         else (case timestamp of
            VTime recorded_at \<Rightarrow> Inr (int AGENT_AUDIT_RETENTION_DAYS * microseconds_per_day < now - recorded_at)
          | VStr _ \<Rightarrow> Inr False
          | _ \<Rightarrow> Inl (TypeError ''fromisoformat: argument must be str'')))"

fun unexpired :: "int \<Rightarrow> dict list \<Rightarrow> exn + dict list" where
  "unexpired now [] = Inr []"
| "unexpired now (r # rs) =
     (case is_expired now r of
        Inl e \<Rightarrow> Inl e
      | Inr expired \<Rightarrow>
          (case unexpired now rs of
             Inl e \<Rightarrow> Inl e
           | Inr kept \<Rightarrow> Inr (if expired then kept else r # kept)))"

definition load_records :: "('z, dict list) aop" where
  "load_records = oget (\<lambda>s. case au_store s of None \<Rightarrow> [] | Some records \<Rightarrow> records)"

definition save_records :: "dict list \<Rightarrow> ('z, unit) aop" where
  "save_records records = omodify (\<lambda>s. s\<lparr>au_store := Some records\<rparr>)"

definition safe_record :: "dict \<Rightarrow> dict" where
  "safe_record r = redact_items (map (\<lambda>key. (key, dget r key)) (filter (\<lambda>key. key \<in> fst ` set r) (allowed_fields r)))"

definition async_append_record :: "dict \<Rightarrow> ('z, unit) aop" where
  "async_append_record r =
     obind load_records (\<lambda>records.
     obind utc_now (\<lambda>now.
     obind (from_sum (unexpired now records)) (\<lambda>kept.
       save_records (kept @ [safe_record r]))))"

definition async_prune_expired :: "('z, unit) aop" where
  "async_prune_expired =
     obind load_records (\<lambda>records.
     obind utc_now (\<lambda>now.
     obind (from_sum (unexpired now records)) (\<lambda>pruned.
       if length pruned \<noteq> length records then save_records pruned else oret ())))"

definition async_get_records :: "('z, dict list) aop" where
  "async_get_records = load_records"

text \<open>
  \<open>async_summarize\<close>: a default only for a missing key; a list or a dictionary cannot be a key.  The counts
  of a status are nested in its event.
\<close>

type_synonym summary = "(pval \<times> (pval \<times> nat) list) list"

definition field_or :: "pval \<Rightarrow> dict \<Rightarrow> string \<Rightarrow> pval" where
  "field_or absent r key = (case map_of r key of None \<Rightarrow> absent | Some v \<Rightarrow> v)"

definition count_record :: "dict \<Rightarrow> summary \<Rightarrow> exn + summary" where
  "count_record r summary =
     (let event = field_or (VStr ''unknown'') r ''event''; status = field_or (VStr ''unknown'') r ''status''
      in if \<not> hashable event \<or> \<not> hashable status then Inl (TypeError ''unhashable type'')
         else (let by_status = (case map_of summary event of None \<Rightarrow> [] | Some counts \<Rightarrow> counts);
                   n = (case map_of by_status status of None \<Rightarrow> 0 | Some n \<Rightarrow> n)
               in Inr (AList.update event (AList.update status (n + 1) by_status) summary)))"

fun count_records :: "dict list \<Rightarrow> summary \<Rightarrow> exn + summary" where
  "count_records [] summary = Inr summary"
| "count_records (r # rs) summary =
     (case count_record r summary of Inl e \<Rightarrow> Inl e | Inr summary' \<Rightarrow> count_records rs summary')"

definition async_summarize :: "('z, summary) aop" where
  "async_summarize = obind async_get_records (\<lambda>records. from_sum (count_records records []))"

section \<open>Projected and redacted\<close>

lemma redact_items_fields: "fst ` set (redact_items d) = fst ` set d"
  by (metis image_set redact_items_keys)

lemma safe_record_fields: "fst ` set (safe_record r) \<subseteq> set (allowed_fields r)"
  by (auto simp: safe_record_def redact_items_fields)

lemma safe_record_redacted: "list_all entry_redacted (nested_entries (VDict (safe_record r)))"
  by (simp only: safe_record_def redact_value.simps(1) [symmetric]
      no_secret_entries(1) [OF redact_no_secret_all(1)])

lemma map_of_redact_items: "\<not> secret_key_search key \<Longrightarrow>
  map_of (redact_items d) key = map_option redact_value (map_of d key)"
  by (induction d) auto

lemma common_allowed: "set COMMON_FIELDS \<subseteq> set (allowed_fields r)"
  by (auto simp: allowed_fields_def EVENT_FIELDS_def split: pval.splits)

section \<open>The window\<close>

definition fresh :: "int \<Rightarrow> dict \<Rightarrow> bool" where
  "fresh now r \<longleftrightarrow> is_expired now r = Inr False"

text \<open>A record whose time stamp is one or is missing: \<open>fromisoformat\<close> does not raise on it.\<close>

definition datable :: "dict \<Rightarrow> bool" where
  "datable r \<longleftrightarrow> dget r ''timestamp'' = VNone \<or> (\<exists>t. dget r ''timestamp'' = VTime t)"

lemma map_of_map_key: "map_of (map (\<lambda>key. (key, f key)) ks) key = (if key \<in> set ks then Some (f key) else None)"
  by (induction ks) auto

lemma dget_absent: "key \<notin> fst ` set r \<Longrightarrow> dget r key = VNone"
  by (simp add: dget_def map_of_eq_None_iff [THEN iffD2])

lemma dget_safe:
  assumes "key \<in> set (allowed_fields r)" and "\<not> secret_key_search key"
  shows "dget (safe_record r) key = redact_value (dget r key)"
  using assms(1) dget_absent [of key r]
  unfolding safe_record_def dget_def [of "redact_items _"] map_of_redact_items [OF assms(2)] map_of_map_key by simp

lemma timestamp_redacted: "dget (safe_record r) ''timestamp'' = redact_value (dget r ''timestamp'')"
proof (rule dget_safe)
  show "''timestamp'' \<in> set (allowed_fields r)" using common_allowed by (force simp: COMMON_FIELDS_def)
qed code_simp

lemma truthy_redacted: "(\<And>t. v \<noteq> VStr t) \<Longrightarrow> truthy (redact_value v) = truthy v"
proof (cases v)
  case (VList xs)
  then show ?thesis by (cases xs) simp_all
next
  case (VDict d)
  then show ?thesis by (cases d) auto
qed auto

lemma is_expired_safe: "is_expired now (safe_record r) = is_expired now r"
  using truthy_redacted [of "dget r ''timestamp''"]
  unfolding is_expired_def timestamp_redacted Let_def
  by (cases "dget r ''timestamp''") auto

lemma unexpired_datable:
  "list_all datable rs \<Longrightarrow> unexpired now rs = Inr (filter (fresh now) rs)"
  by (induction rs) (auto simp: fresh_def datable_def is_expired_def Let_def)

lemma fresh_earlier: "fresh now r \<Longrightarrow> now' \<le> now \<Longrightarrow> fresh now' r"
  by (auto simp: fresh_def is_expired_def Let_def split: pval.splits if_splits)

lemma datable_safe: "datable r \<Longrightarrow> datable (safe_record r)"
  by (auto simp: datable_def timestamp_redacted)

lemma fresh_safe: "fresh now (safe_record r) = fresh now r"
  by (simp add: fresh_def is_expired_safe)

lemma append_step:
  "async_append_record r s =
     (case unexpired (w_now s) (case au_store s of None \<Rightarrow> [] | Some l \<Rightarrow> l) of
        Inl e \<Rightarrow> (Inl e, snd (utc_now s))
      | Inr kept \<Rightarrow> (Inr (), (snd (utc_now s))\<lparr>au_store := Some (kept @ [safe_record r])\<rparr>))"
  by (simp add: async_append_record_def load_records_def save_records_def from_sum_def utc_now_def op_defs
      split: sum.splits)

lemma oforeach_snoc: "oforeach (xs @ [x]) f = oseq (oforeach xs f) (f x)"
proof (induction xs)
  case Nil
  then show ?case by (rule ext) (simp add: oseq_apply oret_def split: prod.splits sum.splits)
next
  case (Cons y ys)
  then show ?case by (intro ext) (simp add: oseq_apply split: prod.splits sum.splits)
qed

text \<open>The records a log holds: the last one, and those before it that were fresh when it came.\<close>

definition window_log :: "int \<Rightarrow> dict list \<Rightarrow> dict list" where
  "window_log now rs =
     (case rev rs of [] \<Rightarrow> [] | r # older \<Rightarrow> map safe_record (filter (fresh now) (rev older) @ [r]))"

lemma append_all:
  assumes "list_all datable rs" and "au_store s = None"
  shows "\<exists>t now. oforeach rs async_append_record s = (Inr (), t) \<and> now \<le> w_now t \<and> (rs = [] \<longrightarrow> t = s) \<and>
    (rs \<noteq> [] \<longrightarrow> now = w_now (snd (oforeach (butlast rs) async_append_record s)) \<and> au_store t = Some (window_log now rs))"
  using assms(1)
proof (induction rs rule: rev_induct)
  case Nil
  then show ?case by (auto simp: oret_def)
next
  case (snoc r rs)
  from snoc obtain t now where t: "oforeach rs async_append_record s = (Inr (), t)" "now \<le> w_now t"
    "rs = [] \<longrightarrow> t = s" "rs \<noteq> [] \<longrightarrow> au_store t = Some (window_log now rs)" by auto
  let ?l = "case au_store t of None \<Rightarrow> [] | Some l \<Rightarrow> l"
  have l: "?l = window_log now rs" using t(3,4) assms(2) by (cases "rs = []") (auto simp: window_log_def)
  have "list_all datable ?l" unfolding l window_log_def using snoc.prems
    by (cases rs rule: rev_cases) (auto simp: list_all_iff datable_safe)
  moreover have "filter (fresh (w_now t)) ?l = map safe_record (filter (fresh (w_now t)) rs)"
  proof -
    have "(fresh now x \<and> fresh (w_now t) x) = fresh (w_now t) x" for x using fresh_earlier [OF _ t(2)] by blast
    then show ?thesis unfolding l window_log_def
      by (cases rs rule: rev_cases) (simp_all add: filter_map comp_def fresh_safe)
  qed
  ultimately have "async_append_record r t = (Inr (), (snd (utc_now t))
      \<lparr>au_store := Some (map safe_record (filter (fresh (w_now t)) rs) @ [safe_record r])\<rparr>)"
    using unexpired_datable by (simp add: append_step)
  then have "oforeach (rs @ [r]) async_append_record s = (Inr (), (snd (utc_now t))
      \<lparr>au_store := Some (window_log (w_now t) (rs @ [r]))\<rparr>)"
    using t(1) by (simp add: oforeach_snoc oseq_apply window_log_def)
  then show ?case using t(1)
    by (intro exI [where x = "w_now t"] exI conjI) (auto simp: utc_now_def split: list.split)
qed

text \<open>
  C29. The audit log is a window of what was appended: after any sequence of appends it holds the last
  record and exactly those before it that were at most \<open>AGENT_AUDIT_RETENTION_DAYS\<close> days old when the last
  one came, in order, each projected to the fields of its event and redacted.
\<close>

theorem audit_log_is_window:
  assumes "list_all datable (rs @ [r])" and "au_store s = None"
  shows "\<exists>t. oforeach (rs @ [r]) async_append_record s = (Inr (), t) \<and>
    au_store t = Some (map safe_record
      (filter (fresh (w_now (snd (oforeach rs async_append_record s)))) rs @ [r]))"
  using append_all [OF assms] by (auto simp: window_log_def)

text \<open>A record, and an old one with a secret and a field no event has.\<close>

definition query_record :: dict where
  "query_record = [(''event'', VStr ''assist_query''), (''intent'', VStr ''energy''), (''timestamp'', VTime (- 5000000000000))]"

definition leaky_record :: dict where
  "leaky_record = [(''event'', VStr ''assist_query''), (''intent'', VStr ''token=abc''), (''utterance'', VStr ''hello''),
     (''timestamp'', VTime 0)]"

definition quiet_log :: audited where
  "quiet_log = \<lparr>w_graph = empty_graph, w_net = [], w_now = 0, w_ticks = [], w_sleeps = [], w_open = False,
     au_store = None\<rparr>"

theorem audit_log_is_window_witness:
  "\<exists>t. oforeach [query_record, leaky_record] async_append_record quiet_log = (Inr (), t) \<and>
     au_store t = Some [[(''event'', VStr ''assist_query''), (''timestamp'', VTime 0),
       (''intent'', VStr ''token=**REDACTED**'')]]"
proof -
  have "list_all datable ([query_record] @ [leaky_record])"
    by (simp add: datable_def query_record_def leaky_record_def dget_def)
  moreover have "map safe_record (filter (fresh (w_now (snd (oforeach [query_record] async_append_record
      quiet_log)))) [query_record] @ [leaky_record]) =
      [[(''event'', VStr ''assist_query''), (''timestamp'', VTime 0), (''intent'', VStr ''token=**REDACTED**'')]]"
    by code_simp
  moreover have "au_store quiet_log = None" by (simp add: quiet_log_def)
  ultimately show ?thesis
    using audit_log_is_window [of "[query_record]" leaky_record quiet_log] by simp
qed

text \<open>
  Whatever is appended, with whatever time stamps, nothing but redacted values of the allowed fields
  reaches the log.
\<close>

theorem audit_log_redacted:
  fixes s :: "'z audited_scheme"
  assumes "au_store s = None" and "au_store (snd (oforeach rs async_append_record s)) = Some stored" and "q \<in> set stored"
  shows "list_all entry_redacted (nested_entries (VDict q)) \<and>
    (\<exists>r. r \<in> set rs \<and> fst ` set q \<subseteq> set (allowed_fields r) \<inter> fst ` set r)"
proof -
  let ?P = "\<lambda>s :: 'z audited_scheme. \<forall>lg q. au_store s = Some lg \<longrightarrow> q \<in> set lg \<longrightarrow> q \<in> safe_record ` set rs"
  have sub: "unexpired now xs = Inr ys \<Longrightarrow> set ys \<subseteq> set xs" for now xs ys
    by (induction xs arbitrary: ys) (auto split: sum.splits if_splits)
  have k: "keeps ?P (oforeach rs async_append_record)"
  proof (rule keeps_oforeach_mem, rule keepsI)
    fix r and s :: "'z audited_scheme" assume r: "r \<in> set rs" and p: "?P s"
    show "?P (snd (async_append_record r s))"
      using p r by (auto simp: append_step utc_now_def split: sum.splits option.splits dest!: sub)
  qed
  have "?P s" using assms(1) by simp
  from keepsD [OF k this] assms(2,3) obtain r where r: "r \<in> set rs" and q: "q = safe_record r" by auto
  have "fst ` set q \<subseteq> set (allowed_fields r) \<inter> fst ` set r"
    unfolding q safe_record_def redact_items_fields by force
  then show ?thesis using r safe_record_redacted unfolding q by blast
qed

theorem audit_log_redacted_witness:
  "list_all entry_redacted (nested_entries (VDict (safe_record leaky_record)))"
proof -
  have "au_store (snd (oforeach [leaky_record] async_append_record quiet_log)) = Some [safe_record leaky_record]"
    by code_simp
  moreover have "au_store quiet_log = None" by (simp add: quiet_log_def)
  ultimately show ?thesis using audit_log_redacted [of quiet_log "[leaky_record]" "[safe_record leaky_record]"] by auto
qed

section \<open>The summary\<close>

definition count_in :: "summary \<Rightarrow> pval \<Rightarrow> pval \<Rightarrow> nat" where
  "count_in summary event status =
     (case map_of summary event of None \<Rightarrow> 0
      | Some counts \<Rightarrow> (case map_of counts status of None \<Rightarrow> 0 | Some n \<Rightarrow> n))"

definition of_kind :: "pval \<Rightarrow> pval \<Rightarrow> dict \<Rightarrow> bool" where
  "of_kind event status r \<longleftrightarrow> field_or (VStr ''unknown'') r ''event'' = event \<and>
     field_or (VStr ''unknown'') r ''status'' = status"

lemma count_record_in:
  "count_record r summary = Inr summary' \<Longrightarrow>
   count_in summary' event status = count_in summary event status + (if of_kind event status r then 1 else 0)"
  by (auto simp: count_record_def count_in_def of_kind_def Let_def split: if_splits option.splits)

lemma count_records_in:
  "count_records rs summary = Inr summary' \<Longrightarrow>
   count_in summary' event status = count_in summary event status + length (filter (of_kind event status) rs)"
  by (induction rs arbitrary: summary) (auto dest!: count_record_in [where event = event and status = status] split: sum.splits)

text \<open>
  The summary of the diagnostics counts the records: for every event and status the number of stored
  records with them, a missing field counted as unknown.
\<close>

theorem summary_counts:
  assumes "async_summarize s = (Inr summary, t)"
  shows "count_in summary event status =
    length (filter (of_kind event status) (case au_store s of None \<Rightarrow> [] | Some lg \<Rightarrow> lg)) \<and> t = s"
proof -
  from assms have "count_records (case au_store s of None \<Rightarrow> [] | Some lg \<Rightarrow> lg) [] = Inr summary" and "t = s"
    by (auto simp: async_summarize_def async_get_records_def load_records_def from_sum_def oget_def
        elim!: obind_result split: sum.splits)
  then show ?thesis using count_records_in [of _ "[]" summary event status] by (simp add: count_in_def)
qed

theorem summary_counts_witness:
  "\<exists>summary. fst (async_summarize (quiet_log\<lparr>au_store := Some [query_record, query_record]\<rparr>)) = Inr summary \<and>
     count_in summary (VStr ''assist_query'') (VStr ''unknown'') = 2"
proof -
  let ?s = "quiet_log\<lparr>au_store := Some [query_record, query_record]\<rparr>"
  have r: "async_summarize ?s = (Inr [(VStr ''assist_query'', [(VStr ''unknown'', 2)])], ?s)" by code_simp
  have "length (filter (of_kind (VStr ''assist_query'') (VStr ''unknown'')) [query_record, query_record]) = 2"
    by code_simp
  then show ?thesis using summary_counts [OF r] r by simp
qed

end
