(* ===== verification/Impact_Analysis.thy ===== *)
theory Impact_Analysis
  imports Query_Tools Agent_Audit
begin

text \<open>
  \<open>impact_analysis.py\<close>: what depends on an entity, a device or an area.  A device gathers its entities, an
  area its devices and the entities directly in it; the gathered lists are merged without duplicates and
  bounded.  \<open>asyncio.gather\<close> is modelled as one query after the other: all of them only read.
\<close>

section \<open>The dependencies of one entity\<close>

definition DEPENDENCY_KEYS :: "string list" where
  "DEPENDENCY_KEYS = [''automations'', ''scripts'', ''scenes'', ''dashboards'', ''semantic_assets'']"

definition EMPTY_DEPENDENCIES :: dict where
  "EMPTY_DEPENDENCIES = map (\<lambda>key. (key, VList [])) DEPENDENCY_KEYS"

definition no_dependencies_warning :: string where
  "no_dependencies_warning = ''no known dependencies found''"

text \<open>\<open>d.get(key) or []\<close> of a dictionary of lists.\<close>

definition list_at :: "dict \<Rightarrow> string \<Rightarrow> pval list" where
  "list_at d key = (case dget d key of VList xs \<Rightarrow> xs | _ \<Rightarrow> [])"

definition value_or :: "pval \<Rightarrow> pval \<Rightarrow> pval" where
  "value_or a b = (if truthy a then a else b)"

definition node_ref :: "pval \<Rightarrow> exn + pval" where
  "node_ref value =
     (case node_properties value of
        Inl e \<Rightarrow> Inl e
      | Inr None \<Rightarrow> Inr VNone
      | Inr (Some p) \<Rightarrow> Inr (VDict
          [(''ha_id'', dget p ''ha_id''),
           (''name'', value_or (dget p ''name'') (value_or (dget p ''title'') (dget p ''ha_id'')))]))"

definition resolve_node :: "string \<Rightarrow> string \<Rightarrow> ('z, dict option) wop" where
  "resolve_node label identifier =
     obind (run_query (read_stmt (\<lambda>g. map node_value (take 1 (matching label identifier g))))) (\<lambda>rows.
       case rows of [] \<Rightarrow> oret None | n # _ \<Rightarrow> from_sum (node_properties n))"

text \<open>The one row of the traversal, if the entity is a node.\<close>

definition dependency_rows :: "string \<Rightarrow> graph \<Rightarrow> dict list" where
  "dependency_rows entity_id g =
     (let e = (LABEL_ENTITY, entity_id);
          references = (\<lambda>label. sources_of g label [REL_REFERENCES, REL_CONTROLS] e);
          cards = sources_of g LABEL_DASHBOARD_CARD [REL_DISPLAYS_ENTITY] e;
          collected = (\<lambda>ks. VList (map node_value (nodes_of g ks)))
      in if \<not> has_node g e then []
         else [[(''automations'', collected (references LABEL_AUTOMATION)),
                (''scripts'', collected (references LABEL_SCRIPT)),
                (''scenes'', collected (references LABEL_SCENE)),
                (''dashboards'', collected
                   (concat (map (\<lambda>card. sources_of g LABEL_DASHBOARD [REL_CONTAINS_CARD] card) cards))),
                (''semantic_assets'', collected (targets_of g e [REL_CLASSIFIED_AS] (\<lambda>_. True)))]])"

definition key_words :: "string \<Rightarrow> string" where
  "key_words key = map (\<lambda>c. if c = CHR ''_'' then CHR '' '' else c) key"

definition shape_dependencies :: "dict \<Rightarrow> exn + dict" where
  "shape_dependencies row =
     (case each (\<lambda>key. case each node_ref (filter truthy (list_at row key)) of
             Inl e \<Rightarrow> Inl e | Inr refs \<Rightarrow> Inr (key, refs)) DEPENDENCY_KEYS of
        Inl e \<Rightarrow> Inl e
      | Inr dependencies \<Rightarrow> Inr
          (map (\<lambda>(key, refs). (key, VList (take DEFAULT_QUERY_LIMIT refs))) dependencies @
           [(''_warnings'', VList (map (\<lambda>(key, refs). VStr (key_words key @ '' truncated to '' @
               str_of_nat DEFAULT_QUERY_LIMIT @ '' items''))
              (filter (\<lambda>(key, refs). DEFAULT_QUERY_LIMIT < length refs) dependencies)))]))"

definition entity_dependencies :: "string \<Rightarrow> ('z, dict) wop" where
  "entity_dependencies entity_id =
     obind (run_query_limited (read_stmt (dependency_rows entity_id)) MAX_QUERY_LIMIT) (\<lambda>(rows, _).
       case rows of [] \<Rightarrow> oret EMPTY_DEPENDENCIES | row # _ \<Rightarrow> from_sum (shape_dependencies row))"

section \<open>Merging\<close>

text \<open>
  The loop over the items of one key, with what is merged and what has been seen.  The loops over the
  dictionaries and over the keys may change places, since the keys share nothing.
\<close>

fun item_id :: "pval \<Rightarrow> pval" where
  "item_id (VDict d) = dget d ''ha_id''"
| "item_id _ = VNone"

fun merge_items :: "pval list \<Rightarrow> pval list \<Rightarrow> pval list \<Rightarrow> pval list" where
  "merge_items merged seen [] = merged"
| "merge_items merged seen (item # items) =
     (if item = VNone then merge_items merged seen items
      else if item_id item \<in> set seen then merge_items merged seen items
      else merge_items (if length merged < DEFAULT_QUERY_LIMIT then merged @ [item] else merged)
             (item_id item # seen) items)"

definition merge_dependencies :: "dict list \<Rightarrow> dict" where
  "merge_dependencies dependency_dicts =
     map (\<lambda>key. (key, VList (merge_items [] [] (concat (map (\<lambda>deps. list_at deps key) dependency_dicts)))))
       DEPENDENCY_KEYS @
     [(''_warnings'', VList (keep_first (concat (map (\<lambda>deps. list_at deps ''_warnings'') dependency_dicts))))]"

section \<open>The answer\<close>

definition build_result :: "string \<Rightarrow> pval list \<Rightarrow> pval list \<Rightarrow> dict \<Rightarrow> pval \<Rightarrow> exn + dict" where
  "build_result scope affected_entities affected_devices dependencies current_area =
     (let result =
        [(''scope'', VStr scope), (''affected_entities'', VList affected_entities),
         (''affected_devices'', VList affected_devices)] @
        map (\<lambda>key. (key, dget dependencies key)) DEPENDENCY_KEYS @
        [(''has_dependencies'', VBool (\<exists>key \<in> set DEPENDENCY_KEYS. truthy (dget dependencies key)))]
      in if current_area = VNone then Inr result
         else (case node_ref current_area of
                 Inl e \<Rightarrow> Inl e | Inr r \<Rightarrow> Inr (result @ [(''current_area'', r)])))"

fun text_value :: "pval \<Rightarrow> string" where
  "text_value (VStr s) = s"
| "text_value _ = []"

definition warnings_for :: "dict \<Rightarrow> dict \<Rightarrow> string list" where
  "warnings_for result dependencies =
     map text_value (list_at dependencies ''_warnings'') @
     (if truthy (dget result ''has_dependencies'') then [] else [no_dependencies_warning])"

definition impact_result :: "string \<Rightarrow> exn + dict \<Rightarrow> dict \<Rightarrow> ('z, dict) wop" where
  "impact_result target result dependencies =
     obind (from_sum result) (\<lambda>r.
       oret (build_tool_result target RESULT_TYPE_IMPACT_ANALYSIS (VDict r) (warnings_for r dependencies) OUTCOME_OK))"

definition analyze_entity :: "string \<Rightarrow> ('z, dict) wop" where
  "analyze_entity target =
     obind (resolve_node LABEL_ENTITY target) (\<lambda>entity.
       case entity of
         None \<Rightarrow> oret (not_found_result target)
       | Some e \<Rightarrow> obind (entity_dependencies (text_value (dget e ''ha_id''))) (\<lambda>dependencies.
           impact_result target (build_result IMPACT_SCOPE_ENTITY [] [] dependencies VNone) dependencies))"

text \<open>The rows of the entities of a device, each with every area of the device, or none.\<close>

definition device_entity_rows :: "string \<Rightarrow> graph \<Rightarrow> (pval \<times> pval) list" where
  "device_entity_rows device_id g =
     (let d = (LABEL_DEVICE, device_id);
          entities = targets_of g d [REL_HAS_ENTITY] (\<lambda>l. l = LABEL_ENTITY);
          areas = sources_of g LABEL_AREA [REL_HAS_DEVICE] d;
          value = (\<lambda>k. node_value (k, or_empty (node g k)))
      in concat (map (\<lambda>e. if areas = [] then [(value e, VNone)]
           else map (\<lambda>a. (value e, value a)) areas) entities))"

definition cut_warning :: "string \<Rightarrow> 'a list \<Rightarrow> string list" where
  "cut_warning name rows =
     (if DEFAULT_QUERY_LIMIT < length rows
      then [name @ '' truncated to '' @ str_of_nat DEFAULT_QUERY_LIMIT @ '' items''] else [])"

definition add_warnings :: "dict \<Rightarrow> string list \<Rightarrow> dict" where
  "add_warnings merged ws = dset ''_warnings'' (VList (list_at merged ''_warnings'' @ map VStr ws)) merged"

definition properties_of :: "pval list \<Rightarrow> exn + dict list" where
  "properties_of values =
     each (\<lambda>v. case node_properties v of Inl e \<Rightarrow> Inl e | Inr p \<Rightarrow> Inr (or_empty p)) (filter (\<lambda>v. v \<noteq> VNone) values)"

definition analyze_device :: "string \<Rightarrow> ('z, dict) wop" where
  "analyze_device target =
     obind (resolve_node LABEL_DEVICE target) (\<lambda>device.
       case device of
         None \<Rightarrow> oret (not_found_result target)
       | Some d \<Rightarrow>
           obind (run_query (read_stmt (device_entity_rows (text_value (dget d ''ha_id''))))) (\<lambda>entity_rows.
           obind (from_sum (properties_of (map fst (take DEFAULT_QUERY_LIMIT entity_rows)))) (\<lambda>entities.
           obind (from_sum (properties_of (take 1 (filter (\<lambda>a. a \<noteq> VNone) (map snd entity_rows))))) (\<lambda>areas.
           let current_area = (case areas of [] \<Rightarrow> VNone | a # _ \<Rightarrow> VDict a) in
           obind (omap (\<lambda>e. entity_dependencies (text_value (dget e ''ha_id''))) entities) (\<lambda>dependency_dicts.
           let merged = merge_dependencies dependency_dicts;
               merged = (if DEFAULT_QUERY_LIMIT < length entity_rows
                 then add_warnings merged (cut_warning ''affected entities'' entity_rows) else merged)
           in impact_result target
                (build_result IMPACT_SCOPE_DEVICE (map (\<lambda>e. dget e ''ha_id'') entities) [] merged current_area)
                merged)))))"

definition area_devices :: "string \<Rightarrow> graph \<Rightarrow> pval list" where
  "area_devices area_id g = map (\<lambda>k. node_value (k, or_empty (node g k)))
     (targets_of g (LABEL_AREA, area_id) [REL_HAS_DEVICE] (\<lambda>l. l = LABEL_DEVICE))"

definition area_entities :: "string \<Rightarrow> graph \<Rightarrow> pval list" where
  "area_entities area_id g = map (\<lambda>k. node_value (k, or_empty (node g k)))
     (sources_of g LABEL_ENTITY [REL_HAS_AREA] (LABEL_AREA, area_id))"

text \<open>\<open>device_result.get("result") or {}\<close>\<close>

definition inner_result :: "dict \<Rightarrow> dict" where
  "inner_result device_result = (case dget device_result ''result'' of VDict d \<Rightarrow> d | _ \<Rightarrow> [])"

definition analyze_area :: "string \<Rightarrow> ('z, dict) wop" where
  "analyze_area target =
     obind (resolve_node LABEL_AREA target) (\<lambda>area.
       case area of
         None \<Rightarrow> oret (not_found_result target)
       | Some a \<Rightarrow>
           let area_id = text_value (dget a ''ha_id'') in
           obind (run_query (read_stmt (area_devices area_id))) (\<lambda>device_rows.
           obind (from_sum (properties_of device_rows)) (\<lambda>devices.
           obind (omap (\<lambda>d. analyze_device (text_value (dget d ''ha_id''))) (take DEFAULT_QUERY_LIMIT devices))
             (\<lambda>device_results.
           let inner = map inner_result device_results in
           obind (run_query (read_stmt (area_entities area_id))) (\<lambda>direct_entity_rows.
           obind (from_sum (properties_of (take DEFAULT_QUERY_LIMIT direct_entity_rows))) (\<lambda>direct_entities.
           obind (omap (\<lambda>e. entity_dependencies (text_value (dget e ''ha_id''))) direct_entities) (\<lambda>direct.
           let affected = concat (map (\<lambda>d. list_at d ''affected_entities'') inner) @
                 map (\<lambda>e. dget e ''ha_id'') direct_entities;
               merged = merge_dependencies (inner @ direct);
               merged = (if DEFAULT_QUERY_LIMIT < length device_rows
                 then add_warnings merged (cut_warning ''affected devices'' device_rows) else merged);
               merged = (if DEFAULT_QUERY_LIMIT < length direct_entity_rows
                 then add_warnings merged (cut_warning ''direct entities'' direct_entity_rows) else merged)
           in impact_result target
                (build_result IMPACT_SCOPE_AREA
                   (map VStr (sort (remdups (map text_value affected))))
                   (map (\<lambda>d. dget d ''ha_id'') (take DEFAULT_QUERY_LIMIT devices)) merged VNone)
                merged)))))))"

section \<open>The audited entry point\<close>

text \<open>\<open>type(err).__name__\<close>; the class of another driver error is its base class here.\<close>

fun error_class :: "exn \<Rightarrow> string" where
  "error_class (CannotConnect _) = ''CannotConnect''"
| "error_class (InvalidAuth _) = ''InvalidAuth''"
| "error_class (TransientError _) = ''TransientError''"
| "error_class (DriverError _) = ''Neo4jError''"
| "error_class (ValueError _) = ''ValueError''"
| "error_class (QueryRejected _) = ''QueryRejected''"
| "error_class (OverrideImportRejected _) = ''OverrideImportRejected''"
| "error_class (EnergyRoleRejected _) = ''EnergyRoleRejected''"
| "error_class (OperationInProgress _) = ''OperationInProgress''"
| "error_class (UpdateFailed _) = ''UpdateFailed''"
| "error_class (TypeError _) = ''TypeError''"
| "error_class (KeyError _) = ''KeyError''"
| "error_class (IndexError _) = ''IndexError''"
| "error_class (AttributeError _) = ''AttributeError''"
| "error_class (OverflowError _) = ''OverflowError''"
| "error_class (GraphBackendUnavailable _) = ''GraphBackendUnavailable''"
| "error_class (ServiceValidationError _) = ''ServiceValidationError''"
| "error_class (ConfigEntryNotReady _) = ''ConfigEntryNotReady''"

definition analysis_record :: "string \<Rightarrow> string \<Rightarrow> nat \<Rightarrow> pval \<Rightarrow> bool \<Rightarrow> pval \<Rightarrow> dict" where
  "analysis_record scope status result_count error_category has_dependencies timestamp =
     [(''event'', VStr ''impact_analysis''), (''scope'', VStr scope), (''status'', VStr status),
      (''result_count'', VInt (int result_count)), (''error_category'', error_category),
      (''has_dependencies'', VBool has_dependencies), (''timestamp'', timestamp)]"

definition analyze_scope :: "string \<Rightarrow> string \<Rightarrow> ('z, dict) wop" where
  "analyze_scope scope target =
     (if scope = IMPACT_SCOPE_ENTITY then analyze_entity target
      else if scope = IMPACT_SCOPE_DEVICE then analyze_device target
      else if scope = IMPACT_SCOPE_AREA then analyze_area target
      else oraise (ValueError ''Unknown impact analysis scope''))"

text \<open>
  \<open>analyze\<close>: the flag says that \<open>hass\<close> and \<open>entry_id\<close> were given.  An error is recorded and raised again; the
  record of an error does not raise in its turn unless the log does.
\<close>

definition analyze :: "string \<Rightarrow> string \<Rightarrow> bool \<Rightarrow> ('z, dict) aop" where
  "analyze scope target audit =
     obind (otry (analyze_scope scope target) (\<lambda>err.
       oseq (if audit
             then obind utc_now (\<lambda>now. async_append_record
                    (analysis_record scope ''error'' 0 (VStr (error_class err)) False (VTime now)))
             else oret ())
         (oraise err))) (\<lambda>tool_result.
       let result = inner_result tool_result; not_found = (dget tool_result ''result_type'' = VStr RESULT_TYPE_NOT_FOUND)
       in oseq (if audit
                then obind utc_now (\<lambda>now. async_append_record
                  (analysis_record scope (if not_found then ''not_found'' else ''resolved'')
                     (if not_found then 0 else count_results (VDict result)) VNone
                     (truthy (dget result ''has_dependencies'')) (VTime now)))
                else oret ())
            (oret tool_result))"

section \<open>Merging keeps the first of each id\<close>

fun first_by :: "('a \<Rightarrow> 'b) \<Rightarrow> 'a list \<Rightarrow> 'a list" where
  "first_by f [] = []"
| "first_by f (x # xs) = x # filter (\<lambda>y. f y \<noteq> f x) (first_by f xs)"

lemma merge_items_eq:
  "length merged \<le> DEFAULT_QUERY_LIMIT \<Longrightarrow>
   merge_items merged seen items = merged @ take (DEFAULT_QUERY_LIMIT - length merged)
     (filter (\<lambda>i. item_id i \<notin> set seen) (first_by item_id (filter (\<lambda>i. i \<noteq> VNone) items)))"
proof (induction merged seen items rule: merge_items.induct)
  case (1 merged seen)
  then show ?case by simp
next
  case (2 merged seen item items)
  show ?case
  proof (cases "item = VNone \<or> item_id item \<in> set seen")
    case True
    have "filter (\<lambda>i. item_id i \<notin> set seen) (filter (\<lambda>i. item_id i \<noteq> item_id item) xs) =
        filter (\<lambda>i. item_id i \<notin> set seen) xs" if "item_id item \<in> set seen" for xs
      using that by (induction xs) auto
    then show ?thesis using True 2 by auto
  next
    case False
    have f: "filter (\<lambda>i. item_id i \<notin> set seen) (filter (\<lambda>i. item_id i \<noteq> item_id item) xs) =
        filter (\<lambda>i. item_id i \<notin> set (item_id item # seen)) xs" for xs
      by (induction xs) auto
    show ?thesis
    proof (cases "length merged < DEFAULT_QUERY_LIMIT")
      case True
      then have "DEFAULT_QUERY_LIMIT - length merged = Suc (DEFAULT_QUERY_LIMIT - length (merged @ [item]))" by simp
      then show ?thesis using False True 2(3) 2(4) f by simp
    next
      case full: False
      then show ?thesis using False 2(3) 2(4) f by simp
    qed
  qed
qed

lemma list_at_merged:
  "key \<in> set DEPENDENCY_KEYS \<Longrightarrow> list_at (merge_dependencies ds) key =
     merge_items [] [] (concat (map (\<lambda>d. list_at d key) ds))"
  by (auto simp: DEPENDENCY_KEYS_def merge_dependencies_def list_at_def dget_def)

text \<open>
  The merged dependencies of a device or an area are exactly the first of each id, up to the limit: for
  every kind of dependency, in the order of the gathered lists, nothing doubled and nothing left out below
  the limit.
\<close>

theorem merged_dependencies_exact:
  "map (list_at (merge_dependencies ds)) DEPENDENCY_KEYS =
   map (\<lambda>key. take DEFAULT_QUERY_LIMIT (first_by item_id
      (filter (\<lambda>i. i \<noteq> VNone) (concat (map (\<lambda>d. list_at d key) ds))))) DEPENDENCY_KEYS"
  by (rule map_cong [OF refl]) (simp add: list_at_merged merge_items_eq)

section \<open>An analysis only reads\<close>

definition undisturbed :: "graph \<Rightarrow> dict list option \<Rightarrow> 'z audited_scheme \<Rightarrow> bool" where
  "undisturbed g l w \<longleftrightarrow> w_graph w = g \<and> au_store w = l"

lemma keeps_read [keeps_intros]: "keeps (undisturbed g l) (run_query (read_stmt f))"
  by (rule keepsI) (auto simp: undisturbed_def run_query_eq read_stmt_def split: list.splits net.splits)

lemma keeps_from_sum [keeps_intros]: "keeps P (from_sum r)"
  by (cases r) (auto intro: keeps_intros)

lemma keeps_read_limited [keeps_intros]: "keeps (undisturbed g l) (run_query_limited (read_stmt f) n)"
  unfolding run_query_limited_def by (intro keeps_intros)

lemma keeps_resolve_node [keeps_intros]: "keeps (undisturbed g l) (resolve_node label i)"
  unfolding resolve_node_def by (intro keeps_intros)

lemma keeps_entity_dependencies [keeps_intros]: "keeps (undisturbed g l) (entity_dependencies e)"
  unfolding entity_dependencies_def by (intro keeps_intros)

lemma keeps_impact_result [keeps_intros]: "keeps P (impact_result target r d)"
  unfolding impact_result_def by (intro keeps_intros)

lemma keeps_analyze_entity [keeps_intros]: "keeps (undisturbed g l) (analyze_entity target)"
  unfolding analyze_entity_def by (intro keeps_intros)

lemma keeps_analyze_device [keeps_intros]: "keeps (undisturbed g l) (analyze_device target)"
  unfolding analyze_device_def by (intro keeps_intros)

lemma keeps_analyze_area [keeps_intros]: "keeps (undisturbed g l) (analyze_area target)"
  unfolding analyze_area_def by (intro keeps_intros)

lemma keeps_analyze_scope: "keeps (undisturbed g l) (analyze_scope scope target)"
  unfolding analyze_scope_def by (intro keeps_intros)

abbreviation stored :: "'z audited_scheme \<Rightarrow> dict list" where
  "stored s \<equiv> (case au_store s of None \<Rightarrow> [] | Some l \<Rightarrow> l)"

lemma append_datable:
  "list_all datable (stored s) \<Longrightarrow> obind utc_now (\<lambda>now. async_append_record (f now)) s =
     (Inr (), (snd (utc_now (snd (utc_now s))))\<lparr>au_store := Some
        (filter (fresh (w_now (snd (utc_now s)))) (stored s) @ [safe_record (f (w_now s))])\<rparr>)"
  by (simp add: obind_def utc_now_def append_step unexpired_datable)

text \<open>A reading operation whose end, good or bad, is recorded.\<close>

lemma audited_once:
  fixes s :: "'z audited_scheme"
  assumes "list_all datable (stored s)" and keeps: "\<And>g l. keeps (undisturbed g l) m"
    and run: "obind (otry m (\<lambda>err. oseq (obind utc_now (\<lambda>now. async_append_record (failed err now))) (oraise err)))
      (\<lambda>x. oseq (obind utc_now (\<lambda>now. async_append_record (ended x now))) (oret (f x))) s = (r, t)"
  shows "w_graph t = w_graph s \<and> (\<exists>now entry. au_store t = Some (filter (fresh now) (stored s) @ [safe_record entry]) \<and>
    ((\<exists>e. r = Inl e \<and> (\<exists>n. entry = failed e n)) \<or> (\<exists>x. r = Inr (f x) \<and> (\<exists>n. entry = ended x n))))"
proof -
  obtain q u where q: "m s = (q, u)" by (cases "m s")
  have u: "w_graph u = w_graph s" "au_store u = au_store s"
    using keeps_step [OF keeps [of "w_graph s" "au_store s"] _ q] by (simp_all add: undisturbed_def)
  have d: "list_all datable (stored u)" using assms(1) u by simp
  have g: "w_graph (snd (utc_now w)) = w_graph w" for w :: "'z audited_scheme" by (simp add: utc_now_def)
  show ?thesis
  proof (cases q)
    case (Inl e)
    then have "r = Inl e" "t = (snd (utc_now (snd (utc_now u))))\<lparr>au_store := Some
        (filter (fresh (w_now (snd (utc_now u)))) (stored u) @ [safe_record (failed e (w_now u))])\<rparr>"
      using run q append_datable [OF d]
      by (simp_all add: obind_def [of "otry _ _"] otry_def oseq_apply oraise_def)
    then show ?thesis using u g by auto
  next
    case (Inr x)
    then have "r = Inr (f x)" "t = (snd (utc_now (snd (utc_now u))))\<lparr>au_store := Some
        (filter (fresh (w_now (snd (utc_now u)))) (stored u) @ [safe_record (ended x (w_now u))])\<rparr>"
      using run q append_datable [OF d]
      by (simp_all add: obind_def [of "otry _ _"] otry_def oseq_apply oret_def)
    then show ?thesis using u g by auto
  qed
qed

lemma analysis_record_fields:
  "dget (safe_record (analysis_record scope status n e h t)) ''event'' = VStr ''impact_analysis''"
  "dget (safe_record (analysis_record scope status n e h t)) ''status'' = redact_value (VStr status)"
proof -
  let ?r = "analysis_record scope status n e h t"
  have s: "\<not> secret_key_search ''event''" "\<not> secret_key_search ''status''"
    and v: "redact_value (VStr ''impact_analysis'') = VStr ''impact_analysis''" by code_simp+
  have f: "''event'' \<in> set (allowed_fields ?r)" "''status'' \<in> set (allowed_fields ?r)"
    using common_allowed by (force simp: COMMON_FIELDS_def)+
  have d: "dget ?r ''event'' = VStr ''impact_analysis''" "dget ?r ''status'' = VStr status"
    by (simp_all add: analysis_record_def dget_def)
  show "dget (safe_record ?r) ''event'' = VStr ''impact_analysis''" by (simp only: dget_safe [OF f(1) s(1)] d v)
  show "dget (safe_record ?r) ''status'' = redact_value (VStr status)" by (simp only: dget_safe [OF f(2) s(2)] d)
qed

text \<open>
  An analysis changes nothing in the graph, and it is recorded exactly once, however it ends: the log loses
  what has expired and gains one entry, whose status is an error exactly when the analysis raised.
\<close>

theorem analysis_audited_once:
  assumes "list_all datable (stored s)" and "analyze scope target True s = (r, t)"
  shows "w_graph t = w_graph s \<and> (\<exists>now entry. au_store t = Some (filter (fresh now) (stored s) @ [entry]) \<and>
    dget entry ''event'' = VStr ''impact_analysis'' \<and> (dget entry ''status'' = VStr ''error'' \<longleftrightarrow> isl r))"
proof -
  have st: "redact_value (VStr ''error'') = VStr ''error''" "redact_value (VStr ''not_found'') = VStr ''not_found''"
    "redact_value (VStr ''resolved'') = VStr ''resolved''" by code_simp+
  have "redact_value (VStr (if b then ''not_found'' else ''resolved'')) \<noteq> VStr ''error''" for b using st by simp
  then show ?thesis
    using audited_once [OF assms(1) keeps_analyze_scope assms(2) [unfolded analyze_def Let_def if_True]]
      analysis_record_fields st(1) by fastforce
qed

theorem analysis_audited_once_witness:
  "\<exists>entry. au_store (snd (analyze IMPACT_SCOPE_ENTITY ''light.hall'' True quiet_log)) = Some [entry] \<and>
     dget entry ''event'' = VStr ''impact_analysis''"
  using analysis_audited_once [OF _ surjective_pairing, of quiet_log IMPACT_SCOPE_ENTITY "''light.hall''"]
  by (auto simp: quiet_log_def)

section \<open>What the audit and the area do not see\<close>

lemma impact_result_inner:
  assumes "impact_result target result deps s = (Inr r, t)"
  obtains x where "result = Inr x" and "inner_result r = redact_items x"
    and "dget r ''result_type'' = VStr RESULT_TYPE_IMPACT_ANALYSIS"
proof (cases result)
  case (Inl e)
  then show ?thesis using assms by (simp add: impact_result_def obind_def oraise_def)
next
  case (Inr x)
  then have "r = build_tool_result target RESULT_TYPE_IMPACT_ANALYSIS (VDict x) (warnings_for x deps) OUTCOME_OK"
    using assms by (simp add: impact_result_def obind_def oret_def)
  then show ?thesis using that Inr by (simp add: inner_result_def build_tool_result_def dget_def)
qed

lemma not_found_type: "dget (not_found_result target) ''result_type'' = VStr RESULT_TYPE_NOT_FOUND"
  by (simp add: not_found_result_def build_tool_result_def dget_def)

lemma result_start:
  "build_result scope affected devices deps area = Inr x \<Longrightarrow>
   \<exists>rest. x = (''scope'', VStr scope) # (''affected_entities'', VList affected) # rest"
  by (auto simp: build_result_def Let_def split: if_splits sum.splits)

lemma result_first_list:
  assumes "build_result scope affected devices deps area = Inr x"
  shows "first_list_length (redact_items x) = length affected"
proof -
  obtain rest where x: "x = (''scope'', VStr scope) # (''affected_entities'', VList affected) # rest"
    using result_start [OF assms] by blast
  have l: "length (redact_list xs) = length xs" for xs by (induction xs) auto
  have s: "\<not> secret_key_search ''affected_entities''" by code_simp
  show ?thesis unfolding x by (simp add: l s del: secret_key_search.simps)
qed

text \<open>
  The number of results an audit record shows for an entity is zero whatever the analysis found: the first
  list of the answer, which the count takes, is the list of affected entities, and that is empty for an
  entity.
\<close>

theorem entity_analysis_counts_zero:
  assumes "analyze_entity target s = (Inr r, t)" and "dget r ''result_type'' \<noteq> VStr RESULT_TYPE_NOT_FOUND"
  shows "count_results (VDict (inner_result r)) = 0"
proof -
  obtain deps u where "impact_result target (build_result IMPACT_SCOPE_ENTITY [] [] deps VNone) deps u = (Inr r, t)"
    using assms by (auto simp: analyze_entity_def not_found_type elim!: obind_result split: option.splits)
  from impact_result_inner [OF this] obtain x where "build_result IMPACT_SCOPE_ENTITY [] [] deps VNone = Inr x"
    "inner_result r = redact_items x" by blast
  then show ?thesis using result_first_list by (fastforce simp: count_results_def)
qed

text \<open>A lamp an automation controls.\<close>

definition automated_lamp :: graph where
  "automated_lamp =
     \<lparr>g_nodes = [((LABEL_ENTITY, ''light.hall''), [(''name'', VStr ''Hall'')]),
                ((LABEL_AUTOMATION, ''automation.dusk''), [(''name'', VStr ''Dusk'')])],
      g_rels = [(((LABEL_AUTOMATION, ''automation.dusk''), REL_CONTROLS, (LABEL_ENTITY, ''light.hall'')), [])],
      g_indexes = []\<rparr>"

theorem entity_analysis_counts_zero_witness:
  "\<exists>r. fst (analyze_entity ''hall'' (world_at automated_lamp [])) = Inr r \<and>
     list_at (inner_result r) ''automations'' = [VDict [(''ha_id'', VStr ''automation.dusk''), (''name'', VStr ''Dusk'')]] \<and>
     count_results (VDict (inner_result r)) = 0"
proof -
  have "case fst (analyze_entity ''hall'' (world_at automated_lamp [])) of
      Inl e \<Rightarrow> False
    | Inr r \<Rightarrow> dget r ''result_type'' \<noteq> VStr RESULT_TYPE_NOT_FOUND \<and>
        list_at (inner_result r) ''automations'' = [VDict [(''ha_id'', VStr ''automation.dusk''), (''name'', VStr ''Dusk'')]]"
    by code_simp
  then obtain r t where "analyze_entity ''hall'' (world_at automated_lamp []) = (Inr r, t)"
    "dget r ''result_type'' \<noteq> VStr RESULT_TYPE_NOT_FOUND"
    "list_at (inner_result r) ''automations'' = [VDict [(''ha_id'', VStr ''automation.dusk''), (''name'', VStr ''Dusk'')]]"
    by (cases "analyze_entity ''hall'' (world_at automated_lamp [])") (auto split: sum.splits)
  with entity_analysis_counts_zero show ?thesis by (metis fst_conv)
qed

lemma build_result_keys:
  "build_result scope affected devices deps area = Inr x \<Longrightarrow> ''_warnings'' \<notin> fst ` set x"
  by (auto simp: build_result_def Let_def DEPENDENCY_KEYS_def split: if_splits sum.splits)

lemma device_result_cases:
  assumes "analyze_device target s = (Inr r, t)"
  obtains (missing) "r = not_found_result target"
  | (found) affected area deps u where
      "impact_result target (build_result IMPACT_SCOPE_DEVICE affected [] deps area) deps u = (Inr r, t)"
  using assms by (auto simp: analyze_device_def Let_def elim!: obind_result split: option.splits)

text \<open>
  An area drops the warnings of its devices: what it merges of a device's answer never has any, although the
  answer says beside it that entities or dependencies were cut.
\<close>

theorem device_warnings_dropped:
  assumes "analyze_device target s = (Inr r, t)"
  shows "list_at (inner_result r) ''_warnings'' = []"
  using assms
proof (cases rule: device_result_cases)
  case missing
  then show ?thesis
    by (simp add: not_found_result_def build_tool_result_def inner_result_def dget_def list_at_def del: redact_value.simps)
next
  case (found affected area deps u)
  obtain x where x: "build_result IMPACT_SCOPE_DEVICE affected [] deps area = Inr x"
    and r: "inner_result r = redact_items x"
    by (rule impact_result_inner [OF found])
  have "''_warnings'' \<notin> fst ` set (redact_items x)"
    unfolding redact_items_fields by (rule build_result_keys [OF x])
  then have "dget (inner_result r) ''_warnings'' = VNone" unfolding r by (rule dget_absent)
  then show ?thesis by (simp add: list_at_def)
qed

end
