(* ===== verification/Query_Contexts.thy ===== *)
theory Query_Contexts
  imports Query_Tools
begin

text \<open>
  The tools of \<open>query_tools.py\<close> that answer about one target or search by name: \<open>resolve_target\<close>, \<open>search\<close>,
  the contexts of an area, a device and an entity, the automations of an entity, and what has no area.
  Where a query gives several rows and takes one without an order, the model takes the first in graph order.
\<close>

section \<open>Targets\<close>

definition TARGET_LABELS :: "(string \<times> string) list" where
  "TARGET_LABELS = [(''area'', LABEL_AREA), (''device'', LABEL_DEVICE), (''entity'', LABEL_ENTITY),
     (''gas_cylinder'', LABEL_GAS_CYLINDER)]"

record candidate =
  cd_target_type :: string
  cd_target_id :: string
  cd_name :: pval

datatype target_resolution =
    TargetNotFound
  | TargetFound string string
  | TargetAmbiguous "candidate list" bool

text \<open>\<open>coalesce(n.name, '')\<close> and \<open>str(candidate["name"] or "")\<close>; names are strings or missing.\<close>

definition name_text :: "pval \<Rightarrow> string" where
  "name_text v = (case v of VStr s \<Rightarrow> s | _ \<Rightarrow> [])"

text \<open>\<open>n.ha_id = $identifier OR toLower(coalesce(n.name, '')) = toLower($identifier)\<close>\<close>

definition resolves :: "string \<Rightarrow> nkey \<times> dict \<Rightarrow> bool" where
  "resolves identifier x \<longleftrightarrow>
     snd (fst x) = identifier \<or> lower (name_text (dget (snd x) ''name'')) = lower identifier"

text \<open>One branch of the union: the matches of a label, an exact id first, at most the limit.\<close>

definition branch_rows :: "string \<Rightarrow> nat \<Rightarrow> graph \<Rightarrow> string \<times> string \<Rightarrow> candidate list" where
  "branch_rows identifier candidate_limit g typed_label =
     take candidate_limit
       (sort_key (\<lambda>c. if cd_target_id c = identifier then 0 else 1 :: nat)
         (sort_key (\<lambda>c. lower (name_text (cd_name c))) (sort_key cd_target_id
           (map (\<lambda>x. \<lparr>cd_target_type = fst typed_label, cd_target_id = snd (fst x), cd_name = dget (snd x) ''name''\<rparr>)
             (filter (\<lambda>x. fst (fst x) = snd typed_label \<and> resolves identifier x) (g_nodes g))))))"

definition resolve_target :: "string \<Rightarrow> string list \<Rightarrow> int \<Rightarrow> ('z, target_resolution) wop" where
  "resolve_target identifier eligible limit =
     (if eligible = [] then oraise (ValueError ''At least one eligible target type is required'')
      else (case find (\<lambda>t. map_of TARGET_LABELS t = None) eligible of
         Some t \<Rightarrow> oraise (ValueError (''Unsupported target type: '' @ t))
       | None \<Rightarrow>
           let labels = map (\<lambda>t. (t, the (map_of TARGET_LABELS t))) eligible;
               effective_limit = nat (min (max limit 1) (int MAX_QUERY_LIMIT))
           in obind (run_query (read_stmt (\<lambda>g.
                concat (map (branch_rows identifier (effective_limit + 1) g) labels)))) (\<lambda>rows.
              let exact_id_matches = filter (\<lambda>c. cd_target_id c = identifier) rows;
                  matches = (if exact_id_matches \<noteq> [] then exact_id_matches else rows);
                  candidates = sort_key cd_target_type
                    (sort_key (\<lambda>c. lower (name_text (cd_name c))) (sort_key cd_target_id matches))
              in (case candidates of
                    [] \<Rightarrow> oret TargetNotFound
                  | [c] \<Rightarrow> oret (TargetFound (cd_target_type c) (cd_target_id c))
                  | _ \<Rightarrow> oret (TargetAmbiguous (take effective_limit candidates)
                           (effective_limit < length candidates))))))"

lemma filter_key:
  "distinct (map fst al) \<Longrightarrow> map_of al k = Some v \<Longrightarrow> filter (\<lambda>x. fst x = k) al = [(k, v)]"
proof (induction al)
  case (Cons x al)
  show ?case
  proof (cases "fst x = k")
    case True
    then have "k \<notin> fst ` set al" using Cons.prems(1) by auto
    then have "filter (\<lambda>x. fst x = k) al = []" by (auto simp: filter_empty_conv)
    then show ?thesis using True Cons.prems by (cases x) simp
  next
    case False
    then show ?thesis using Cons by (cases x) simp
  qed
qed simp

lemma take_exact_first:
  fixes f :: "'c \<Rightarrow> nat"
  assumes one: "filter (\<lambda>c. f c = 0) xs = [c]"
  shows "filter (\<lambda>c. f c = 0) (take (Suc n) (sort_key f xs)) = [c]"
proof -
  let ?ys = "sort_key f xs"
  have ys: "filter (\<lambda>c. f c = 0) ?ys = [c]" by (simp add: filter_sort one)
  have "c \<in> set (filter (\<lambda>c. f c = 0) ?ys)" unfolding ys by simp
  then have c: "c \<in> set ?ys" "f c = 0" by simp_all
  then obtain z zs where yz: "?ys = z # zs" by (cases ?ys) auto
  have "sorted (map f ?ys)" by simp
  then have "f z \<le> f c" using c yz by auto
  then have "z = c" and "filter (\<lambda>c. f c = 0) zs = []" using ys yz c by auto
  then show ?thesis
    using yz c by (auto simp: filter_empty_conv dest: in_set_takeD)
qed

lemma concat_one:
  "distinct ts \<Longrightarrow> t \<in> set ts \<Longrightarrow> f t = [c] \<Longrightarrow> (\<And>u. u \<in> set ts \<Longrightarrow> u \<noteq> t \<Longrightarrow> f u = []) \<Longrightarrow>
   concat (map f ts) = [c]"
proof (induction ts)
  case (Cons u ts)
  then show ?case by (cases "u = t") (auto simp: concat_eq_Nil_conv)
qed simp

abbreviation exact :: "string \<Rightarrow> candidate \<Rightarrow> bool" where
  "exact identifier c \<equiv> cd_target_id c = identifier"

lemma exact_branch:
  assumes "distinct (map fst (g_nodes g))" and "map_of (g_nodes g) (l, i) = Some d"
  shows "filter (exact i) (branch_rows i (Suc n) g (t, l)) =
    [\<lparr>cd_target_type = t, cd_target_id = i, cd_name = dget d ''name''\<rparr>]"
proof -
  let ?f = "\<lambda>c. if cd_target_id c = i then 0 else 1 :: nat"
  let ?mk = "\<lambda>x :: nkey \<times> dict. \<lparr>cd_target_type = t, cd_target_id = snd (fst x), cd_name = dget (snd x) ''name''\<rparr>"
  let ?nodes = "filter (\<lambda>x. fst (fst x) = l \<and> resolves i x) (g_nodes g)"
  have "filter (\<lambda>x. ?f (?mk x) = 0) ?nodes = filter (\<lambda>x. fst x = (l, i)) (g_nodes g)"
    by (auto simp: resolves_def prod_eq_iff intro!: filter_cong)
  then have "filter (\<lambda>c. ?f c = 0) (map ?mk ?nodes) = [?mk ((l, i), d)]"
    using filter_key [OF assms] by (simp add: filter_map comp_def)
  then have "filter (\<lambda>c. ?f c = 0) (sort_key (\<lambda>c. lower (name_text (cd_name c))) (sort_key cd_target_id (map ?mk ?nodes))) =
      [?mk ((l, i), d)]"
    by (simp add: filter_sort)
  moreover have "(\<lambda>c. ?f c = 0) = exact i" by auto
  ultimately show ?thesis
    using take_exact_first [of ?f _ "?mk ((l, i), d)" n] by (simp add: branch_rows_def)
qed

lemma no_exact_branch:
  assumes "map_of (g_nodes g) (l, i) = None"
  shows "filter (exact i) (branch_rows i n g (t, l)) = []"
  using assms
  by (fastforce simp: branch_rows_def filter_empty_conv map_of_eq_None_iff image_iff dest: in_set_takeD)

text \<open>
  An exact id always wins: when exactly one eligible type has a node with the identifier as its id, the
  target resolves to it, whatever other nodes carry the identifier as their name and however small the limit.
\<close>

theorem resolve_exact_id:
  assumes "wf_graph (w_graph s)" and "w_net s = []" and "distinct eligible"
    and "list_all (\<lambda>t. map_of TARGET_LABELS t \<noteq> None) eligible"
    and "t \<in> set eligible" and "map_of TARGET_LABELS t = Some l" and "has_node (w_graph s) (l, identifier)"
    and "list_all (\<lambda>u. u = t \<or> \<not> has_node (w_graph s) (the (map_of TARGET_LABELS u), identifier)) eligible"
  shows "fst (resolve_target identifier eligible limit s) = Inr (TargetFound t identifier)"
proof -
  let ?g = "w_graph s" and ?n = "nat (min (max limit 1) (int MAX_QUERY_LIMIT))"
  let ?rows = "concat (map (branch_rows identifier (?n + 1) ?g) (map (\<lambda>t. (t, the (map_of TARGET_LABELS t))) eligible))"
  obtain d where d: "map_of (g_nodes ?g) (l, identifier) = Some d"
    using assms(7) by (auto simp: has_node_def node_def)
  let ?c = "\<lparr>cd_target_type = t, cd_target_id = identifier, cd_name = dget d ''name''\<rparr>"
  have "filter (exact identifier) ?rows =
      concat (map (\<lambda>u. filter (exact identifier) (branch_rows identifier (Suc ?n) ?g (u, the (map_of TARGET_LABELS u)))) eligible)"
    by (simp add: filter_concat comp_def)
  also have "\<dots> = [?c]"
  proof (rule concat_one [OF assms(3,5)])
    show "filter (exact identifier) (branch_rows identifier (Suc ?n) ?g (t, the (map_of TARGET_LABELS t))) = [?c]"
      using exact_branch [OF _ d] assms(1,6) by (simp add: wf_graph_def)
    show "filter (exact identifier) (branch_rows identifier (Suc ?n) ?g (u, the (map_of TARGET_LABELS u))) = []"
      if "u \<in> set eligible" "u \<noteq> t" for u
      using assms(8) that by (intro no_exact_branch) (auto simp: list_all_iff has_node_def node_def)
  qed
  finally have "filter (exact identifier) ?rows = [?c]" .
  moreover have "find (\<lambda>t. map_of TARGET_LABELS t = None) eligible = None" and "eligible \<noteq> []"
    using assms(4,5) by (auto simp: find_None_iff list_all_iff)
  moreover note run = healthy_read [OF assms(2), of "\<lambda>g. concat (map (branch_rows identifier (?n + 1) g)
      (map (\<lambda>t. (t, the (map_of TARGET_LABELS t))) eligible))"]
  note bound = obind_Inr [where m = "run_query (read_stmt (\<lambda>g. concat (map (branch_rows identifier (?n + 1) g)
      (map (\<lambda>t. (t, the (map_of TARGET_LABELS t))) eligible))))" and s = s, OF run]
  ultimately show ?thesis
    by (simp only: resolve_target_def Let_def bound if_False option.case) (simp del: map_map filter_concat add: sort_key_def oret_def)
qed

theorem resolve_exact_id_witness:
  "fst (resolve_target ''hall'' [''area'', ''device''] 0 (world_at (empty_graph\<lparr>g_nodes :=
     [((LABEL_DEVICE, ''d''), [(''name'', VStr ''hall'')]), ((LABEL_AREA, ''hall''), [])]\<rparr>) [])) =
   Inr (TargetFound ''area'' ''hall'')"
  by (rule resolve_exact_id [where l = LABEL_AREA])
    (simp_all add: wf_graph_def world_at_def empty_graph_def has_node_def node_def TARGET_LABELS_def const_defs)

section \<open>Searching\<close>

text \<open>\<open>_effective_limit\<close>: zero counts as none.\<close>

definition tool_limit :: "int option \<Rightarrow> int" where
  "tool_limit limit = min (case limit of None \<Rightarrow> int DEFAULT_QUERY_LIMIT
     | Some l \<Rightarrow> if l = 0 then int DEFAULT_QUERY_LIMIT else l) (int MAX_QUERY_LIMIT)"

definition MAX_SEARCH_TOKENS :: nat where
  "MAX_SEARCH_TOKENS = 8"

text \<open>\<open>str.split()\<close>: maximal runs without white space.\<close>

fun words_from :: "string \<Rightarrow> string \<Rightarrow> string list" where
  "words_from current [] = (if current = [] then [] else [rev current])"
| "words_from current (c # cs) =
     (if is_space c then (if current = [] then words_from [] cs else rev current # words_from [] cs)
      else words_from (c # current) cs)"

definition search_tokens :: "string \<Rightarrow> string list" where
  "search_tokens term =
     (let tokens = take MAX_SEARCH_TOKENS (words_from [] term) in if tokens = [] then [term] else tokens)"

definition token_matches :: "nkey \<times> dict \<Rightarrow> string \<Rightarrow> bool" where
  "token_matches x token \<longleftrightarrow>
     contains (lower token) (lower (name_text (dget (snd x) ''name''))) \<or>
     contains (lower token) (lower (snd (fst x)))"

definition SEARCH_LABELS :: "string list" where
  "SEARCH_LABELS = [LABEL_AREA, LABEL_DEVICE, LABEL_ENTITY]"

definition search_rows :: "string list \<Rightarrow> graph \<Rightarrow> (nkey \<times> dict) list" where
  "search_rows tokens g =
     filter (\<lambda>x. fst (fst x) \<in> set SEARCH_LABELS \<and> list_all (token_matches x) tokens) (g_nodes g)"

definition search :: "string \<Rightarrow> int option \<Rightarrow> ('z, dict) wop" where
  "search term limit =
     (let effective_limit = tool_limit limit
      in obind (run_query_limited (read_stmt (search_rows (search_tokens term))) (nat effective_limit))
           (\<lambda>(rows, truncated).
         oret (build_tool_result term RESULT_TYPE_SEARCH
           (VDict [(''matches'', VList (map (\<lambda>x. VDict
              [(''type'', VStr (fst (fst x))), (''ha_id'', VStr (snd (fst x))), (''name'', dget (snd x) ''name'')])
              rows))])
           (if truncated then [''result truncated to '' @ str_of_int effective_limit @ '' rows''] else [])
           OUTCOME_OK)))"

section \<open>Contexts\<close>

definition keys_values :: "graph \<Rightarrow> nkey list \<Rightarrow> pval list" where
  "keys_values g ks = map node_value (nodes_of g ks)"

text \<open>The properties of the nodes that are there.\<close>

definition present_properties :: "pval list \<Rightarrow> exn + dict list" where
  "present_properties values =
     each (\<lambda>v. case node_properties v of Inl e \<Rightarrow> Inl e | Inr p \<Rightarrow> Inr (or_empty p)) (filter (\<lambda>v. v \<noteq> VNone) values)"

lemma node_value_present [simp]: "node_value x \<noteq> VNone"
  by (simp add: node_value_def)

lemma present_properties_nodes [simp]: "present_properties (map node_value xs) = Inr (map node_props xs)"
proof -
  have "filter (\<lambda>v. v \<noteq> VNone) (map node_value xs) = map node_value xs" by (simp add: filter_id_conv)
  moreover have "each (\<lambda>v. case node_properties v of Inl e \<Rightarrow> Inl e | Inr p \<Rightarrow> Inr (or_empty p)) (map node_value xs) =
      Inr (map node_props xs)"
    by (induction xs) (simp_all add: or_empty_def)
  ultimately show ?thesis by (simp add: present_properties_def)
qed

record area_row =
  rw_area :: pval
  rw_devices :: "pval list"
  rw_entities :: "pval list"

definition area_rows :: "string \<Rightarrow> graph \<Rightarrow> area_row list" where
  "area_rows identifier g =
     map (\<lambda>x. let devices = keep_first (targets_of g (fst x) [REL_HAS_DEVICE] (\<lambda>l. l = LABEL_DEVICE));
              through = concat (map (\<lambda>d. targets_of g d [REL_HAS_ENTITY] (\<lambda>l. l = LABEL_ENTITY)) devices)
          in \<lparr>rw_area = node_value x, rw_devices = keys_values g devices,
              rw_entities = keys_values g through @ keys_values g (sources_of g LABEL_ENTITY [REL_HAS_AREA] (fst x))\<rparr>)
       (take 1 (matching LABEL_AREA identifier g))"

definition device_with_entities :: "dict list \<Rightarrow> dict \<Rightarrow> dict" where
  "device_with_entities entities device =
     dset ''entities'' (VList (map VDict
       (filter (\<lambda>e. truthy (dget e ''device_id'') \<and> dget e ''device_id'' = dget device ''ha_id'') entities))) device"

definition area_context :: "string \<Rightarrow> ('z, dict) wop" where
  "area_context area =
     obind (run_query (read_stmt (area_rows area))) (\<lambda>rows.
       case rows of
         [] \<Rightarrow> oret (not_found_result area)
       | row # _ \<Rightarrow>
           obind (from_sum (present_properties (rw_devices row))) (\<lambda>devices.
           obind (from_sum (present_properties (rw_entities row))) (\<lambda>entities.
           obind (from_sum (node_properties (rw_area row))) (\<lambda>area_properties.
           let (devices, warnings) = bounded_collection devices ''devices'' [];
               (entities, warnings) = bounded_collection entities ''entities'' warnings;
               warnings = warnings @ (if devices = [] then [''device relationships unavailable''] else []) @
                 (if entities = [] then [''entity relationships unavailable''] else [])
           in oret (build_tool_result area RESULT_TYPE_AREA_CONTEXT
                (VDict [(''area'', VDict (or_empty area_properties)),
                        (''devices'', VList (map (\<lambda>d. VDict (device_with_entities entities d)) devices)),
                        (''entities'', VList (map VDict entities))])
                warnings OUTCOME_OK)))))"

definition first_value :: "graph \<Rightarrow> nkey list \<Rightarrow> pval" where
  "first_value g ks = (case ks of [] \<Rightarrow> VNone | k # _ \<Rightarrow> node_value (k, or_empty (node g k)))"

definition device_rows :: "string \<Rightarrow> graph \<Rightarrow> (pval \<times> pval \<times> pval list) list" where
  "device_rows identifier g =
     map (\<lambda>x. (node_value x, first_value g (sources_of g LABEL_AREA [REL_HAS_DEVICE] (fst x)),
               keys_values g (targets_of g (fst x) [REL_HAS_ENTITY] (\<lambda>l. l = LABEL_ENTITY))))
       (take 1 (matching LABEL_DEVICE identifier g))"

definition value_of_properties :: "dict option \<Rightarrow> pval" where
  "value_of_properties p = (case p of None \<Rightarrow> VNone | Some d \<Rightarrow> VDict d)"

definition device_context :: "string \<Rightarrow> ('z, dict) wop" where
  "device_context device =
     obind (run_query (read_stmt (device_rows device))) (\<lambda>rows.
       case rows of
         [] \<Rightarrow> oret (not_found_result device)
       | (d, a, es) # _ \<Rightarrow>
           obind (from_sum (present_properties es)) (\<lambda>entities.
           obind (from_sum (node_properties d)) (\<lambda>device_properties.
           obind (from_sum (node_properties a)) (\<lambda>area_properties.
           let (entities, warnings) = bounded_collection entities ''entities'' [];
               warnings = warnings @ (if a = VNone then [''area relationship unavailable''] else []) @
                 (if entities = [] then [''entity relationships unavailable''] else [])
           in oret (build_tool_result device RESULT_TYPE_DEVICE_CONTEXT
                (VDict [(''device'', value_of_properties device_properties), (''area'', value_of_properties area_properties),
                        (''entities'', VList (map VDict entities))])
                warnings OUTCOME_OK)))))"

record entity_row =
  er_entity :: pval
  er_device :: pval
  er_area :: pval
  er_domain :: pval
  er_integration :: pval
  er_semantic_types :: "string list"
  er_dependents :: "string list"

definition entity_rows :: "string \<Rightarrow> graph \<Rightarrow> entity_row list" where
  "entity_rows identifier g =
     map (\<lambda>x. let e = fst x;
              devices = sources_of g LABEL_DEVICE [REL_HAS_ENTITY] e;
              device_area = (case devices of [] \<Rightarrow> VNone
                | d # _ \<Rightarrow> first_value g (sources_of g LABEL_AREA [REL_HAS_DEVICE] d))
          in \<lparr>er_entity = node_value x, er_device = first_value g devices,
              er_area = (if device_area \<noteq> VNone then device_area
                 else first_value g (targets_of g e [REL_HAS_AREA] (\<lambda>l. l = LABEL_AREA))),
              er_domain = first_value g (targets_of g e [REL_IN_DOMAIN] (\<lambda>l. l = LABEL_DOMAIN)),
              er_integration = first_value g (targets_of g e [REL_PROVIDED_BY] (\<lambda>l. l = LABEL_INTEGRATION)),
              er_semantic_types = keep_first (map snd (targets_of g e [REL_CLASSIFIED_AS] (\<lambda>_. True))),
              er_dependents = keep_first (map snd (sources_of g LABEL_AUTOMATION [REL_REFERENCES, REL_CONTROLS] e))\<rparr>)
       (take 1 (matching LABEL_ENTITY identifier g))"

definition entity_context :: "string \<Rightarrow> ('z, dict) wop" where
  "entity_context entity =
     obind (run_query (read_stmt (entity_rows entity))) (\<lambda>rows.
       case rows of
         [] \<Rightarrow> oret (not_found_result entity)
       | row # _ \<Rightarrow>
           obind (from_sum (node_properties (er_domain row))) (\<lambda>dom.
           obind (from_sum (node_properties (er_integration row))) (\<lambda>integ.
           obind (from_sum (node_properties (er_entity row))) (\<lambda>e.
           obind (from_sum (node_properties (er_device row))) (\<lambda>d.
           obind (from_sum (node_properties (er_area row))) (\<lambda>a.
           let (semantic_types, warnings) =
                 bounded_collection (filter (\<lambda>t. t \<noteq> []) (er_semantic_types row)) ''semantic types'' [];
               (dependents, warnings) =
                 bounded_collection (filter (\<lambda>t. t \<noteq> []) (er_dependents row)) ''dependents'' warnings;
               warnings = warnings @ map (\<lambda>(v, relationship). relationship @ '' relationship unavailable'')
                 (filter (\<lambda>(p, relationship). p = None)
                   [(d, ''device''), (a, ''area''), (dom, ''domain''), (integ, ''integration'')])
           in oret (build_tool_result entity RESULT_TYPE_ENTITY_CONTEXT
                (VDict [(''entity'', value_of_properties e), (''device'', value_of_properties d),
                        (''area'', value_of_properties a),
                        (''domain'', case dom of None \<Rightarrow> VNone | Some p \<Rightarrow> dget p ''ha_id''),
                        (''integration'', case integ of None \<Rightarrow> VNone | Some p \<Rightarrow> dget p ''ha_id''),
                        (''semantic_types'', VList (map VStr semantic_types)),
                        (''dependents'', VList (map VStr dependents))])
                warnings OUTCOME_OK)))))))"

text \<open>The automations of every entity that matches, each with the type of the relationship.\<close>

definition dependency_row :: "string \<Rightarrow> graph \<Rightarrow> nat \<times> (pval \<times> string) list" where
  "dependency_row identifier g =
     (let matched = map fst (matching LABEL_ENTITY identifier g)
      in (length matched,
          map (\<lambda>(k, t). (node_value (k, or_empty (node g k)), t)) (keep_first
            (concat (map (\<lambda>e. map (\<lambda>((a, t, b), d). (a, t))
               (filter (\<lambda>((a, t, b), d). b = e \<and> t \<in> {REL_REFERENCES, REL_CONTROLS} \<and> fst a = LABEL_AUTOMATION)
                 (g_rels g))) matched)))))"

definition automation_dependencies :: "string \<Rightarrow> ('z, dict) wop" where
  "automation_dependencies entity =
     obind (run_query (read_stmt (dependency_row entity))) (\<lambda>(matched_count, related).
       if matched_count = 0 then oret (not_found_result entity)
       else obind (from_sum (each (\<lambda>(v, reason). case node_properties v of
                Inl e \<Rightarrow> Inl e
              | Inr p \<Rightarrow> Inr (VDict [(''ha_id'', dget (or_empty p) ''ha_id''), (''name'', dget (or_empty p) ''name''),
                  (''reason'', VStr reason)])) related)) (\<lambda>automations.
            let warnings = (if automations \<noteq> [] then [] else [''no known dependencies found'']);
                (automations, warnings) = bounded_collection automations ''automations'' warnings
            in oret (build_tool_result entity RESULT_TYPE_AUTOMATION_DEPENDENCIES
                 (VDict [(''automations'', VList automations)]) warnings OUTCOME_OK)))"

section \<open>What has no area\<close>

definition shown_name :: "nkey \<times> dict \<Rightarrow> pval" where
  "shown_name x = (if dget (snd x) ''name'' = VNone then VStr (snd (fst x)) else dget (snd x) ''name'')"

definition unassigned_row :: "string \<Rightarrow> nkey \<times> dict \<Rightarrow> dict" where
  "unassigned_row item_type x =
     [(''item_type'', VStr item_type), (''ha_id'', VStr (snd (fst x))), (''name'', shown_name x)]"

text \<open>\<open>ORDER BY\<close> belongs to the second branch of the union.\<close>

definition unassigned_rows :: "graph \<Rightarrow> dict list" where
  "unassigned_rows g =
     (let area_devices = (\<lambda>d. sources_of g LABEL_AREA [REL_HAS_DEVICE] d);
          devices = filter (\<lambda>x. fst (fst x) = LABEL_DEVICE \<and> area_devices (fst x) = []) (g_nodes g);
          sensors = filter (\<lambda>x. fst (fst x) = LABEL_ENTITY \<and>
              (LABEL_DOMAIN, ''sensor'') \<in> set (targets_of g (fst x) [REL_IN_DOMAIN] (\<lambda>l. l = LABEL_DOMAIN)) \<and>
              targets_of g (fst x) [REL_HAS_AREA] (\<lambda>l. l = LABEL_AREA) = [] \<and>
              concat (map area_devices (sources_of g LABEL_DEVICE [REL_HAS_ENTITY] (fst x))) = []) (g_nodes g);
          ordered = (\<lambda>rows. sort_key (\<lambda>r. lower (name_text (dget r ''name'')))
              (sort_key (\<lambda>r. name_text (dget r ''ha_id'')) rows))
      in map (unassigned_row ''device'') devices @ ordered (map (unassigned_row ''sensor'') sensors))"

definition unassigned_area_items :: "int option \<Rightarrow> ('z, dict) wop" where
  "unassigned_area_items limit =
     (let effective_limit = tool_limit limit
      in obind (run_query_limited (read_stmt unassigned_rows) (nat effective_limit)) (\<lambda>(rows, truncated).
         let of_type = (\<lambda>t. VList (map VDict (filter (\<lambda>r. dget r ''item_type'' = VStr t) rows)))
         in oret (build_tool_result ''home'' RESULT_TYPE_UNASSIGNED_AREA_ITEMS
              (VDict [(''devices'', of_type ''device''), (''sensors'', of_type ''sensor''), (''truncated'', VBool truncated)])
              (if truncated then [''unassigned area results truncated to '' @ str_of_int effective_limit @ '' items''] else [])
              (if rows = [] then OUTCOME_EMPTY else OUTCOME_OK))))"

end
