(* ===== verification/Context_Export.thy ===== *)
theory Context_Export
  imports Impact_Analysis Query_Contexts Validation
begin

text \<open>
  \<open>context_export.py\<close>: documents about the home for agents.  Every node goes through an allow-list of fields
  for its label; an export is recorded in the audit log.
\<close>

section \<open>The allow-list\<close>

definition allowed_for :: "string \<Rightarrow> string list" where
  "allowed_for label = (case map_of CONTEXT_EXPORT_ALLOWED_FIELDS label of None \<Rightarrow> [] | Some names \<Rightarrow> names)"

definition project_fields :: "string list \<Rightarrow> dict \<Rightarrow> dict" where
  "project_fields allowed d = map (\<lambda>k. (k, dget d k)) (filter (\<lambda>k. k \<in> fst ` set d) allowed)"

text \<open>\<open>s.split("::", 1)[0]\<close>\<close>

fun until_separator :: "string \<Rightarrow> string \<Rightarrow> string" where
  "until_separator sep [] = []"
| "until_separator sep (c # cs) = (if starts_with sep (c # cs) then [] else c # until_separator sep cs)"

definition project_semantic_asset :: "dict \<Rightarrow> string \<Rightarrow> dict" where
  "project_semantic_asset d asset_label =
     (let projected = project_fields (allowed_for LABEL_SEMANTIC_TYPE) d;
          projected = (if ''asset_type'' \<in> fst ` set projected then projected
            else dset ''asset_type'' (VStr asset_label) projected);
          ha_id = text_value (value_or (dget d ''ha_id'') (VStr []));
          projected = (if truthy (dget projected ''entity_id'') then projected
            else dset ''entity_id'' (if contains ''::'' ha_id then VStr (until_separator ''::'' ha_id) else VNone) projected)
      in dset ''ha_id'' (VStr ha_id) projected)"

definition project :: "dict \<Rightarrow> string \<Rightarrow> dict" where
  "project d label =
     (if label \<in> set SEMANTIC_TYPE_LABELS then project_semantic_asset d label
      else project_fields (allowed_for label) d)"

section \<open>An area, or the whole home\<close>

record home_rows =
  hr_devices :: "dict list"
  hr_entities :: "dict list"
  hr_automations :: "pval list"
  hr_semantic :: "(pval \<times> string \<times> string list) list"
  hr_findings :: "pval list"
  hr_truncated :: "string list"

text \<open>The rows of \<open>(e)-[:CLASSIFIED_AS]->(st)\<close> for the entities that satisfy a condition.\<close>

definition semantic_rows :: "(string \<Rightarrow> bool) \<Rightarrow> graph \<Rightarrow> (pval \<times> string \<times> string list) list" where
  "semantic_rows p g =
     map (\<lambda>((a, t, b), d). (node_value (b, or_empty (node g b)), snd a, [fst b]))
       (filter (\<lambda>((a, t, b), d). t = REL_CLASSIFIED_AS \<and> fst a = LABEL_ENTITY \<and> p (snd a)) (g_rels g))"

definition area_automations :: "string list \<Rightarrow> graph \<Rightarrow> pval list" where
  "area_automations entity_ids g = keys_values g (map (fst \<circ> fst)
     (filter (\<lambda>((a, t, b), d). fst a = LABEL_AUTOMATION \<and> t \<in> {REL_REFERENCES, REL_CONTROLS} \<and>
        fst b = LABEL_ENTITY \<and> snd b \<in> set entity_ids) (g_rels g)))"

definition area_findings :: "string list \<Rightarrow> string \<Rightarrow> graph \<Rightarrow> pval list" where
  "area_findings entity_ids area_id g =
     map node_value (filter (\<lambda>x. fst (fst x) = LABEL_VALIDATION_FINDING \<and>
        dget (snd x) ''target_id'' \<in> set (VStr area_id # map VStr entity_ids)) (g_nodes g))"

definition dicts_of :: "pval list \<Rightarrow> dict list" where
  "dicts_of vs = map (\<lambda>v. case v of VDict d \<Rightarrow> d | _ \<Rightarrow> []) vs"

definition area_home_rows :: "string \<Rightarrow> ('z, home_rows option) wop" where
  "area_home_rows target =
     obind (area_context target) (\<lambda>area_result.
       if dget area_result ''result_type'' = VStr RESULT_TYPE_NOT_FOUND then oret None
       else (let area_data = inner_result area_result;
                 devices = dicts_of (list_at area_data ''devices'');
                 entities = dicts_of (list_at area_data ''entities'');
                 entity_ids = map text_value (filter truthy (map (\<lambda>e. dget e ''ha_id'') entities))
             in obind (run_query (read_stmt (area_automations entity_ids))) (\<lambda>automations.
                obind (run_query (read_stmt (semantic_rows (\<lambda>i. i \<in> set entity_ids)))) (\<lambda>semantic.
                obind (run_query (read_stmt (area_findings entity_ids target))) (\<lambda>findings.
                  oret (Some \<lparr>hr_devices = devices, hr_entities = entities, hr_automations = automations,
                    hr_semantic = semantic, hr_findings = findings, hr_truncated = []\<rparr>))))))"

definition labelled :: "string \<Rightarrow> graph \<Rightarrow> pval list" where
  "labelled label g = map node_value (filter (\<lambda>x. fst (fst x) = label) (g_nodes g))"

definition bounded_rows :: "(graph \<Rightarrow> 'r list) \<Rightarrow> string \<Rightarrow> ('z, 'r list \<times> string list) wop" where
  "bounded_rows query collection =
     obind (run_query_limited (read_stmt query) DEFAULT_QUERY_LIMIT) (\<lambda>(rows, truncated).
       oret (rows, if truncated then [collection] else []))"

definition whole_home_rows :: "('z, home_rows option) wop" where
  "whole_home_rows =
     obind (bounded_rows (labelled LABEL_DEVICE) ''devices'') (\<lambda>(devices, t1).
     obind (from_sum (present_properties devices)) (\<lambda>devices.
     obind (bounded_rows (labelled LABEL_ENTITY) ''entities'') (\<lambda>(entities, t2).
     obind (from_sum (present_properties entities)) (\<lambda>entities.
     obind (bounded_rows (labelled LABEL_AUTOMATION) ''automations'') (\<lambda>(automations, t3).
     obind (bounded_rows (semantic_rows (\<lambda>_. True)) ''semantic assets'') (\<lambda>(semantic, t4).
     obind (bounded_rows (labelled LABEL_VALIDATION_FINDING) ''validation findings'') (\<lambda>(findings, t5).
       oret (Some \<lparr>hr_devices = devices, hr_entities = entities, hr_automations = automations,
         hr_semantic = semantic, hr_findings = findings, hr_truncated = t1 @ t2 @ t3 @ t4 @ t5\<rparr>))))))))"

definition semantic_asset :: "pval \<times> string \<times> string list \<Rightarrow> exn + pval list" where
  "semantic_asset row =
     (case row of (st, entity_id, labels) \<Rightarrow>
       (case node_properties st of
          Inl e \<Rightarrow> Inl e
        | Inr None \<Rightarrow> Inr []
        | Inr (Some d) \<Rightarrow>
            (let asset_label = (case filter (\<lambda>l. l \<in> set SEMANTIC_TYPE_LABELS) labels of
                   [] \<Rightarrow> LABEL_SEMANTIC_TYPE | l # _ \<Rightarrow> l);
                 projected = project d asset_label
             in Inr [VDict (if entity_id \<noteq> [] then dset ''entity_id'' (VStr entity_id) projected else projected)])))"

definition projected_nodes :: "string \<Rightarrow> pval list \<Rightarrow> exn + pval list" where
  "projected_nodes label values =
     (case present_properties values of
        Inl e \<Rightarrow> Inl e | Inr ds \<Rightarrow> Inr (map (\<lambda>d. VDict (project d label)) ds))"

definition home_document :: "home_rows \<Rightarrow> exn + dict" where
  "home_document rows =
     (case each semantic_asset (hr_semantic rows) of
        Inl e \<Rightarrow> Inl e
      | Inr assets \<Rightarrow>
     (case projected_nodes LABEL_AUTOMATION (hr_automations rows) of
        Inl e \<Rightarrow> Inl e
      | Inr automations \<Rightarrow>
     (case projected_nodes LABEL_VALIDATION_FINDING (hr_findings rows) of
        Inl e \<Rightarrow> Inl e
      | Inr findings \<Rightarrow> Inr
         [(''devices'', VList (map (\<lambda>d. VDict (project d LABEL_DEVICE)) (hr_devices rows))),
          (''entities'', VList (map (\<lambda>d. VDict (project d LABEL_ENTITY)) (hr_entities rows))),
          (''automations'', VList automations),
          (''semantic_assets'', VList (concat assets)),
          (''validation_findings'', VList findings),
          (''truncated'', VBool (hr_truncated rows \<noteq> [])),
          (''truncated_collections'', VList (map VStr (hr_truncated rows)))])))"

definition export_area_or_whole_home :: "string option \<Rightarrow> ('z, dict option) wop" where
  "export_area_or_whole_home target =
     obind (case target of None \<Rightarrow> whole_home_rows | Some t \<Rightarrow> area_home_rows t) (\<lambda>rows.
       case rows of None \<Rightarrow> oret None | Some r \<Rightarrow> obind (from_sum (home_document r)) (\<lambda>d. oret (Some d)))"

section \<open>One node\<close>

definition relationship :: "string \<Rightarrow> dict \<Rightarrow> pval" where
  "relationship rel_type target = VDict [(''type'', VStr rel_type), (''target'', VDict target)]"

definition dict_at :: "dict \<Rightarrow> string \<Rightarrow> dict" where
  "dict_at d key = (case dget d key of VDict x \<Rightarrow> x | _ \<Rightarrow> [])"

definition relationships_document :: "pval list \<Rightarrow> dict" where
  "relationships_document rs = [(''relationships'', VList rs)]"

definition export_entity :: "string \<Rightarrow> ('z, dict option) wop" where
  "export_entity target =
     obind (entity_context target) (\<lambda>tool_result.
       if dget tool_result ''result_type'' = VStr RESULT_TYPE_NOT_FOUND then oret None
       else (let r = inner_result tool_result
         in oret (Some (relationships_document
           ((if truthy (dget r ''device'') then [relationship ''HAS_ENTITY'' (project (dict_at r ''device'') LABEL_DEVICE)] else []) @
            (if truthy (dget r ''area'') then [relationship ''HAS_AREA'' (project (dict_at r ''area'') LABEL_AREA)] else []) @
            (if truthy (dget r ''domain'')
             then [relationship ''IN_DOMAIN'' (project [(''ha_id'', dget r ''domain'')] LABEL_DOMAIN)] else []) @
            (if truthy (dget r ''integration'')
             then [relationship ''PROVIDED_BY'' (project [(''ha_id'', dget r ''integration'')] LABEL_INTEGRATION)] else []) @
            map (\<lambda>t. relationship ''CLASSIFIED_AS'' (project [(''ha_id'', t)] LABEL_SEMANTIC_TYPE)) (list_at r ''semantic_types'') @
            map (\<lambda>i. relationship ''REFERENCES'' [(''ha_id'', i)]) (list_at r ''dependents''))))))"

definition export_device :: "string \<Rightarrow> ('z, dict option) wop" where
  "export_device target =
     obind (device_context target) (\<lambda>tool_result.
       if dget tool_result ''result_type'' = VStr RESULT_TYPE_NOT_FOUND then oret None
       else (let r = inner_result tool_result
         in oret (Some (relationships_document
           ((if truthy (dget r ''area'') then [relationship ''HAS_DEVICE'' (project (dict_at r ''area'') LABEL_AREA)] else []) @
            map (\<lambda>e. relationship ''HAS_ENTITY'' (project e LABEL_ENTITY)) (dicts_of (list_at r ''entities'')))))))"

definition automation_rows :: "string \<Rightarrow> graph \<Rightarrow> (string \<times> pval) list list" where
  "automation_rows identifier g =
     map (\<lambda>x. map (\<lambda>(t, b). (t, node_value (b, or_empty (node g b)))) (keep_first
         (map (\<lambda>((a, t, b), d). (t, b)) (filter (\<lambda>((a, t, b), d).
            a = fst x \<and> t \<in> {REL_REFERENCES, REL_CONTROLS} \<and> fst b = LABEL_ENTITY) (g_rels g)))))
       (take 1 (matching LABEL_AUTOMATION identifier g))"

definition export_automation :: "string \<Rightarrow> ('z, dict option) wop" where
  "export_automation target =
     obind (run_query (read_stmt (automation_rows target))) (\<lambda>rows.
       case rows of
         [] \<Rightarrow> oret None
       | refs # _ \<Rightarrow>
           obind (from_sum (each (\<lambda>(reason, v). case node_properties v of
               Inl e \<Rightarrow> Inl e | Inr p \<Rightarrow> Inr (relationship reason (project (or_empty p) LABEL_ENTITY))) refs))
             (\<lambda>relationships. oret (Some (relationships_document relationships))))"

text \<open>The analysis of the first scope that knows the target, as it is and not audited.\<close>

fun first_impact :: "string list \<Rightarrow> string \<Rightarrow> ('z, dict option) aop" where
  "first_impact [] target = oret None"
| "first_impact (scope # scopes) target =
     obind (analyze scope target False) (\<lambda>tool_result.
       if dget tool_result ''result_type'' \<noteq> VStr RESULT_TYPE_NOT_FOUND then oret (Some (inner_result tool_result))
       else first_impact scopes target)"

definition export_impact :: "string \<Rightarrow> ('z, dict option) aop" where
  "export_impact target = first_impact [IMPACT_SCOPE_ENTITY, IMPACT_SCOPE_DEVICE, IMPACT_SCOPE_AREA] target"

section \<open>The audited entry point\<close>

text \<open>
  A missing target of an export about one node is null in its query and matches nothing; it is the empty
  string here, which names no node either, as long as no node has an empty id or name.
\<close>

definition export_document :: "string \<Rightarrow> string option \<Rightarrow> ('z, dict option) aop" where
  "export_document export_type target =
     (let name = (case target of None \<Rightarrow> [] | Some t \<Rightarrow> t)
      in if export_type = EXPORT_TYPE_WHOLE_HOME then export_area_or_whole_home None
         else if export_type = EXPORT_TYPE_AREA then export_area_or_whole_home target
         else if export_type = EXPORT_TYPE_ENTITY then export_entity name
         else if export_type = EXPORT_TYPE_DEVICE then export_device name
         else if export_type = EXPORT_TYPE_AUTOMATION then export_automation name
         else if export_type = EXPORT_TYPE_IMPACT then export_impact name
         else oraise (ValueError ''Unknown export_type''))"

definition export_record :: "string \<Rightarrow> string \<Rightarrow> nat \<Rightarrow> pval \<Rightarrow> pval \<Rightarrow> dict" where
  "export_record export_type status result_count error_category timestamp =
     [(''event'', VStr ''context_export''), (''export_type'', VStr export_type), (''status'', VStr status),
      (''result_count'', VInt (int result_count)), (''error_category'', error_category), (''timestamp'', timestamp)]"

definition export_result :: "string option \<Rightarrow> dict option \<Rightarrow> dict" where
  "export_result target doc =
     (let resolved_target = (if present target then the target else ''whole_home'')
      in case doc of
           None \<Rightarrow> not_found_result resolved_target
         | Some d \<Rightarrow> build_tool_result resolved_target RESULT_TYPE_EXPORT_CONTEXT (VDict d)
             (map (\<lambda>c. text_value c @ '' truncated to '' @ str_of_nat DEFAULT_QUERY_LIMIT @ '' items'')
               (list_at d ''truncated_collections'')) OUTCOME_OK)"

definition export :: "string \<Rightarrow> string option \<Rightarrow> bool \<Rightarrow> ('z, dict) aop" where
  "export export_type target audit =
     obind (otry (export_document export_type target) (\<lambda>err.
       oseq (if audit
             then obind utc_now (\<lambda>now. async_append_record
                    (export_record export_type ''error'' 0 (VStr (error_class err)) (VTime now)))
             else oret ())
         (oraise err))) (\<lambda>doc.
       let tool_result = export_result target doc
       in oseq (if audit
                then obind utc_now (\<lambda>now. async_append_record
                  (export_record export_type (if doc = None then ''not_found'' else ''resolved'')
                     (count_results (dget tool_result ''result'')) VNone (VTime now)))
                else oret ())
            (oret tool_result))"

section \<open>Only allowed fields leave\<close>

lemma project_fields_keys: "fst ` set (project_fields allowed d) \<subseteq> set allowed"
  by (auto simp: project_fields_def)

lemma project_keys:
  "label \<notin> set SEMANTIC_TYPE_LABELS \<Longrightarrow> fst ` set (project d label) \<subseteq> set (allowed_for label)"
  by (simp add: project_def project_fields_keys)

lemma semantic_allowed: "set (allowed_for LABEL_SEMANTIC_TYPE) = {''ha_id'', ''asset_type'', ''entity_id''}"
  by (auto simp: allowed_for_def const_defs)

lemma project_semantic_keys:
  "fst ` set (project_semantic_asset d l) \<subseteq> set (allowed_for LABEL_SEMANTIC_TYPE)"
  using project_fields_keys [of "allowed_for LABEL_SEMANTIC_TYPE" d]
  by (auto simp: project_semantic_asset_def Let_def dset_keys semantic_allowed split: if_splits)

text \<open>Every item of a list is a dictionary with allowed keys only.\<close>

definition only_allowed :: "string \<Rightarrow> pval list \<Rightarrow> bool" where
  "only_allowed label vs \<longleftrightarrow> list_all (\<lambda>v. \<exists>d. v = VDict d \<and> fst ` set d \<subseteq> set (allowed_for label)) vs"

lemma project_allowed:
  "label \<notin> set SEMANTIC_TYPE_LABELS \<Longrightarrow> only_allowed label (map (\<lambda>d. VDict (project d label)) ds)"
  using project_keys by (fastforce simp: only_allowed_def list_all_iff)

lemma projected_nodes_allowed:
  "projected_nodes label vs = Inr xs \<Longrightarrow> label \<notin> set SEMANTIC_TYPE_LABELS \<Longrightarrow> only_allowed label xs"
  using project_allowed by (auto simp: projected_nodes_def split: sum.splits)

lemma semantic_asset_allowed:
  assumes "semantic_asset row = Inr xs"
  shows "only_allowed LABEL_SEMANTIC_TYPE xs"
proof (cases row)
  case (fields st entity_id labels)
  have l: "(case filter (\<lambda>l. l \<in> set SEMANTIC_TYPE_LABELS) labels of [] \<Rightarrow> LABEL_SEMANTIC_TYPE | l # _ \<Rightarrow> l) = L \<Longrightarrow>
      fst ` set (project d L) \<subseteq> set (allowed_for LABEL_SEMANTIC_TYPE)" for d L
    using project_semantic_keys [of d L] project_fields_keys
    by (auto simp: project_def filter_eq_Cons_iff split: list.splits if_splits)
  show ?thesis
    using assms l [OF refl]
    by (fastforce simp: semantic_asset_def fields only_allowed_def Let_def dset_keys semantic_allowed
        split: sum.splits option.splits if_splits)
qed

lemma each_all: "each f xs = Inr ys \<Longrightarrow> y \<in> set ys \<Longrightarrow> \<exists>x \<in> set xs. f x = Inr y"
  by (induction xs arbitrary: ys) (auto split: sum.splits)

lemma plain_labels:
  "LABEL_DEVICE \<notin> set SEMANTIC_TYPE_LABELS" "LABEL_ENTITY \<notin> set SEMANTIC_TYPE_LABELS"
  "LABEL_AUTOMATION \<notin> set SEMANTIC_TYPE_LABELS" "LABEL_VALIDATION_FINDING \<notin> set SEMANTIC_TYPE_LABELS"
  by (simp_all add: const_defs)

lemma home_document_shape:
  assumes "home_document rows = Inr d"
  obtains assets automations findings where
    "each semantic_asset (hr_semantic rows) = Inr assets"
    "projected_nodes LABEL_AUTOMATION (hr_automations rows) = Inr automations"
    "projected_nodes LABEL_VALIDATION_FINDING (hr_findings rows) = Inr findings"
    "list_at d ''devices'' = map (\<lambda>x. VDict (project x LABEL_DEVICE)) (hr_devices rows)"
    "list_at d ''entities'' = map (\<lambda>x. VDict (project x LABEL_ENTITY)) (hr_entities rows)"
    "list_at d ''automations'' = automations" "list_at d ''semantic_assets'' = concat assets"
    "list_at d ''validation_findings'' = findings" "dget d ''truncated'' = VBool (hr_truncated rows \<noteq> [])"
  using assms by (auto simp: home_document_def list_at_def dget_def split: sum.splits)

text \<open>
  C28. Nothing but allowed fields leaves in the document of an area or of the whole home: every device, entity,
  automation, semantic asset and finding is projected to the fields its label allows.
\<close>

theorem export_only_allowed:
  assumes "export_area_or_whole_home target s = (Inr (Some d), t)"
  shows "only_allowed LABEL_DEVICE (list_at d ''devices'') \<and> only_allowed LABEL_ENTITY (list_at d ''entities'') \<and>
    only_allowed LABEL_AUTOMATION (list_at d ''automations'') \<and>
    only_allowed LABEL_SEMANTIC_TYPE (list_at d ''semantic_assets'') \<and>
    only_allowed LABEL_VALIDATION_FINDING (list_at d ''validation_findings'')"
proof -
  obtain rows where "home_document rows = Inr d"
    using assms by (auto simp: export_area_or_whole_home_def elim!: obind_result dest!: from_sum_result split: option.splits)
  then show ?thesis
  proof (rule home_document_shape, goal_cases)
    case (1 assets automations findings)
    have "only_allowed LABEL_SEMANTIC_TYPE (concat assets)"
      using each_all [OF 1(1)] semantic_asset_allowed by (fastforce simp: only_allowed_def list_all_iff)
    then show ?case using 1 project_allowed projected_nodes_allowed plain_labels by simp
  qed
qed

definition lamp_area :: graph where
  "lamp_area =
     \<lparr>g_nodes = [((LABEL_AREA, ''hall''), [(''name'', VStr ''Hall''), (''icon'', VStr ''mdi:sofa'')]),
                ((LABEL_DEVICE, ''d1''), [(''name'', VStr ''Lamp''), (''serial'', VStr ''S1'')])],
      g_rels = [(((LABEL_AREA, ''hall''), REL_HAS_DEVICE, (LABEL_DEVICE, ''d1'')), [])], g_indexes = []\<rparr>"

theorem export_only_allowed_witness:
  "\<exists>d. fst (export_area_or_whole_home (Some ''hall'') (world_at lamp_area [])) = Inr (Some d) \<and>
     list_at d ''devices'' = [VDict [(''ha_id'', VStr ''d1''), (''name'', VStr ''Lamp'')]] \<and>
     only_allowed LABEL_DEVICE (list_at d ''devices'')"
proof -
  have "case fst (export_area_or_whole_home (Some ''hall'') (world_at lamp_area [])) of
      Inr (Some d) \<Rightarrow> list_at d ''devices'' = [VDict [(''ha_id'', VStr ''d1''), (''name'', VStr ''Lamp'')]]
    | _ \<Rightarrow> False" by code_simp
  then obtain d t where d: "export_area_or_whole_home (Some ''hall'') (world_at lamp_area []) = (Inr (Some d), t)"
    and l: "list_at d ''devices'' = [VDict [(''ha_id'', VStr ''d1''), (''name'', VStr ''Lamp'')]]"
    by (cases "export_area_or_whole_home (Some ''hall'') (world_at lamp_area [])")
      (auto split: sum.splits option.splits)
  from export_only_allowed [OF d] show ?thesis using d l by auto
qed

section \<open>What an area export leaves out\<close>

lemma area_context_healthy:
  assumes "w_net s = []" and "matching LABEL_AREA target (w_graph s) = x # xs"
  shows "\<exists>r ds. area_context target s = (Inr r, s\<lparr>w_open := True\<rparr>) \<and>
    dget r ''result_type'' \<noteq> VStr RESULT_TYPE_NOT_FOUND \<and>
    list_at (inner_result r) ''devices'' = redact_list (map VDict ds) \<and>
    length ds = min DEFAULT_QUERY_LIMIT (card (set (targets_of (w_graph s) (fst x) [REL_HAS_DEVICE] (\<lambda>l. l = LABEL_DEVICE))))"
proof -
  let ?g = "w_graph s"
  let ?devices = "keep_first (targets_of ?g (fst x) [REL_HAS_DEVICE] (\<lambda>l. l = LABEL_DEVICE))"
  let ?through = "concat (map (\<lambda>d. targets_of ?g d [REL_HAS_ENTITY] (\<lambda>l. l = LABEL_ENTITY)) ?devices)"
  let ?es = "map node_props (nodes_of ?g ?through @ nodes_of ?g (sources_of ?g LABEL_ENTITY [REL_HAS_AREA] (fst x)))"
  let ?ds = "map (device_with_entities (take DEFAULT_QUERY_LIMIT ?es)) (take DEFAULT_QUERY_LIMIT (map node_props (nodes_of ?g ?devices)))"
  have rows: "area_rows target ?g = [\<lparr>rw_area = node_value x, rw_devices = map node_value (nodes_of ?g ?devices),
      rw_entities = map node_value (nodes_of ?g ?through @ nodes_of ?g (sources_of ?g LABEL_ENTITY [REL_HAS_AREA] (fst x)))\<rparr>]"
    by (simp add: area_rows_def assms(2) keys_values_def Let_def)
  have k: "\<not> secret_key_search ''devices''" "\<not> secret_key_search ''area''" by code_simp+
  have "\<exists>ws. area_context target s = (Inr (build_tool_result target RESULT_TYPE_AREA_CONTEXT
      (VDict [(''area'', VDict (node_props x)), (''devices'', VList (map VDict ?ds)),
         (''entities'', VList (map VDict (take DEFAULT_QUERY_LIMIT ?es)))]) ws OUTCOME_OK), s\<lparr>w_open := True\<rparr>)"
    unfolding area_context_def obind_Inr [where m = "run_query (read_stmt (area_rows target))" and s = s, OF healthy_read [OF assms(1)]]
      rows list.case area_row.select_convs present_properties_nodes from_sum_Inr obind_oret node_properties_node
      bounded_collection_def Let_def prod.case
    by (auto simp: or_empty_def comp_def oret_def)
  then obtain ws where r: "area_context target s = (Inr (build_tool_result target RESULT_TYPE_AREA_CONTEXT
      (VDict [(''area'', VDict (node_props x)), (''devices'', VList (map VDict ?ds)),
         (''entities'', VList (map VDict (take DEFAULT_QUERY_LIMIT ?es)))]) ws OUTCOME_OK), s\<lparr>w_open := True\<rparr>)" by blast
  have "length (keep_first ks) = card (set ks)" for ks :: "nkey list"
    using distinct_card [OF distinct_keep_first, of ks] by simp
  moreover have "keep_first (keep_first ks) = keep_first ks" for ks :: "nkey list"
    by (simp add: keep_first_id)
  ultimately have len: "length ?ds = min DEFAULT_QUERY_LIMIT (card (set (targets_of ?g (fst x) [REL_HAS_DEVICE] (\<lambda>l. l = LABEL_DEVICE))))"
    by (simp add: nodes_of_def)
  have types: "RESULT_TYPE_AREA_CONTEXT \<noteq> RESULT_TYPE_NOT_FOUND" by code_simp
  show ?thesis
    by (rule exI, rule exI [where x = ?ds], intro conjI, rule r)
      (use len types in \<open>simp_all add: build_tool_result_def inner_result_def dget_def list_at_def k del: secret_key_search.simps\<close>)
qed

lemma dicts_of_length: "length (dicts_of vs) = length vs"
  by (simp add: dicts_of_def)

lemma area_home_rows_healthy:
  assumes "w_net s = []" and "matching LABEL_AREA target (w_graph s) = x # xs"
  shows "\<exists>rows ids t. area_home_rows target s = (Inr (Some rows), t) \<and> hr_truncated rows = [] \<and>
    length (hr_devices rows) = min DEFAULT_QUERY_LIMIT
      (card (set (targets_of (w_graph s) (fst x) [REL_HAS_DEVICE] (\<lambda>l. l = LABEL_DEVICE)))) \<and>
    hr_automations rows = area_automations ids (w_graph s) \<and>
    hr_semantic rows = semantic_rows (\<lambda>i. i \<in> set ids) (w_graph s) \<and>
    hr_findings rows = area_findings ids target (w_graph s)"
proof -
  obtain r ds where r: "area_context target s = (Inr r, s\<lparr>w_open := True\<rparr>)"
    "dget r ''result_type'' \<noteq> VStr RESULT_TYPE_NOT_FOUND"
    "list_at (inner_result r) ''devices'' = redact_list (map VDict ds)"
    "length ds = min DEFAULT_QUERY_LIMIT (card (set (targets_of (w_graph s) (fst x) [REL_HAS_DEVICE] (\<lambda>l. l = LABEL_DEVICE))))"
    using area_context_healthy [OF assms] by blast
  have l: "length (redact_list vs) = length vs" for vs by (induction vs) auto
  show ?thesis
    unfolding area_home_rows_def obind_Inr [where m = "area_context target" and s = s, OF r(1)]
    using r(2-4) assms(1) by (auto simp: Let_def obind_def healthy_read oret_def dicts_of_length l)
qed

lemma home_document_nodes:
  assumes "hr_automations rows = map node_value as" and "hr_findings rows = map node_value fs"
    and "hr_semantic rows = map (\<lambda>(k, i, ls). (node_value k, i, ls)) ss"
  shows "\<exists>d. home_document rows = Inr d"
proof -
  have "\<exists>assets. each semantic_asset (map (\<lambda>(k, i, ls). (node_value k, i, ls)) ss) = Inr assets"
  proof (induction ss)
    case (Cons y ys)
    then show ?case by (cases y) (auto simp: semantic_asset_def Let_def)
  qed simp
  then show ?thesis unfolding home_document_def assms by (auto simp: projected_nodes_def)
qed

lemma area_export_healthy:
  assumes "w_net s = []" and "matching LABEL_AREA target (w_graph s) = x # xs"
  shows "\<exists>rows ids d t. export_area_or_whole_home (Some target) s = (Inr (Some d), t) \<and> home_document rows = Inr d \<and>
    hr_truncated rows = [] \<and> hr_findings rows = area_findings ids target (w_graph s) \<and>
    length (hr_devices rows) = min DEFAULT_QUERY_LIMIT
      (card (set (targets_of (w_graph s) (fst x) [REL_HAS_DEVICE] (\<lambda>l. l = LABEL_DEVICE))))"
proof -
  obtain rows ids t where rows: "area_home_rows target s = (Inr (Some rows), t)" "hr_truncated rows = []"
    "length (hr_devices rows) = min DEFAULT_QUERY_LIMIT
      (card (set (targets_of (w_graph s) (fst x) [REL_HAS_DEVICE] (\<lambda>l. l = LABEL_DEVICE))))"
    and nodes: "hr_automations rows = area_automations ids (w_graph s)"
      "hr_semantic rows = semantic_rows (\<lambda>i. i \<in> set ids) (w_graph s)"
      "hr_findings rows = area_findings ids target (w_graph s)"
    using area_home_rows_healthy [OF assms] by blast
  have "\<exists>as. hr_automations rows = map node_value as" "\<exists>fs. hr_findings rows = map node_value fs"
    unfolding nodes area_automations_def area_findings_def keys_values_def by blast+
  moreover have "\<exists>ss. hr_semantic rows = map (\<lambda>(k, i, ls). (node_value k, i, ls)) ss"
    unfolding nodes semantic_rows_def
    by (intro exI [where x = "map (\<lambda>((a, t, b), d). ((b, or_empty (node (w_graph s) b)), snd a, [fst b]))
       (filter (\<lambda>((a, t, b), d). t = REL_CLASSIFIED_AS \<and> fst a = LABEL_ENTITY \<and> snd a \<in> set ids) (g_rels (w_graph s)))"])
      (simp add: case_prod_unfold)
  ultimately obtain d where d: "home_document rows = Inr d" using home_document_nodes by blast
  then have "export_area_or_whole_home (Some target) s = (Inr (Some d), t)"
    using rows(1) by (simp add: export_area_or_whole_home_def obind_def oret_def)
  then show ?thesis using d rows(2,3) nodes(3) by blast
qed

text \<open>
  The document of an area never says that it was cut.  At most \<open>DEFAULT_QUERY_LIMIT\<close> devices are in it
  however many the area has, and the mark is false all the same: the warnings of the context it is built
  from are dropped.
\<close>

theorem area_export_never_truncated:
  assumes "w_net s = []" and "matching LABEL_AREA target (w_graph s) = x # xs"
  shows "\<exists>d t. export_area_or_whole_home (Some target) s = (Inr (Some d), t) \<and> dget d ''truncated'' = VBool False \<and>
    length (list_at d ''devices'') = min DEFAULT_QUERY_LIMIT
      (card (set (targets_of (w_graph s) (fst x) [REL_HAS_DEVICE] (\<lambda>l. l = LABEL_DEVICE))))"
proof -
  obtain rows d t where e: "export_area_or_whole_home (Some target) s = (Inr (Some d), t)" and d: "home_document rows = Inr d"
    and rows: "hr_truncated rows = []" "length (hr_devices rows) = min DEFAULT_QUERY_LIMIT
      (card (set (targets_of (w_graph s) (fst x) [REL_HAS_DEVICE] (\<lambda>l. l = LABEL_DEVICE))))"
    using area_export_healthy [OF assms] by blast
  show ?thesis using d
  proof (rule home_document_shape, goal_cases)
    case 1
    have "length (list_at d ''devices'') = length (hr_devices rows)" by (simp only: 1(4) length_map)
    then show ?case using 1(9) rows e by auto
  qed
qed

theorem area_export_never_truncated_witness:
  "\<exists>d. fst (export_area_or_whole_home (Some ''hall'') (world_at lamp_area [])) = Inr (Some d) \<and>
     dget d ''truncated'' = VBool False \<and> length (list_at d ''devices'') = 1"
proof -
  have m: "matching LABEL_AREA ''hall'' lamp_area = [((LABEL_AREA, ''hall''), [(''name'', VStr ''Hall''), (''icon'', VStr ''mdi:sofa'')])]"
    by code_simp
  have c: "card (set (targets_of lamp_area (LABEL_AREA, ''hall'') [REL_HAS_DEVICE] (\<lambda>l. l = LABEL_DEVICE))) = 1" by code_simp
  have g: "w_graph (world_at lamp_area []) = lamp_area" "w_net (world_at lamp_area []) = []" by (simp_all add: world_at_def)
  have m': "matching LABEL_AREA ''hall'' (w_graph (world_at lamp_area [])) =
      [((LABEL_AREA, ''hall''), [(''name'', VStr ''Hall''), (''icon'', VStr ''mdi:sofa'')])]"
    unfolding g by (rule m)
  show ?thesis
    using area_export_never_truncated [OF g(2) m'] c unfolding g(1) by (auto simp: DEFAULT_QUERY_LIMIT_def)
qed

section \<open>Findings are not found\<close>

text \<open>No finding has a \<open>target_id\<close>; what validation writes keeps it so.\<close>

definition untargeted :: "(nkey \<times> dict) list \<Rightarrow> bool" where
  "untargeted = list_all (\<lambda>(k, d). fst k = LABEL_VALIDATION_FINDING \<longrightarrow> dget d ''target_id'' = VNone)"

lemma untargeted_update:
  "untargeted al \<Longrightarrow> (fst k = LABEL_VALIDATION_FINDING \<Longrightarrow> dget v ''target_id'' = VNone) \<Longrightarrow> untargeted (AList.update k v al)"
  by (induction al) (auto simp: untargeted_def)

lemma finding_props_target:
  "dget (finding_props c v now d) ''target_id'' = (case d of None \<Rightarrow> VNone | Some x \<Rightarrow> dget x ''target_id'')"
  unfolding finding_props_def by (subst dget_set_props_absent) (auto simp: dget_def split: option.split)

lemma untargeted_merge_finding:
  assumes "untargeted (g_nodes g)"
  shows "untargeted (g_nodes (merge_finding_stmt c t l v now g))"
proof -
  have "(case map_of (g_nodes g) k of None \<Rightarrow> VNone | Some x \<Rightarrow> dget x ''target_id'') = VNone"
    if "fst k = LABEL_VALIDATION_FINDING" for k
    using assms that by (auto simp: untargeted_def list_all_iff split: option.split dest!: map_of_SomeD)
  then show ?thesis
    unfolding merge_finding_stmt_def Let_def nodes_merge_rel_with merge_node_with_def upsert_def
    using untargeted_update [OF assms] by (simp add: finding_props_target)
qed

lemma untargeted_findings: "untargeted (g_nodes g) \<Longrightarrow> area_findings ids i g = []"
  by (auto simp: area_findings_def filter_empty_conv untargeted_def list_all_iff)

definition write_findings :: "(string \<times> string \<times> string \<times> string \<times> pval) list \<Rightarrow> graph \<Rightarrow> graph" where
  "write_findings fs = fold (\<lambda>(category, target_ha_id, target_label, severity, now).
     merge_finding_stmt category target_ha_id target_label severity now) fs"

lemma untargeted_write_findings: "untargeted (g_nodes g) \<Longrightarrow> untargeted (g_nodes (write_findings fs g))"
  unfolding write_findings_def by (induction fs arbitrary: g) (auto simp: untargeted_merge_finding)

text \<open>
  The document of an area never holds a finding that validation wrote, whatever the findings are about: the
  export asks for a \<open>target_id\<close>, and validation stores the target as a relationship only.
\<close>

theorem area_export_omits_findings:
  assumes "w_net s = []" and "matching LABEL_AREA target (w_graph s) = x # xs"
    and "w_graph s = write_findings fs g" and "nodes_where (\<lambda>k d. fst k = LABEL_VALIDATION_FINDING) g = []"
  shows "\<exists>d t. export_area_or_whole_home (Some target) s = (Inr (Some d), t) \<and> list_at d ''validation_findings'' = []"
proof -
  obtain rows ids d t where e: "export_area_or_whole_home (Some target) s = (Inr (Some d), t)"
    and d: "home_document rows = Inr d" and rows: "hr_findings rows = area_findings ids target (w_graph s)"
    using area_export_healthy [OF assms(1,2)] by blast
  have "untargeted (g_nodes g)" using assms(4) by (auto simp: nodes_where_def filter_empty_conv untargeted_def list_all_iff)
  then have f: "hr_findings rows = []" using rows untargeted_findings untargeted_write_findings by (simp add: assms(3))
  show ?thesis using d
  proof (rule home_document_shape, goal_cases)
    case 1
    then have "list_at d ''validation_findings'' = []" using f by (simp add: projected_nodes_def present_properties_def)
    then show ?case using e by blast
  qed
qed

theorem area_export_omits_findings_witness:
  "\<exists>d. fst (export_area_or_whole_home (Some ''hall'') (world_at (write_findings
       [(FINDING_MISSING_DEVICE, ''hall'', LABEL_AREA, SEVERITY_INFO, VTime 0)] lamp_area) [])) = Inr (Some d) \<and>
     list_at d ''validation_findings'' = []"
proof -
  let ?fs = "[(FINDING_MISSING_DEVICE, ''hall'', LABEL_AREA, SEVERITY_INFO, VTime 0)]"
  let ?s = "world_at (write_findings ?fs lamp_area) []"
  have m: "matching LABEL_AREA ''hall'' (write_findings ?fs lamp_area) =
      [((LABEL_AREA, ''hall''), [(''name'', VStr ''Hall''), (''icon'', VStr ''mdi:sofa'')])]" by code_simp
  have n: "nodes_where (\<lambda>k d. fst k = LABEL_VALIDATION_FINDING) lamp_area = []" by code_simp
  have g: "w_graph ?s = write_findings ?fs lamp_area" "w_net ?s = []" by (simp_all add: world_at_def)
  show ?thesis
    using area_export_omits_findings [where s = ?s, unfolded g, OF refl m refl n] by auto
qed

section \<open>Exports are recorded\<close>

lemma keeps_area_context [keeps_intros]: "keeps (undisturbed g l) (area_context target)"
  unfolding area_context_def by (intro keeps_intros)

lemma keeps_device_context [keeps_intros]: "keeps (undisturbed g l) (device_context target)"
  unfolding device_context_def by (intro keeps_intros)

lemma keeps_entity_context [keeps_intros]: "keeps (undisturbed g l) (entity_context target)"
  unfolding entity_context_def by (intro keeps_intros)

lemma keeps_bounded_rows [keeps_intros]: "keeps (undisturbed g l) (bounded_rows q c)"
  unfolding bounded_rows_def by (intro keeps_intros)

lemma keeps_export_home [keeps_intros]: "keeps (undisturbed g l) (export_area_or_whole_home target)"
  unfolding export_area_or_whole_home_def area_home_rows_def whole_home_rows_def by (intro keeps_intros)

lemma keeps_export_nodes [keeps_intros]:
  "keeps (undisturbed g l) (export_entity target)"
  "keeps (undisturbed g l) (export_device target)"
  "keeps (undisturbed g l) (export_automation target)"
  unfolding export_entity_def export_device_def export_automation_def by (intro keeps_intros)+

lemma keeps_analyze_unaudited [keeps_intros]: "keeps (undisturbed g l) (analyze scope target False)"
  unfolding analyze_def if_False by (intro keeps_intros keeps_analyze_scope)

lemma keeps_first_impact [keeps_intros]: "keeps (undisturbed g l) (first_impact scopes target)"
  by (induction scopes) (auto intro!: keeps_intros)

lemma keeps_export_document: "keeps (undisturbed g l) (export_document export_type target)"
  unfolding export_document_def export_impact_def by (intro keeps_intros)

lemma export_record_fields:
  "dget (safe_record (export_record export_type status n e t)) ''event'' = VStr ''context_export''"
  "dget (safe_record (export_record export_type status n e t)) ''status'' = redact_value (VStr status)"
proof -
  let ?r = "export_record export_type status n e t"
  have s: "\<not> secret_key_search ''event''" "\<not> secret_key_search ''status''"
    and v: "redact_value (VStr ''context_export'') = VStr ''context_export''" by code_simp+
  have f: "''event'' \<in> set (allowed_fields ?r)" "''status'' \<in> set (allowed_fields ?r)"
    using common_allowed by (force simp: COMMON_FIELDS_def)+
  have d: "dget ?r ''event'' = VStr ''context_export''" "dget ?r ''status'' = VStr status"
    by (simp_all add: export_record_def dget_def)
  show "dget (safe_record ?r) ''event'' = VStr ''context_export''" by (simp only: dget_safe [OF f(1) s(1)] d v)
  show "dget (safe_record ?r) ''status'' = redact_value (VStr status)" by (simp only: dget_safe [OF f(2) s(2)] d)
qed

text \<open>
  An export changes nothing in the graph and is recorded exactly once, however it ends, with the status
  of an error exactly when it raised; the analyses inside an export about impact are not recorded on their
  own.
\<close>

theorem export_audited_once:
  assumes "list_all datable (stored s)" and "export export_type target True s = (r, t)"
  shows "w_graph t = w_graph s \<and> (\<exists>now entry. au_store t = Some (filter (fresh now) (stored s) @ [entry]) \<and>
    dget entry ''event'' = VStr ''context_export'' \<and> (dget entry ''status'' = VStr ''error'' \<longleftrightarrow> isl r))"
proof -
  have st: "redact_value (VStr ''error'') = VStr ''error''" "redact_value (VStr ''not_found'') = VStr ''not_found''"
    "redact_value (VStr ''resolved'') = VStr ''resolved''" by code_simp+
  have "redact_value (VStr (if b then ''not_found'' else ''resolved'')) \<noteq> VStr ''error''" for b using st by simp
  then show ?thesis
    using audited_once [OF assms(1) keeps_export_document assms(2) [unfolded export_def Let_def if_True]]
      export_record_fields st(1) by fastforce
qed

theorem export_audited_once_witness:
  "\<exists>entry. au_store (snd (export EXPORT_TYPE_IMPACT (Some ''hall'') True quiet_log)) = Some [entry] \<and>
     dget entry ''event'' = VStr ''context_export''"
  using export_audited_once [OF _ surjective_pairing, of quiet_log EXPORT_TYPE_IMPACT "Some ''hall''"]
  by (auto simp: quiet_log_def)

end
