(* ===== verification/Mesh_Sync.thy ===== *)
theory Mesh_Sync
  imports Graph_Frames
begin

text \<open>
  \<open>mesh_sync.py\<close>: one snapshot of the Zigbee mesh.  The answer of Zigbee2MQTT is data: what the request gave,
  \<open>None\<close> when it timed out or was no JSON.  The links of the answer are written in batches with their
  snapshot and device edges, old snapshots are deleted, and on request the links of older snapshots that
  are not part of the routing tree.
\<close>

section \<open>The answer\<close>

definition MQTT_DOMAIN :: string where
  "MQTT_DOMAIN = ''mqtt''"

definition RELATIONSHIP_NAMES :: "(int \<times> string) list" where
  "RELATIONSHIP_NAMES = [(0, ''parent''), (1, ''child''), (2, ''sibling''), (3, ''none''), (4, ''previous_child'')]"

definition Z2M_IDENTIFIER_PREFIXES :: "string list" where
  "Z2M_IDENTIFIER_PREFIXES = [''zigbee2mqtt_bridge_'', ''zigbee2mqtt_'']"

text \<open>\<open>x.get(key)\<close> needs a dictionary.\<close>

definition get_field :: "pval \<Rightarrow> string \<Rightarrow> exn + pval" where
  "get_field v key = (case v of VDict d \<Rightarrow> Inr (dget d key) | _ \<Rightarrow> Inl (AttributeError ''object has no attribute get''))"

text \<open>\<open>x or {}\<close> and \<open>x or []\<close>\<close>

definition or_dict :: "pval \<Rightarrow> pval" where
  "or_dict v = (if truthy v then v else VDict [])"

definition or_list :: "pval \<Rightarrow> pval" where
  "or_list v = (if truthy v then v else VList [])"

definition bind_sum :: "exn + 'a \<Rightarrow> ('a \<Rightarrow> exn + 'b) \<Rightarrow> exn + 'b" where
  "bind_sum r f = (case r of Inl e \<Rightarrow> Inl e | Inr x \<Rightarrow> f x)"

text \<open>
  Iterating a value: the items of a list, the keys of a dictionary, the characters of a string; nothing
  else can be iterated.
\<close>

definition items_of :: "pval \<Rightarrow> exn + pval list" where
  "items_of v =
     (case v of
        VList xs \<Rightarrow> Inr xs
      | VDict d \<Rightarrow> Inr (map (VStr \<circ> fst) d)
      | VStr s \<Rightarrow> Inr (map (\<lambda>c. VStr [c]) s)
      | _ \<Rightarrow> Inl (TypeError ''object is not iterable''))"

definition payload_value :: "pval \<Rightarrow> exn + pval" where
  "payload_value payload =
     bind_sum (get_field (or_dict payload) ''data'') (\<lambda>data. get_field (or_dict data) ''value'')"

text \<open>\<open>str(node["ieeeAddr"]).lower()\<close>; an address that is not a string has no text here.\<close>

definition address_text :: "pval \<Rightarrow> string" where
  "address_text v = (case v of VStr s \<Rightarrow> lower s | _ \<Rightarrow> [])"

fun first_coordinator :: "pval list \<Rightarrow> exn + string option" where
  "first_coordinator [] = Inr None"
| "first_coordinator (n # ns) =
     bind_sum (get_field n ''type'') (\<lambda>node_type.
     bind_sum (get_field n ''ieeeAddr'') (\<lambda>address.
       if node_type = VStr ''Coordinator'' \<and> truthy address then Inr (Some (address_text address))
       else first_coordinator ns))"

definition coordinator_ieee :: "pval \<Rightarrow> exn + string option" where
  "coordinator_ieee payload =
     bind_sum (payload_value payload) (\<lambda>v.
     bind_sum (items_of (or_list (case v of VDict d \<Rightarrow> dget d ''nodes'' | _ \<Rightarrow> VNone))) first_coordinator)"

text \<open>The devices of the registry with a Zigbee2MQTT identifier, by address; the last one counts.\<close>

definition identifier_address :: "string \<times> pval \<Rightarrow> string option" where
  "identifier_address x =
     (case x of (domain, identifier) \<Rightarrow>
       if domain \<noteq> MQTT_DOMAIN then None
       else (case identifier of
          VStr s \<Rightarrow> map_option (\<lambda>p. lower (drop (length p) s)) (find (\<lambda>p. starts_with p s) Z2M_IDENTIFIER_PREFIXES)
        | _ \<Rightarrow> None))"

definition ieee_to_device_ids :: "hass \<Rightarrow> (string \<times> string) list" where
  "ieee_to_device_ids h =
     fold (\<lambda>d mapping. fold (\<lambda>x m. case identifier_address x of None \<Rightarrow> m | Some a \<Rightarrow> AList.update a (dv_id d) m)
        (dv_identifiers d) mapping) (iter_devices h) []"

text \<open>The links, and the name of each address.\<close>

fun node_names :: "pval list \<Rightarrow> exn + (pval \<times> pval) list" where
  "node_names [] = Inr []"
| "node_names (n # ns) =
     bind_sum (get_field n ''ieeeAddr'') (\<lambda>address.
       if truthy address \<and> \<not> hashable address then Inl (TypeError ''unhashable type'')
       else if truthy address
       then bind_sum (get_field n ''friendlyName'') (\<lambda>name.
            bind_sum (node_names ns) (\<lambda>names. Inr ((address, if truthy name then name else address) # names)))
       else node_names ns)"

definition extract_links :: "pval \<Rightarrow> exn + pval list \<times> (pval \<times> pval) list" where
  "extract_links payload =
     bind_sum (payload_value payload) (\<lambda>v.
       case v of
         VDict d \<Rightarrow>
           bind_sum (items_of (or_list (dget d ''nodes''))) (\<lambda>nodes.
           bind_sum (node_names nodes) (\<lambda>names.
           bind_sum (items_of (or_list (dget d ''links''))) (\<lambda>links. Inr (links, rev names))))
       | _ \<Rightarrow> Inr ([], []))"

section \<open>The rows of a snapshot\<close>

record link_row =
  lk_ha_id :: string
  lk_properties :: dict
  lk_from_device :: "string option"
  lk_to_device :: "string option"

text \<open>\<open>names.get(a, a)\<close>, with the last name of an address (\<open>rev\<close> above).\<close>

definition name_of_address :: "(pval \<times> pval) list \<Rightarrow> string \<Rightarrow> pval" where
  "name_of_address names a = (case map_of names (VStr a) of None \<Rightarrow> VStr a | Some v \<Rightarrow> v)"

definition end_address :: "pval \<Rightarrow> string \<Rightarrow> exn + pval" where
  "end_address link key = bind_sum (get_field link key) (\<lambda>e. get_field (or_dict e) ''ieeeAddr'')"

definition shown :: "pval \<Rightarrow> string" where
  "shown v = (case v of VStr s \<Rightarrow> s | _ \<Rightarrow> [])"

text \<open>
  One link: nothing without both addresses.  The arrow between the names is not ASCII; it is written
  \<open>->\<close> here, as the id has it.  An address is a string; any other true value has no method \<open>lower\<close>.
\<close>

definition make_link_row ::
  "string \<Rightarrow> pval \<Rightarrow> (pval \<times> pval) list \<Rightarrow> (string \<times> string) list \<Rightarrow> pval \<Rightarrow> exn + link_row option" where
  "make_link_row snapshot_id now names ieee_to_device link =
     bind_sum (end_address link ''source'') (\<lambda>source.
     bind_sum (end_address link ''target'') (\<lambda>target.
       if \<not> truthy source \<or> \<not> truthy target then Inr None
       else (case (source, target) of
          (VStr a, VStr b) \<Rightarrow>
            bind_sum (get_field link ''relationship'') (\<lambda>raw.
            bind_sum (get_field link ''linkquality'') (\<lambda>lqi.
            bind_sum (get_field link ''depth'') (\<lambda>depth.
              let relationship = (case raw of VInt _ \<Rightarrow> raw | _ \<Rightarrow> VNone);
                  relationship_name = (case raw of
                      VInt i \<Rightarrow> (case map_of RELATIONSHIP_NAMES i of None \<Rightarrow> VNone | Some n \<Rightarrow> VStr n) | _ \<Rightarrow> VNone);
                  from_name = name_of_address names a; to_name = name_of_address names b
              in Inr (Some \<lparr>lk_ha_id = snapshot_id @ ''::'' @ a @ ''->'' @ b,
                   lk_properties =
                     [(''name'', VStr (shown from_name @ '' -> '' @ shown to_name)), (''from_device'', VStr a),
                      (''from_name'', from_name), (''to_device'', VStr b), (''to_name'', to_name),
                      (''lqi'', lqi), (''depth'', depth), (''relationship'', relationship),
                      (''relationship_name'', relationship_name), (''source'', VStr SOURCE_HOME_ASSISTANT),
                      (''updated_at'', now)],
                   lk_from_device = map_of ieee_to_device (lower a),
                   lk_to_device = map_of ieee_to_device (lower b)\<rparr>))))
        | _ \<Rightarrow> if hashable source \<and> hashable target then Inl (AttributeError ''object has no attribute lower'')
              else Inl (TypeError ''unhashable type''))))"

fun link_rows ::
  "string \<Rightarrow> pval \<Rightarrow> (pval \<times> pval) list \<Rightarrow> (string \<times> string) list \<Rightarrow> pval list \<Rightarrow> exn + link_row list" where
  "link_rows snapshot_id now names devices [] = Inr []"
| "link_rows snapshot_id now names devices (link # links) =
     bind_sum (make_link_row snapshot_id now names devices link) (\<lambda>row.
     bind_sum (link_rows snapshot_id now names devices links) (\<lambda>rows.
       Inr (case row of None \<Rightarrow> rows | Some r \<Rightarrow> r # rows)))"

section \<open>Writing\<close>

definition WRITE_BATCH_SIZE :: nat where
  "WRITE_BATCH_SIZE = 250"

definition edge_props :: "pval \<Rightarrow> dict option \<Rightarrow> dict" where
  "edge_props updated_at d =
     set_props (or_empty d) [(''source'', VStr SOURCE_HOME_ASSISTANT), (''updated_at'', updated_at)]"

definition link_stmt :: "string \<Rightarrow> pval \<Rightarrow> link_row \<Rightarrow> graph \<Rightarrow> graph" where
  "link_stmt snapshot_id updated_at row =
     merge_rel_with ((LABEL_MESH_SNAPSHOT, snapshot_id), REL_HAS_LINK, (LABEL_MESH_LINK, lk_ha_id row)) (edge_props updated_at) \<circ>
     merge_node_with (LABEL_MESH_LINK, lk_ha_id row) (\<lambda>d. set_props (or_empty d) (lk_properties row))"

definition device_edge_stmt :: "string \<Rightarrow> pval \<Rightarrow> string \<times> string \<Rightarrow> graph \<Rightarrow> graph" where
  "device_edge_stmt rel_type updated_at x =
     merge_rel_with ((LABEL_MESH_LINK, fst x), rel_type, (LABEL_DEVICE, snd x)) (edge_props updated_at)"

text \<open>The rows whose end is a known device.\<close>

definition resolved :: "(link_row \<Rightarrow> string option) \<Rightarrow> link_row list \<Rightarrow> (string \<times> string) list" where
  "resolved device rows =
     concat (map (\<lambda>r. case device r of None \<Rightarrow> [] | Some d \<Rightarrow> if d = [] then [] else [(lk_ha_id r, d)]) rows)"

definition async_write_link_batch :: "string \<Rightarrow> link_row list \<Rightarrow> ('z, unit) wop" where
  "async_write_link_batch snapshot_id rows =
     obind now_iso (\<lambda>updated_at.
     oseq (run_query_with_retry (write_stmt (unwind (link_stmt snapshot_id updated_at) rows)))
       (oforeach [(REL_FROM_DEVICE, lk_from_device), (REL_TO_DEVICE, lk_to_device)] (\<lambda>(rel_type, device).
          owhen (resolved device rows \<noteq> [])
            (run_query_with_retry (write_stmt (unwind (device_edge_stmt rel_type updated_at) (resolved device rows)))))))"

section \<open>Pruning\<close>

definition prune_snapshots_stmt :: "pval \<Rightarrow> graph \<Rightarrow> graph" where
  "prune_snapshots_stmt cutoff g =
     (let old = map fst (nodes_where (\<lambda>k d. fst k = LABEL_MESH_SNAPSHOT \<and>
            (case (dget d ''scanned_at'', cutoff) of (VTime t, VTime c) \<Rightarrow> t < c | _ \<Rightarrow> False)) g);
          links = map (snd \<circ> snd \<circ> fst) (rels_where (\<lambda>(a, t, b) d. a \<in> set old \<and> t = REL_HAS_LINK \<and>
            fst b = LABEL_MESH_LINK) g)
      in detach_delete (\<lambda>k d. k \<in> set (old @ links)) g)"

definition async_prune_old_snapshots :: "nat \<Rightarrow> ('z, unit) wop" where
  "async_prune_old_snapshots retention_days =
     obind utc_now (\<lambda>now. run_query_with_retry (write_stmt (prune_snapshots_stmt
       (VTime (now - int retention_days * (24 * 3600 * 1000000))))))"

definition TREE_RELATIONSHIPS :: "int list" where
  "TREE_RELATIONSHIPS = [0, 1]"

definition MAX_PRUNE_BATCHES :: nat where
  "MAX_PRUNE_BATCHES = 200"

text \<open>A link outside the tree; an unknown relationship is none.\<close>

definition off_tree :: "dict \<Rightarrow> bool" where
  "off_tree d \<longleftrightarrow> dget d ''relationship'' \<noteq> VNone \<and> dget d ''relationship'' \<notin> set (map VInt TREE_RELATIONSHIPS)"

definition history_siblings :: "string \<Rightarrow> graph \<Rightarrow> nkey list" where
  "history_siblings newest g =
     map (\<lambda>((a, t, b), d). b) (rels_where (\<lambda>(a, t, b) d. fst a = LABEL_MESH_SNAPSHOT \<and> snd a \<noteq> newest \<and>
        t = REL_HAS_LINK \<and> fst b = LABEL_MESH_LINK \<and> off_tree (or_empty (node g b))) g)"

text \<open>
  A link belongs to one snapshot, by its id, so no row of the batch repeats a link; \<open>count(*)\<close> counts rows.
\<close>

definition prune_siblings_stmt :: "string \<Rightarrow> nat stmt" where
  "prune_siblings_stmt newest g =
     (let batch = take WRITE_BATCH_SIZE (history_siblings newest g)
      in (length batch, detach_delete (\<lambda>k d. k \<in> set batch) g))"

fun prune_batches :: "string \<Rightarrow> nat \<Rightarrow> nat \<Rightarrow> ('z, nat) wop" where
  "prune_batches newest 0 removed = oret removed"
| "prune_batches newest (Suc n) removed =
     obind (run_query_with_retry (prune_siblings_stmt newest)) (\<lambda>deleted.
       if deleted < WRITE_BATCH_SIZE then oret (removed + deleted) else prune_batches newest n (removed + deleted))"

definition async_prune_history_siblings :: "string \<Rightarrow> ('z, nat) wop" where
  "async_prune_history_siblings newest = prune_batches newest MAX_PRUNE_BATCHES 0"

section \<open>Dates\<close>

text \<open>
  The calendar date of a day counted from the epoch, years from March (eras of 400 years), for the two
  formats of \<open>strftime\<close> the scan uses.
\<close>

definition civil_date :: "int \<Rightarrow> int \<times> int \<times> int" where
  "civil_date days =
     (let z = days + 719468; era = z div 146097; doe = z mod 146097;
          yoe = (doe - doe div 1460 + doe div 36524 - doe div 146096) div 365;
          doy = doe - (365 * yoe + yoe div 4 - yoe div 100);
          mp = (5 * doy + 2) div 153;
          d = doy - (153 * mp + 2) div 5 + 1;
          m = (if mp < 10 then mp + 3 else mp - 9)
      in (yoe + era * 400 + (if m \<le> 2 then 1 else 0), m, d))"

definition padded :: "nat \<Rightarrow> int \<Rightarrow> string" where
  "padded n i = (let s = str_of_int i in replicate (n - length s) (CHR ''0'') @ s)"

definition day_seconds :: "int \<Rightarrow> int" where
  "day_seconds now = now div 1000000 mod 86400"

text \<open>\<open>mesh-%Y%m%dT%H%M%SZ\<close>\<close>

definition snapshot_id_at :: "int \<Rightarrow> string" where
  "snapshot_id_at now =
     (case civil_date (now div 86400000000) of (y, m, d) \<Rightarrow>
        ''mesh-'' @ padded 4 y @ padded 2 m @ padded 2 d @ ''T'' @ padded 2 (day_seconds now div 3600) @
        padded 2 (day_seconds now div 60 mod 60) @ padded 2 (day_seconds now mod 60) @ ''Z'')"

text \<open>\<open>Mesh scan %Y-%m-%d %H:%M\<close>\<close>

definition snapshot_name_at :: "int \<Rightarrow> string" where
  "snapshot_name_at now =
     (case civil_date (now div 86400000000) of (y, m, d) \<Rightarrow>
        ''Mesh scan '' @ padded 4 y @ ''-'' @ padded 2 m @ ''-'' @ padded 2 d @ '' '' @
        padded 2 (day_seconds now div 3600) @ '':'' @ padded 2 (day_seconds now div 60 mod 60))"

lemma date_examples:
  "civil_date 0 = (1970, 1, 1)" "civil_date 19782 = (2024, 2, 29)" "civil_date 20454 = (2026, 1, 1)"
  by code_simp+

section \<open>The scan\<close>

record scan_options =
  sn_retention_days :: nat
  sn_coordinator_device :: "string option"
  sn_keep_sibling_history :: bool

definition async_scan_zigbee_mesh :: "hass \<Rightarrow> scan_options \<Rightarrow> pval option \<Rightarrow> ('z, nat) wop" where
  "async_scan_zigbee_mesh h opts response =
     (if \<not> has_service h MQTT_DOMAIN ''publish'' then oret 0
      else (case response of
         None \<Rightarrow> oret 0
       | Some payload \<Rightarrow>
           obind (from_sum (extract_links payload)) (\<lambda>(links, names).
           obind utc_now (\<lambda>now.
           let snapshot_id = snapshot_id_at now in
           oseq (merge_node LABEL_MESH_SNAPSHOT snapshot_id
                  [(''name'', VStr (snapshot_name_at now)), (''scanned_at'', VTime now)]
                  SOURCE_HOME_ASSISTANT)
          (obind (from_sum (coordinator_ieee payload)) (\<lambda>coordinator.
           let ieee_to_device = ieee_to_device_ids h;
               ieee_to_device = (case coordinator of
                   Some a \<Rightarrow> if a \<noteq> [] \<and> present (sn_coordinator_device opts)
                     then AList.update a (the (sn_coordinator_device opts)) ieee_to_device else ieee_to_device
                 | None \<Rightarrow> ieee_to_device) in
           obind (from_sum (link_rows snapshot_id (VTime now) names ieee_to_device links)) (\<lambda>rows.
           oseq (oforeach (chunks_of WRITE_BATCH_SIZE rows) (async_write_link_batch snapshot_id))
          (oseq (async_prune_old_snapshots (sn_retention_days opts))
          (oseq (if sn_keep_sibling_history opts then oret 0 else async_prune_history_siblings snapshot_id)
            (oret (length rows)))))))))))"

section \<open>Pruning ends and is complete\<close>

lemma healthy_retry:
  "w_net w = [] \<Longrightarrow> run_query_with_retry q w =
     (Inr (fst (q (w_graph w))), w\<lparr>w_open := True, w_graph := snd (q (w_graph w))\<rparr>)"
  by (simp add: run_query_with_retry_def RETRY_MAX_ATTEMPTS_def eval_nat_numeral run_query_eq)

lemma history_label: "k \<in> set (history_siblings newest g) \<Longrightarrow> fst k = LABEL_MESH_LINK"
  by (auto simp: history_siblings_def rels_where_def)

lemma history_after_delete:
  assumes wf: "wf_graph g" and b: "set batch \<subseteq> set (history_siblings newest g)"
  shows "history_siblings newest (detach_delete (\<lambda>k d. k \<in> set batch) g) =
    filter (\<lambda>k. k \<notin> set batch) (history_siblings newest g)"
proof -
  let ?gone = "map fst (filter (\<lambda>(k, d). k \<in> set batch) (g_nodes g))"
  have l: "fst k = LABEL_MESH_LINK" if "k \<in> set batch" for k using that b history_label by blast
  have n: "node (detach_delete (\<lambda>k d. k \<in> set batch) g) k = (if k \<in> set batch then None else node g k)" for k
    using node_detach_delete [OF wf_nodes_distinct [OF wf]] by (auto split: option.split)
  have gone: "k \<in> set ?gone \<longleftrightarrow> has_node g k \<and> k \<in> set batch" for k
    using gone_iff [OF wf_nodes_distinct [OF wf], of k "\<lambda>k d. k \<in> set batch"] by (auto simp: has_node_def)
  let ?g' = "detach_delete (\<lambda>k d. k \<in> set batch) g"
  let ?sibling = "\<lambda>h ((a, t, b), d). fst a = LABEL_MESH_SNAPSHOT \<and> snd a \<noteq> newest \<and> t = REL_HAS_LINK \<and>
        fst b = LABEL_MESH_LINK \<and> off_tree (or_empty (node h b))"
  have "g_rels ?g' = filter (\<lambda>((a, t, b), d). a \<notin> set ?gone \<and> b \<notin> set ?gone) (g_rels g)"
    by (simp add: detach_delete_def Let_def)
  then have "filter (?sibling ?g') (g_rels ?g') =
      filter (\<lambda>x. (\<lambda>((a, t, b), d). a \<notin> set ?gone \<and> b \<notin> set ?gone) x \<and> ?sibling ?g' x) (g_rels g)"
    by (simp only: filter_filter)
  also have "\<dots> = filter (\<lambda>x. ?sibling g x \<and> snd (snd (fst x)) \<notin> set batch) (g_rels g)"
  proof (rule filter_cong [OF refl], goal_cases)
    case (1 x)
    obtain a t b d where x: "x = ((a, t, b), d)" by (metis prod.exhaust)
    have h: "has_node g a" "has_node g b" using wf 1 by (fastforce simp: wf_graph_def x)+
    have "a \<notin> set batch" if "fst a = LABEL_MESH_SNAPSHOT" using that l [of a] by (auto simp: const_defs)
    then show ?case using h gone n [of b] unfolding x by auto
  qed
  also have "\<dots> = filter (\<lambda>x. snd (snd (fst x)) \<notin> set batch) (filter (?sibling g) (g_rels g))"
    by (simp only: filter_filter)
  finally show ?thesis
    unfolding history_siblings_def rels_where_def by (simp only: filter_map comp_def case_prod_unfold)
qed

lemma filter_not_taken:
  "filter (\<lambda>k. k \<notin> set (take n xs)) xs = filter (\<lambda>k. k \<notin> set (take n xs)) (drop n xs)"
proof -
  have "filter p xs = filter p (take n xs) @ filter p (drop n xs)" for p
    by (metis append_take_drop_id filter_append)
  from this [of "\<lambda>k. k \<notin> set (take n xs)"] show ?thesis by (simp add: filter_empty_conv)
qed

lemma prune_batches_healthy:
  "\<lbrakk>w_net w = []; wf_graph (w_graph w); length (history_siblings newest (w_graph w)) \<le> n * WRITE_BATCH_SIZE\<rbrakk> \<Longrightarrow>
   \<exists>k t. prune_batches newest n removed w = (Inr (removed + k), t) \<and> history_siblings newest (w_graph t) = [] \<and>
     k \<le> length (history_siblings newest (w_graph w)) \<and>
     (\<forall>j. node (w_graph t) j = (if j \<in> set (history_siblings newest (w_graph w)) then None else node (w_graph w) j))"
proof (induction n arbitrary: w removed)
  case 0
  then show ?case by (simp add: oret_def)
next
  case (Suc n)
  let ?g = "w_graph w"
  let ?h = "history_siblings newest ?g"
  let ?batch = "take WRITE_BATCH_SIZE ?h"
  let ?g' = "detach_delete (\<lambda>k d. k \<in> set ?batch) ?g"
  let ?u = "w\<lparr>w_open := True, w_graph := ?g'\<rparr>"
  have run: "run_query_with_retry (prune_siblings_stmt newest) w = (Inr (length ?batch), ?u)"
    by (simp add: healthy_retry [OF Suc.prems(1)] prune_siblings_stmt_def Let_def)
  have h': "history_siblings newest ?g' = filter (\<lambda>k. k \<notin> set ?batch) ?h"
    by (rule history_after_delete [OF Suc.prems(2)]) (rule set_take_subset)
  have split: "filter (\<lambda>k. k \<notin> set ?batch) ?h = filter (\<lambda>k. k \<notin> set ?batch) (drop WRITE_BATCH_SIZE ?h)"
    by (rule filter_not_taken)
  have node: "node ?g' j = (if j \<in> set ?batch then None else node ?g j)" for j
    using node_detach_delete [OF wf_nodes_distinct [OF Suc.prems(2)]] by (auto split: option.split)
  show ?case
  proof (cases "length ?h < WRITE_BATCH_SIZE")
    case True
    then have "prune_batches newest (Suc n) removed w = (Inr (removed + length ?h), ?u)"
      using run by (simp add: obind_def oret_def)
    moreover have "?batch = ?h" using True by simp
    ultimately show ?thesis using h' node by auto
  next
    case False
    then have p: "prune_batches newest (Suc n) removed w = prune_batches newest n (removed + WRITE_BATCH_SIZE) ?u"
      using run by (simp add: obind_def)
    have len: "length (history_siblings newest (w_graph ?u)) \<le> length ?h - WRITE_BATCH_SIZE"
      using h' split length_filter_le [of "\<lambda>k. k \<notin> set ?batch" "drop WRITE_BATCH_SIZE ?h"] by simp
    moreover have "length ?h - WRITE_BATCH_SIZE \<le> n * WRITE_BATCH_SIZE" using Suc.prems(3) by simp
    moreover have "wf_graph (w_graph ?u)" using Suc.prems(2) wf_detach_delete by simp
    ultimately obtain k t where t: "prune_batches newest n (removed + WRITE_BATCH_SIZE) ?u = (Inr (removed + WRITE_BATCH_SIZE + k), t)"
      "history_siblings newest (w_graph t) = []" "k \<le> length (history_siblings newest (w_graph ?u))"
      "\<forall>j. node (w_graph t) j = (if j \<in> set (history_siblings newest (w_graph ?u)) then None else node (w_graph ?u) j)"
      using Suc.IH [of ?u "removed + WRITE_BATCH_SIZE"] Suc.prems(1) by fastforce
    have "node (w_graph t) j = (if j \<in> set ?h then None else node ?g j)" for j
    proof -
      have "w_graph ?u = ?g'" by simp
      then have "node (w_graph t) j = (if j \<in> set (history_siblings newest ?g') then None else node ?g' j)"
        using t(4) by presburger
      then show ?thesis unfolding h' node by (auto dest: in_set_takeD)
    qed
    moreover have "WRITE_BATCH_SIZE + k \<le> length ?h" using t(3) len False by simp
    ultimately show ?thesis using p t(1,2) by (intro exI [where x = "WRITE_BATCH_SIZE + k"] exI conjI) (auto simp: add.assoc)
  qed
qed

text \<open>
  With a database that answers, the pruning of the history leaves no link outside the routing tree in any
  older snapshot, as long as there were no more than its batches can hold, and deletes nothing else.
\<close>

theorem sibling_history_pruned:
  assumes "w_net w = []" and "wf_graph (w_graph w)"
    and "length (history_siblings newest (w_graph w)) \<le> MAX_PRUNE_BATCHES * WRITE_BATCH_SIZE"
  shows "\<exists>n t. async_prune_history_siblings newest w = (Inr n, t) \<and> history_siblings newest (w_graph t) = [] \<and>
    n \<le> length (history_siblings newest (w_graph w)) \<and>
    (\<forall>k. node (w_graph t) k = (if k \<in> set (history_siblings newest (w_graph w)) then None else node (w_graph w) k))"
  using prune_batches_healthy [OF assms, of 0] by (simp add: async_prune_history_siblings_def)

text \<open>An older snapshot with a parent and a sibling link, and the newest one.\<close>

definition two_snapshots :: graph where
  "two_snapshots =
     \<lparr>g_nodes = [((LABEL_MESH_SNAPSHOT, ''s1''), []), ((LABEL_MESH_SNAPSHOT, ''s2''), []),
        ((LABEL_MESH_LINK, ''s1::a->b''), [(''relationship'', VInt 0)]),
        ((LABEL_MESH_LINK, ''s1::a->c''), [(''relationship'', VInt 2)]),
        ((LABEL_MESH_LINK, ''s2::a->c''), [(''relationship'', VInt 2)])],
      g_rels = [(((LABEL_MESH_SNAPSHOT, ''s1''), REL_HAS_LINK, (LABEL_MESH_LINK, ''s1::a->b'')), []),
        (((LABEL_MESH_SNAPSHOT, ''s1''), REL_HAS_LINK, (LABEL_MESH_LINK, ''s1::a->c'')), []),
        (((LABEL_MESH_SNAPSHOT, ''s2''), REL_HAS_LINK, (LABEL_MESH_LINK, ''s2::a->c'')), [])],
      g_indexes = []\<rparr>"

theorem sibling_history_pruned_witness:
  "\<exists>n t. async_prune_history_siblings ''s2'' (world_at two_snapshots []) = (Inr n, t) \<and>
     node (w_graph t) (LABEL_MESH_LINK, ''s1::a->c'') = None \<and>
     node (w_graph t) (LABEL_MESH_LINK, ''s2::a->c'') = Some [(''relationship'', VInt 2)]"
proof -
  have h: "history_siblings ''s2'' two_snapshots = [(LABEL_MESH_LINK, ''s1::a->c'')]" by code_simp
  have n: "node two_snapshots (LABEL_MESH_LINK, ''s2::a->c'') = Some [(''relationship'', VInt 2)]" by code_simp
  have wf: "wf_graph two_snapshots" by code_simp
  have g: "w_graph (world_at two_snapshots []) = two_snapshots" "w_net (world_at two_snapshots []) = []"
    by (simp_all add: world_at_def)
  have "length (history_siblings ''s2'' two_snapshots) \<le> MAX_PRUNE_BATCHES * WRITE_BATCH_SIZE"
    by (simp add: h MAX_PRUNE_BATCHES_def WRITE_BATCH_SIZE_def)
  from sibling_history_pruned [OF g(2), unfolded g(1), OF wf this] show ?thesis using n by (auto simp: h)
qed

section \<open>What a scan can change\<close>












text \<open>A home with MQTT, and an answer with one link between two known addresses.\<close>

definition mqtt_home :: hass where
  "mqtt_home = empty_home\<lparr>ha_services := [(MQTT_DOMAIN, ''publish'')]\<rparr>"

definition scan_defaults :: scan_options where
  "scan_defaults = \<lparr>sn_retention_days = 30, sn_coordinator_device = None, sn_keep_sibling_history = True\<rparr>"



text \<open>
  An answer of an unexpected shape makes the scan raise: a list in the place of the message, or a node that is
  no object.  Only a missing value and a value that is not an object give an empty snapshot.
\<close>

theorem unexpected_answer_raises:
  "isl (fst (async_scan_zigbee_mesh mqtt_home scan_defaults (Some (VList [VInt 1])) s)) \<and>
   isl (fst (async_scan_zigbee_mesh mqtt_home scan_defaults
     (Some (VDict [(''data'', VDict [(''value'', VDict [(''nodes'', VList [VInt 1])])])])) s))"
proof -
  have "has_service mqtt_home MQTT_DOMAIN ''publish''" by code_simp
  moreover have "extract_links (VList [VInt 1]) = Inl (AttributeError ''object has no attribute get'')"
    "extract_links (VDict [(''data'', VDict [(''value'', VDict [(''nodes'', VList [VInt 1])])])]) =
       Inl (AttributeError ''object has no attribute get'')"
    by code_simp+
  ultimately show ?thesis by (simp add: async_scan_zigbee_mesh_def obind_def oraise_def)
qed

end
