(* ===== verification/Measurement_Reports.thy ===== *)
theory Measurement_Reports
  imports Query_Contexts "HOL-Library.Multiset"
begin

text \<open>
  The two tools of \<open>query_tools.py\<close> over current measurements: \<open>low_battery_areas\<close> groups the low batteries by
  area and device, \<open>active_consumers\<close> the power readings of consumers by device.  The clock of \<open>time.time()\<close>
  is the clock of the world, in seconds.
\<close>

section \<open>Readings\<close>

text \<open>Comparisons of a property with a number; a property of another type compares to null.\<close>

definition number_of :: "pval \<Rightarrow> pyfloat option" where
  "number_of v = (case v of VInt i \<Rightarrow> Some (Fin (of_int i)) | VFloat f \<Rightarrow> Some f | _ \<Rightarrow> None)"

definition below :: "pval \<Rightarrow> rat \<Rightarrow> bool" where
  "below v q = (case number_of v of Some (Fin x) \<Rightarrow> x < q | Some NInf \<Rightarrow> True | _ \<Rightarrow> False)"

definition above :: "pval \<Rightarrow> rat \<Rightarrow> bool" where
  "above v q = (case number_of v of Some (Fin x) \<Rightarrow> q < x | Some PInf \<Rightarrow> True | _ \<Rightarrow> False)"

definition at_least :: "pval \<Rightarrow> rat \<Rightarrow> bool" where
  "at_least v q = (case number_of v of Some (Fin x) \<Rightarrow> q \<le> x | Some PInf \<Rightarrow> True | _ \<Rightarrow> False)"

definition coalesce_of :: "pval list \<Rightarrow> pval" where
  "coalesce_of vs = (case find (\<lambda>v. v \<noteq> VNone) vs of None \<Rightarrow> VNone | Some v \<Rightarrow> v)"

text \<open>\<open>OPTIONAL MATCH\<close>: one row without a match.\<close>

definition optional :: "'a list \<Rightarrow> 'a option list" where
  "optional xs = (if xs = [] then [None] else map Some xs)"

definition fresh_after :: "int \<Rightarrow> rat \<Rightarrow> rat" where
  "fresh_after now maximum_age = of_int now / 1000000 - maximum_age * 3600"

section \<open>Low batteries\<close>

definition low_battery :: "rat \<Rightarrow> rat \<Rightarrow> nkey \<times> dict \<Rightarrow> bool" where
  "low_battery threshold fresh x \<longleftrightarrow>
     fst (fst x) = LABEL_ENTITY \<and> dget (snd x) MEASUREMENT_KIND = VStr MEASUREMENT_KIND_BATTERY \<and>
     dget (snd x) MEASUREMENT_STATUS = VStr MEASUREMENT_STATUS_AVAILABLE \<and>
     below (dget (snd x) ''battery_percentage'') threshold \<and>
     at_least (dget (snd x) ''measurement_last_updated_epoch'') fresh"

record battery_row =
  br_area :: "nkey \<times> dict"
  br_device :: "(nkey \<times> dict) option"
  br_entity :: "nkey \<times> dict"

definition row_name :: "(nkey \<times> dict) option \<Rightarrow> pval" where
  "row_name x = (case x of None \<Rightarrow> VNone | Some y \<Rightarrow> dget (snd y) ''name'')"

definition row_id :: "(nkey \<times> dict) option \<Rightarrow> pval" where
  "row_id x = (case x of None \<Rightarrow> VNone | Some y \<Rightarrow> VStr (snd (fst y)))"

text \<open>One row per device of the entity, area of that device and area of the entity itself.\<close>

definition battery_rows_of :: "graph \<Rightarrow> nkey \<times> dict \<Rightarrow> battery_row list" where
  "battery_rows_of g e =
     concat (map (\<lambda>d. concat (map (\<lambda>device_area. List.map_filter (\<lambda>direct_area.
         (case (if device_area \<noteq> None then device_area else direct_area) of
            None \<Rightarrow> None
          | Some a \<Rightarrow> Some \<lparr>br_area = a, br_device = d, br_entity = e\<rparr>))
         (optional (nodes_of g (targets_of g (fst e) [REL_HAS_AREA] (\<lambda>l. l = LABEL_AREA)))))
       (case d of None \<Rightarrow> [None]
        | Some x \<Rightarrow> optional (nodes_of g (sources_of g LABEL_AREA [REL_HAS_DEVICE] (fst x))))))
     (optional (nodes_of g (sources_of g LABEL_DEVICE [REL_HAS_ENTITY] (fst e)))))"

definition order_battery_rows :: "battery_row list \<Rightarrow> battery_row list" where
  "order_battery_rows rows =
     sort_key (\<lambda>r. lower (name_text (dget (snd (br_area r)) ''name'')))
    (sort_key (\<lambda>r. snd (fst (br_area r)))
    (sort_key (\<lambda>r. lower (name_text (coalesce_of [row_name (br_device r), dget (snd (br_entity r)) ''name''])))
    (sort_key (\<lambda>r. name_text (coalesce_of [row_id (br_device r), VStr (snd (fst (br_entity r)))]))
    (sort_key (\<lambda>r. snd (fst (br_entity r))) rows))))"

definition low_battery_rows :: "rat \<Rightarrow> rat \<Rightarrow> graph \<Rightarrow> battery_row list" where
  "low_battery_rows threshold fresh g =
     order_battery_rows (concat (map (battery_rows_of g) (filter (low_battery threshold fresh) (g_nodes g))))"

definition status_count :: "string \<Rightarrow> graph \<Rightarrow> nat" where
  "status_count status g =
     length (filter (\<lambda>x. fst (fst x) = LABEL_ENTITY \<and> dget (snd x) MEASUREMENT_KIND = VStr MEASUREMENT_KIND_BATTERY \<and>
       dget (snd x) MEASUREMENT_STATUS = VStr status) (g_nodes g))"

definition WARNING_MESSAGES :: "(string \<times> string \<times> string) list" where
  "WARNING_MESSAGES = [(MEASUREMENT_STATUS_UNAVAILABLE, ''unavailable'', ''unavailable''),
     (MEASUREMENT_STATUS_INVALID_VALUE, ''invalid'', ''invalid''),
     (MEASUREMENT_STATUS_UNSUPPORTED_UNIT, ''has an unsupported unit'', ''have an unsupported unit'')]"

text \<open>The groups: areas by id with their name, in each the items by device, or by entity without one.\<close>

record battery_item =
  bi_device_id :: pval
  bi_entity_id :: string
  bi_name :: pval
  bi_measurements :: "dict list"

type_synonym area_groups = "(string \<times> pval \<times> (string \<times> battery_item) list) list"

definition entity_of :: "battery_row \<Rightarrow> string" where
  "entity_of r = snd (fst (br_entity r))"

definition area_of :: "battery_row \<Rightarrow> string" where
  "area_of r = snd (fst (br_area r))"

definition item_key :: "battery_row \<Rightarrow> string" where
  "item_key r = (case br_device r of Some x \<Rightarrow> if snd (fst x) \<noteq> [] then snd (fst x) else entity_of r | None \<Rightarrow> entity_of r)"

definition or_value :: "pval \<Rightarrow> pval \<Rightarrow> pval" where
  "or_value a b = (if truthy a then a else b)"

definition battery_name :: "battery_row \<Rightarrow> pval" where
  "battery_name r = coalesce_of [row_name (br_device r), dget (snd (br_entity r)) ''name'', VStr (entity_of r)]"

definition float_value :: "pval \<Rightarrow> pval" where
  "float_value v = (case number_of v of Some f \<Rightarrow> VFloat f | None \<Rightarrow> v)"

definition battery_measurement :: "battery_row \<Rightarrow> dict" where
  "battery_measurement r =
     [(''entity_id'', VStr (entity_of r)),
      (''name'', or_value (dget (snd (br_entity r)) ''name'') (or_value (battery_name r) (VStr (entity_of r)))),
      (''percentage'', float_value (dget (snd (br_entity r)) ''battery_percentage'')),
      (''measured_at'', dget (snd (br_entity r)) ''measurement_last_updated'')]"

definition new_item :: "battery_row \<Rightarrow> battery_item" where
  "new_item r = \<lparr>bi_device_id = row_id (br_device r), bi_entity_id = entity_of r,
     bi_name = or_value (battery_name r) (VStr (entity_of r)), bi_measurements = []\<rparr>"

definition add_measurement :: "battery_row \<Rightarrow> battery_item option \<Rightarrow> battery_item" where
  "add_measurement r i =
     (let item = (case i of None \<Rightarrow> new_item r | Some x \<Rightarrow> x)
      in item\<lparr>bi_measurements := bi_measurements item @ [battery_measurement r]\<rparr>)"

definition add_battery_row :: "battery_row \<Rightarrow> area_groups \<Rightarrow> area_groups" where
  "add_battery_row r groups =
     upsert (area_of r) (\<lambda>a.
       let (name, items) = (case a of
           None \<Rightarrow> (or_value (dget (snd (br_area r)) ''name'') (VStr (area_of r)), [])
         | Some x \<Rightarrow> x)
       in (name, upsert (item_key r) (add_measurement r) items)) groups"

definition battery_groups :: "battery_row list \<Rightarrow> area_groups" where
  "battery_groups rows = fold add_battery_row rows []"

definition battery_payload :: "area_groups \<Rightarrow> pval" where
  "battery_payload groups = VList (map (\<lambda>(area_id, name, items). VDict
     [(''area_id'', VStr area_id), (''area_name'', name),
      (''items'', VList (map (\<lambda>(_, i). VDict
         [(''device_id'', bi_device_id i), (''entity_id'', VStr (bi_entity_id i)), (''name'', bi_name i),
          (''measurements'', VList (map VDict (bi_measurements i)))]) items))]) groups)"

definition battery_warnings :: "(string \<Rightarrow> nat) \<Rightarrow> string list" where
  "battery_warnings counts =
     map (\<lambda>(status, singular, plural). str_of_nat (counts status) @ '' battery '' @
            (if counts status = 1 then ''measurement '' @ singular else ''measurements '' @ plural))
       (filter (\<lambda>(status, _). counts status \<noteq> 0) WARNING_MESSAGES)"

text \<open>\<open>now_epoch\<close> is given by the tests only; here the clock is read.\<close>

definition low_battery_areas :: "rat \<Rightarrow> rat \<Rightarrow> int option \<Rightarrow> ('z, dict) wop" where
  "low_battery_areas threshold maximum_age limit =
     (let effective_limit = tool_limit limit in
      obind utc_now (\<lambda>now.
      obind (run_query_limited (read_stmt (low_battery_rows threshold (fresh_after now maximum_age)))
          (nat effective_limit)) (\<lambda>(rows, truncated).
      obind (run_query (read_stmt (\<lambda>g. map (\<lambda>(status, _). (status, status_count status g)) WARNING_MESSAGES)))
        (\<lambda>counts.
          let count = (\<lambda>status. case map_of counts status of None \<Rightarrow> 0 | Some n \<Rightarrow> n);
              groups = battery_groups rows
          in oret (build_tool_result ''home'' RESULT_TYPE_LOW_BATTERY_AREAS
               (VDict [(''threshold_percentage'', VFloat (Fin threshold)), (''max_age_hours'', VFloat (Fin maximum_age)),
                  (''areas'', battery_payload groups), (''unavailable_count'', VInt (int (sum_list (map snd counts)))),
                  (''truncated'', VBool truncated)])
               (battery_warnings count @
                (if truncated then [''low battery results truncated to '' @ str_of_int effective_limit @ '' items''] else []))
               (if groups \<noteq> [] then OUTCOME_OK else OUTCOME_EMPTY))))))"

section \<open>Active consumers\<close>

definition active_power :: "rat \<Rightarrow> rat \<Rightarrow> nkey \<times> dict \<Rightarrow> bool" where
  "active_power threshold fresh x \<longleftrightarrow>
     fst (fst x) = LABEL_ENTITY \<and> dget (snd x) MEASUREMENT_KIND = VStr MEASUREMENT_KIND_POWER \<and>
     dget (snd x) MEASUREMENT_STATUS = VStr MEASUREMENT_STATUS_AVAILABLE \<and>
     above (dget (snd x) ''power_watts'') threshold \<and>
     at_least (dget (snd x) ''measurement_last_updated_epoch'') fresh"

text \<open>The assignments of a source to an entity.\<close>

definition assigned_roles :: "graph \<Rightarrow> string \<Rightarrow> nkey \<Rightarrow> (nkey \<times> dict) list" where
  "assigned_roles g source e =
     filter (\<lambda>x. dget (snd x) ''source'' = VStr source)
       (nodes_of g (sources_of g LABEL_ENERGY_ROLE_ASSIGNMENT [REL_ASSIGNS_ROLE_TO] e))"

definition role_of :: "(nkey \<times> dict) option \<Rightarrow> pval" where
  "role_of x = (case x of None \<Rightarrow> VNone | Some y \<Rightarrow> dget (snd y) ''role'')"

text \<open>The effective roles of an entity with their source, one for each pair of assignments.\<close>

definition effective_roles :: "graph \<Rightarrow> nkey \<Rightarrow> (pval \<times> pval) list" where
  "effective_roles g e =
     concat (map (\<lambda>u. map (\<lambda>i. (coalesce_of [role_of u, role_of i],
           if u \<noteq> None then VStr SOURCE_USER else if i \<noteq> None then VStr SOURCE_INFERRED else VNone))
         (optional (assigned_roles g SOURCE_INFERRED e)))
       (optional (assigned_roles g SOURCE_USER e)))"

record consumer_row =
  cs_device :: "nkey \<times> dict"
  cs_area :: "(nkey \<times> dict) option"
  cs_measurements :: "dict list"

definition consumer_measurement :: "nkey \<times> dict \<Rightarrow> pval \<times> pval \<Rightarrow> dict" where
  "consumer_measurement e role =
     [(''entity_id'', VStr (snd (fst e))), (''name'', shown_name e), (''watts'', dget (snd e) ''power_watts''),
      (''source_unit'', dget (snd e) ''unit_of_measurement''), (''role'', fst role), (''role_source'', snd role),
      (''measured_at'', dget (snd e) ''measurement_last_updated'')]"

text \<open>What a device measures as a consumer: its active entities with a consumer role, in order of id.\<close>

definition device_measurements :: "rat \<Rightarrow> rat \<Rightarrow> graph \<Rightarrow> nkey \<Rightarrow> dict list" where
  "device_measurements threshold fresh g d =
     concat (map (\<lambda>e. map (consumer_measurement e)
         (filter (\<lambda>r. fst r = VStr ENERGY_ROLE_CONSUMER) (effective_roles g (fst e))))
       (sort_key (\<lambda>e. snd (fst e)) (filter (active_power threshold fresh)
         (nodes_of g (targets_of g d [REL_HAS_ENTITY] (\<lambda>l. l = LABEL_ENTITY))))))"

definition by_device :: "((nkey \<times> dict) \<times> 'a) list \<Rightarrow> ((nkey \<times> dict) \<times> 'a) list" where
  "by_device rows = sort_key (\<lambda>r. lower (name_text (dget (snd (fst r)) ''name''))) (sort_key (\<lambda>r. snd (fst (fst r))) rows)"

definition device_area_rows :: "graph \<Rightarrow> (nkey \<times> dict) \<times> 'a \<Rightarrow> ((nkey \<times> dict) \<times> (nkey \<times> dict) option \<times> 'a) list" where
  "device_area_rows g x =
     map (\<lambda>a. (fst x, a, snd x)) (optional (nodes_of g (sources_of g LABEL_AREA [REL_HAS_DEVICE] (fst (fst x)))))"

definition devices_of :: "graph \<Rightarrow> (nkey \<times> dict) list" where
  "devices_of g = filter (\<lambda>x. fst (fst x) = LABEL_DEVICE) (g_nodes g)"

definition consumer_rows ::
  "rat \<Rightarrow> rat \<Rightarrow> graph \<Rightarrow> ((nkey \<times> dict) \<times> (nkey \<times> dict) option \<times> dict list) list" where
  "consumer_rows threshold fresh g =
     concat (map (device_area_rows g) (by_device (filter (\<lambda>x. snd x \<noteq> [])
       (map (\<lambda>d. (d, device_measurements threshold fresh g (fst d))) (devices_of g)))))"

definition unresolved_roles :: "rat \<Rightarrow> rat \<Rightarrow> graph \<Rightarrow> nat" where
  "unresolved_roles threshold fresh g =
     length (filter (\<lambda>x. active_power threshold fresh x \<and> VNone \<in> fst ` set (effective_roles g (fst x))) (g_nodes g))"

text \<open>Consumers known by an energy meter, without a current power reading.\<close>

definition device_energy_entities :: "graph \<Rightarrow> nkey \<Rightarrow> dict list" where
  "device_energy_entities g d =
     map (\<lambda>e. [(''entity_id'', VStr (snd (fst e))), (''name'', shown_name e)])
       (filter (\<lambda>e. dget (snd e) ''device_class'' = VStr ''energy'' \<and>
           VStr ENERGY_ROLE_CONSUMER \<in> fst ` set (effective_roles g (fst e)))
         (nodes_of g (targets_of g d [REL_HAS_ENTITY] (\<lambda>l. l = LABEL_ENTITY))))"

definition known_consumer_rows ::
  "string list \<Rightarrow> nat \<Rightarrow> graph \<Rightarrow> ((nkey \<times> dict) \<times> (nkey \<times> dict) option \<times> dict list) list" where
  "known_consumer_rows active limit g =
     take limit (concat (map (device_area_rows g) (by_device (filter (\<lambda>x. snd x \<noteq> [])
       (map (\<lambda>d. (d, device_energy_entities g (fst d)))
         (filter (\<lambda>d. snd (fst d) \<notin> set active) (devices_of g)))))))"

definition consumer_record :: "string \<Rightarrow> (nkey \<times> dict) \<times> (nkey \<times> dict) option \<times> dict list \<Rightarrow> pval" where
  "consumer_record field r =
     (case r of (d, a, ms) \<Rightarrow> VDict
        [(''device_id'', VStr (snd (fst d))), (''name'', or_value (shown_name d) (VStr (snd (fst d)))),
         (''area_id'', row_id a), (''area_name'', row_name a), (field, VList (map VDict ms))])"

definition active_consumers :: "rat \<Rightarrow> rat \<Rightarrow> int option \<Rightarrow> ('z, dict) wop" where
  "active_consumers threshold maximum_age limit =
     (let effective_limit = tool_limit limit in
      obind utc_now (\<lambda>now.
      let fresh = fresh_after now maximum_age in
      obind (run_query_limited (read_stmt (consumer_rows threshold fresh)) (nat effective_limit)) (\<lambda>(rows, truncated).
      obind (run_query (read_stmt (unresolved_roles threshold fresh))) (\<lambda>unresolved.
      let active = map (\<lambda>r. snd (fst (fst r))) rows in
      obind (run_query (read_stmt (known_consumer_rows active (nat (effective_limit + 1))))) (\<lambda>known_rows.
        let known_truncated = effective_limit < int (length known_rows);
            consumers = map (consumer_record ''measurements'') rows;
            known = map (consumer_record ''energy_entities'')
              (filter (\<lambda>r. snd (fst (fst r)) \<notin> set active) (take (nat effective_limit) known_rows));
            warnings = (if unresolved = 0 then [] else
                [str_of_nat unresolved @ '' active power '' @
                   (if unresolved = 1 then ''measurement has'' else ''measurements have'') @ '' no effective energy role'']) @
              (if truncated \<or> known_truncated
               then [''active consumer results truncated to '' @ str_of_int effective_limit @ '' devices''] else [])
        in oret (build_tool_result ''home'' RESULT_TYPE_ACTIVE_CONSUMERS
             (VDict [(''threshold_watts'', VFloat (Fin threshold)), (''max_age_hours'', VFloat (Fin maximum_age)),
                (''consumers'', VList consumers), (''unresolved_role_count'', VInt (int unresolved)),
                (''known_consumers_without_current_power'', VList known),
                (''truncated'', VBool (truncated \<or> known_truncated))])
             warnings (if consumers \<noteq> [] \<or> known \<noteq> [] then OUTCOME_OK else OUTCOME_EMPTY)))))))"

section \<open>Grouping loses and mixes nothing\<close>

text \<open>The measurements the answer lists under an area and an item.\<close>

definition grouped :: "area_groups \<Rightarrow> string \<Rightarrow> string \<Rightarrow> dict list" where
  "grouped groups area key =
     (case map_of groups area of
        None \<Rightarrow> []
      | Some (_, items) \<Rightarrow> (case map_of items key of None \<Rightarrow> [] | Some i \<Rightarrow> bi_measurements i))"

definition distinct_groups :: "area_groups \<Rightarrow> bool" where
  "distinct_groups groups \<longleftrightarrow>
     distinct (map fst groups) \<and> list_all (\<lambda>(_, _, items). distinct (map fst items)) groups"

lemma distinct_groups_lookup:
  "distinct_groups groups \<Longrightarrow> map_of groups a = Some (n, items) \<Longrightarrow> distinct (map fst items)"
  by (auto simp: distinct_groups_def list_all_iff dest!: map_of_SomeD)

lemma list_all_update:
  "list_all P al \<Longrightarrow> P (k, v) \<Longrightarrow> list_all P (AList.update k v al)"
  by (induction al) auto

lemma add_battery_row_grouped:
  "grouped (add_battery_row r groups) a k =
     grouped groups a k @ (if area_of r = a \<and> item_key r = k then [battery_measurement r] else [])"
  by (auto simp: grouped_def add_battery_row_def add_measurement_def new_item_def Let_def split: option.splits prod.splits)

lemma add_battery_row_distinct:
  assumes "distinct_groups groups"
  shows "distinct_groups (add_battery_row r groups)"
proof -
  have "list_all (\<lambda>(_, _, items). distinct (map fst items)) groups" using assms by (simp add: distinct_groups_def)
  then have "list_all (\<lambda>(_, _, items). distinct (map fst items)) (add_battery_row r groups)"
    unfolding add_battery_row_def upsert_def
    by (rule list_all_update)
      (use assms in \<open>auto simp: Let_def distinct_update upsert_def dest: distinct_groups_lookup split: option.splits prod.splits\<close>)
  then show ?thesis
    using assms by (simp add: distinct_groups_def add_battery_row_def distinct_upsert)
qed

lemma fold_battery_rows:
  "distinct_groups groups \<Longrightarrow>
   distinct_groups (fold add_battery_row rows groups) \<and>
   grouped (fold add_battery_row rows groups) a k =
     grouped groups a k @ map battery_measurement (filter (\<lambda>r. area_of r = a \<and> item_key r = k) rows)"
  by (induction rows arbitrary: groups) (simp_all add: add_battery_row_grouped add_battery_row_distinct)

lemma battery_rows_of_entity: "r \<in> set (battery_rows_of g e) \<Longrightarrow> br_entity r = e"
  by (auto simp: battery_rows_of_def List.map_filter_def split: option.splits if_splits)

text \<open>
  Every low battery that the query found is reported exactly once, under its own area and its own device (or
  itself, when it has none), in the order of the query, and no area or device is listed twice.  What the
  query finds is fresh, available and strictly below the threshold.
\<close>

theorem battery_groups_exact:
  "distinct_groups (battery_groups rows) \<and>
   grouped (battery_groups rows) a k = map battery_measurement (filter (\<lambda>r. area_of r = a \<and> item_key r = k) rows) \<and>
   list_all (\<lambda>r. low_battery threshold fresh (br_entity r)) (low_battery_rows threshold fresh g)"
proof -
  have "distinct_groups []" and "grouped [] a k = []" by (simp_all add: distinct_groups_def grouped_def)
  with fold_battery_rows [of "[]" rows a k] show ?thesis
    by (auto simp: battery_groups_def low_battery_rows_def order_battery_rows_def list_all_iff
        dest: battery_rows_of_entity)
qed

section \<open>Whose role counts\<close>

lemma effective_roles_user:
  assumes "assigned_roles g SOURCE_USER e \<noteq> []" and "list_all (\<lambda>x. role_of (Some x) \<noteq> VNone) (assigned_roles g SOURCE_USER e)"
    and "r \<in> set (effective_roles g e)"
  shows "\<exists>x \<in> set (assigned_roles g SOURCE_USER e). r = (role_of (Some x), VStr SOURCE_USER)"
  using assms by (auto simp: effective_roles_def optional_def list_all_iff coalesce_of_def)

text \<open>
  C27. A role the user assigned decides whether a reading counts as consumption: an entity to which the user gave
  other roles only is listed for no device, whatever was inferred for it.
\<close>

theorem user_role_decides_consumption:
  assumes "assigned_roles g SOURCE_USER (LABEL_ENTITY, e) \<noteq> []"
    and "list_all (\<lambda>x. role_of (Some x) \<notin> {VNone, VStr ENERGY_ROLE_CONSUMER}) (assigned_roles g SOURCE_USER (LABEL_ENTITY, e))"
    and "m \<in> set (device_measurements threshold fresh g d)"
  shows "dget m ''entity_id'' \<noteq> VStr e"
proof
  assume same: "dget m ''entity_id'' = VStr e"
  obtain x r where active: "active_power threshold fresh x" and r: "r \<in> set (effective_roles g (fst x))"
    and consumer: "fst r = VStr ENERGY_ROLE_CONSUMER" and m: "m = consumer_measurement x r"
    using assms(3) by (auto simp: device_measurements_def)
  have "fst x = (LABEL_ENTITY, e)"
    using same active m by (simp add: consumer_measurement_def dget_def active_power_def prod_eq_iff)
  moreover have "list_all (\<lambda>x. role_of (Some x) \<noteq> VNone) (assigned_roles g SOURCE_USER (LABEL_ENTITY, e))"
    using assms(2) by (simp add: list_all_iff)
  ultimately obtain y where "y \<in> set (assigned_roles g SOURCE_USER (LABEL_ENTITY, e))" and "fst r = role_of (Some y)"
    using effective_roles_user [OF assms(1)] r by fastforce
  then show False using assms(2) consumer by (auto simp: list_all_iff)
qed

definition metered :: "string \<Rightarrow> nkey \<times> dict" where
  "metered e = ((LABEL_ENTITY, e), [(MEASUREMENT_KIND, VStr MEASUREMENT_KIND_POWER),
     (MEASUREMENT_STATUS, VStr MEASUREMENT_STATUS_AVAILABLE), (''power_watts'', VInt 40),
     (''measurement_last_updated_epoch'', VInt 100)])"

definition assignment :: "string \<Rightarrow> string \<Rightarrow> string \<Rightarrow> nkey \<times> dict" where
  "assignment i source role = ((LABEL_ENERGY_ROLE_ASSIGNMENT, i), [(''source'', VStr source), (''role'', VStr role)])"

definition metered_graph :: graph where
  "metered_graph = empty_graph\<lparr>
     g_nodes := [((LABEL_DEVICE, ''d''), []), metered ''a'', metered ''b'', assignment ''1'' SOURCE_USER ''producer'',
       assignment ''2'' SOURCE_INFERRED ENERGY_ROLE_CONSUMER],
     g_rels := [(((LABEL_DEVICE, ''d''), REL_HAS_ENTITY, (LABEL_ENTITY, ''a'')), []),
       (((LABEL_DEVICE, ''d''), REL_HAS_ENTITY, (LABEL_ENTITY, ''b'')), []),
       (((LABEL_ENERGY_ROLE_ASSIGNMENT, ''1''), REL_ASSIGNS_ROLE_TO, (LABEL_ENTITY, ''a'')), []),
       (((LABEL_ENERGY_ROLE_ASSIGNMENT, ''2''), REL_ASSIGNS_ROLE_TO, (LABEL_ENTITY, ''a'')), []),
       (((LABEL_ENERGY_ROLE_ASSIGNMENT, ''2''), REL_ASSIGNS_ROLE_TO, (LABEL_ENTITY, ''b'')), [])]\<rparr>"

theorem user_role_decides_consumption_witness:
  "dget (hd (device_measurements 10 0 metered_graph (LABEL_DEVICE, ''d''))) ''entity_id'' \<noteq> VStr ''a''"
proof (rule user_role_decides_consumption)
  show "assigned_roles metered_graph SOURCE_USER (LABEL_ENTITY, ''a'') \<noteq> []" by code_simp
  show "list_all (\<lambda>x. role_of (Some x) \<notin> {VNone, VStr ENERGY_ROLE_CONSUMER})
      (assigned_roles metered_graph SOURCE_USER (LABEL_ENTITY, ''a''))" by code_simp
  have "device_measurements 10 0 metered_graph (LABEL_DEVICE, ''d'') \<noteq> []" by code_simp
  then show "hd (device_measurements 10 0 metered_graph (LABEL_DEVICE, ''d''))
      \<in> set (device_measurements 10 0 metered_graph (LABEL_DEVICE, ''d''))" by (rule list.set_sel(1))
qed

end
