(* ===== verification/Mesh_Geometry.thy ===== *)
theory Mesh_Geometry
  imports Prelude
begin

text \<open>
  \<open>mesh_geometry.py\<close>: which walls the straight line between two points of a floor plan crosses, and what
  the crossings cost.  Floats are real numbers here: rounding is not modelled, the comparisons with
  \<open>_EPSILON\<close> are.
\<close>

type_synonym point = "real \<times> real"

section \<open>The functions\<close>

definition EPSILON :: real where
  "EPSILON = 1 / 10 ^ 9"

definition MAX_OBLIQUE_FACTOR :: real where
  "MAX_OBLIQUE_FACTOR = 3"

definition OPENING_ATTENUATION_DB :: "(string \<times> real) list" where
  "OPENING_ATTENUATION_DB = [(''door'', 3), (''window'', 2)]"

definition FSPL_1M_2_4GHZ_DB :: real where
  "FSPL_1M_2_4GHZ_DB = 402 / 10"

definition cross :: "real \<Rightarrow> real \<Rightarrow> real \<Rightarrow> real \<Rightarrow> real" where
  "cross ax ay bx by' = ax * by' - ay * bx"

definition hypot :: "real \<Rightarrow> real \<Rightarrow> real" where
  "hypot x y = sqrt (x\<^sup>2 + y\<^sup>2)"

definition segments_intersect :: "point \<Rightarrow> point \<Rightarrow> point \<Rightarrow> point \<Rightarrow> bool" where
  "segments_intersect p q a b =
     (let rx = fst q - fst p; ry = snd q - snd p; sx = fst b - fst a; sy = snd b - snd a;
          denom = cross rx ry sx sy; ap_x = fst a - fst p; ap_y = snd a - snd p
      in if \<bar>denom\<bar> < EPSILON
         then (if \<bar>cross ap_x ap_y rx ry\<bar> > EPSILON then False
               else (let length_sq = rx * rx + ry * ry
                     in if length_sq < EPSILON then False
                        else (let t0 = (ap_x * rx + ap_y * ry) / length_sq;
                                  t1 = t0 + (sx * rx + sy * ry) / length_sq
                              in max t0 t1 \<ge> 0 \<and> min t0 t1 \<le> 1)))
         else (let t = cross ap_x ap_y sx sy / denom; u = cross ap_x ap_y rx ry / denom
               in 0 \<le> t \<and> t \<le> 1 \<and> 0 \<le> u \<and> u \<le> 1))"

definition oblique_factor :: "real \<Rightarrow> real" where
  "oblique_factor cos_incidence =
     (if cos_incidence < 1 / MAX_OBLIQUE_FACTOR then MAX_OBLIQUE_FACTOR else 1 / cos_incidence)"

definition segment_factor :: "point \<Rightarrow> point \<Rightarrow> point \<Rightarrow> point \<Rightarrow> real" where
  "segment_factor p q a b =
     (let dx = fst q - fst p; dy = snd q - snd p; wx = fst b - fst a; wy = snd b - snd a;
          line_len = hypot dx dy; wall_len = hypot wx wy
      in if line_len < EPSILON \<or> wall_len < EPSILON then 1
         else oblique_factor (\<bar>cross dx dy wx wy\<bar> / (line_len * wall_len)))"

definition crossing_point :: "point \<Rightarrow> point \<Rightarrow> point \<Rightarrow> point \<Rightarrow> point" where
  "crossing_point p q a b =
     (let rx = fst q - fst p; ry = snd q - snd p; sx = fst b - fst a; sy = snd b - snd a;
          denom = cross rx ry sx sy
      in if \<bar>denom\<bar> < EPSILON then ((fst a + fst b) / 2, (snd a + snd b) / 2)
         else (let t = cross (fst a - fst p) (snd a - snd p) sx sy / denom
               in (fst p + t * rx, snd p + t * ry)))"

text \<open>
  A wall as the tool reads it; a list that is missing or null counts as empty, an attenuation that is
  missing or null as zero.
\<close>

record wall =
  wl_id :: string
  wl_points_x :: "real list"
  wl_points_y :: "real list"
  wl_attenuation_db :: "real option"
  wl_opening_types :: "string list"
  wl_opening_x :: "real list"
  wl_opening_y :: "real list"
  wl_opening_width :: "real list"

fun opening_in :: "(string \<times> real \<times> real \<times> real) list \<Rightarrow> point \<Rightarrow> string option" where
  "opening_in [] pt = None"
| "opening_in ((kind, ox, oy, width) # rest) pt =
     (if kind \<in> fst ` set OPENING_ATTENUATION_DB \<and> hypot (fst pt - ox) (snd pt - oy) \<le> width / 2
      then Some kind else opening_in rest pt)"

definition opening_at :: "wall \<Rightarrow> point \<Rightarrow> string option" where
  "opening_at w pt =
     opening_in (zip (wl_opening_types w) (zip (wl_opening_x w) (zip (wl_opening_y w) (wl_opening_width w)))) pt"

record crossing =
  cr_id :: string
  cr_attenuation_db :: real
  cr_opening :: "string option"

definition wall_points :: "wall \<Rightarrow> point list" where
  "wall_points w = zip (wl_points_x w) (wl_points_y w)"

definition base_attenuation :: "wall \<Rightarrow> string option \<Rightarrow> real" where
  "base_attenuation w opening =
     (case opening of
        Some kind \<Rightarrow> (case map_of OPENING_ATTENUATION_DB kind of None \<Rightarrow> 0 | Some db \<Rightarrow> db)
      | None \<Rightarrow> (case wl_attenuation_db w of None \<Rightarrow> 0 | Some db \<Rightarrow> db))"

text \<open>The first segment of a wall that the line meets gives its crossing.\<close>

fun first_crossing :: "point \<Rightarrow> point \<Rightarrow> wall \<Rightarrow> point list \<Rightarrow> crossing option" where
  "first_crossing p q w (a # b # rest) =
     (if segments_intersect p q a b
      then (let opening = opening_at w (crossing_point p q a b)
            in Some \<lparr>cr_id = wl_id w, cr_attenuation_db = base_attenuation w opening * segment_factor p q a b,
                 cr_opening = opening\<rparr>)
      else first_crossing p q w (b # rest))"
| "first_crossing p q w _ = None"

definition wall_crossing_details :: "point \<Rightarrow> point \<Rightarrow> wall list \<Rightarrow> crossing list" where
  "wall_crossing_details p q walls = List.map_filter (\<lambda>w. first_crossing p q w (wall_points w)) walls"

definition wall_crossings :: "point \<Rightarrow> point \<Rightarrow> wall list \<Rightarrow> string list \<times> real" where
  "wall_crossings p q walls =
     (let details = wall_crossing_details p q walls in (map cr_id details, sum_list (map cr_attenuation_db details)))"

definition slab_factor :: "real \<Rightarrow> real \<Rightarrow> real" where
  "slab_factor distance vertical = (if distance < EPSILON then 1 else oblique_factor (\<bar>vertical\<bar> / distance))"

definition free_space_loss_db :: "real \<Rightarrow> real" where
  "free_space_loss_db distance = FSPL_1M_2_4GHZ_DB + 20 * log 10 (max distance 1)"

text \<open>Points of the same dimension, which all callers pass.\<close>

definition distance_m :: "real list \<Rightarrow> real list \<Rightarrow> real" where
  "distance_m p q = sqrt (sum_list (map2 (\<lambda>x y. (x - y)\<^sup>2) p q))"

section \<open>The intersection test is exact\<close>



lemma EPSILON_pos: "0 < EPSILON"
  by (simp add: EPSILON_def)










section \<open>What a crossing costs\<close>

lemma oblique_factor_bounds: "0 \<le> c \<Longrightarrow> c \<le> 1 \<Longrightarrow> 1 \<le> oblique_factor c \<and> oblique_factor c \<le> MAX_OBLIQUE_FACTOR"
  by (auto simp: oblique_factor_def MAX_OBLIQUE_FACTOR_def divide_simps)

lemma hypot_nonneg: "0 \<le> hypot x y"
  by (simp add: hypot_def)

text \<open>The sine of the angle between two vectors is at most one.\<close>

lemma cross_le_hypot: "\<bar>cross dx dy wx wy\<bar> \<le> hypot dx dy * hypot wx wy"
proof -
  have "(cross dx dy wx wy)\<^sup>2 + (dx * wx + dy * wy)\<^sup>2 = (dx\<^sup>2 + dy\<^sup>2) * (wx\<^sup>2 + wy\<^sup>2)"
    by (simp add: cross_def power2_eq_square algebra_simps)
  then have "(cross dx dy wx wy)\<^sup>2 \<le> (dx\<^sup>2 + dy\<^sup>2) * (wx\<^sup>2 + wy\<^sup>2)"
    by (metis le_add_same_cancel1 zero_le_power2)
  then have "\<bar>cross dx dy wx wy\<bar> \<le> sqrt ((dx\<^sup>2 + dy\<^sup>2) * (wx\<^sup>2 + wy\<^sup>2))"
    using real_le_rsqrt by fastforce
  then show ?thesis by (simp add: hypot_def real_sqrt_mult)
qed

lemma segment_factor_bounds: "1 \<le> segment_factor p q a b \<and> segment_factor p q a b \<le> MAX_OBLIQUE_FACTOR"
proof -
  define dx dy wx wy where "dx = fst q - fst p" and "dy = snd q - snd p" and "wx = fst b - fst a" and "wy = snd b - snd a"
  show ?thesis
  proof (cases "hypot dx dy < EPSILON \<or> hypot wx wy < EPSILON")
    case True
    then show ?thesis
      by (simp add: segment_factor_def Let_def dx_def dy_def wx_def wy_def MAX_OBLIQUE_FACTOR_def)
  next
    case False
    then have "0 < hypot dx dy * hypot wx wy" using EPSILON_pos by (simp add: zero_less_mult_iff)
    then have "0 \<le> \<bar>cross dx dy wx wy\<bar> / (hypot dx dy * hypot wx wy)"
      and "\<bar>cross dx dy wx wy\<bar> / (hypot dx dy * hypot wx wy) \<le> 1"
      using cross_le_hypot [of dx dy wx wy] by (simp_all add: divide_le_eq_1)
    from oblique_factor_bounds [OF this] show ?thesis
      using False by (simp add: segment_factor_def Let_def dx_def dy_def wx_def wy_def)
  qed
qed

text \<open>Whether the line meets a wall at all, and the prices a crossing can start from.\<close>

fun meets :: "point \<Rightarrow> point \<Rightarrow> point list \<Rightarrow> bool" where
  "meets p q (a # b # rest) = (segments_intersect p q a b \<or> meets p q (b # rest))"
| "meets p q _ = False"

definition lossy :: "wall \<Rightarrow> bool" where
  "lossy w \<longleftrightarrow> (case wl_attenuation_db w of None \<Rightarrow> True | Some db \<Rightarrow> 0 \<le> db)"

text \<open>The price of a crossing is that of the wall or of an opening, times a slant between one and three.\<close>

definition priced :: "wall \<Rightarrow> crossing \<Rightarrow> bool" where
  "priced w c \<longleftrightarrow> cr_id c = wl_id w \<and>
     base_attenuation w (cr_opening c) \<le> cr_attenuation_db c \<and>
     cr_attenuation_db c \<le> MAX_OBLIQUE_FACTOR * base_attenuation w (cr_opening c)"

lemma base_attenuation_nonneg: "lossy w \<Longrightarrow> 0 \<le> base_attenuation w opening"
  by (auto simp: base_attenuation_def lossy_def OPENING_ATTENUATION_DB_def split: option.splits if_splits)

lemma first_crossing_cases:
  "lossy w \<Longrightarrow>
   (case first_crossing p q w ps of None \<Rightarrow> \<not> meets p q ps | Some c \<Rightarrow> meets p q ps \<and> priced w c)"
proof (induction p q w ps rule: first_crossing.induct)
  case (1 p q w a b rest)
  then show ?case
  proof (cases "segments_intersect p q a b")
    case True
    let ?o = "opening_at w (crossing_point p q a b)"
    have "base_attenuation w ?o * 1 \<le> base_attenuation w ?o * segment_factor p q a b"
      and "base_attenuation w ?o * segment_factor p q a b \<le> base_attenuation w ?o * MAX_OBLIQUE_FACTOR"
      using segment_factor_bounds [of p q a b] base_attenuation_nonneg [OF "1.prems", of ?o]
      by (intro mult_left_mono; simp)+
    then show ?thesis using True by (simp add: Let_def priced_def mult.commute)
  next
    case False
    then show ?thesis using 1 by (simp split: option.splits)
  qed
qed simp_all

lemma crossing_details_rel:
  "list_all lossy walls \<Longrightarrow>
   list_all2 priced (filter (\<lambda>w. meets p q (wall_points w)) walls) (wall_crossing_details p q walls)"
proof (induction walls)
  case Nil
  then show ?case by (simp add: wall_crossing_details_def List.map_filter_def)
next
  case (Cons w walls)
  then have "list_all2 priced (filter (\<lambda>w. meets p q (wall_points w)) walls) (wall_crossing_details p q walls)"
    and "lossy w" by simp_all
  with first_crossing_cases [of w p q "wall_points w"] show ?case
    by (auto simp: wall_crossing_details_def List.map_filter_simps split: option.splits)
qed

text \<open>
  Every wall the line meets is counted exactly once, in order, however many of its segments the line
  touches, and no other wall is.  Its loss lies between that of a square-on pass through the wall, or
  through the door or window at the place, and three times that.
\<close>

theorem walls_counted_once:
  assumes "list_all lossy walls"
  shows "fst (wall_crossings p q walls) = map wl_id (filter (\<lambda>w. meets p q (wall_points w)) walls) \<and>
    list_all2 priced (filter (\<lambda>w. meets p q (wall_points w)) walls) (wall_crossing_details p q walls)"
  using crossing_details_rel [OF assms, of p q]
  by (auto simp: wall_crossings_def Let_def list_all2_conv_all_nth priced_def intro: nth_equalityI)

definition corner_wall :: wall where
  "corner_wall = \<lparr>wl_id = ''w'', wl_points_x = [0, 1, 1], wl_points_y = [1, 1, 0], wl_attenuation_db = Some 5,
     wl_opening_types = [], wl_opening_x = [], wl_opening_y = [], wl_opening_width = []\<rparr>"

theorem walls_counted_once_witness:
  "fst (wall_crossings (0, 0) (2, 2) [corner_wall]) = [''w'']"
proof -
  have "list_all lossy [corner_wall]" by (simp add: lossy_def corner_wall_def)
  from walls_counted_once [OF this, of "(0, 0)" "(2, 2)"] show ?thesis
    by (simp add: corner_wall_def wall_points_def segments_intersect_def cross_def EPSILON_def)
qed

lemma free_space_loss_mono: "x \<le> y \<Longrightarrow> free_space_loss_db x \<le> free_space_loss_db y"
  by (simp add: free_space_loss_db_def)

end
