(* ===== verification/Mesh_Reports.thy ===== *)
theory Mesh_Reports
  imports Measurement_Reports Mesh_Geometry
begin

text \<open>
  The mesh tools of \<open>query_tools.py\<close>: \<open>mesh_link_walls\<close> puts the links of the latest Zigbee snapshot on the
  floor plan, \<open>mesh_health\<close> summarises the snapshot.  Geometry is computed over the reals
  (\<open>Mesh_Geometry\<close>); what is reported is rounded, and so rational.  Coordinates, levels and link qualities
  are numbers.
\<close>

section \<open>Rounding\<close>

text \<open>\<open>round(x, n)\<close>.\<close>

definition round_to :: "nat \<Rightarrow> real \<Rightarrow> rat" where
  "round_to n x = of_int (round_half_even (x * 10 ^ n)) / 10 ^ n"

definition real_of :: "pval \<Rightarrow> real" where
  "real_of v = (case number_of v of Some (Fin q) \<Rightarrow> of_rat q | _ \<Rightarrow> 0)"

definition rat_of :: "pval \<Rightarrow> rat" where
  "rat_of v = (case number_of v of Some (Fin q) \<Rightarrow> q | _ \<Rightarrow> 0)"

definition int_of :: "pval \<Rightarrow> int" where
  "int_of v = (case v of VInt i \<Rightarrow> i | _ \<Rightarrow> \<lfloor>rat_of v\<rfloor>)"

section \<open>The latest snapshot\<close>

definition scan_time :: "nkey \<times> dict \<Rightarrow> int" where
  "scan_time x = (case dget (snd x) ''scanned_at'' of VTime t \<Rightarrow> t | _ \<Rightarrow> 0)"

definition latest_snapshot :: "graph \<Rightarrow> (nkey \<times> dict) option" where
  "latest_snapshot g =
     (case sort_key (\<lambda>x. - scan_time x) (filter (\<lambda>x. fst (fst x) = LABEL_MESH_SNAPSHOT) (g_nodes g)) of
        [] \<Rightarrow> None | x # _ \<Rightarrow> Some x)"

definition snapshot_links :: "graph \<Rightarrow> string \<Rightarrow> (nkey \<times> dict) list" where
  "snapshot_links g snapshot_id =
     nodes_of g (targets_of g (LABEL_MESH_SNAPSHOT, snapshot_id) [REL_HAS_LINK] (\<lambda>l. l = LABEL_MESH_LINK))"

definition at_most :: "pval \<Rightarrow> rat \<Rightarrow> bool" where
  "at_most v q = (case number_of v of Some (Fin x) \<Rightarrow> x \<le> q | Some NInf \<Rightarrow> True | _ \<Rightarrow> False)"

definition routing_link :: "dict \<Rightarrow> bool" where
  "routing_link d \<longleftrightarrow> dget d ''relationship'' \<in> {VNone, VInt 0, VInt 1}"

record mesh_row =
  mr_link :: dict
  mr_from_device :: "string option"
  mr_to_device :: "string option"

definition device_ends :: "graph \<Rightarrow> nkey \<Rightarrow> string \<Rightarrow> string option list" where
  "device_ends g l rel_type = optional (map snd (targets_of g l [rel_type] (\<lambda>label. label = LABEL_DEVICE)))"

definition mesh_rows :: "string \<Rightarrow> rat \<Rightarrow> bool \<Rightarrow> graph \<Rightarrow> mesh_row list" where
  "mesh_rows snapshot_id max_lqi include_siblings g =
     sort_key (\<lambda>r. rat_of (dget (mr_link r) ''lqi''))
       (concat (map (\<lambda>x. concat (map (\<lambda>f. map (\<lambda>t. \<lparr>mr_link = snd x, mr_from_device = f, mr_to_device = t\<rparr>)
            (device_ends g (fst x) REL_TO_DEVICE)) (device_ends g (fst x) REL_FROM_DEVICE)))
          (filter (\<lambda>x. at_most (dget (snd x) ''lqi'') max_lqi \<and> (include_siblings \<or> routing_link (snd x)))
            (snapshot_links g snapshot_id))))"

section \<open>Where the devices are\<close>

record position =
  ps_floor :: string
  ps_level :: pval
  ps_x :: real
  ps_y :: real
  ps_z :: real

text \<open>\<open>avg\<close> of the values that are not null.\<close>

definition average :: "pval list \<Rightarrow> rat option" where
  "average vs = (let ns = map rat_of (filter (\<lambda>v. v \<noteq> VNone) vs)
     in if ns = [] then None else Some (sum_list ns / of_nat (length ns)))"

record pin_row =
  pr_device :: string
  pr_floor :: string
  pr_level :: pval
  pr_x :: "rat option"
  pr_y :: "rat option"
  pr_z :: "rat option"
  pr_pins :: nat

text \<open>The pins of a device's entities, by floor.\<close>

definition pins_of :: "graph \<Rightarrow> nkey \<Rightarrow> (nkey \<times> dict) list" where
  "pins_of g d =
     concat (map (\<lambda>e. map (\<lambda>((a, t, b), p). (b, p))
         (filter (\<lambda>((a, t, b), p). a = e \<and> t = REL_PINNED_ON_FLOOR \<and> fst b = LABEL_FLOOR) (g_rels g)))
       (targets_of g d [REL_HAS_ENTITY] (\<lambda>l. l = LABEL_ENTITY)))"

definition pin_rows :: "graph \<Rightarrow> pin_row list" where
  "pin_rows g =
     concat (map (\<lambda>d. let pins = pins_of g (fst d) in
       map (\<lambda>f. let ps = map snd (filter (\<lambda>p. fst p = f) pins)
            in \<lparr>pr_device = snd (fst d), pr_floor = snd f, pr_level = dget (or_empty (node g f)) ''level'',
                pr_x = average (map (\<lambda>p. dget p ''x'') ps), pr_y = average (map (\<lambda>p. dget p ''y'') ps),
                pr_z = average (map (\<lambda>p. dget p ''z'') ps), pr_pins = length ps\<rparr>)
         (keep_first (map fst pins))) (devices_of g))"

definition better_row :: "pin_row \<Rightarrow> (string \<times> pin_row) list \<Rightarrow> (string \<times> pin_row) list" where
  "better_row row best =
     (if pr_x row = None \<or> pr_y row = None then best
      else (case map_of best (pr_device row) of
          None \<Rightarrow> AList.update (pr_device row) row best
        | Some current \<Rightarrow> if pr_pins current < pr_pins row then AList.update (pr_device row) row best else best))"

definition device_positions :: "pin_row list \<Rightarrow> string \<Rightarrow> position option" where
  "device_positions rows device =
     map_option (\<lambda>r. \<lparr>ps_floor = pr_floor r, ps_level = pr_level r, ps_x = of_rat (the (pr_x r)),
         ps_y = of_rat (the (pr_y r)), ps_z = (case pr_z r of None \<Rightarrow> 0 | Some z \<Rightarrow> of_rat z)\<rparr>)
       (map_of (fold better_row rows []) device)"

section \<open>The walls\<close>

definition value_list :: "pval \<Rightarrow> pval list" where
  "value_list v = (case v of VList xs \<Rightarrow> xs | _ \<Rightarrow> [])"

definition wall_of :: "nkey \<times> dict \<Rightarrow> wall" where
  "wall_of x = \<lparr>wl_id = snd (fst x), wl_points_x = map real_of (value_list (dget (snd x) ''points_x'')),
     wl_points_y = map real_of (value_list (dget (snd x) ''points_y'')),
     wl_attenuation_db = (case number_of (dget (snd x) ''attenuation_db'') of Some (Fin q) \<Rightarrow> Some (of_rat q) | _ \<Rightarrow> None),
     wl_opening_types = map name_text (value_list (dget (snd x) ''opening_types'')),
     wl_opening_x = map real_of (value_list (dget (snd x) ''opening_x'')),
     wl_opening_y = map real_of (value_list (dget (snd x) ''opening_y'')),
     wl_opening_width = map real_of (value_list (dget (snd x) ''opening_width''))\<rparr>"

definition floor_walls :: "graph \<Rightarrow> (string \<times> wall) list" where
  "floor_walls g =
     concat (map (\<lambda>x. map (\<lambda>f. (snd f, wall_of x)) (targets_of g (fst x) [REL_ON_FLOOR] (\<lambda>l. l = LABEL_FLOOR)))
       (filter (\<lambda>x. fst (fst x) = LABEL_WALL) (g_nodes g)))"

definition walls_of_floor :: "(string \<times> wall) list \<Rightarrow> string \<Rightarrow> wall list" where
  "walls_of_floor walls f = map snd (filter (\<lambda>x. fst x = f) walls)"

section \<open>One link\<close>

record estimate =
  es_same_floor :: "bool option"
  es_distance_m :: "rat option"
  es_walls_crossed :: "nat option"
  es_openings_crossed :: "nat option"
  es_wall_db :: "rat option"
  es_slabs_crossed :: "nat option"
  es_slab_db :: "rat option"
  es_free_space_db :: "rat option"
  es_expected_db :: "rat option"

definition no_estimate :: estimate where
  "no_estimate = \<lparr>es_same_floor = None, es_distance_m = None, es_walls_crossed = None, es_openings_crossed = None,
     es_wall_db = None, es_slabs_crossed = None, es_slab_db = None, es_free_space_db = None, es_expected_db = None\<rparr>"

definition free_space :: "rat \<Rightarrow> rat" where
  "free_space distance = round_to 1 (free_space_loss_db (of_rat distance))"

definition same_floor_estimate :: "position \<Rightarrow> position \<Rightarrow> wall list \<Rightarrow> estimate" where
  "same_floor_estimate p q walls =
     (let crossed = wall_crossing_details (ps_x p, ps_y p) (ps_x q, ps_y q) walls;
          total_db = sum_list (map cr_attenuation_db crossed);
          distance = round_to 2 (distance_m [ps_x p, ps_y p, ps_z p] [ps_x q, ps_y q, ps_z q])
      in no_estimate\<lparr>es_same_floor := Some True,
           es_openings_crossed := Some (length (filter (\<lambda>c. present (cr_opening c)) crossed)),
           es_distance_m := Some distance, es_walls_crossed := Some (length crossed),
           es_wall_db := Some (round_to 1 total_db), es_free_space_db := Some (free_space distance),
           es_expected_db := Some (round_to 1 (of_rat (free_space distance + round_to 1 total_db)))\<rparr>)"

definition cross_floor_estimate :: "rat \<Rightarrow> rat \<Rightarrow> position \<Rightarrow> position \<Rightarrow> estimate" where
  "cross_floor_estimate floor_height slab_attenuation p q =
     (let levels = int_of (ps_level q) - int_of (ps_level p);
          slabs = nat \<bar>levels\<bar>;
          dz = of_int levels * of_rat floor_height + ps_z q - ps_z p;
          distance = round_to 2 (distance_m [ps_x p, ps_y p, 0] [ps_x q, ps_y q, dz]);
          slab_db = round_to 1 (of_nat slabs * of_rat slab_attenuation * slab_factor (of_rat distance) dz)
      in no_estimate\<lparr>es_same_floor := Some False, es_distance_m := Some distance, es_slabs_crossed := Some slabs,
           es_slab_db := Some slab_db, es_free_space_db := Some (free_space distance),
           es_expected_db := Some (round_to 1 (of_rat (free_space distance + slab_db)))\<rparr>)"

definition link_estimate ::
  "rat \<Rightarrow> rat \<Rightarrow> (string \<times> wall) list \<Rightarrow> position option \<Rightarrow> position option \<Rightarrow> estimate" where
  "link_estimate floor_height slab_attenuation walls from_pos to_pos =
     (case (from_pos, to_pos) of
        (Some p, Some q) \<Rightarrow>
          if ps_floor p = ps_floor q then same_floor_estimate p q (walls_of_floor walls (ps_floor p))
          else if ps_level p \<noteq> VNone \<and> ps_level q \<noteq> VNone then cross_floor_estimate floor_height slab_attenuation p q
          else no_estimate\<lparr>es_same_floor := Some False\<rparr>
      | _ \<Rightarrow> no_estimate)"

definition opt_rat :: "rat option \<Rightarrow> pval" where
  "opt_rat v = (case v of None \<Rightarrow> VNone | Some q \<Rightarrow> VFloat (Fin q))"

definition opt_nat :: "nat option \<Rightarrow> pval" where
  "opt_nat v = (case v of None \<Rightarrow> VNone | Some n \<Rightarrow> VInt (int n))"

definition link_record :: "mesh_row \<Rightarrow> estimate \<Rightarrow> dict" where
  "link_record r e =
     (let d = mr_link r in
      [(''from_device'', dget d ''from_device''), (''from_name'', or_value (dget d ''from_name'') (dget d ''from_device'')),
       (''to_device'', dget d ''to_device''), (''to_name'', or_value (dget d ''to_name'') (dget d ''to_device'')),
       (''lqi'', dget d ''lqi''), (''lqi_measured'', VBool (truthy (dget d ''lqi''))), (''depth'', dget d ''depth''),
       (''relationship'', dget d ''relationship''), (''relationship_name'', dget d ''relationship_name''),
       (''same_floor'', case es_same_floor e of None \<Rightarrow> VNone | Some b \<Rightarrow> VBool b), (''distance_m'', opt_rat (es_distance_m e)),
       (''walls_crossed'', opt_nat (es_walls_crossed e)), (''openings_crossed'', opt_nat (es_openings_crossed e)),
       (''wall_attenuation_db'', opt_rat (es_wall_db e)), (''slabs_crossed'', opt_nat (es_slabs_crossed e)),
       (''slab_attenuation_db'', opt_rat (es_slab_db e)), (''free_space_loss_db'', opt_rat (es_free_space_db e)),
       (''expected_loss_db'', opt_rat (es_expected_db e))])"

text \<open>A device id is never empty; \<open>positions.get("")\<close> finds nothing.\<close>

definition position_of :: "pin_row list \<Rightarrow> string option \<Rightarrow> position option" where
  "position_of pins device = (case device of None \<Rightarrow> None | Some d \<Rightarrow> device_positions pins d)"

definition mesh_link_walls :: "rat \<Rightarrow> int option \<Rightarrow> rat \<Rightarrow> rat \<Rightarrow> bool \<Rightarrow> ('z, dict) wop" where
  "mesh_link_walls max_lqi limit floor_height slab_attenuation include_siblings =
     (let effective_limit = tool_limit limit in
      obind (run_query (read_stmt latest_snapshot)) (\<lambda>snapshot.
        case snapshot of
          None \<Rightarrow> oret (build_tool_result ''home'' RESULT_TYPE_MESH_LINK_WALLS
            (VDict [(''snapshot_id'', VNone), (''scanned_at'', VNone), (''max_lqi'', VFloat (Fin max_lqi)),
               (''links'', VList [])]) [''no Zigbee mesh snapshot recorded yet''] OUTCOME_EMPTY)
        | Some s \<Rightarrow>
            obind (run_query_limited (read_stmt (mesh_rows (snd (fst s)) max_lqi include_siblings)) (nat effective_limit))
              (\<lambda>(rows, truncated).
            obind (if rows = [] then oret ([], [])
                   else obind (run_query (read_stmt pin_rows)) (\<lambda>pins.
                        obind (run_query (read_stmt floor_walls)) (\<lambda>walls. oret (pins, walls)))) (\<lambda>(pins, walls).
              let links = map (\<lambda>r. VDict (link_record r (link_estimate floor_height slab_attenuation walls
                    (position_of pins (mr_from_device r)) (position_of pins (mr_to_device r))))) rows
              in oret (build_tool_result ''home'' RESULT_TYPE_MESH_LINK_WALLS
                (VDict [(''snapshot_id'', VStr (snd (fst s))), (''scanned_at'', dget (snd s) ''scanned_at''),
                   (''max_lqi'', VFloat (Fin max_lqi)), (''links'', VList links), (''truncated'', VBool truncated)])
                (if truncated then [''mesh link results truncated to '' @ str_of_int effective_limit @ '' items''] else [])
                (if links \<noteq> [] then OUTCOME_OK else OUTCOME_EMPTY))))))"

section \<open>The health of the mesh\<close>

definition UNEXPLAINED_LOSS_DB :: rat where
  "UNEXPLAINED_LOSS_DB = 70"

record parent =
  pa_device :: pval
  pa_children :: nat
  pa_unmeasured :: nat

definition unmeasured :: "dict \<Rightarrow> bool" where
  "unmeasured d \<longleftrightarrow> dget d ''lqi'' = VNone \<or> number_of (dget d ''lqi'') = Some (Fin 0)"

text \<open>Child links (\<open>relationship = 0\<close>) by the name of the parent, most children first.\<close>

definition parent_rows :: "string \<Rightarrow> graph \<Rightarrow> parent list" where
  "parent_rows snapshot_id g =
     (let children = filter (\<lambda>d. dget d ''relationship'' = VInt 0) (map snd (snapshot_links g snapshot_id))
      in sort_key (\<lambda>p. - int (pa_children p)) (map (\<lambda>n.
           let own = filter (\<lambda>d. dget d ''from_name'' = n) children
           in \<lparr>pa_device = n, pa_children = length own, pa_unmeasured = length (filter unmeasured own)\<rparr>)
         (keep_first (map (\<lambda>d. dget d ''from_name'') children))))"

definition measured_links :: "string \<Rightarrow> graph \<Rightarrow> dict list" where
  "measured_links snapshot_id g = filter (\<lambda>d. above (dget d ''lqi'') 0) (map snd (snapshot_links g snapshot_id))"

record weak_device =
  wd_device :: pval
  wd_best_lqi :: rat
  wd_measured_links :: nat

text \<open>The measured links of each device, at either end.\<close>

definition weak_rows :: "string \<Rightarrow> rat \<Rightarrow> graph \<Rightarrow> weak_device list" where
  "weak_rows snapshot_id weak_lqi g =
     (let ends = concat (map (\<lambda>d. map (\<lambda>k. (dget d k, rat_of (dget d ''lqi''))) [''from_name'', ''to_name''])
            (measured_links snapshot_id g))
      in sort_key wd_best_lqi (filter (\<lambda>w. wd_best_lqi w \<le> weak_lqi) (map (\<lambda>n.
           let own = map snd (filter (\<lambda>e. fst e = n) ends)
           in \<lparr>wd_device = n, wd_best_lqi = foldr max own 0, wd_measured_links = length own\<rparr>)
         (keep_first (map fst ends)))))"

record coordinator_signal =
  co_links :: nat
  co_avg_lqi :: rat
  co_min_lqi :: rat
  co_weak_links :: nat

text \<open>An aggregate over nothing counts zero links, which the tool takes for no coordinator.\<close>

definition coordinator_row :: "string \<Rightarrow> rat \<Rightarrow> graph \<Rightarrow> coordinator_signal option" where
  "coordinator_row snapshot_id weak_lqi g =
     (let lqis = map (\<lambda>d. rat_of (dget d ''lqi''))
            (filter (\<lambda>d. dget d ''to_name'' = VStr ''Coordinator'') (measured_links snapshot_id g))
      in if lqis = [] then None
         else Some \<lparr>co_links = length lqis, co_avg_lqi = sum_list lqis / of_nat (length lqis),
                co_min_lqi = foldr min lqis (hd lqis), co_weak_links = length (filter (\<lambda>q. q \<le> weak_lqi) lqis)\<rparr>)"

text \<open>The links of the answer of \<open>mesh_link_walls\<close>, and the classes the weak ones fall into.\<close>

definition answer_links :: "dict \<Rightarrow> dict list" where
  "answer_links answer =
     (case dget answer ''result'' of
        VDict r \<Rightarrow> map (\<lambda>v. case v of VDict d \<Rightarrow> d | _ \<Rightarrow> []) (value_list (dget r ''links'')) | _ \<Rightarrow> [])"

definition weak_links :: "dict list \<Rightarrow> dict list" where
  "weak_links links = filter (\<lambda>l. truthy (dget l ''lqi_measured'')) links"

definition cross_floor :: "dict list \<Rightarrow> dict list" where
  "cross_floor weak = filter (\<lambda>l. truthy (dget l ''slabs_crossed'')) weak"

definition unexplained :: "dict list \<Rightarrow> dict list" where
  "unexplained weak = filter (\<lambda>l. \<not> truthy (dget l ''slabs_crossed'') \<and> dget l ''expected_loss_db'' \<noteq> VNone \<and>
     rat_of (dget l ''expected_loss_db'') \<le> UNEXPLAINED_LOSS_DB) weak"

definition unresolved :: "dict list \<Rightarrow> dict list" where
  "unresolved weak = filter (\<lambda>l. dget l ''expected_loss_db'' = VNone) weak"

definition suspect :: "parent \<Rightarrow> bool" where
  "suspect p \<longleftrightarrow> pa_children p \<noteq> 0 \<and> pa_unmeasured p = pa_children p"

definition parent_value :: "parent \<Rightarrow> pval" where
  "parent_value p = VDict [(''device'', pa_device p), (''children'', VInt (int (pa_children p))),
     (''unmeasured_child_links'', VInt (int (pa_unmeasured p)))]"

definition weak_value :: "weak_device \<Rightarrow> pval" where
  "weak_value w = VDict [(''device'', wd_device w), (''best_lqi'', VFloat (Fin (wd_best_lqi w))),
     (''measured_links'', VInt (int (wd_measured_links w)))]"

definition coordinator_value :: "coordinator_signal option \<Rightarrow> pval" where
  "coordinator_value c =
     (case c of
        None \<Rightarrow> VNone
      | Some r \<Rightarrow> VDict [(''links'', VInt (int (co_links r))), (''avg_lqi'', VFloat (Fin (round_to 1 (of_rat (co_avg_lqi r))))),
          (''min_lqi'', VFloat (Fin (co_min_lqi r))), (''weak_links'', VInt (int (co_weak_links r)))])"

definition LINK_SUMMARY_KEYS :: "string list" where
  "LINK_SUMMARY_KEYS = [''from_name'', ''to_name'', ''lqi'', ''distance_m'', ''walls_crossed'', ''wall_attenuation_db'',
     ''expected_loss_db'']"

definition health_warnings :: "int \<Rightarrow> nat \<Rightarrow> nat \<Rightarrow> nat \<Rightarrow> string list" where
  "health_warnings limit parents weak_devices unresolved_links =
     (if limit < int parents then [''parent list truncated to '' @ str_of_int limit @ '' items''] else []) @
     (if limit < int weak_devices then [''weak device list truncated to '' @ str_of_int limit @ '' items''] else []) @
     (if unresolved_links = 0 then [] else
        [str_of_nat unresolved_links @ '' weak link(s) could not be checked against the floor plan '' @
         ''(a device is not pinned or its link is not resolved)''])"

definition health_payload ::
  "nkey \<times> dict \<Rightarrow> rat \<Rightarrow> nat \<Rightarrow> parent list \<Rightarrow> weak_device list \<Rightarrow> coordinator_signal option \<Rightarrow> dict list \<Rightarrow> pval" where
  "health_payload s weak_lqi limit parents weak_devices coordinator weak =
     VDict [(''snapshot_id'', VStr (snd (fst s))), (''scanned_at'', dget (snd s) ''scanned_at''),
       (''weak_lqi'', VFloat (Fin weak_lqi)),
       (''summary'', VDict [(''parents'', VInt (int (length parents))),
          (''suspect_parents'', VInt (int (length (filter suspect parents)))),
          (''weak_devices'', VInt (int (length weak_devices))), (''weak_links'', VInt (int (length weak))),
          (''unexplained_weak_links'', VInt (int (length (unexplained weak)))),
          (''weak_cross_floor_links'', VInt (int (length (cross_floor weak))))]),
       (''suspect_parents'', VList (map parent_value (take limit (filter suspect parents)))),
       (''parents'', VList (map parent_value (take limit parents))),
       (''weak_devices'', VList (map weak_value (take limit weak_devices))),
       (''coordinator'', coordinator_value coordinator),
       (''unexplained_weak_links'', VList (map (\<lambda>l. VDict (map (\<lambda>k. (k, dget l k)) LINK_SUMMARY_KEYS))
          (take limit (unexplained weak))))]"

definition mesh_health :: "rat \<Rightarrow> int option \<Rightarrow> rat \<Rightarrow> rat \<Rightarrow> ('z, dict) wop" where
  "mesh_health weak_lqi limit floor_height slab_attenuation =
     (let effective_limit = tool_limit limit in
      obind (run_query (read_stmt latest_snapshot)) (\<lambda>snapshot.
        case snapshot of
          None \<Rightarrow> oret (build_tool_result ''home'' RESULT_TYPE_MESH_HEALTH VNone
            [''no Zigbee mesh snapshot recorded yet''] OUTCOME_EMPTY)
        | Some s \<Rightarrow>
            obind (run_query (read_stmt (parent_rows (snd (fst s))))) (\<lambda>parents.
            obind (run_query (read_stmt (weak_rows (snd (fst s)) weak_lqi))) (\<lambda>weak_devices.
            obind (run_query (read_stmt (coordinator_row (snd (fst s)) weak_lqi))) (\<lambda>coordinator.
            obind (mesh_link_walls weak_lqi (Some (int MAX_QUERY_LIMIT)) floor_height slab_attenuation True) (\<lambda>walls.
              let weak = weak_links (answer_links walls)
              in oret (build_tool_result ''home'' RESULT_TYPE_MESH_HEALTH
                   (health_payload s weak_lqi (nat effective_limit) parents weak_devices coordinator weak)
                   (health_warnings effective_limit (length parents) (length weak_devices) (length (unresolved weak)))
                   OUTCOME_OK)))))))"

section \<open>What the estimates say\<close>

text \<open>
  On one floor the estimate counts exactly the walls of that floor which the straight line between the two
  devices meets, and the expected loss is the free-space loss plus the loss of those walls, rounded.
\<close>

theorem estimate_counts_walls:
  assumes "list_all lossy (walls_of_floor walls (ps_floor p))" and "ps_floor p = ps_floor q"
  shows "es_walls_crossed (link_estimate height slab walls (Some p) (Some q)) =
      Some (length (filter (\<lambda>w. meets (ps_x p, ps_y p) (ps_x q, ps_y q) (wall_points w)) (walls_of_floor walls (ps_floor p)))) \<and>
    (\<exists>free wall_db. es_free_space_db (link_estimate height slab walls (Some p) (Some q)) = Some free \<and>
      es_wall_db (link_estimate height slab walls (Some p) (Some q)) = Some wall_db \<and>
      es_expected_db (link_estimate height slab walls (Some p) (Some q)) = Some (round_to 1 (of_rat (free + wall_db))))"
  using crossing_details_rel [OF assms(1), of "(ps_x p, ps_y p)" "(ps_x q, ps_y q)"] assms(2)
  by (simp add: link_estimate_def same_floor_estimate_def no_estimate_def Let_def list_all2_lengthD)

definition placed :: "real \<Rightarrow> real \<Rightarrow> position" where
  "placed x y = \<lparr>ps_floor = ''ground'', ps_level = VInt 0, ps_x = x, ps_y = y, ps_z = 0\<rparr>"

theorem estimate_counts_walls_witness:
  "es_walls_crossed (link_estimate 3 15 [(''ground'', corner_wall)] (Some (placed 0 0)) (Some (placed 2 2))) = Some 1"
proof -
  have "list_all lossy (walls_of_floor [(''ground'', corner_wall)] (ps_floor (placed 0 0)))"
    by (simp add: walls_of_floor_def placed_def lossy_def corner_wall_def)
  moreover have "ps_floor (placed 0 0) = ps_floor (placed 2 2)" by (simp add: placed_def)
  ultimately show ?thesis
    using estimate_counts_walls [of "[(''ground'', corner_wall)]" "placed 0 0" "placed 2 2" 3 15]
    by (simp add: placed_def walls_of_floor_def corner_wall_def wall_points_def segments_intersect_def cross_def EPSILON_def)
qed

text \<open>
  A link between two floors of the same level passes no slab, so \<open>mesh_health\<close> treats it like a link on one
  floor: it is not counted as a cross-floor link, and it is reported as unexplained when it is short enough,
  whatever walls are between the two parts of the building.
\<close>

theorem same_level_floors_unexplained:
  assumes "ps_floor p \<noteq> ps_floor q" and "ps_level p = VInt level" and "ps_level q = VInt level"
    and "truthy (dget (mr_link r) ''lqi'')"
    and "l = link_record r (link_estimate height slab walls (Some p) (Some q))"
  shows "dget l ''same_floor'' = VBool False \<and> weak_links [l] = [l] \<and> cross_floor [l] = [] \<and>
    (unexplained [l] = [l] \<longleftrightarrow> rat_of (dget l ''expected_loss_db'') \<le> UNEXPLAINED_LOSS_DB)"
  using assms
  by (simp add: link_estimate_def cross_floor_estimate_def no_estimate_def Let_def link_record_def dget_def weak_links_def
      cross_floor_def unexplained_def int_of_def opt_nat_def opt_rat_def)

theorem same_level_floors_unexplained_witness:
  "\<exists>l. weak_links [l] = [l] \<and> cross_floor [l] = [] \<and> dget l ''same_floor'' = VBool False"
proof -
  have "truthy (dget (mr_link \<lparr>mr_link = [(''lqi'', VInt 20)], mr_from_device = None, mr_to_device = None\<rparr>) ''lqi'')"
    by (simp add: dget_def)
  from same_level_floors_unexplained [OF _ _ _ this refl, of "placed 0 0" "(placed 1 0)\<lparr>ps_floor := ''annex''\<rparr>" 0]
  show ?thesis by (auto simp: placed_def)
qed

end
