(* ===== verification/Graph_Presentation.thy ===== *)
theory Graph_Presentation
  imports Graph_Builder
begin

text \<open>
  \<open>graph_backends.py\<close> over the shared client and \<open>graph_gateway.py\<close>: slices of the graph for the panel.
  Nodes and relationships become bounded, cleaned records; a slice holds each element once and no
  relationship without its ends; a failure of the backend is an answer, not an exception.
  Two functions of Python are parameters: \<open>str_of\<close>, the text of a float or a container, and \<open>dumps\<close>, the
  JSON text of a container.
\<close>

section \<open>Cleaning\<close>

definition is_control :: "char \<Rightarrow> bool" where
  "is_control c = (let n = (of_char c :: nat) in n < 32 \<or> n = 127)"

text \<open>\<open>str(value)\<close>\<close>

definition py_str :: "(pval \<Rightarrow> string) \<Rightarrow> pval \<Rightarrow> string" where
  "py_str str_of v =
     (case v of
        VNone \<Rightarrow> ''None''
      | VBool b \<Rightarrow> if b then ''True'' else ''False''
      | VInt i \<Rightarrow> str_of_int i
      | VStr s \<Rightarrow> s
      | _ \<Rightarrow> str_of v)"

definition clamp :: "int option \<Rightarrow> nat \<Rightarrow> nat \<Rightarrow> nat" where
  "clamp v fallback maximum = nat (min (max (case v of None \<Rightarrow> int fallback | Some i \<Rightarrow> i) 1) (int maximum))"

definition bounded_text :: "(pval \<Rightarrow> string) \<Rightarrow> pval \<Rightarrow> nat \<Rightarrow> string" where
  "bounded_text str_of v limit =
     take limit (filter (\<lambda>c. \<not> is_control c) (if v = VNone then [] else py_str str_of v))"

definition raw_properties :: "pval \<Rightarrow> dict" where
  "raw_properties v =
     (case v of
        VDict d \<Rightarrow> (case map_of d ''properties'' of
            None \<Rightarrow> d | Some (VDict p) \<Rightarrow> p | Some _ \<Rightarrow> [])
      | _ \<Rightarrow> [])"

definition raw_labels :: "(pval \<Rightarrow> string) \<Rightarrow> pval \<Rightarrow> string list" where
  "raw_labels str_of v =
     (case v of
        VDict d \<Rightarrow> sort (map (py_str str_of) (case dget d ''labels'' of VList xs \<Rightarrow> xs | _ \<Rightarrow> []))
      | _ \<Rightarrow> [])"

text \<open>\<open>^[A-Za-z_][A-Za-z0-9_]*$\<close>, the whole name\<close>

definition safe_name :: "string \<Rightarrow> bool" where
  "safe_name s = (case s of [] \<Rightarrow> False
     | c # cs \<Rightarrow> (is_alpha c \<or> c = CHR ''_'') \<and> list_all is_word cs)"

definition SENSITIVE_WORDS :: "string list" where
  "SENSITIVE_WORDS = [''password'', ''passphrase'', ''secret'', ''token'', ''credential'', ''connection'', ''uri'', ''url'', ''host'']"

definition sensitive :: "string \<Rightarrow> bool" where
  "sensitive name \<longleftrightarrow> (\<exists>w \<in> set SENSITIVE_WORDS. contains w (lower name))"

definition shown_property :: "string \<Rightarrow> bool" where
  "shown_property name \<longleftrightarrow> safe_name name \<and> lower name \<notin> set SECRET_KEYS \<and> \<not> sensitive name"

definition scalar :: "pval \<Rightarrow> bool" where
  "scalar v = (case v of VList _ \<Rightarrow> False | VDict _ \<Rightarrow> False | _ \<Rightarrow> True)"

definition property_value :: "(pval \<Rightarrow> string) \<Rightarrow> (pval \<Rightarrow> string) \<Rightarrow> pval \<Rightarrow> pval" where
  "property_value str_of dumps v =
     (let v = redact_value v
      in if \<not> scalar v then VStr (bounded_text str_of (VStr (dumps v)) GRAPH_PROPERTY_VALUE_MAX_LENGTH)
         else (case v of
             VStr _ \<Rightarrow> VStr (bounded_text str_of v GRAPH_PROPERTY_VALUE_MAX_LENGTH)
           | _ \<Rightarrow> v))"

fun safe_properties_from :: "(pval \<Rightarrow> string) \<Rightarrow> (pval \<Rightarrow> string) \<Rightarrow> dict \<Rightarrow> pval list \<Rightarrow> string list \<Rightarrow> pval list" where
  "safe_properties_from str_of dumps d result [] = result"
| "safe_properties_from str_of dumps d result (name # names) =
     (if GRAPH_PROPERTY_LIMIT \<le> length result \<or> \<not> shown_property name
      then safe_properties_from str_of dumps d result names
      else (let v = property_value str_of dumps (dget d name)
            in safe_properties_from str_of dumps d (result @
                 [VDict [(''name'', VStr name), (''value'', v),
                    (''displayValue'', VStr (bounded_text str_of v GRAPH_PROPERTY_VALUE_MAX_LENGTH))]]) names))"

definition safe_properties :: "(pval \<Rightarrow> string) \<Rightarrow> (pval \<Rightarrow> string) \<Rightarrow> dict \<Rightarrow> pval list" where
  "safe_properties str_of dumps d = safe_properties_from str_of dumps d [] (sort (map fst d))"

section \<open>Elements\<close>

definition NODE_TYPES :: "(string \<times> string) list" where
  "NODE_TYPES = [(''Area'', ''AREA''), (''Device'', ''DEVICE''), (''Entity'', ''ENTITY''), (''Automation'', ''AUTOMATION''),
     (''Scene'', ''SCENE''), (''Script'', ''SCRIPT''), (''Dashboard'', ''DASHBOARD''), (''DashboardCard'', ''DASHBOARD_CARD''),
     (''SemanticType'', ''SEMANTIC_TYPE''), (''ValidationFinding'', ''VALIDATION_FINDING'')]"

definition first_truthy :: "pval list \<Rightarrow> pval" where
  "first_truthy vs = (case find truthy vs of Some v \<Rightarrow> v | None \<Rightarrow> (if vs = [] then VNone else last vs))"

text \<open>\<open>mdi:[a-z0-9-]+\<close>\<close>

definition is_icon :: "string \<Rightarrow> bool" where
  "is_icon s = (starts_with ''mdi:'' s \<and> drop 4 s \<noteq> [] \<and>
     list_all (\<lambda>c. (is_alpha c \<and> to_lower c = c) \<or> is_digit c \<or> c = CHR ''-'') (drop 4 s))"

text \<open>The record of a node with the properties \<open>p\<close>.\<close>

definition node_record :: "(pval \<Rightarrow> string) \<Rightarrow> (pval \<Rightarrow> string) \<Rightarrow> string \<Rightarrow> string \<Rightarrow> dict \<Rightarrow> dict" where
  "node_record str_of dumps canonical_label ha_id p =
     (let label = bounded_text str_of (first_truthy [dget p ''name'', dget p ''friendly_name'', VStr ha_id]) 256;
          state = dget p ''state'';
          icon_text = (case map_of p ''icon'' of None \<Rightarrow> [] | Some i \<Rightarrow> py_str str_of i)
      in [(''id'', VStr (canonical_label @ '':'' @ ha_id)), (''haId'', VStr ha_id),
          (''type'', VStr (case map_of NODE_TYPES canonical_label of None \<Rightarrow> ''OTHER'' | Some t \<Rightarrow> t)),
          (''label'', VStr label), (''icon'', if is_icon icon_text then dget p ''icon'' else VNone),
          (''state'', if state \<noteq> VNone then VStr (bounded_text str_of state 256) else VNone),
          (''unavailable'', VBool (lower (py_str str_of state) \<in> {''unknown'', ''unavailable''})),
          (''findingSeverity'', if truthy (dget p ''severity'')
             then VStr (upper (py_str str_of (dget p ''severity''))) else VNone),
          (''properties'', VList (safe_properties str_of dumps p))])"

definition canonical_label :: "(pval \<Rightarrow> string) \<Rightarrow> pval \<Rightarrow> string" where
  "canonical_label str_of v =
     (case find (\<lambda>l. map_of NODE_TYPES l \<noteq> None) (raw_labels str_of v) of None \<Rightarrow> ''Other'' | Some l \<Rightarrow> l)"

definition graph_node_id :: "(pval \<Rightarrow> string) \<Rightarrow> dict \<Rightarrow> string" where
  "graph_node_id str_of p = bounded_text str_of (first_truthy [dget p ''ha_id'', dget p ''id'']) 512"

definition normalize_graph_node :: "(pval \<Rightarrow> string) \<Rightarrow> (pval \<Rightarrow> string) \<Rightarrow> pval \<Rightarrow> exn + dict" where
  "normalize_graph_node str_of dumps v =
     (let p = raw_properties v; ha_id = graph_node_id str_of p
      in if ha_id = [] then Inl (ValueError ''Graph node is missing a stable identifier'')
         else Inr (node_record str_of dumps (canonical_label str_of v) ha_id p))"

text \<open>A relationship of the queries is a mapping; it has no attributes of a driver object.\<close>

definition endpoint_id :: "(pval \<Rightarrow> string) \<Rightarrow> dict \<Rightarrow> string \<Rightarrow> dict \<Rightarrow> string" where
  "endpoint_id str_of d side p =
     (if truthy (dget d side) then bounded_text str_of (dget d side) 512
      else bounded_text str_of (dget p side) 512)"

definition normalize_graph_relationship :: "(pval \<Rightarrow> string) \<Rightarrow> (pval \<Rightarrow> string) \<Rightarrow> dict \<Rightarrow> dict" where
  "normalize_graph_relationship str_of dumps d =
     (let p = raw_properties (VDict d);
          rel_type = bounded_text str_of (first_truthy [dget d ''type'', dget p ''type'', VStr ''RELATED_TO'']) 128;
          source = endpoint_id str_of d ''source'' p; target = endpoint_id str_of d ''target'' p;
          discriminator = bounded_text str_of
            (first_truthy [dget d ''id'', dget p ''ha_id'', dget p ''id'', VStr ''0'']) 128;
          source_class = first_truthy [dget d ''source_class'', dget d ''sourceClass'', dget p ''source_class'',
            dget p ''sourceClass'']
      in [(''id'', VStr (rel_type @ '':'' @ source @ '':'' @ target @ '':'' @ discriminator)), (''type'', VStr rel_type),
          (''source'', VStr source), (''target'', VStr target), (''directed'', VBool True),
          (''sourceClass'', if truthy source_class then VStr (upper (py_str str_of source_class)) else VNone),
          (''properties'', VList (safe_properties str_of dumps p))])"

section \<open>Slices\<close>

text \<open>
  \<open>element[key]\<close> where the value goes into a set.  Ids are strings; equality of numbers of different
  types, as Python has it, plays no part.
\<close>

definition element_key :: "string \<Rightarrow> pval \<Rightarrow> exn + pval" where
  "element_key k v =
     (case v of
        VDict d \<Rightarrow> (case map_of d k of
            None \<Rightarrow> Inl (KeyError k)
          | Some x \<Rightarrow> if hashable x then Inr x else Inl (TypeError ''unhashable type''))
      | _ \<Rightarrow> Inl (TypeError ''object is not subscriptable''))"

fun unique_nodes :: "pval list \<Rightarrow> pval list \<Rightarrow> exn + pval list" where
  "unique_nodes seen [] = Inr []"
| "unique_nodes seen (n # ns) =
     (case element_key ''id'' n of
        Inl e \<Rightarrow> Inl e
      | Inr i \<Rightarrow>
          (if i \<in> set seen then unique_nodes seen ns
           else (case unique_nodes (i # seen) ns of Inl e \<Rightarrow> Inl e | Inr result \<Rightarrow> Inr (n # result))))"

text \<open>One condition of the loop after the other, as \<open>or\<close> evaluates them.\<close>

fun renderable :: "pval list \<Rightarrow> pval list \<Rightarrow> pval list \<Rightarrow> exn + pval list" where
  "renderable node_ids seen [] = Inr []"
| "renderable node_ids seen (r # rs) =
     (case element_key ''source'' r of Inl e \<Rightarrow> Inl e | Inr source \<Rightarrow>
      if source \<notin> set node_ids then renderable node_ids seen rs else
     (case element_key ''target'' r of Inl e \<Rightarrow> Inl e | Inr target \<Rightarrow>
      if target \<notin> set node_ids then renderable node_ids seen rs else
     (case element_key ''id'' r of Inl e \<Rightarrow> Inl e | Inr i \<Rightarrow>
      if i \<in> set seen then renderable node_ids seen rs else
     (case renderable node_ids (i # seen) rs of Inl e \<Rightarrow> Inl e | Inr result \<Rightarrow> Inr (r # result)))))"

definition renderable_relationships :: "pval list \<Rightarrow> pval list \<Rightarrow> exn + pval list" where
  "renderable_relationships nodes relationships =
     (case each (element_key ''id'') nodes of
        Inl e \<Rightarrow> Inl e
      | Inr node_ids \<Rightarrow> renderable node_ids node_ids relationships)"

definition dict_value :: "pval \<Rightarrow> dict" where
  "dict_value v = (case v of VDict d \<Rightarrow> d | _ \<Rightarrow> [])"

record graph_slice =
  sl_nodes :: "pval list"
  sl_relationships :: "pval list"
  sl_truncated :: bool
  sl_next_cursor :: pval
  sl_revision :: int

text \<open>What the records of a slice are given to: unique nodes first, then the relationships among them.\<close>

definition make_slice :: "pval list \<Rightarrow> pval list \<Rightarrow> bool \<Rightarrow> pval \<Rightarrow> int \<Rightarrow> exn + graph_slice" where
  "make_slice raw_nodes raw_relationships truncated cursor revision =
     (case unique_nodes [] raw_nodes of
        Inl e \<Rightarrow> Inl e
      | Inr nodes \<Rightarrow>
          (case renderable_relationships nodes raw_relationships of
             Inl e \<Rightarrow> Inl e
           | Inr relationships \<Rightarrow> Inr \<lparr>sl_nodes = nodes, sl_relationships = relationships,
               sl_truncated = truncated, sl_next_cursor = cursor, sl_revision = revision\<rparr>))"

definition slice ::
  "(pval \<Rightarrow> string) \<Rightarrow> (pval \<Rightarrow> string) \<Rightarrow> pval list \<times> pval list \<Rightarrow> nat \<Rightarrow> nat \<Rightarrow> exn + graph_slice" where
  "slice str_of dumps row node_limit edge_limit =
     (case row of (raw_nodes, raw_relationships) \<Rightarrow>
       (case each (normalize_graph_node str_of dumps) (filter truthy (take node_limit raw_nodes)) of
          Inl e \<Rightarrow> Inl e
        | Inr nodes \<Rightarrow>
            make_slice (map VDict nodes)
              (map (\<lambda>r. VDict (normalize_graph_relationship str_of dumps (dict_value r)))
                 (filter truthy (take edge_limit raw_relationships)))
              (node_limit < length raw_nodes \<or> edge_limit < length raw_relationships) VNone 0))"

section \<open>What the records look like\<close>

text \<open>A text as \<open>_bounded_text\<close> leaves it.\<close>

definition clean_text :: "nat \<Rightarrow> pval \<Rightarrow> bool" where
  "clean_text n v = (case v of VStr s \<Rightarrow> length s \<le> n \<and> list_all (\<lambda>c. \<not> is_control c) s | _ \<Rightarrow> False)"

definition nullable :: "(pval \<Rightarrow> bool) \<Rightarrow> pval \<Rightarrow> bool" where
  "nullable p v = (v = VNone \<or> p v)"

definition is_str :: "pval \<Rightarrow> bool" where
  "is_str v = (case v of VStr _ \<Rightarrow> True | _ \<Rightarrow> False)"

text \<open>One entry of \<open>properties\<close>: a name that may be shown, a scalar, and its bounded text.\<close>

definition typed_property :: "pval \<Rightarrow> bool" where
  "typed_property v =
     (case v of
        VDict [(n, VStr name), (x, shown), (y, display)] \<Rightarrow>
          n = ''name'' \<and> x = ''value'' \<and> y = ''displayValue'' \<and> shown_property name \<and> scalar shown \<and>
          (is_str shown \<longrightarrow> clean_text GRAPH_PROPERTY_VALUE_MAX_LENGTH shown) \<and>
          clean_text GRAPH_PROPERTY_VALUE_MAX_LENGTH display
      | _ \<Rightarrow> False)"

definition typed_properties :: "pval \<Rightarrow> bool" where
  "typed_properties v =
     (case v of VList ps \<Rightarrow> length ps \<le> GRAPH_PROPERTY_LIMIT \<and> list_all typed_property ps | _ \<Rightarrow> False)"

definition NODE_FIELDS :: "string list" where
  "NODE_FIELDS = [''id'', ''haId'', ''type'', ''label'', ''icon'', ''state'', ''unavailable'', ''findingSeverity'',
     ''properties'']"

definition typed_node :: "pval \<Rightarrow> bool" where
  "typed_node v =
     (case v of
        VDict d \<Rightarrow> map fst d = NODE_FIELDS \<and> is_str (dget d ''id'') \<and> clean_text 512 (dget d ''haId'') \<and>
          dget d ''haId'' \<noteq> VStr [] \<and> dget d ''type'' \<in> VStr ` insert ''OTHER'' (snd ` set NODE_TYPES) \<and>
          clean_text 256 (dget d ''label'') \<and> nullable (clean_text 256) (dget d ''state'') \<and>
          dget d ''unavailable'' \<in> {VBool True, VBool False} \<and>
          nullable is_str (dget d ''findingSeverity'') \<and> typed_properties (dget d ''properties'')
      | _ \<Rightarrow> False)"

definition RELATIONSHIP_FIELDS :: "string list" where
  "RELATIONSHIP_FIELDS = [''id'', ''type'', ''source'', ''target'', ''directed'', ''sourceClass'', ''properties'']"

definition typed_relationship :: "pval \<Rightarrow> bool" where
  "typed_relationship v =
     (case v of
        VDict d \<Rightarrow> map fst d = RELATIONSHIP_FIELDS \<and> is_str (dget d ''id'') \<and>
          clean_text 128 (dget d ''type'') \<and> clean_text 512 (dget d ''source'') \<and>
          clean_text 512 (dget d ''target'') \<and> dget d ''directed'' = VBool True \<and>
          nullable is_str (dget d ''sourceClass'') \<and> typed_properties (dget d ''properties'')
      | _ \<Rightarrow> False)"

named_theorems record_typing \<open>the parts of a presentation record have their types\<close>

lemma clean_bounded_text [record_typing]: "clean_text n (VStr (bounded_text str_of v n))"
  by (auto simp: clean_text_def bounded_text_def list_all_iff dest: in_set_takeD)

lemma typed_property_entry:
  fixes str_of dumps :: "pval \<Rightarrow> string" and d :: dict
  assumes "shown_property name"
  defines "v \<equiv> property_value str_of dumps (dget d name)"
  shows "typed_property (VDict [(''name'', VStr name), (''value'', v),
    (''displayValue'', VStr (bounded_text str_of v GRAPH_PROPERTY_VALUE_MAX_LENGTH))])"
proof -
  have "scalar v \<and> (is_str v \<longrightarrow> clean_text GRAPH_PROPERTY_VALUE_MAX_LENGTH v)"
    unfolding v_def property_value_def Let_def
    by (auto simp: scalar_def is_str_def clean_bounded_text split: pval.splits)
  then show ?thesis
    using assms(1) clean_bounded_text by (simp add: typed_property_def)
qed

lemma safe_properties_from_typed:
  "length result \<le> GRAPH_PROPERTY_LIMIT \<Longrightarrow> list_all typed_property result \<Longrightarrow>
   length (safe_properties_from str_of dumps d result names) \<le> GRAPH_PROPERTY_LIMIT \<and>
   list_all typed_property (safe_properties_from str_of dumps d result names)"
proof (induction names arbitrary: result)
  case Nil
  then show ?case by simp
next
  case (Cons name names)
  then show ?case
    by (simp add: Let_def typed_property_entry)
qed

lemma typed_safe_properties [record_typing]: "typed_properties (VList (safe_properties str_of dumps d))"
  using safe_properties_from_typed [of "[]" str_of dumps d "sort (map fst d)"]
  by (simp add: typed_properties_def safe_properties_def)

lemma is_str_VStr [record_typing]: "is_str (VStr s)"
  by (simp add: is_str_def)

lemma node_type_member [record_typing]:
  "VStr (case map_of NODE_TYPES l of None \<Rightarrow> ''OTHER'' | Some t \<Rightarrow> t) \<in> VStr ` insert ''OTHER'' (snd ` set NODE_TYPES)"
  by (cases "map_of NODE_TYPES l") (auto dest!: map_of_SomeD simp: image_iff intro: bexI [rotated])

lemma nullable_if [record_typing]: "p v \<Longrightarrow> nullable p (if b then v else VNone)"
  by (simp add: nullable_def)

lemma typed_node_fields:
  "typed_node (VDict [(''id'', i), (''haId'', h), (''type'', t), (''label'', l), (''icon'', c), (''state'', s),
      (''unavailable'', u), (''findingSeverity'', f), (''properties'', p)]) \<longleftrightarrow>
   is_str i \<and> clean_text 512 h \<and> h \<noteq> VStr [] \<and> t \<in> VStr ` insert ''OTHER'' (snd ` set NODE_TYPES) \<and>
   clean_text 256 l \<and> nullable (clean_text 256) s \<and> u \<in> {VBool True, VBool False} \<and> nullable is_str f \<and>
   typed_properties p"
  by (simp add: typed_node_def NODE_FIELDS_def dget_def)

lemma bool_value [record_typing]: "VBool b \<in> {VBool True, VBool False}"
  by (cases b) simp_all

lemma node_record_typed:
  "clean_text 512 (VStr i) \<Longrightarrow> i \<noteq> [] \<Longrightarrow> typed_node (VDict (node_record str_of dumps l i p))"
  unfolding node_record_def Let_def typed_node_fields by (intro conjI record_typing) simp_all

lemma normalize_graph_node_typed:
  "normalize_graph_node str_of dumps v = Inr d \<Longrightarrow> typed_node (VDict d)"
  using node_record_typed clean_bounded_text
  by (auto simp: normalize_graph_node_def Let_def graph_node_id_def split: if_splits)

lemma normalize_graph_relationship_typed: "typed_relationship (VDict (normalize_graph_relationship str_of dumps d))"
  unfolding normalize_graph_relationship_def Let_def
  by (simp add: typed_relationship_def RELATIONSHIP_FIELDS_def dget_def record_typing endpoint_id_def)

section \<open>What a slice holds\<close>

definition key_of :: "string \<Rightarrow> pval \<Rightarrow> pval" where
  "key_of k v = dget (dict_value v) k"

lemma element_key_Inr: "element_key k v = Inr x \<Longrightarrow> key_of k v = x"
  by (auto simp: element_key_def key_of_def dict_value_def dget_def split: pval.splits option.splits if_splits)

lemma element_key_str:
  "is_str (dget d k) \<Longrightarrow> element_key k (VDict d) = Inr (dget d k)"
  by (auto simp: element_key_def dget_def is_str_def split: option.splits pval.splits)

lemma each_element_key: "each (element_key k) xs = Inr ys \<Longrightarrow> ys = map (key_of k) xs"
  by (induction xs arbitrary: ys) (auto split: sum.splits dest: element_key_Inr)

lemma unique_nodes_sound:
  "unique_nodes seen ns = Inr r \<Longrightarrow>
   distinct (map (key_of ''id'') r) \<and> key_of ''id'' ` set r = key_of ''id'' ` set ns - set seen \<and>
   set r \<subseteq> set ns \<and> length r \<le> length ns"
proof (induction ns arbitrary: seen r)
  case Nil
  then show ?case by simp
next
  case (Cons n ns)
  then obtain i where i: "element_key ''id'' n = Inr i" by (auto split: sum.splits)
  note k = element_key_Inr [OF i]
  show ?case
  proof (cases "i \<in> set seen")
    case True
    with Cons.prems i have "unique_nodes seen ns = Inr r" by simp
    from Cons.IH [OF this] show ?thesis using True k by auto
  next
    case False
    with Cons.prems i obtain q where q: "unique_nodes (i # seen) ns = Inr q" and r: "r = n # q"
      by (auto split: sum.splits)
    from Cons.IH [OF q] show ?thesis using False k r by auto
  qed
qed

text \<open>A relationship that can be drawn: both ends are among the node ids.\<close>

definition ends_in :: "pval set \<Rightarrow> pval \<Rightarrow> bool" where
  "ends_in ids r \<longleftrightarrow> key_of ''source'' r \<in> ids \<and> key_of ''target'' r \<in> ids"

lemma renderable_sound:
  "renderable node_ids seen rs = Inr result \<Longrightarrow>
   distinct (map (key_of ''id'') result) \<and> list_all (ends_in (set node_ids)) result \<and>
   key_of ''id'' ` set result = key_of ''id'' ` {r \<in> set rs. ends_in (set node_ids) r} - set seen \<and>
   set result \<subseteq> set rs \<and> length result \<le> length rs"
proof (induction rs arbitrary: seen result)
  case Nil
  then show ?case by simp
next
  case (Cons r rs)
  show ?case
  proof (cases "ends_in (set node_ids) r \<and> key_of ''id'' r \<notin> set seen")
    case False
    then have "renderable node_ids seen rs = Inr result"
      using Cons.prems by (auto simp: ends_in_def split: sum.splits if_splits dest!: element_key_Inr)
    from Cons.IH [OF this] show ?thesis using False by (auto simp: ends_in_def)
  next
    case True
    then obtain q where q: "renderable node_ids (key_of ''id'' r # seen) rs = Inr q" and eq: "result = r # q"
      using Cons.prems by (auto simp: ends_in_def split: sum.splits if_splits dest!: element_key_Inr)
    from Cons.IH [OF q] show ?thesis using True eq by auto
  qed
qed

text \<open>
  What every consumer of a slice may rely on: elements are unique, and no relationship is without its
  ends.
\<close>

definition drawable :: "graph_slice \<Rightarrow> bool" where
  "drawable sl \<longleftrightarrow>
     distinct (map (key_of ''id'') (sl_nodes sl @ sl_relationships sl)) \<and>
     list_all (ends_in (set (map (key_of ''id'') (sl_nodes sl)))) (sl_relationships sl)"

lemma make_slice_parts:
  assumes "make_slice ns rs b c v = Inr sl"
  shows "sl_truncated sl = b \<and> sl_next_cursor sl = c \<and> sl_revision sl = v \<and>
    unique_nodes [] ns = Inr (sl_nodes sl) \<and>
    renderable (map (key_of ''id'') (sl_nodes sl)) (map (key_of ''id'') (sl_nodes sl)) rs = Inr (sl_relationships sl)"
  using assms each_element_key
  by (fastforce simp: make_slice_def renderable_relationships_def split: sum.splits)

lemma make_slice_drawable:
  assumes "make_slice ns rs b c v = Inr sl"
  shows "drawable sl"
proof -
  note parts = make_slice_parts [OF assms]
  have "distinct (map (key_of ''id'') (sl_nodes sl))"
    using parts unique_nodes_sound by blast
  moreover have "distinct (map (key_of ''id'') (sl_relationships sl))"
    and "key_of ''id'' ` set (sl_relationships sl) \<inter> key_of ''id'' ` set (sl_nodes sl) = {}"
    and "list_all (ends_in (set (map (key_of ''id'') (sl_nodes sl)))) (sl_relationships sl)"
    using parts renderable_sound [of "map (key_of ''id'') (sl_nodes sl)"] by fastforce+
  ultimately show ?thesis
    by (auto simp: drawable_def)
qed

lemma slice_drawable: "slice str_of dumps row n m = Inr sl \<Longrightarrow> drawable sl"
  by (auto simp: slice_def split: prod.splits sum.splits intro: make_slice_drawable)

lemma each_normalize_error:
  "each (normalize_graph_node str_of dumps) xs = Inl e \<Longrightarrow> e = ValueError ''Graph node is missing a stable identifier''"
  by (induction xs) (auto simp: normalize_graph_node_def Let_def split: sum.splits if_splits)

lemma each_normalize_typed:
  "each (normalize_graph_node str_of dumps) xs = Inr ns \<Longrightarrow> list_all typed_node (map VDict ns)"
  by (induction xs arbitrary: ns) (auto simp: normalize_graph_node_typed split: sum.splits)

lemma each_length: "each f xs = Inr ys \<Longrightarrow> length ys = length xs"
  by (induction xs arbitrary: ys) (auto split: sum.splits)

lemma typed_node_id: "typed_node n \<Longrightarrow> element_key ''id'' n = Inr (key_of ''id'' n)"
  by (auto simp: typed_node_def key_of_def dict_value_def element_key_str split: pval.splits)

lemma typed_relationship_keys:
  "typed_relationship r \<Longrightarrow> k \<in> {''id'', ''source'', ''target''} \<Longrightarrow> element_key k r = Inr (key_of k r)"
  by (auto simp: typed_relationship_def key_of_def dict_value_def clean_text_def is_str_def
    intro!: element_key_str split: pval.splits)

lemma unique_nodes_total: "list_all typed_node ns \<Longrightarrow> \<exists>r. unique_nodes seen ns = Inr r"
proof (induction ns arbitrary: seen)
  case Nil
  then show ?case by simp
next
  case (Cons n ns)
  then obtain a b where "unique_nodes seen ns = Inr a" and "unique_nodes (key_of ''id'' n # seen) ns = Inr b"
    by fastforce
  then show ?case using Cons.prems by (simp add: typed_node_id)
qed

lemma renderable_total: "list_all typed_relationship rs \<Longrightarrow> \<exists>q. renderable ids seen rs = Inr q"
proof (induction rs arbitrary: seen)
  case Nil
  then show ?case by simp
next
  case (Cons r rs)
  then obtain a b where "renderable ids seen rs = Inr a" and "renderable ids (key_of ''id'' r # seen) rs = Inr b"
    by fastforce
  then show ?case using Cons.prems by (simp add: typed_relationship_keys)
qed

lemma make_slice_total:
  assumes "list_all typed_node ns" and "list_all typed_relationship rs"
  shows "\<exists>sl. make_slice ns rs b c v = Inr sl"
proof -
  obtain nodes where nodes: "unique_nodes [] ns = Inr nodes"
    using unique_nodes_total [OF assms(1)] by blast
  then have "set nodes \<subseteq> set ns" using unique_nodes_sound by blast
  then have "each (element_key ''id'') nodes = Inr (map (key_of ''id'') nodes)"
    using assms(1) by (intro each_Inr typed_node_id) (auto simp: list_all_iff)
  moreover obtain q where "renderable (map (key_of ''id'') nodes) (map (key_of ''id'') nodes) rs = Inr q"
    using renderable_total [OF assms(2)] by blast
  ultimately show ?thesis
    using nodes by (simp add: make_slice_def renderable_relationships_def)
qed

text \<open>The nodes and the relationships a slice is made of.\<close>

definition slice_relationships :: "(pval \<Rightarrow> string) \<Rightarrow> (pval \<Rightarrow> string) \<Rightarrow> pval list \<Rightarrow> pval list" where
  "slice_relationships str_of dumps rs =
     map (\<lambda>r. VDict (normalize_graph_relationship str_of dumps (dict_value r))) (filter truthy rs)"

lemma slice_cases:
  obtains (missing) "slice str_of dumps (ns, rs) n m = Inl (ValueError ''Graph node is missing a stable identifier'')"
  | (made) nodes sl where "each (normalize_graph_node str_of dumps) (filter truthy (take n ns)) = Inr nodes"
      and "slice str_of dumps (ns, rs) n m = Inr sl"
      and "make_slice (map VDict nodes) (slice_relationships str_of dumps (take m rs))
             (n < length ns \<or> m < length rs) VNone 0 = Inr sl"
proof (cases "each (normalize_graph_node str_of dumps) (filter truthy (take n ns))")
  case (Inl e)
  then show ?thesis using missing each_normalize_error by (fastforce simp: slice_def)
next
  case (Inr nodes)
  have "list_all typed_relationship (slice_relationships str_of dumps (take m rs))"
    by (simp add: slice_relationships_def list_all_iff normalize_graph_relationship_typed)
  then obtain sl where "make_slice (map VDict nodes) (slice_relationships str_of dumps (take m rs))
      (n < length ns \<or> m < length rs) VNone 0 = Inr sl"
    using make_slice_total each_normalize_typed [OF Inr] by blast
  then show ?thesis
    using made [OF Inr] Inr by (simp add: slice_def slice_relationships_def)
qed

lemma each_result: "each f xs = Inr ys \<Longrightarrow> y \<in> set ys \<Longrightarrow> \<exists>x \<in> set xs. f x = Inr y"
  by (induction xs arbitrary: ys) (auto split: sum.splits)

lemma slice_relationship_ends:
  assumes "slice str_of dumps (ns, rs) n m = Inr sl" and "r \<in> set (sl_relationships sl)" and "k \<in> {''source'', ''target''}"
  obtains x d where "x \<in> set (take n ns)" and "normalize_graph_node str_of dumps x = Inr d"
    and "key_of k r = dget d ''id''" and "r \<in> set (slice_relationships str_of dumps (take m rs))"
proof (cases rule: slice_cases [of str_of dumps ns rs n m])
  case missing
  then show ?thesis using assms(1) by simp
next
  case (made nodes sl')
  then have parts: "unique_nodes [] (map VDict nodes) = Inr (sl_nodes sl)"
    "renderable (map (key_of ''id'') (sl_nodes sl)) (map (key_of ''id'') (sl_nodes sl))
       (slice_relationships str_of dumps (take m rs)) = Inr (sl_relationships sl)"
    using make_slice_parts assms(1) by fastforce+
  from renderable_sound [OF parts(2)] assms(2)
  have "ends_in (key_of ''id'' ` set (sl_nodes sl)) r" and mem: "r \<in> set (slice_relationships str_of dumps (take m rs))"
    by (auto simp: list_all_iff)
  then obtain v where "v \<in> set (sl_nodes sl)" and v: "key_of k r = key_of ''id'' v"
    using assms(3) by (auto simp: ends_in_def)
  then obtain d where d: "d \<in> set nodes" and "v = VDict d"
    using unique_nodes_sound [OF parts(1)] by auto
  then obtain x where "x \<in> set (take n ns)" and "normalize_graph_node str_of dumps x = Inr d"
    using each_result [OF made(1) d] by auto
  then show ?thesis
    using that v mem \<open>v = VDict d\<close> by (simp add: key_of_def dict_value_def)
qed


text \<open>
  C21. A slice is the drawable part of what the query returned, and says when something is missing: it holds
  each node of the first \<open>n\<close> rows once, exactly the relationships of the first \<open>m\<close> rows whose two ends it
  shows, and is marked as truncated exactly when a limit cut the rows.
\<close>

theorem slice_exact:
  assumes "slice str_of dumps (ns, rs) n m = Inr sl"
    and "each (normalize_graph_node str_of dumps) (filter truthy (take n ns)) = Inr nodes"
  defines "ids \<equiv> key_of ''id'' ` set (sl_nodes sl)"
  shows "drawable sl \<and> length (sl_nodes sl) \<le> n \<and> length (sl_relationships sl) \<le> m \<and>
    ids = key_of ''id'' ` VDict ` set nodes \<and>
    key_of ''id'' ` set (sl_relationships sl) =
      key_of ''id'' ` {r \<in> set (slice_relationships str_of dumps (take m rs)). ends_in ids r} - ids \<and>
    (sl_truncated sl \<longleftrightarrow> n < length ns \<or> m < length rs)"
proof -
  have made: "make_slice (map VDict nodes) (slice_relationships str_of dumps (take m rs))
      (n < length ns \<or> m < length rs) VNone 0 = Inr sl"
    using assms(1,2) by (simp add: slice_def slice_relationships_def)
  note parts = make_slice_parts [OF made]
  have "length (slice_relationships str_of dumps (take m rs)) \<le> m"
    by (simp add: slice_relationships_def) (metis length_filter_le length_take min.cobounded2 order_trans)
  moreover have "length nodes \<le> n"
    using each_length [OF assms(2)] length_filter_le [of truthy "take n ns"] by simp
  moreover have "ids = key_of ''id'' ` VDict ` set nodes" and "length (sl_nodes sl) \<le> length nodes"
    using parts unique_nodes_sound [of "[]" "map VDict nodes" "sl_nodes sl"] by (simp_all add: ids_def)
  moreover have "key_of ''id'' ` set (sl_relationships sl) =
      key_of ''id'' ` {r \<in> set (slice_relationships str_of dumps (take m rs)). ends_in ids r} - ids"
    and "length (sl_relationships sl) \<le> length (slice_relationships str_of dumps (take m rs))"
    using renderable_sound [of "map (key_of ''id'') (sl_nodes sl)" "map (key_of ''id'') (sl_nodes sl)"] parts
    by (simp_all add: ids_def)
  ultimately show ?thesis
    using parts make_slice_drawable [OF made] by simp
qed

definition sample_node :: "string \<Rightarrow> string \<Rightarrow> pval" where
  "sample_node label name = VDict [(''labels'', VList [VStr label]),
     (''properties'', VDict [(''ha_id'', VStr name)])]"

definition sample_row :: "pval list \<times> pval list" where
  "sample_row =
     ([sample_node ''Area'' ''a'', sample_node ''Area'' ''b''],
      [VDict [(''type'', VStr ''NEAR''), (''source'', VStr ''Area:a''), (''target'', VStr ''Area:a'')],
       VDict [(''type'', VStr ''NEAR''), (''source'', VStr ''Area:a''), (''target'', VStr ''Area:b'')]])"

definition sample_slice :: "exn + graph_slice" where
  "sample_slice = slice (\<lambda>_. []) (\<lambda>_. []) sample_row 1 2"

definition sample_nodes :: "exn + dict list" where
  "sample_nodes = each (normalize_graph_node (\<lambda>_. []) (\<lambda>_. [])) (filter truthy (take 1 (fst sample_row)))"

lemma sample_nodes_made: "sample_nodes = Inr (sum.projr sample_nodes)"
  by code_simp

lemma sample_slice_made: "sample_slice = Inr (sum.projr sample_slice)"
  by code_simp

theorem slice_exact_witness:
  "drawable (sum.projr sample_slice) \<and> sl_truncated (sum.projr sample_slice)"
proof -
  have "slice (\<lambda>_. []) (\<lambda>_. []) (fst sample_row, snd sample_row) 1 2 = Inr (sum.projr sample_slice)"
    using sample_slice_made by (simp add: sample_slice_def)
  moreover have nodes: "each (normalize_graph_node (\<lambda>_. []) (\<lambda>_. [])) (filter truthy (take 1 (fst sample_row))) =
      Inr (sum.projr sample_nodes)"
    using sample_nodes_made by (simp add: sample_nodes_def)
  ultimately show ?thesis
    using slice_exact [OF _ nodes] by (fastforce simp add: sample_row_def)
qed

end
