(* ===== verification/Graph_Backends.thy ===== *)
theory Graph_Backends
  imports Graph_Presentation
begin

text \<open>
  The two backends of \<open>graph_backends.py\<close>.  The direct one runs fixed queries with the client of the
  coordinator; they are functions on the graph.  The other one asks the GraphQL server of the add-on; what
  its answers are is a parameter: a function from the request to an outcome of the transport.
\<close>

section \<open>The queries\<close>

definition full_node :: "nkey \<times> dict \<Rightarrow> pval" where
  "full_node x = serialize_value (DNode [] [fst (fst x)]
     (map (\<lambda>(k, v). (k, DPlain v)) ((''ha_id'', VStr (snd (fst x))) # snd x)))"

definition element_name :: "nkey \<Rightarrow> string" where
  "element_name k = fst k @ '':'' @ snd k"

definition coalesce_values :: "pval list \<Rightarrow> pval" where
  "coalesce_values vs = (case find (\<lambda>v. v \<noteq> VNone) vs of None \<Rightarrow> VNone | Some v \<Rightarrow> v)"

definition relationship_map :: "rkey \<times> dict \<Rightarrow> pval" where
  "relationship_map x =
     (case x of ((a, t, b), d) \<Rightarrow> VDict
        [(''type'', VStr t), (''source'', VStr (element_name a)), (''target'', VStr (element_name b)),
         (''id'', coalesce_values [dget d ''ha_id'', dget d ''id'', VStr ''0'']),
         (''source_class'', dget d ''source''), (''properties'', VDict d)])"

text \<open>\<open>coalesce(n.name, n.ha_id)\<close>; names are strings.\<close>

definition sort_name :: "nkey \<times> dict \<Rightarrow> string" where
  "sort_name x = (case dget (snd x) ''name'' of VStr s \<Rightarrow> s | _ \<Rightarrow> snd (fst x))"

definition by_name :: "(nkey \<times> dict) list \<Rightarrow> (nkey \<times> dict) list" where
  "by_name xs = sort_key sort_name (sort_key (snd \<circ> fst) xs)"

text \<open>The undirected pattern between areas matches a relationship from both ends.\<close>

definition initial_graph_row :: "nat \<Rightarrow> nat \<Rightarrow> graph \<Rightarrow> pval list \<times> pval list" where
  "initial_graph_row node_limit edge_limit g =
     (let nodes = take node_limit (by_name (filter (\<lambda>x. fst (fst x) = ''Area'') (g_nodes g)));
          between = filter (\<lambda>((a, t, b), d). a \<in> fst ` set nodes \<and> b \<in> fst ` set nodes) (g_rels g)
      in (map full_node nodes,
          take edge_limit (concat (map (\<lambda>x. if fst (fst x) = snd (snd (fst x)) then [relationship_map x]
            else [relationship_map x, relationship_map x]) between))))"

text \<open>\<open>(center)-[r]-(neighbor)\<close>: the relationships of a node, each with the node at its other end.\<close>

definition matches_of :: "graph \<Rightarrow> nkey \<Rightarrow> ((rkey \<times> dict) \<times> (nkey \<times> dict)) list" where
  "matches_of g k =
     map (\<lambda>x. (x, let (a, t, b) = fst x; j = (if a = k then b else a) in (j, or_empty (node g j))))
       (filter (\<lambda>((a, t, b), d). a = k \<or> b = k) (g_rels g))"

definition named_nodes :: "string \<Rightarrow> graph \<Rightarrow> (nkey \<times> dict) list" where
  "named_nodes element_id g = filter (\<lambda>x. element_name (fst x) = element_id) (g_nodes g)"

text \<open>The neighbours and the relationships of a node, each once, in the order of the matches.\<close>

definition match_lists ::
  "nat \<Rightarrow> nat \<Rightarrow> ((rkey \<times> dict) \<times> (nkey \<times> dict)) list \<Rightarrow> pval list \<times> pval list" where
  "match_lists node_limit edge_limit ms =
     (map full_node (take node_limit (keep_first (map snd ms))),
      take edge_limit (map relationship_map (keep_first (map fst ms))))"

definition expand_rows :: "string \<Rightarrow> nat \<Rightarrow> nat \<Rightarrow> graph \<Rightarrow> (pval list \<times> pval list) list" where
  "expand_rows element_id node_limit edge_limit g =
     map (\<lambda>x. let (ns, rs) = match_lists node_limit edge_limit
              (sort_key (\<lambda>m. sort_name (snd m)) (sort_key (\<lambda>m. fst (snd (fst (fst m)))) (matches_of g (fst x))))
            in (full_node x # ns, rs))
       (named_nodes element_id g)"

definition search_graph_rows :: "string \<Rightarrow> nat \<Rightarrow> graph \<Rightarrow> pval list" where
  "search_graph_rows term limit g =
     map full_node (take limit (by_name (filter (\<lambda>x.
       contains (lower term) (lower (case dget (snd x) ''name'' of VStr s \<Rightarrow> s | _ \<Rightarrow> [])) \<or>
       contains (lower term) (lower (snd (fst x)))) (g_nodes g))))"

definition graph_element_rows :: "string \<Rightarrow> graph \<Rightarrow> (pval \<times> pval list \<times> pval list) list" where
  "graph_element_rows element_id g =
     map (\<lambda>x. (full_node x, match_lists 26 51 (matches_of g (fst x)))) (named_nodes element_id g)"

text \<open>The id a relationship has in a slice, and the row of the first relationship that has it.\<close>

definition stable_id :: "(pval \<Rightarrow> string) \<Rightarrow> rkey \<times> dict \<Rightarrow> string" where
  "stable_id str_of x =
     (case x of ((a, t, b), d) \<Rightarrow> t @ '':'' @ element_name a @ '':'' @ element_name b @ '':'' @
        py_str str_of (coalesce_values [dget d ''ha_id'', dget d ''id'', VStr ''0'']))"

definition graph_relationship_rows :: "(pval \<Rightarrow> string) \<Rightarrow> string \<Rightarrow> graph \<Rightarrow> (pval \<times> pval \<times> pval) list" where
  "graph_relationship_rows str_of element_id g =
     map (\<lambda>x. case x of ((a, t, b), d) \<Rightarrow>
            (relationship_map x, full_node (a, or_empty (node g a)), full_node (b, or_empty (node g b))))
       (take 1 (filter (\<lambda>x. stable_id str_of x = element_id) (g_rels g)))"

section \<open>The backend over the shared client\<close>

definition direct_initial_graph ::
  "(pval \<Rightarrow> string) \<Rightarrow> (pval \<Rightarrow> string) \<Rightarrow> int option \<Rightarrow> ('z, graph_slice) wop" where
  "direct_initial_graph str_of dumps limit =
     (let bounded = clamp limit GRAPH_INITIAL_NODE_LIMIT GRAPH_INITIAL_NODE_LIMIT
      in obind (run_query (read_stmt (initial_graph_row (bounded + 1) (GRAPH_INITIAL_EDGE_LIMIT + 1)))) (\<lambda>row.
           from_sum (slice str_of dumps row bounded GRAPH_INITIAL_EDGE_LIMIT)))"

definition direct_expand_node ::
  "(pval \<Rightarrow> string) \<Rightarrow> (pval \<Rightarrow> string) \<Rightarrow> string \<Rightarrow> int option \<Rightarrow> int option \<Rightarrow> ('z, graph_slice) wop" where
  "direct_expand_node str_of dumps node_id node_limit edge_limit =
     (let nodes = clamp node_limit GRAPH_EXPAND_NODE_LIMIT GRAPH_EXPAND_NODE_MAX;
          edges = clamp edge_limit GRAPH_EXPAND_EDGE_LIMIT GRAPH_EXPAND_EDGE_MAX
      in obind (run_query (read_stmt (expand_rows (bounded_text str_of (VStr node_id) 512) (nodes + 1) (edges + 1))))
           (\<lambda>rows. from_sum (slice str_of dumps (case rows of [] \<Rightarrow> ([], []) | row # _ \<Rightarrow> row) nodes edges)))"

definition search_match :: "dict \<Rightarrow> dict" where
  "search_match n = map (\<lambda>key. (key, dget n key)) [''id'', ''haId'', ''type'', ''label'', ''icon'']"

definition direct_search_graph ::
  "(pval \<Rightarrow> string) \<Rightarrow> (pval \<Rightarrow> string) \<Rightarrow> string \<Rightarrow> int option \<Rightarrow> ('z, dict list \<times> bool) wop" where
  "direct_search_graph str_of dumps term limit =
     (let bounded = clamp limit GRAPH_SEARCH_LIMIT GRAPH_SEARCH_MAX
      in obind (run_query (read_stmt (search_graph_rows (strip (bounded_text str_of (VStr term) 256)) (bounded + 1))))
           (\<lambda>rows. obind (from_sum (each (normalize_graph_node str_of dumps) rows)) (\<lambda>nodes.
             oret (map search_match (take bounded nodes), bounded < length nodes))))"

text \<open>The detail of a node or of a relationship.\<close>

datatype element_detail = NodeDetail dict graph_slice | RelationshipDetail dict "dict list"

definition node_detail ::
  "(pval \<Rightarrow> string) \<Rightarrow> (pval \<Rightarrow> string) \<Rightarrow> pval \<times> pval list \<times> pval list \<Rightarrow> exn + element_detail" where
  "node_detail str_of dumps row =
     (case normalize_graph_node str_of dumps (fst row) of
        Inl e \<Rightarrow> Inl e
      | Inr n \<Rightarrow> (case slice str_of dumps (snd row) 25 50 of Inl e \<Rightarrow> Inl e | Inr sl \<Rightarrow> Inr (NodeDetail n sl)))"

definition relationship_detail ::
  "(pval \<Rightarrow> string) \<Rightarrow> (pval \<Rightarrow> string) \<Rightarrow> pval \<times> pval \<times> pval \<Rightarrow> exn + element_detail" where
  "relationship_detail str_of dumps row =
     (case each (normalize_graph_node str_of dumps) [fst (snd row), snd (snd row)] of
        Inl e \<Rightarrow> Inl e
      | Inr ns \<Rightarrow> Inr (RelationshipDetail (normalize_graph_relationship str_of dumps (dict_value (fst row))) ns))"

definition direct_graph_element ::
  "(pval \<Rightarrow> string) \<Rightarrow> (pval \<Rightarrow> string) \<Rightarrow> string \<Rightarrow> ('z, element_detail option) wop" where
  "direct_graph_element str_of dumps element_id =
     (let i = bounded_text str_of (VStr element_id) 512
      in obind (run_query (read_stmt (graph_element_rows i))) (\<lambda>rows.
           case rows of
             row # _ \<Rightarrow> obind (from_sum (node_detail str_of dumps row)) (\<lambda>d. oret (Some d))
           | [] \<Rightarrow> obind (run_query (read_stmt (graph_relationship_rows str_of i))) (\<lambda>relationship_rows.
               case relationship_rows of
                 [] \<Rightarrow> oret None
               | row # _ \<Rightarrow> obind (from_sum (relationship_detail str_of dumps row)) (\<lambda>d. oret (Some d)))))"

text \<open>The latency is a reading of the event loop's clock.\<close>

definition direct_graph_health :: "int \<Rightarrow> ('z, dict) wop" where
  "direct_graph_health latency =
     oseq (run_query (read_stmt (\<lambda>_. ())))
       (oret [(''status'', VStr ''HEALTHY''), (''revision'', VInt 0), (''latencyMs'', VInt latency)])"

section \<open>The backend over GraphQL\<close>

definition GRAPHQL_DOCUMENTS :: "(string \<times> string) list" where
  "GRAPHQL_DOCUMENTS = [
     (''InitialGraph'',
       ''query InitialGraph($limit: Int!, $after: String) {'' @
       [CHR 0x0A] @
       ''      initialGraph(limit: $limit, after: $after) { nodes { id haId type label icon state u'' @
       ''navailable findingSeverity properties { name value displayValue } } relationships { id typ'' @
       ''e source target directed sourceClass properties { name value displayValue } } pageInfo { t'' @
       ''runcated nextCursor } revision }'' @
       [CHR 0x0A] @
       ''    }''),
     (''ExpandNode'',
       ''query ExpandNode($id: ID!, $nodeLimit: Int!, $edgeLimit: Int!, $after: String) {'' @
       [CHR 0x0A] @
       ''      expandNode(id: $id, nodeLimit: $nodeLimit, edgeLimit: $edgeLimit, after: $after) { n'' @
       ''odes { id haId type label icon state unavailable findingSeverity properties { name value d'' @
       ''isplayValue } } relationships { id type source target directed sourceClass properties { na'' @
       ''me value displayValue } } pageInfo { truncated nextCursor } revision }'' @
       [CHR 0x0A] @
       ''    }''),
     (''SearchGraph'',
       ''query SearchGraph($term: String!, $limit: Int!) { searchGraph(term: $term, limit: $limit) '' @
       ''{ matches { id haId type label icon } truncated revision } }''),
     (''GraphElement'',
       ''query GraphElement($id: ID!) { graphElement(id: $id) { node { id haId type label icon stat'' @
       ''e unavailable findingSeverity properties { name value displayValue } } relationship { id t'' @
       ''ype source target directed sourceClass properties { name value displayValue } } directConn'' @
       ''ections { nodes { id haId type label icon state unavailable findingSeverity properties { n'' @
       ''ame value displayValue } } relationships { id type source target directed sourceClass prop'' @
       ''erties { name value displayValue } } pageInfo { truncated nextCursor } revision } } }''),
     (''GraphHealth'',
       ''query GraphHealth { graphHealth { status revision latencyMs } }'')]"

text \<open>
  What posting a request gives: a failure of the transport (a timeout, a client error or an error of the
  operating system), or a status and a body, which may fail to parse.
\<close>

datatype http_outcome = TransportFailure | Response int "exn + pval"

record http_request =
  rq_url :: string
  rq_authorization :: string
  rq_payload :: dict

definition value_get :: "pval \<Rightarrow> string \<Rightarrow> exn + pval" where
  "value_get v k = (case v of VDict d \<Rightarrow> Inr (dget d k) | _ \<Rightarrow> Inl (AttributeError ''object has no attribute get''))"

definition addon_payload :: "string \<Rightarrow> dict \<Rightarrow> dict" where
  "addon_payload operation variables =
     [(''operationName'', VStr operation),
      (''query'', VStr (case map_of GRAPHQL_DOCUMENTS operation of None \<Rightarrow> [] | Some q \<Rightarrow> q)),
      (''variables'', VDict variables)]"

text \<open>The body: an error list is a failure; \<open>data\<close> is a mapping when it is there at all.\<close>

definition addon_answer :: "pval \<Rightarrow> string \<Rightarrow> exn + pval" where
  "addon_answer body field =
     (case value_get body ''errors'' of
        Inl e \<Rightarrow> Inl e
      | Inr errors \<Rightarrow>
          if truthy errors then Inl (GraphBackendUnavailable ''GraphQL operation failed'')
          else (case body of
              VDict d \<Rightarrow> value_get (case map_of d ''data'' of None \<Rightarrow> VDict [] | Some x \<Rightarrow> x) field
            | _ \<Rightarrow> Inl (AttributeError ''object has no attribute get'')))"

definition addon_operation ::
  "(http_request \<Rightarrow> http_outcome) \<Rightarrow> string \<Rightarrow> string \<Rightarrow> string \<Rightarrow> dict \<Rightarrow> string \<Rightarrow> exn + pval" where
  "addon_operation post url token operation variables field =
     (case post \<lparr>rq_url = url, rq_authorization = ''Bearer '' @ token,
         rq_payload = addon_payload operation variables\<rparr> of
        TransportFailure \<Rightarrow> Inl (GraphBackendUnavailable ''GraphQL transport unavailable'')
      | Response status body \<Rightarrow>
          if status \<in> {401, 403} then Inl (GraphBackendUnavailable ''GraphQL authentication failed'')
          else if status \<noteq> 200 then Inl (GraphBackendUnavailable ''GraphQL transport unavailable'')
          else (case body of Inl e \<Rightarrow> Inl e | Inr v \<Rightarrow> addon_answer v field))"

text \<open>Iterating over a value that is not a list gives elements that have no keys.\<close>

definition element_list :: "pval \<Rightarrow> exn + pval list" where
  "element_list v =
     (if \<not> truthy v then Inr []
      else (case v of VList xs \<Rightarrow> Inr xs | _ \<Rightarrow> Inl (TypeError ''object is not subscriptable'')))"

definition answer_dict :: "pval \<Rightarrow> pval" where
  "answer_dict v = (if truthy v then v else VDict [])"

definition normalize_graphql_slice :: "pval \<Rightarrow> exn + graph_slice" where
  "normalize_graphql_slice v =
     (case answer_dict v of
        VDict d \<Rightarrow>
          (case answer_dict (dget d ''pageInfo'') of
             VDict page_info \<Rightarrow>
               (case element_list (dget d ''nodes'') of
                  Inl e \<Rightarrow> Inl e
                | Inr nodes \<Rightarrow>
                    (case unique_nodes [] nodes of
                       Inl e \<Rightarrow> Inl e
                     | Inr _ \<Rightarrow>
                         (case element_list (dget d ''relationships'') of
                            Inl e \<Rightarrow> Inl e
                          | Inr relationships \<Rightarrow>
                              (case make_slice nodes relationships (truthy (dget page_info ''truncated''))
                                 (dget page_info ''nextCursor'') 0 of
                                 Inl e \<Rightarrow> Inl e
                               | Inr sl \<Rightarrow>
                                   (case py_int (if truthy (dget d ''revision'') then dget d ''revision'' else VInt 0) of
                                      Inl e \<Rightarrow> Inl e
                                    | Inr revision \<Rightarrow> Inr (sl\<lparr>sl_revision := revision\<rparr>))))))
           | _ \<Rightarrow> Inl (AttributeError ''object has no attribute get''))
      | _ \<Rightarrow> Inl (AttributeError ''object has no attribute get''))"

definition addon_initial_graph ::
  "(http_request \<Rightarrow> http_outcome) \<Rightarrow> string \<Rightarrow> string \<Rightarrow> int option \<Rightarrow> pval \<Rightarrow> exn + graph_slice" where
  "addon_initial_graph post url token limit after_cursor =
     (case addon_operation post url token ''InitialGraph''
         [(''limit'', VInt (int (clamp limit GRAPH_INITIAL_NODE_LIMIT GRAPH_INITIAL_NODE_LIMIT))),
          (''after'', after_cursor)] ''initialGraph'' of
        Inl e \<Rightarrow> Inl e
      | Inr v \<Rightarrow> normalize_graphql_slice v)"

definition addon_expand_node ::
  "(pval \<Rightarrow> string) \<Rightarrow> (http_request \<Rightarrow> http_outcome) \<Rightarrow> string \<Rightarrow> string \<Rightarrow> string \<Rightarrow> int option \<Rightarrow> int option \<Rightarrow>
   pval \<Rightarrow> exn + graph_slice" where
  "addon_expand_node str_of post url token node_id node_limit edge_limit after_cursor =
     (case addon_operation post url token ''ExpandNode''
         [(''id'', VStr (bounded_text str_of (VStr node_id) 512)),
          (''nodeLimit'', VInt (int (clamp node_limit GRAPH_EXPAND_NODE_LIMIT GRAPH_EXPAND_NODE_MAX))),
          (''edgeLimit'', VInt (int (clamp edge_limit GRAPH_EXPAND_EDGE_LIMIT GRAPH_EXPAND_EDGE_MAX))),
          (''after'', after_cursor)] ''expandNode'' of
        Inl e \<Rightarrow> Inl e
      | Inr v \<Rightarrow> normalize_graphql_slice v)"

definition addon_search_graph ::
  "(pval \<Rightarrow> string) \<Rightarrow> (http_request \<Rightarrow> http_outcome) \<Rightarrow> string \<Rightarrow> string \<Rightarrow> string \<Rightarrow> int option \<Rightarrow> exn + pval" where
  "addon_search_graph str_of post url token term limit =
     addon_operation post url token ''SearchGraph''
       [(''term'', VStr (strip (bounded_text str_of (VStr term) 256))),
        (''limit'', VInt (int (clamp limit GRAPH_SEARCH_LIMIT GRAPH_SEARCH_MAX)))] ''searchGraph''"

definition addon_graph_element ::
  "(pval \<Rightarrow> string) \<Rightarrow> (http_request \<Rightarrow> http_outcome) \<Rightarrow> string \<Rightarrow> string \<Rightarrow> string \<Rightarrow> exn + pval" where
  "addon_graph_element str_of post url token element_id =
     addon_operation post url token ''GraphElement''
       [(''id'', VStr (bounded_text str_of (VStr element_id) 512))] ''graphElement''"

definition addon_graph_health :: "(http_request \<Rightarrow> http_outcome) \<Rightarrow> string \<Rightarrow> string \<Rightarrow> exn + pval" where
  "addon_graph_health post url token = addon_operation post url token ''GraphHealth'' [] ''graphHealth''"

section \<open>Which relationships a slice loses\<close>

lemma name_parts:
  fixes d :: char
  shows "d \<notin> set a \<Longrightarrow> d \<notin> set b \<Longrightarrow> a @ d # x = b @ d # y \<longleftrightarrow> a = b \<and> x = y"
  using before_append [of d a x] before_append [of d b y] by auto

lemma known_labels: "l \<in> fst ` set NODE_TYPES \<Longrightarrow> CHR '':'' \<notin> set l"
  by (auto simp: NODE_TYPES_def)

lemma normalized_id:
  assumes "normalize_graph_node str_of dumps v = Inr n"
  shows "dget n ''id'' = VStr (canonical_label str_of v @ '':'' @ graph_node_id str_of (raw_properties v))"
  using assms by (auto simp: normalize_graph_node_def node_record_def Let_def dget_def split: if_splits)

lemma canonical_label_known: "canonical_label str_of v \<in> insert ''Other'' (fst ` set NODE_TYPES)"
proof (cases "find (\<lambda>l. map_of NODE_TYPES l \<noteq> None) (raw_labels str_of v)")
  case None
  then show ?thesis by (simp add: canonical_label_def)
next
  case (Some l)
  then have "map_of NODE_TYPES l \<noteq> None" by (auto simp: find_Some_iff)
  then show ?thesis using Some by (simp add: canonical_label_def map_of_eq_None_iff)
qed

text \<open>
  Relationships name their ends by the label in the graph, nodes are named by their type or \<open>Other\<close>.  So
  no slice ever shows a relationship of a node whose label is not one of the known types (a floor, a wall,
  a domain, an energy role), although the node itself is shown.
\<close>

theorem unlisted_types_unconnected:
  assumes "slice str_of dumps (ns, rs) n m = Inr sl" and "r \<in> set (sl_relationships sl)"
    and "CHR '':'' \<notin> set l" and "l \<notin> insert ''Other'' (fst ` set NODE_TYPES)"
  shows "key_of ''source'' r \<noteq> VStr (element_name (l, h)) \<and> key_of ''target'' r \<noteq> VStr (element_name (l, h))"
proof -
  have "key_of k r \<noteq> VStr (element_name (l, h))" if k: "k \<in> {''source'', ''target''}" for k
  proof -
    obtain x d where "normalize_graph_node str_of dumps x = Inr d" and "key_of k r = dget d ''id''"
      using slice_relationship_ends [OF assms(1,2) k] by blast
    then have *: "key_of k r = VStr (canonical_label str_of x @ CHR '':'' # graph_node_id str_of (raw_properties x))"
      by (simp add: normalized_id)
    have "CHR '':'' \<notin> set (canonical_label str_of x)"
      using canonical_label_known [of str_of x] known_labels by auto
    then show ?thesis
      using * assms(3,4) canonical_label_known [of str_of x] by (auto simp: element_name_def name_parts)
  qed
  then show ?thesis by simp
qed

theorem unlisted_types_unconnected_witness:
  "key_of ''source'' (hd (sl_relationships (sum.projr sample_slice))) \<noteq> VStr (element_name (''Floor'', ''ground''))"
proof -
  have made: "slice (\<lambda>_. []) (\<lambda>_. []) (fst sample_row, snd sample_row) 1 2 = Inr (sum.projr sample_slice)"
    using sample_slice_made by (simp add: sample_slice_def)
  have "sl_relationships (sum.projr sample_slice) \<noteq> []" by code_simp
  from unlisted_types_unconnected [OF made list.set_sel(1) [OF this], of "''Floor''"] show ?thesis
    by (simp add: NODE_TYPES_def)
qed

text \<open>A key whose name passes through the cleaning as it is.\<close>

definition clean_key :: "nkey \<Rightarrow> bool" where
  "clean_key k \<longleftrightarrow> CHR '':'' \<notin> set (fst k) \<and> fst k \<noteq> ''Other'' \<and> snd k \<noteq> [] \<and> clean_text 512 (VStr (element_name k))"

lemma bounded_text_clean: "clean_text n (VStr s) \<Longrightarrow> bounded_text str_of (VStr s) n = s"
  by (simp add: clean_text_def bounded_text_def py_str_def list_all_iff filter_id_conv [THEN iffD2])

lemma full_node_id:
  assumes "clean_key j"
  obtains n where "normalize_graph_node str_of dumps (full_node (j, d)) = Inr n"
    and "dget n ''id'' = VStr ((if map_of NODE_TYPES (fst j) = None then ''Other'' else fst j) @ '':'' @ snd j)"
proof -
  have "raw_properties (full_node (j, d)) = (''ha_id'', VStr (snd j)) # d"
    by (simp add: full_node_def raw_properties_def serialize_plain)
  moreover have "raw_labels str_of (full_node (j, d)) = [fst j]"
    by (simp add: full_node_def raw_labels_def dget_def py_str_def)
  moreover have "clean_text 512 (VStr (snd j))"
    using assms by (simp add: clean_key_def clean_text_def element_name_def)
  then have "graph_node_id str_of ((''ha_id'', VStr (snd j)) # d) = snd j"
    using assms by (simp add: graph_node_id_def first_truthy_def dget_def clean_key_def bounded_text_clean)
  ultimately show ?thesis
    using assms that
    by (auto simp: normalize_graph_node_def node_record_def clean_key_def canonical_label_def Let_def dget_def)
qed

lemma clean_key_ids_differ:
  assumes "clean_key k" and "clean_key j" and "j \<noteq> k"
  shows "(if map_of NODE_TYPES (fst j) = None then ''Other'' else fst j) @ '':'' @ snd j \<noteq> element_name k"
  using assms by (auto simp: clean_key_def element_name_def name_parts prod_eq_iff)

lemma relationship_map_ends:
  assumes "clean_key a" and "clean_key b"
  shows "key_of ''source'' (VDict (normalize_graph_relationship str_of dumps (dict_value (relationship_map ((a, t, b), d))))) =
      VStr (element_name a)"
    and "key_of ''target'' (VDict (normalize_graph_relationship str_of dumps (dict_value (relationship_map ((a, t, b), d))))) =
      VStr (element_name b)"
proof -
  have "bounded_text str_of (VStr (element_name a)) 512 = element_name a"
    and "bounded_text str_of (VStr (element_name b)) 512 = element_name b"
    using assms by (simp_all add: clean_key_def bounded_text_clean)
  moreover have "element_name a \<noteq> []" and "element_name b \<noteq> []" by (simp_all add: element_name_def)
  ultimately show "key_of ''source'' (VDict (normalize_graph_relationship str_of dumps
        (dict_value (relationship_map ((a, t, b), d))))) = VStr (element_name a)"
    and "key_of ''target'' (VDict (normalize_graph_relationship str_of dumps
        (dict_value (relationship_map ((a, t, b), d))))) = VStr (element_name b)"
    by (simp_all add: key_of_def dict_value_def relationship_map_def normalize_graph_relationship_def Let_def
        endpoint_id_def dget_def)
qed

lemma match_lists_sets:
  assumes "match_lists n m ms = (ns, rs)"
  shows "set ns \<subseteq> full_node ` snd ` set ms" and "set rs \<subseteq> relationship_map ` fst ` set ms"
  using assms set_take_subset by (fastforce simp: match_lists_def)+

lemma matches_of_ends:
  assumes "wf_graph g" and "(x, y) \<in> set (matches_of g k)" and "\<forall>t. rel g (k, t, k) = None"
  obtains a t b d where "x = ((a, t, b), d)" and "a = k \<and> fst y = b \<or> b = k \<and> fst y = a"
    and "fst y \<noteq> k" and "has_node g a" and "has_node g b"
proof -
  obtain a t b d where x: "x = ((a, t, b), d)" by (metis surj_pair)
  then have mem: "((a, t, b), d) \<in> set (g_rels g)" and "a = k \<or> b = k" and y: "fst y = (if a = k then b else a)"
    using assms(2) by (cases y; simp add: matches_of_def Let_def image_iff case_prod_unfold; blast)+
  moreover have "rel g (a, t, b) \<noteq> None"
    using mem by (auto simp: rel_def dest: weak_map_of_SomeI)
  then have "\<not> (a = k \<and> b = k)" using assms(3) by metis
  moreover have "has_node g a" and "has_node g b"
    using assms(1) mem by (fastforce simp: wf_graph_def)+
  ultimately show ?thesis using that [OF x] by (auto split: if_splits)
qed

text \<open>
  The connections of a node that \<open>graph_element\<close> returns are the neighbours without the node itself, and a
  slice drops a relationship whose ends it does not hold: so they never contain a single relationship, unless
  the node is related to itself.
\<close>

theorem detail_drops_relationships:
  assumes "wf_graph g" and "\<forall>j. has_node g j \<longrightarrow> clean_key j" and "\<forall>t. rel g (k, t, k) = None"
    and "node_detail str_of dumps (full_node (k, d), match_lists 26 51 (matches_of g k)) = Inr (NodeDetail n sl)"
  shows "sl_relationships sl = []"
proof (rule ccontr)
  obtain ns rs where lists: "match_lists 26 51 (matches_of g k) = (ns, rs)" by fastforce
  then have sl: "slice str_of dumps (ns, rs) 25 50 = Inr sl"
    using assms(4) by (auto simp: node_detail_def split: sum.splits)
  assume "sl_relationships sl \<noteq> []"
  then obtain r where r: "r \<in> set (sl_relationships sl)" by (meson list.set_sel(1))
  obtain x0 d0 where "r \<in> set (slice_relationships str_of dumps (take 50 rs))"
    using slice_relationship_ends [OF sl r, of "''source''"] by auto
  then obtain x where xin: "x \<in> set rs" and rx: "r = VDict (normalize_graph_relationship str_of dumps (dict_value x))"
    unfolding slice_relationships_def by (auto dest: in_set_takeD)
  have "x \<in> relationship_map ` fst ` set (matches_of g k)"
    by (rule subsetD [OF match_lists_sets(2) [OF lists] xin])
  then obtain e y where ey: "(e, y) \<in> set (matches_of g k)" and x: "x = relationship_map e"
    by (metis (no_types, lifting) imageE prod.collapse)
  obtain a t b f where e: "e = ((a, t, b), f)" and ends: "a = k \<and> fst y = b \<or> b = k \<and> fst y = a"
    and "has_node g a" and "has_node g b"
    by (rule matches_of_ends [OF assms(1) ey assms(3)])
  then have "clean_key a" and "clean_key b" using assms(2) by blast+
  then have "\<exists>q \<in> {''source'', ''target''}. key_of q r = VStr (element_name k)"
    unfolding rx x e using ends relationship_map_ends [of a b] by auto
  then obtain q where q: "q \<in> {''source'', ''target''}" and kr: "key_of q r = VStr (element_name k)" by blast
  obtain v c where "v \<in> set (take 25 ns)" and v: "normalize_graph_node str_of dumps v = Inr c"
    and cr: "key_of q r = dget c ''id''"
    using slice_relationship_ends [OF sl r q] by blast
  then have "v \<in> set ns" by (meson in_set_takeD)
  then have "v \<in> full_node ` snd ` set (matches_of g k)"
    by (rule subsetD [OF match_lists_sets(1) [OF lists]])
  then obtain e' y' where m: "(e', y') \<in> set (matches_of g k)" and vy: "v = full_node y'"
    by (metis (no_types, lifting) imageE prod.collapse)
  have "fst y' \<noteq> k \<and> has_node g (fst y')"
    by (rule matches_of_ends [OF assms(1) m assms(3)]) auto
  then have j: "fst y' \<noteq> k" "clean_key (fst y')" using assms(2) by blast+
  have "has_node g k"
    by (rule matches_of_ends [OF assms(1) m assms(3)]) auto
  then have "clean_key k" using assms(2) by blast
  note differ = clean_key_ids_differ [OF \<open>clean_key k\<close> j(2,1)]
  obtain c' where c': "normalize_graph_node str_of dumps (full_node (fst y', snd y')) = Inr c'"
    and idc: "dget c' ''id'' =
      VStr ((if map_of NODE_TYPES (fst (fst y')) = None then ''Other'' else fst (fst y')) @ '':'' @ snd (fst y'))"
    by (rule full_node_id [OF j(2)])
  have "c' = c" using c' v vy by (simp only: prod.collapse sum.inject)
  then show False
    using differ idc cr kr by (simp only: pval.inject simp_thms)
qed

definition lamp_graph :: graph where
  "lamp_graph = empty_graph\<lparr>g_nodes := [((''Device'', ''lamp''), []), ((''Area'', ''hall''), [])],
     g_rels := [(((''Device'', ''lamp''), ''LOCATED_IN'', (''Area'', ''hall'')), [])]\<rparr>"

definition lamp_detail :: "exn + element_detail" where
  "lamp_detail = node_detail (\<lambda>_. []) (\<lambda>_. []) (full_node ((''Device'', ''lamp''), []),
     match_lists 26 51 (matches_of lamp_graph (''Device'', ''lamp'')))"

lemma lamp_detail_made:
  "case lamp_detail of Inr (NodeDetail n sl) \<Rightarrow> length (sl_nodes sl) = 1 | _ \<Rightarrow> False"
  by code_simp

theorem detail_drops_relationships_witness:
  "\<exists>n sl. lamp_detail = Inr (NodeDetail n sl) \<and> length (sl_nodes sl) = 1 \<and> sl_relationships sl = []"
proof -
  obtain n sl where made: "lamp_detail = Inr (NodeDetail n sl)" and one: "length (sl_nodes sl) = 1"
    using lamp_detail_made by (auto split: sum.splits element_detail.splits)
  have "wf_graph lamp_graph" by code_simp
  moreover have "clean_key (''Device'', ''lamp'') \<and> clean_key (''Area'', ''hall'')" by code_simp
  then have "\<forall>j. has_node lamp_graph j \<longrightarrow> clean_key j"
    by (auto simp: lamp_graph_def empty_graph_def has_node_def node_def split: if_splits)
  moreover have "\<forall>t. rel lamp_graph ((''Device'', ''lamp''), t, (''Device'', ''lamp'')) = None"
    by (simp add: lamp_graph_def empty_graph_def rel_def)
  ultimately have "sl_relationships sl = []"
    using detail_drops_relationships made unfolding lamp_detail_def by blast
  then show ?thesis using made one by blast
qed

end
