(* ===== verification/Graph_Gateway.thy ===== *)
theory Graph_Gateway
  imports Graph_Backends
begin

text \<open>
  \<open>graph_gateway.py\<close>: the gateway in front of the selected backend.  A failure of the backend is an
  answer, not an exception.  What both backends promise (a slice that can be drawn) is the locale
  \<open>presentation_backend\<close>; what the gateway makes of it is proved inside, and both backends are
  interpretations.
\<close>

section \<open>The gateway\<close>

record gated = world +
  gw_available :: bool
  gw_last_error :: "string option"
  gw_request_count :: nat

definition new_gateway :: "world \<Rightarrow> gated" where
  "new_gateway w = world.extend w \<lparr>gw_available = True, gw_last_error = None, gw_request_count = 0\<rparr>"

datatype 'a gateway_answer = Answered 'a | GatewayUnavailable

definition gateway_call :: "('z gated_scheme, 'a) op \<Rightarrow> ('z gated_scheme, 'a option) op" where
  "gateway_call m =
     oseq (omodify (\<lambda>s. s\<lparr>gw_request_count := gw_request_count s + 1\<rparr>))
       (otry (obind m (\<lambda>x. oseq (omodify (\<lambda>s. s\<lparr>gw_available := True, gw_last_error := None\<rparr>)) (oret (Some x))))
         (\<lambda>_. oseq (omodify (\<lambda>s. s\<lparr>gw_available := False, gw_last_error := Some ''gateway_unavailable''\<rparr>))
            (oret None)))"

text \<open>
  \<open>result or {...}\<close> in \<open>initial_graph\<close>, \<open>expand_node\<close> and \<open>search_graph\<close>.  The slices of the backends are
  never empty mappings.
\<close>

definition or_unavailable :: "('s, 'a option) op \<Rightarrow> ('s, 'a gateway_answer) op" where
  "or_unavailable m = obind m (\<lambda>r. oret (case r of None \<Rightarrow> GatewayUnavailable | Some x \<Rightarrow> Answered x))"

definition gateway_initial_graph ::
  "(int option \<Rightarrow> ('z gated_scheme, graph_slice) op) \<Rightarrow> int option \<Rightarrow> ('z gated_scheme, graph_slice gateway_answer) op" where
  "gateway_initial_graph backend limit = or_unavailable (gateway_call (backend limit))"

definition gateway_expand_node ::
  "(string \<Rightarrow> int option \<Rightarrow> int option \<Rightarrow> ('z gated_scheme, graph_slice) op) \<Rightarrow> string \<Rightarrow> int option \<Rightarrow> int option \<Rightarrow>
   ('z gated_scheme, graph_slice gateway_answer) op" where
  "gateway_expand_node backend node_id node_limit edge_limit =
     or_unavailable (gateway_call (backend node_id node_limit edge_limit))"

definition gateway_search_graph ::
  "(string \<Rightarrow> int option \<Rightarrow> ('z gated_scheme, 'm) op) \<Rightarrow> string \<Rightarrow> int option \<Rightarrow> ('z gated_scheme, 'm gateway_answer) op" where
  "gateway_search_graph backend term limit = or_unavailable (gateway_call (backend term limit))"

definition gateway_graph_element ::
  "(string \<Rightarrow> ('z gated_scheme, 'e option) op) \<Rightarrow> string \<Rightarrow> ('z gated_scheme, 'e option) op" where
  "gateway_graph_element backend element_id =
     obind (gateway_call (backend element_id)) (\<lambda>r. oret (case r of None \<Rightarrow> None | Some x \<Rightarrow> x))"

definition gateway_graph_health :: "('z gated_scheme, dict) op \<Rightarrow> ('z gated_scheme, dict) op" where
  "gateway_graph_health backend =
     obind (gateway_call backend) (\<lambda>r. oret (case r of
         Some d \<Rightarrow> if d = [] then [(''status'', VStr ''UNAVAILABLE''), (''revision'', VInt 0), (''latencyMs'', VInt 0)] else d
       | None \<Rightarrow> [(''status'', VStr ''UNAVAILABLE''), (''revision'', VInt 0), (''latencyMs'', VInt 0)]))"

datatype graph_backend = AddonBackend string string | DirectBackend

definition stripped_option :: "(pval \<Rightarrow> string) \<Rightarrow> dict \<Rightarrow> string \<Rightarrow> string" where
  "stripped_option str_of config key = strip (if truthy (dget config key) then py_str str_of (dget config key) else [])"

definition create_graph_backend :: "(pval \<Rightarrow> string) \<Rightarrow> dict \<Rightarrow> graph_backend" where
  "create_graph_backend str_of config =
     (let url = stripped_option str_of config CONF_GRAPHQL_URL; token = stripped_option str_of config CONF_GRAPHQL_TOKEN
      in if url \<noteq> [] \<and> token \<noteq> [] then AddonBackend url token else DirectBackend)"

definition backend_name :: "graph_backend \<Rightarrow> string" where
  "backend_name b = (case b of AddonBackend _ _ \<Rightarrow> ''AddonGraphQLBackend'' | DirectBackend \<Rightarrow> ''DirectMemgraphBackend'')"

definition gateway_diagnostics :: "graph_backend \<Rightarrow> 'z gated_scheme \<Rightarrow> dict" where
  "gateway_diagnostics b s =
     [(''available'', VBool (gw_available s)), (''error_category'', opt_str (gw_last_error s)),
      (''request_count'', VInt (int (gw_request_count s))), (''backend'', VStr (backend_name b))]"

text \<open>\<open>async_attach_graph_gateway\<close>: the options of the entry override its data.\<close>

definition attached_backend :: "(pval \<Rightarrow> string) \<Rightarrow> dict \<Rightarrow> dict \<Rightarrow> graph_backend" where
  "attached_backend str_of entry_data entry_options = create_graph_backend str_of (dupdate entry_data entry_options)"

section \<open>The contract of a backend\<close>

text \<open>What one answered request means.\<close>

definition answered :: "'z gated_scheme \<Rightarrow> (exn + graph_slice gateway_answer) \<times> 'z gated_scheme \<Rightarrow> bool" where
  "answered s result \<longleftrightarrow>
     (case result of
        (Inl _, _) \<Rightarrow> False
      | (Inr a, t) \<Rightarrow> gw_request_count t = gw_request_count s + 1 \<and>
          (case a of
             Answered sl \<Rightarrow> drawable sl \<and> gw_available t \<and> gw_last_error t = None
           | GatewayUnavailable \<Rightarrow> \<not> gw_available t \<and> gw_last_error t = Some ''gateway_unavailable''))"

locale presentation_backend =
  fixes initial_op :: "int option \<Rightarrow> 'z gated_scheme \<Rightarrow> (exn + graph_slice) \<times> 'z gated_scheme"
    and expand_op :: "string \<Rightarrow> int option \<Rightarrow> int option \<Rightarrow> 'z gated_scheme \<Rightarrow> (exn + graph_slice) \<times> 'z gated_scheme"
  assumes initial_drawable: "initial_op limit s = (Inr sl, t) \<Longrightarrow> drawable sl"
    and expand_drawable: "expand_op i n m s = (Inr sl, t) \<Longrightarrow> drawable sl"
    and initial_counts: "gw_request_count (snd (initial_op limit s)) = gw_request_count s"
    and expand_counts: "gw_request_count (snd (expand_op i n m s)) = gw_request_count s"
begin

lemma call_answered:
  assumes "\<And>s sl t. m s = (Inr sl, t) \<Longrightarrow> drawable sl"
    and "\<And>s. gw_request_count (snd (m s)) = gw_request_count s"
  shows "answered s (or_unavailable (gateway_call m) s)"
proof (cases "m (s\<lparr>gw_request_count := gw_request_count s + 1\<rparr>)")
  case (Pair r t)
  then have "gw_request_count t = gw_request_count s + 1"
    using assms(2) [of "s\<lparr>gw_request_count := gw_request_count s + 1\<rparr>"] by simp
  then show ?thesis
    using Pair assms(1)
    by (cases r) (simp_all add: answered_def or_unavailable_def gateway_call_def op_defs)
qed

lemma gateway_initial_answered: "answered s (gateway_initial_graph initial_op limit s)"
  unfolding gateway_initial_graph_def by (intro call_answered initial_counts) (rule initial_drawable)

lemma gateway_expand_answered: "answered s (gateway_expand_node expand_op i n m s)"
  unfolding gateway_expand_node_def by (intro call_answered expand_counts) (rule expand_drawable)

end

lemma run_query_counts: "gw_request_count (snd (run_query q s)) = gw_request_count s"
  by (simp add: run_query_eq split: list.splits net.splits)

lemma query_then_pure_counts:
  "gw_request_count (snd (obind (run_query q) (\<lambda>x. from_sum (f x)) s)) = gw_request_count s"
  using run_query_counts [of q s]
  by (auto simp: obind_def from_sum_def oret_def oraise_def split: prod.splits sum.splits)

lemma query_then_slice_drawable:
  "obind (run_query q) (\<lambda>x. from_sum (slice str_of dumps (f x) n m)) s = (Inr sl, t) \<Longrightarrow> drawable sl"
  by (auto elim!: obind_result dest!: from_sum_result intro: slice_drawable)

interpretation direct: presentation_backend "direct_initial_graph str_of dumps" "direct_expand_node str_of dumps"
  for str_of dumps
  by unfold_locales
    (auto simp: direct_initial_graph_def direct_expand_node_def Let_def query_then_pure_counts
      intro: query_then_slice_drawable)

lemma drawable_revision [simp]: "drawable (sl\<lparr>sl_revision := v\<rparr>) = drawable sl"
  by (simp add: drawable_def)

lemma normalize_graphql_slice_drawable: "normalize_graphql_slice v = Inr sl \<Longrightarrow> drawable sl"
  by (auto simp: normalize_graphql_slice_def split: pval.splits sum.splits dest: make_slice_drawable)

lemma from_sum_state: "snd (from_sum r s) = s"
  by (cases r) (simp_all add: oret_def oraise_def)

interpretation addon: presentation_backend
  "\<lambda>limit. from_sum (addon_initial_graph post url token limit cursor)"
  "\<lambda>i n m. from_sum (addon_expand_node str_of post url token i n m cursor)"
  for str_of post url token cursor
  by unfold_locales
    (auto simp: addon_initial_graph_def addon_expand_node_def from_sum_state dest!: from_sum_result
      intro: normalize_graphql_slice_drawable split: sum.splits)

text \<open>
  C23. Through the gateway every request for a slice is answered, whatever the backend and whatever goes wrong:
  with a slice that can be drawn, or with the note that the gateway is unavailable; the state of the
  gateway says which, and every request is counted once.
\<close>

theorem gateway_answers:
  "answered s (gateway_initial_graph (direct_initial_graph str_of dumps) limit s) \<and>
   answered s (gateway_expand_node (direct_expand_node str_of dumps) i n m s) \<and>
   answered s (gateway_initial_graph (\<lambda>l. from_sum (addon_initial_graph post url token l cursor)) limit s) \<and>
   answered s (gateway_expand_node (\<lambda>i n m. from_sum (addon_expand_node str_of post url token i n m cursor)) i n m s)"
  by (intro conjI direct.gateway_initial_answered direct.gateway_expand_answered addon.gateway_initial_answered
    addon.gateway_expand_answered)

end
