(* ===== verification/Integration_Setup.thy ===== *)
theory Integration_Setup
  imports Schema_Migrations Graph_Gateway
begin

text \<open>
  The set-up of a config entry: \<open>async_setup_entry\<close> of \<open>__init__.py\<close> up to the point where Home Assistant's own
  registrations begin, the repair issues of \<open>repairs.py\<close>, and \<open>lab_access.py\<close>.
\<close>

section \<open>Repair issues\<close>

text \<open>The issue registry of Home Assistant: the placeholders of each issue, by id.\<close>

record installed = world +
  in_issues :: "(string \<times> dict) list"

definition schema_mismatch_issue_id :: "string \<Rightarrow> string" where
  "schema_mismatch_issue_id entry_id = ISSUE_SCHEMA_VERSION_MISMATCH @ ''_'' @ entry_id"

definition sustained_failure_issue_id :: "string \<Rightarrow> string" where
  "sustained_failure_issue_id entry_id = ISSUE_SUSTAINED_CONNECTION_FAILURE @ ''_'' @ entry_id"

definition create_issue :: "string \<Rightarrow> dict \<Rightarrow> ('z installed_scheme, unit) op" where
  "create_issue issue_id placeholders = omodify (\<lambda>s. s\<lparr>in_issues := AList.update issue_id placeholders (in_issues s)\<rparr>)"

definition delete_issue :: "string \<Rightarrow> ('z installed_scheme, unit) op" where
  "delete_issue issue_id = omodify (\<lambda>s. s\<lparr>in_issues := AList.delete issue_id (in_issues s)\<rparr>)"

definition async_create_schema_mismatch_issue :: "string \<Rightarrow> pval \<Rightarrow> string \<Rightarrow> ('z installed_scheme, unit) op" where
  "async_create_schema_mismatch_issue entry_id found_version expected_version =
     create_issue (schema_mismatch_issue_id entry_id)
       [(''found_version'', found_version), (''expected_version'', VStr expected_version)]"

definition async_clear_schema_mismatch_issue :: "string \<Rightarrow> ('z installed_scheme, unit) op" where
  "async_clear_schema_mismatch_issue entry_id = delete_issue (schema_mismatch_issue_id entry_id)"

definition async_create_sustained_failure_issue :: "string \<Rightarrow> nat \<Rightarrow> ('z installed_scheme, unit) op" where
  "async_create_sustained_failure_issue entry_id consecutive_failures =
     create_issue (sustained_failure_issue_id entry_id) [(''attempts'', VStr (str_of_nat consecutive_failures))]"

definition async_clear_sustained_failure_issue :: "string \<Rightarrow> ('z installed_scheme, unit) op" where
  "async_clear_sustained_failure_issue entry_id = delete_issue (sustained_failure_issue_id entry_id)"

section \<open>Connecting\<close>

definition test_entry_connection :: "('z installed_scheme, unit) op" where
  "test_entry_connection =
     otry test_connection (\<lambda>err. case err of
         InvalidAuth _ \<Rightarrow> oseq close (oraise (ConfigEntryNotReady (''Invalid Memgraph credentials: '' @ redact_exception err)))
       | CannotConnect _ \<Rightarrow> oseq close (oraise (ConfigEntryNotReady (''Cannot connect to Memgraph: '' @ redact_exception err)))
       | _ \<Rightarrow> oraise err)"

definition version_text :: "(pval \<Rightarrow> string) \<Rightarrow> pval \<Rightarrow> string" where
  "version_text str_of version =
     ''Ontology schema version mismatch: graph has '' @ py_str str_of version @ '', integration expects '' @ SCHEMA_VERSION @
     ''. Resolve manually before retrying.''"

definition check_entry_schema :: "(pval \<Rightarrow> string) \<Rightarrow> string \<Rightarrow> ('z installed_scheme, unit) op" where
  "check_entry_schema str_of entry_id =
     obind migrate_schema_if_supported (\<lambda>existing_version.
       if existing_version \<noteq> VNone \<and> existing_version \<noteq> VStr SCHEMA_VERSION
       then oseq (async_create_schema_mismatch_issue entry_id existing_version SCHEMA_VERSION)
           (oseq close (oraise (ConfigEntryNotReady (version_text str_of existing_version))))
       else async_clear_schema_mismatch_issue entry_id)"

section \<open>What is attached to the entry\<close>

text \<open>\<open>int(raw)\<close> ignores the white space around the digits.\<close>

definition parse_mesh_scan_hour :: "string \<Rightarrow> int option" where
  "parse_mesh_scan_hour raw =
     (if strip raw = [] then None
      else (case py_int_text raw of
          None \<Rightarrow> None
        | Some hour \<Rightarrow> if 0 \<le> hour \<and> hour \<le> 23 then Some hour else None))"

definition lab_option :: "(pval \<Rightarrow> string) \<Rightarrow> dict \<Rightarrow> dict \<Rightarrow> string \<Rightarrow> string" where
  "lab_option str_of entry_data entry_options key =
     strip (let v = (if truthy (dget entry_data key) then dget entry_data key else dget entry_options key)
            in if truthy v then py_str str_of v else [])"

definition lab_endpoint :: "(pval \<Rightarrow> string) \<Rightarrow> dict \<Rightarrow> dict \<Rightarrow> (string \<times> string) option" where
  "lab_endpoint str_of entry_data entry_options =
     (let url = lab_option str_of entry_data entry_options CONF_GRAPHQL_URL;
          token = lab_option str_of entry_data entry_options CONF_GRAPHQL_TOKEN
      in if url \<noteq> [] \<and> token \<noteq> [] then Some (url, token) else None)"

record entry_runtime =
  rt_backend :: graph_backend
  rt_lab :: "(string \<times> string) option"
  rt_scan_hour :: "int option"
  rt_mcp_enabled :: bool

definition option_or :: "dict \<Rightarrow> string \<Rightarrow> pval \<Rightarrow> pval" where
  "option_or d k default_value = (case map_of d k of None \<Rightarrow> default_value | Some v \<Rightarrow> v)"

definition entry_runtime_of :: "(pval \<Rightarrow> string) \<Rightarrow> dict \<Rightarrow> dict \<Rightarrow> entry_runtime" where
  "entry_runtime_of str_of entry_data entry_options =
     \<lparr>rt_backend = attached_backend str_of entry_data entry_options,
      rt_lab = lab_endpoint str_of entry_data entry_options,
      rt_scan_hour = (case option_or entry_options CONF_MESH_SNAPSHOT_SCAN_HOUR (VStr DEFAULT_MESH_SNAPSHOT_SCAN_HOUR) of
          VStr raw \<Rightarrow> parse_mesh_scan_hour raw | _ \<Rightarrow> None),
      rt_mcp_enabled = truthy (option_or entry_options CONF_MCP_ENABLED (VBool DEFAULT_MCP_ENABLED))\<rparr>"

definition async_setup_entry ::
  "(pval \<Rightarrow> string) \<Rightarrow> string \<Rightarrow> dict \<Rightarrow> dict \<Rightarrow> ('z installed_scheme, entry_runtime) op" where
  "async_setup_entry str_of entry_id entry_data entry_options =
     oseq test_entry_connection
    (oseq (check_entry_schema str_of entry_id)
      (oret (entry_runtime_of str_of entry_data entry_options)))"

section \<open>The Lab capability\<close>

text \<open>
  \<open>LabAccess\<close> with its last answer.  What the session gives is an outcome of the transport; the status of
  the response is not looked at.
\<close>

record lab_access =
  la_url :: string
  la_token :: string
  la_last_capability :: dict
  la_probe_duration_ms :: "int option"

definition NOT_ADDON_BACKEND :: dict where
  "NOT_ADDON_BACKEND = [(''available'', VBool False), (''reason'', VStr ''NOT_ADDON_BACKEND''), (''ingress_path'', VNone),
     (''checked_at'', VNone)]"

definition lab_unavailable :: dict where
  "lab_unavailable = [(''available'', VBool False), (''reason'', VStr ''TRANSPORT_UNAVAILABLE''), (''ingress_path'', VNone),
     (''checked_at'', VNone)]"

definition new_lab_access :: "string \<Rightarrow> string \<Rightarrow> lab_access" where
  "new_lab_access url token = \<lparr>la_url = url, la_token = token, la_last_capability = NOT_ADDON_BACKEND,
     la_probe_duration_ms = None\<rparr>"

text \<open>\<open>value.get(key, default)\<close> of a JSON value.\<close>

definition get_or :: "pval \<Rightarrow> string \<Rightarrow> pval \<Rightarrow> exn + pval" where
  "get_or v k default_value =
     (case v of VDict d \<Rightarrow> Inr (option_or d k default_value) | _ \<Rightarrow> Inl (AttributeError ''object has no attribute get''))"

definition lab_capability :: "http_outcome \<Rightarrow> exn + dict" where
  "lab_capability outcome =
     (case outcome of
        TransportFailure \<Rightarrow> Inl (GraphBackendUnavailable ''transport error'')
      | Response _ (Inl e) \<Rightarrow> Inl e
      | Response _ (Inr body) \<Rightarrow>
          (case get_or body ''data'' (VDict []) of
             Inl e \<Rightarrow> Inl e
           | Inr data \<Rightarrow>
               (case get_or data ''labCapability'' (VDict []) of
                  Inl e \<Rightarrow> Inl e
                | Inr (VDict lab) \<Rightarrow> Inr [(''available'', VBool (truthy (dget lab ''available''))),
                    (''reason'', option_or lab ''reason'' (VStr ''TRANSPORT_UNAVAILABLE'')),
                    (''ingress_path'', dget lab ''ingressPath''), (''checked_at'', dget lab ''checkedAt'')]
                | Inr _ \<Rightarrow> Inl (AttributeError ''object has no attribute get''))))"

text \<open>The session is there whenever a URL is; the duration is a reading of the monotonic clock.\<close>

definition get_capability :: "http_outcome \<Rightarrow> int \<Rightarrow> lab_access \<Rightarrow> dict \<times> lab_access" where
  "get_capability outcome duration_ms l =
     (if la_url l = [] \<or> la_token l = [] then (NOT_ADDON_BACKEND, l)
      else (let capability = (case lab_capability outcome of Inl _ \<Rightarrow> lab_unavailable | Inr c \<Rightarrow> c)
            in (capability, l\<lparr>la_last_capability := capability, la_probe_duration_ms := Some duration_ms\<rparr>)))"

definition lab_diagnostics :: "lab_access \<Rightarrow> dict" where
  "lab_diagnostics l =
     [(''available'', option_or (la_last_capability l) ''available'' (VBool False)),
      (''reason'', dget (la_last_capability l) ''reason''),
      (''probe_duration_ms'', case la_probe_duration_ms l of None \<Rightarrow> VNone | Some d \<Rightarrow> VInt d),
      (''url_configured'', VBool (la_url l \<noteq> []))]"

section \<open>How a set-up ends\<close>

lemma close_state: "snd (close s) = s\<lparr>w_open := False\<rparr>" "fst (close s) = Inr ()"
  by (simp_all add: close_def)

lemma test_connection_state:
  "w_graph (snd (test_connection s)) = w_graph s \<and> in_issues (snd (test_connection s)) = in_issues s"
  by (simp add: test_connection_def driver_call_def connect_def oseq_apply read_stmt_def split: list.splits net.splits)

lemma test_error_kind: "\<exists>m. test_error f = InvalidAuth m \<or> test_error f = CannotConnect m"
  by (cases f) auto

lemma test_connection_error:
  "test_connection s = (Inl e, t) \<Longrightarrow> (\<exists>m. e = InvalidAuth m \<or> e = CannotConnect m)"
  by (auto simp: test_connection_def driver_call_def connect_def oseq_apply read_stmt_def
      intro: test_error_kind split: list.splits net.splits prod.splits sum.splits)

lemma test_entry_connection_cases:
  obtains (up) t where "test_entry_connection s = (Inr (), t)" and "w_graph t = w_graph s"
  | (down) m t where "test_entry_connection s = (Inl (ConfigEntryNotReady m), t)" and "\<not> w_open t"
      and "w_graph t = w_graph s" and "in_issues t = in_issues s"
proof (cases "test_connection s")
  case (Pair r t)
  note st = test_connection_state [of s, unfolded Pair snd_conv]
  show ?thesis
  proof (cases r)
    case (Inl e)
    then have "test_connection s = (Inl e, t)" using Pair by simp
    from test_connection_error [OF this] show ?thesis
      using down Inl Pair st by (auto simp: test_entry_connection_def op_defs close_def)
  next
    case (Inr x)
    then show ?thesis using up Pair st by (auto simp: test_entry_connection_def otry_def)
  qed
qed

fun not_ready :: "exn \<Rightarrow> bool" where
  "not_ready (ConfigEntryNotReady _) = True"
| "not_ready _ = False"

text \<open>Home Assistant retries the set-up after \<open>ConfigEntryNotReady\<close> only.\<close>

lemma query_error_ready: "\<not> not_ready (query_error f)"
  by (cases f) simp_all

text \<open>The errors that are answered with a retry leave no connection behind.\<close>

definition raises_other :: "('s, 'a) op \<Rightarrow> bool" where
  "raises_other m \<longleftrightarrow> (\<forall>s e t. m s = (Inl e, t) \<longrightarrow> \<not> not_ready e)"

lemma raises_other_obind: "raises_other m \<Longrightarrow> (\<And>x. raises_other (f x)) \<Longrightarrow> raises_other (obind m f)"
  unfolding raises_other_def obind_def by (fastforce split: prod.splits sum.splits)

lemma raises_other_oret: "raises_other (oret x)"
  by (simp add: raises_other_def)

lemma raises_other_run_query: "raises_other (run_query q)"
  using query_error_ready by (auto simp: raises_other_def run_query_eq split: list.splits net.splits)

lemma raises_other_oseq: "raises_other m \<Longrightarrow> raises_other n \<Longrightarrow> raises_other (oseq m n)"
  unfolding oseq_def by (rule raises_other_obind)

lemma raises_other_otry: "(\<And>e. raises_other (h e)) \<Longrightarrow> raises_other (otry m h)"
  unfolding raises_other_def otry_def by (auto split: prod.splits sum.splits)

lemma raises_other_handled:
  "raises_other m \<Longrightarrow> raises_other (otry m (\<lambda>e. if p e then oraise e else oret x))"
  unfolding raises_other_def otry_def by (fastforce split: prod.splits sum.splits if_splits)

lemma raises_other_oforeach: "(\<And>x. raises_other (f x)) \<Longrightarrow> raises_other (oforeach xs f)"
  by (induction xs) (simp_all add: raises_other_oret raises_other_oseq)

lemma raises_other_execute_write:
  "(\<And>g. \<exists>x. fst (work g) = Inr x) \<Longrightarrow> raises_other (execute_write work)"
  unfolding execute_write_def raises_other_def
proof (intro allI impI)
  fix s e t
  assume total: "\<And>g. \<exists>x. fst (work g) = Inr x"
    and run: "obind (run_query (transaction work)) (\<lambda>r. case r of Inl e \<Rightarrow> oraise e | Inr x \<Rightarrow> oret x) s = (Inl e, t)"
  obtain x where x: "fst (work (w_graph s)) = Inr x" using total by blast
  then have "fst (transaction work (w_graph s)) = Inr x"
    by (cases "work (w_graph s)") (simp add: transaction_def)
  then show "\<not> not_ready e"
    using run query_error_ready by (auto simp: obind_def run_query_eq split: list.splits net.splits)
qed

lemma raises_other_ensure_index: "raises_other (ensure_index existing label)"
proof -
  have "raises_other (sanitize_label label)"
    by (auto simp: raises_other_def sanitize_label_def Let_def)
  moreover have "raises_other (otry (run_query (write_stmt (create_index_stmt label)))
      (\<lambda>e. if is_connection_error e then oraise e else oret ()))"
    by (rule raises_other_handled [OF raises_other_run_query])
  ultimately show ?thesis
    unfolding ensure_index_def by (simp add: raises_other_oret) (blast intro: raises_other_oseq)
qed

lemma raises_other_migrate: "raises_other migrate_schema_if_supported"
proof -
  have "\<exists>x. fst (migrate_supported_schema now g) = Inr x" for now g
    by (simp add: migrate_supported_schema_def split: option.splits)
  then have "raises_other (execute_write (migrate_supported_schema now))" for now
    by (rule raises_other_execute_write)
  moreover have "raises_other now_iso" by (auto simp: raises_other_def now_iso_step)
  ultimately show ?thesis
    unfolding migrate_schema_if_supported_def ensure_v3_indexes_def Let_def
    by (auto intro!: raises_other_obind raises_other_oseq raises_other_run_query raises_other_oforeach
        raises_other_ensure_index raises_other_oret)
qed

lemma check_entry_schema_cases:
  "case check_entry_schema str_of entry_id s of
     (Inl e, t) \<Rightarrow> \<not> (not_ready e \<and> w_open t)
   | (Inr _, t) \<Rightarrow> map_of (in_issues t) (schema_mismatch_issue_id entry_id) = None"
proof (cases "migrate_schema_if_supported s")
  case (Pair r t)
  show ?thesis
  proof (cases r)
    case (Inl e)
    then have "\<not> not_ready e" using raises_other_migrate Pair unfolding raises_other_def by blast
    then show ?thesis using Inl Pair by (simp add: check_entry_schema_def obind_def)
  next
    case (Inr v)
    then show ?thesis
      using Pair by (auto simp: check_entry_schema_def obind_def oseq_apply close_def oraise_def omodify_def
          async_create_schema_mismatch_issue_def create_issue_def async_clear_schema_mismatch_issue_def delete_issue_def
          delete_conv' split: prod.splits sum.splits)
  qed
qed

text \<open>
  C24. Whatever the server does during the set-up of an entry: when Home Assistant is told to try again later, the
  connection is closed, and when the set-up succeeds, no issue about the schema version is left for the entry.
\<close>

theorem setup_outcome:
  "case async_setup_entry str_of entry_id entry_data entry_options s of
     (Inl e, t) \<Rightarrow> \<not> (not_ready e \<and> w_open t)
   | (Inr rt, t) \<Rightarrow> map_of (in_issues t) (schema_mismatch_issue_id entry_id) = None \<and>
       rt = entry_runtime_of str_of entry_data entry_options"
proof (cases rule: test_entry_connection_cases [of s])
  case (up t)
  then show ?thesis
    using check_entry_schema_cases [where str_of = str_of and entry_id = entry_id and s = t]
    by (auto simp: async_setup_entry_def oseq_apply oret_def split: prod.splits sum.splits)
next
  case (down m t)
  then show ?thesis by (simp add: async_setup_entry_def oseq_apply)
qed

text \<open>
  But when the server answers the connection test and fails at the next query, the set-up ends with the error
  of the query itself: Home Assistant does not try again, and the connection stays open.
\<close>

theorem setup_interrupted_leaks:
  assumes "w_net s = Up # Down f applied # ns"
  shows "\<exists>t. async_setup_entry str_of entry_id entry_data entry_options s = (Inl (query_error f), t) \<and>
    \<not> not_ready (query_error f) \<and> w_open t"
  using assms query_error_ready
  by (simp add: async_setup_entry_def test_entry_connection_def test_connection_def driver_call_def connect_def
      otry_def oseq_apply read_stmt_def check_entry_schema_def migrate_schema_if_supported_def obind_def run_query_eq)

theorem setup_interrupted_leaks_witness:
  "\<exists>t. async_setup_entry (\<lambda>_. []) ''entry'' [] []
     (world.extend (world_at empty_graph [Up, Down Timeout False]) \<lparr>in_issues = []\<rparr>) =
       (Inl (CannotConnect ''Connection to Memgraph timed out''), t) \<and> w_open t"
  using setup_interrupted_leaks [where str_of = "\<lambda>_. []" and s = "world.extend (world_at empty_graph [Up, Down Timeout False]) \<lparr>in_issues = []\<rparr>"
    and f = Timeout and applied = False and ns = "[]"]
  by (simp add: world_at_def world.defs)

lemma parse_mesh_scan_hour_iff:
  "parse_mesh_scan_hour raw = Some h \<longleftrightarrow> strip raw \<noteq> [] \<and> py_int_text raw = Some h \<and> 0 \<le> h \<and> h \<le> 23"
  by (auto simp: parse_mesh_scan_hour_def split: option.splits)

end
