(* ===== verification/Config_Flow.thy ===== *)
theory Config_Flow
  imports Integration_Setup Measurement_Reports
begin

text \<open>
  \<open>config_flow.py\<close>: the forms as lists of fields with their defaults and bounds, and the steps that handle what
  was submitted.  Home Assistant's part (showing a form, checking the submission against its fields, keeping
  the entries) is data: an entry created is a result, an entry updated is a change of the list of entries.
\<close>

section \<open>The fields of the forms\<close>

text \<open>A number field: its lower bound, whether the bound itself is out, and its upper bound.\<close>

datatype field_kind =
    TextField
  | WholeField
  | FlagField
  | DeviceField
  | NumberField rat bool "rat option"
  | RangeField nat nat

record form_field =
  ff_key :: string
  ff_required :: bool
  ff_default :: "pval option"
  ff_kind :: field_kind

definition required_field :: "dict \<Rightarrow> string \<Rightarrow> pval \<Rightarrow> field_kind \<Rightarrow> form_field" where
  "required_field defaults key default_value kind =
     \<lparr>ff_key = key, ff_required = True, ff_default = Some (option_or defaults key default_value), ff_kind = kind\<rparr>"

definition optional_field :: "dict \<Rightarrow> string \<Rightarrow> pval \<Rightarrow> field_kind \<Rightarrow> form_field" where
  "optional_field defaults key default_value kind =
     \<lparr>ff_key = key, ff_required = False, ff_default = Some (option_or defaults key default_value), ff_kind = kind\<rparr>"

text \<open>A field that is pre-filled only with a value that is there.\<close>

definition bare_field :: "dict \<Rightarrow> string \<Rightarrow> field_kind \<Rightarrow> form_field" where
  "bare_field defaults key kind =
     \<lparr>ff_key = key, ff_required = False, ff_default = map_of defaults key, ff_kind = kind\<rparr>"

definition connection_fields :: "dict \<Rightarrow> form_field list" where
  "connection_fields defaults =
     [required_field defaults CONF_HOST (VStr []) TextField,
      required_field defaults CONF_PORT (VInt (int DEFAULT_PORT)) WholeField,
      optional_field defaults CONF_USERNAME (VStr []) TextField,
      optional_field defaults CONF_PASSWORD (VStr []) TextField,
      optional_field defaults CONF_DATABASE (VStr DEFAULT_DATABASE) TextField,
      optional_field defaults CONF_ENCRYPTED (VBool DEFAULT_ENCRYPTED) FlagField,
      bare_field defaults CONF_GRAPHQL_URL TextField,
      bare_field defaults CONF_GRAPHQL_TOKEN TextField]"

definition number_value :: "rat \<Rightarrow> pval" where
  "number_value q = VFloat (Fin q)"

text \<open>What the options flow keeps as options, with the default of each.\<close>

definition OPTION_DEFAULTS :: "(string \<times> pval) list" where
  "OPTION_DEFAULTS =
     [(CONF_AUTO_CLASSIFY, VBool DEFAULT_AUTO_CLASSIFY), (CONF_MCP_ENABLED, VBool DEFAULT_MCP_ENABLED),
      (CONF_MCP_ALLOWED_NETWORKS, VStr DEFAULT_MCP_ALLOWED_NETWORKS),
      (CONF_LOW_BATTERY_THRESHOLD, number_value DEFAULT_LOW_BATTERY_THRESHOLD),
      (CONF_ACTIVE_POWER_THRESHOLD, number_value DEFAULT_ACTIVE_POWER_THRESHOLD),
      (CONF_MAX_MEASUREMENT_AGE_HOURS, number_value DEFAULT_MAX_MEASUREMENT_AGE_HOURS),
      (CONF_RELATIONSHIP_RESULT_LIMIT, VInt (int DEFAULT_RELATIONSHIP_RESULT_LIMIT)),
      (CONF_STATE_CHANGE_DEBOUNCE_SECONDS, number_value DEFAULT_STATE_CHANGE_DEBOUNCE_SECONDS),
      (CONF_EXCLUDED_DOMAINS, VStr DEFAULT_EXCLUDED_DOMAINS), (CONF_EXCLUDED_ENTITIES, VStr DEFAULT_EXCLUDED_ENTITIES),
      (CONF_ZIGBEE2MQTT_BASE_TOPIC, VStr DEFAULT_ZIGBEE2MQTT_BASE_TOPIC),
      (CONF_MESH_SNAPSHOT_RETENTION_DAYS, VInt (int DEFAULT_MESH_SNAPSHOT_RETENTION_DAYS)),
      (CONF_MESH_HISTORY_KEEP_SIBLINGS, VBool DEFAULT_MESH_HISTORY_KEEP_SIBLINGS),
      (CONF_MESH_SNAPSHOT_SCAN_HOUR, VStr DEFAULT_MESH_SNAPSHOT_SCAN_HOUR),
      (CONF_MESH_SNAPSHOT_RESPONSE_TIMEOUT_SECONDS, number_value DEFAULT_MESH_SNAPSHOT_RESPONSE_TIMEOUT_SECONDS),
      (CONF_COORDINATOR_DEVICE_ID, VNone), (CONF_FLOOR_HEIGHT_M, number_value DEFAULT_FLOOR_HEIGHT_M),
      (CONF_FLOOR_SLAB_ATTENUATION_DB, number_value DEFAULT_FLOOR_SLAB_ATTENUATION_DB)]"

definition options_fields :: "dict \<Rightarrow> form_field list" where
  "options_fields defaults = connection_fields defaults @
     [optional_field defaults CONF_AUTO_CLASSIFY (VBool DEFAULT_AUTO_CLASSIFY) FlagField,
      optional_field defaults CONF_MCP_ALLOWED_NETWORKS (VStr DEFAULT_MCP_ALLOWED_NETWORKS) TextField,
      optional_field defaults CONF_MCP_ENABLED (VBool DEFAULT_MCP_ENABLED) FlagField,
      optional_field defaults CONF_LOW_BATTERY_THRESHOLD (number_value DEFAULT_LOW_BATTERY_THRESHOLD)
        (NumberField 1 False (Some 100)),
      optional_field defaults CONF_ACTIVE_POWER_THRESHOLD (number_value DEFAULT_ACTIVE_POWER_THRESHOLD)
        (NumberField 0 False None),
      optional_field defaults CONF_MAX_MEASUREMENT_AGE_HOURS (number_value DEFAULT_MAX_MEASUREMENT_AGE_HOURS)
        (NumberField 0 True None),
      optional_field defaults CONF_RELATIONSHIP_RESULT_LIMIT (VInt (int DEFAULT_RELATIONSHIP_RESULT_LIMIT))
        (RangeField 1 MAX_RELATIONSHIP_RESULT_LIMIT),
      optional_field defaults CONF_STATE_CHANGE_DEBOUNCE_SECONDS (number_value DEFAULT_STATE_CHANGE_DEBOUNCE_SECONDS)
        (NumberField MIN_STATE_CHANGE_DEBOUNCE_SECONDS False (Some MAX_STATE_CHANGE_DEBOUNCE_SECONDS)),
      optional_field defaults CONF_EXCLUDED_DOMAINS (VStr DEFAULT_EXCLUDED_DOMAINS) TextField,
      optional_field defaults CONF_EXCLUDED_ENTITIES (VStr DEFAULT_EXCLUDED_ENTITIES) TextField,
      optional_field defaults CONF_ZIGBEE2MQTT_BASE_TOPIC (VStr DEFAULT_ZIGBEE2MQTT_BASE_TOPIC) TextField,
      optional_field defaults CONF_MESH_SNAPSHOT_RETENTION_DAYS (VInt (int DEFAULT_MESH_SNAPSHOT_RETENTION_DAYS))
        (RangeField MIN_MESH_SNAPSHOT_RETENTION_DAYS MAX_MESH_SNAPSHOT_RETENTION_DAYS),
      optional_field defaults CONF_MESH_HISTORY_KEEP_SIBLINGS (VBool DEFAULT_MESH_HISTORY_KEEP_SIBLINGS) FlagField,
      optional_field defaults CONF_MESH_SNAPSHOT_SCAN_HOUR (VStr DEFAULT_MESH_SNAPSHOT_SCAN_HOUR) TextField,
      optional_field defaults CONF_MESH_SNAPSHOT_RESPONSE_TIMEOUT_SECONDS
        (number_value DEFAULT_MESH_SNAPSHOT_RESPONSE_TIMEOUT_SECONDS)
        (NumberField MIN_MESH_SNAPSHOT_RESPONSE_TIMEOUT_SECONDS False (Some MAX_MESH_SNAPSHOT_RESPONSE_TIMEOUT_SECONDS)),
      optional_field defaults CONF_COORDINATOR_DEVICE_ID VNone DeviceField,
      optional_field defaults CONF_FLOOR_HEIGHT_M (number_value DEFAULT_FLOOR_HEIGHT_M)
        (NumberField MIN_FLOOR_HEIGHT_M False (Some MAX_FLOOR_HEIGHT_M)),
      optional_field defaults CONF_FLOOR_SLAB_ATTENUATION_DB (number_value DEFAULT_FLOOR_SLAB_ATTENUATION_DB)
        (NumberField MIN_FLOOR_SLAB_ATTENUATION_DB False (Some MAX_FLOOR_SLAB_ATTENUATION_DB))]"

section \<open>Steps\<close>

record config_entry =
  ce_id :: string
  ce_unique_id :: string
  ce_data :: dict
  ce_options :: dict

text \<open>The world a connection check runs in, the entries Home Assistant keeps, and what a discovery left.\<close>

record flows = world +
  fl_entries :: "config_entry list"
  fl_discovery :: dict

type_synonym ('z, 'a) flow_op = "('z flows_scheme, 'a) op"

datatype flow_result =
    CreateEntry string dict
  | ShowForm string "form_field list" "(string \<times> string) list"
  | Abort string

text \<open>\<open>try: test; finally: close\<close>\<close>

definition validate_connection :: "('z, unit) wop" where
  "validate_connection s = (case test_connection s of (r, t) \<Rightarrow> (r, snd (close t)))"

definition connection_error :: "exn \<Rightarrow> (string \<times> string) list" where
  "connection_error err =
     [(''base'', case err of InvalidAuth _ \<Rightarrow> ''invalid_auth'' | CannotConnect _ \<Rightarrow> ''cannot_connect'' | _ \<Rightarrow> ''unknown'')]"

definition try_connect :: "('z, (string \<times> string) list) wop" where
  "try_connect = otry (oseq validate_connection (oret [])) (\<lambda>err. oret (connection_error err))"

definition address_id :: "(pval \<Rightarrow> string) \<Rightarrow> pval \<Rightarrow> pval \<Rightarrow> string" where
  "address_id str_of host port = py_str str_of host @ '':'' @ py_str str_of port"

text \<open>\<open>_abort_if_unique_id_configured\<close>\<close>

definition unless_configured :: "string \<Rightarrow> ('z, flow_result) flow_op \<Rightarrow> ('z, flow_result) flow_op" where
  "unless_configured unique_id m s =
     (if unique_id \<in> ce_unique_id ` set (fl_entries s) then (Inr (Abort ''already_configured''), s) else m s)"

definition step_user :: "(pval \<Rightarrow> string) \<Rightarrow> dict option \<Rightarrow> ('z, flow_result) flow_op" where
  "step_user str_of user_input =
     (case user_input of
        None \<Rightarrow> oret (ShowForm ''user'' (connection_fields []) [])
      | Some i \<Rightarrow>
          unless_configured (address_id str_of (dget i CONF_HOST) (dget i CONF_PORT))
            (obind try_connect (\<lambda>errors.
               oret (if errors = [] then CreateEntry (py_str str_of (dget i CONF_HOST)) i
                     else ShowForm ''user'' (connection_fields i) errors))))"

definition update_entry :: "string \<Rightarrow> (config_entry \<Rightarrow> config_entry) \<Rightarrow> ('z, unit) flow_op" where
  "update_entry entry_id f =
     omodify (\<lambda>s. s\<lparr>fl_entries := map (\<lambda>e. if ce_id e = entry_id then f e else e) (fl_entries s)\<rparr>)"

definition step_reconfigure :: "config_entry \<Rightarrow> dict option \<Rightarrow> ('z, flow_result) flow_op" where
  "step_reconfigure entry user_input =
     (case user_input of
        None \<Rightarrow> oret (ShowForm ''reconfigure'' (connection_fields (ce_data entry)) [])
      | Some i \<Rightarrow>
          obind try_connect (\<lambda>errors.
            if errors = []
            then oseq (update_entry (ce_id entry) (\<lambda>e. e\<lparr>ce_data := i\<rparr>)) (oret (Abort ''reconfigure_successful''))
            else oret (ShowForm ''reconfigure'' (connection_fields (if i \<noteq> [] then i else ce_data entry)) errors)))"

definition step_hassio_confirm :: "(pval \<Rightarrow> string) \<Rightarrow> dict option \<Rightarrow> ('z, flow_result) flow_op" where
  "step_hassio_confirm str_of user_input =
     obind (oget fl_discovery) (\<lambda>discovery.
       case user_input of
         None \<Rightarrow> oret (ShowForm ''hassio_confirm'' (connection_fields discovery) [])
       | Some i \<Rightarrow>
           (let data = dupdate discovery i
            in obind try_connect (\<lambda>errors.
                 oret (if errors = [] then CreateEntry (py_str str_of (dget data CONF_HOST)) data
                       else ShowForm ''hassio_confirm'' (connection_fields data) errors))))"

definition discovered :: "dict \<Rightarrow> dict" where
  "discovered config =
     [(CONF_HOST, dget config CONF_HOST), (CONF_PORT, option_or config CONF_PORT (VInt (int DEFAULT_PORT))),
      (CONF_GRAPHQL_URL, option_or config CONF_GRAPHQL_URL (VStr DEFAULT_GRAPHQL_URL)),
      (CONF_GRAPHQL_TOKEN, option_or config CONF_GRAPHQL_TOKEN (VStr DEFAULT_GRAPHQL_TOKEN))]"

definition step_hassio :: "(pval \<Rightarrow> string) \<Rightarrow> dict \<Rightarrow> ('z, flow_result) flow_op" where
  "step_hassio str_of config =
     unless_configured (address_id str_of (dget (discovered config) CONF_HOST) (dget (discovered config) CONF_PORT))
       (oseq (omodify (\<lambda>s. s\<lparr>fl_discovery := discovered config\<rparr>)) (step_hassio_confirm str_of None))"

text \<open>The options flow: what is no option is connection data.\<close>

definition connection_data :: "dict \<Rightarrow> dict" where
  "connection_data i = filter (\<lambda>(k, v). k \<notin> fst ` set OPTION_DEFAULTS) i"

definition option_data :: "dict \<Rightarrow> dict" where
  "option_data i = map (\<lambda>(k, v). (k, option_or i k v)) OPTION_DEFAULTS"

definition current_values :: "config_entry \<Rightarrow> dict" where
  "current_values entry = dupdate (ce_data entry) (ce_options entry)"

definition store_options :: "dict \<Rightarrow> config_entry \<Rightarrow> config_entry" where
  "store_options i e = e\<lparr>ce_data := connection_data i, ce_options := option_data i\<rparr>"

definition step_options :: "config_entry \<Rightarrow> dict option \<Rightarrow> ('z, flow_result) flow_op" where
  "step_options entry user_input =
     (case user_input of
        None \<Rightarrow> oret (ShowForm ''init'' (options_fields (current_values entry)) [])
      | Some i \<Rightarrow>
          obind try_connect (\<lambda>errors.
            if errors = []
            then oseq (update_entry (ce_id entry) (store_options i)) (oret (Abort ''reconfigure_successful''))
            else oret (ShowForm ''init'' (options_fields (if i \<noteq> [] then i else current_values entry)) errors)))"

section \<open>What was submitted comes back\<close>














section \<open>How a step ends\<close>

lemma try_connect_run:
  obtains errors t where "try_connect s = (Inr errors, t)" and "\<not> w_open t" and "w_graph t = w_graph s"
    and "world.more t = world.more s"
proof (cases "test_connection s")
  case (Pair r t)
  have "w_graph t = w_graph s" and "world.more t = world.more s"
    using Pair by (auto simp: test_connection_def driver_call_def connect_def oseq_apply read_stmt_def
        split: list.splits net.splits)
  then show ?thesis
    using that Pair
    by (cases r) (simp_all add: try_connect_def validate_connection_def op_defs close_def)
qed

text \<open>
  Whatever the database answers, a submission ends with a result and no open connection; the entries change
  only when the connection was proved to work, and then only the entry at hand.
\<close>

theorem submissions_settle:
  "case step_options entry (Some i) s of
     (Inl _, _) \<Rightarrow> False
   | (Inr r, t) \<Rightarrow> \<not> w_open t \<and> w_graph t = w_graph s \<and>
       fl_entries t = (if r = Abort ''reconfigure_successful''
         then map (\<lambda>e. if ce_id e = ce_id entry then store_options i e else e) (fl_entries s) else fl_entries s)"
proof -
  obtain errors t where run: "try_connect s = (Inr errors, t)" "\<not> w_open t" "w_graph t = w_graph s"
    and more: "world.more t = world.more s" by (rule try_connect_run)
  have "fl_entries t = fl_entries s" using more by (cases s, cases t) simp
  then show ?thesis
    using run by (auto simp: step_options_def update_entry_def op_defs)
qed

text \<open>
  A reconfigured entry keeps the id of its old address: the new address can be set up once more, and two
  entries then work on the same database.
\<close>

theorem reconfigured_twice:
  assumes "entry \<in> set (fl_entries s)" and "w_net s = []"
    and "address_id str_of (dget i CONF_HOST) (dget i CONF_PORT) \<notin> ce_unique_id ` set (fl_entries s)"
  shows "\<exists>t u. step_reconfigure entry (Some i) s = (Inr (Abort ''reconfigure_successful''), t) \<and>
    i \<in> ce_data ` set (fl_entries t) \<and>
    step_user str_of (Some i) t = (Inr (CreateEntry (py_str str_of (dget i CONF_HOST)) i), u)"
proof -
  have healthy: "\<exists>t. try_connect w = (Inr [], t) \<and> w_net t = [] \<and> world.more t = world.more w"
    if "w_net w = []" for w :: "'a flows_scheme"
    using that by (cases w) (auto simp: try_connect_def validate_connection_def test_connection_def driver_call_def
        connect_def close_def op_defs read_stmt_def)
  then obtain t where t: "try_connect s = (Inr [], t)" "w_net t = []" and "world.more t = world.more s"
    using assms(2) by blast
  then have entries: "fl_entries t = fl_entries s" by (cases s, cases t) simp
  let ?f = "\<lambda>e. if ce_id e = ce_id entry then e\<lparr>ce_data := i\<rparr> else e"
  let ?t = "t\<lparr>fl_entries := map ?f (fl_entries t)\<rparr>"
  obtain u where u: "try_connect ?t = (Inr [], u)" using healthy [of ?t] t by auto
  have "map ce_unique_id (map ?f es) = map ce_unique_id es" for es by (induction es) auto
  moreover have after: "fl_entries ?t = map ?f (fl_entries s)" by (simp add: entries)
  ultimately have "ce_unique_id ` set (fl_entries ?t) = ce_unique_id ` set (fl_entries s)"
    by (metis list.set_map)
  then have "step_user str_of (Some i) ?t = (Inr (CreateEntry (py_str str_of (dget i CONF_HOST)) i), u)"
    using assms(3) u by (simp add: step_user_def unless_configured_def op_defs)
  moreover have "step_reconfigure entry (Some i) s = (Inr (Abort ''reconfigure_successful''), ?t)"
    using t by (simp add: step_reconfigure_def update_entry_def op_defs)
  moreover have "i \<in> ce_data ` set (fl_entries ?t)"
  proof (rule image_eqI)
    show "?f entry \<in> set (fl_entries ?t)" unfolding after set_map using assms(1) by (rule imageI)
  qed simp
  ultimately show ?thesis by blast
qed

theorem reconfigured_twice_witness:
  "\<exists>t u. step_user (\<lambda>_. []) (Some [(CONF_HOST, VStr ''b''), (CONF_PORT, VInt 1)]) t =
     (Inr (CreateEntry ''b'' [(CONF_HOST, VStr ''b''), (CONF_PORT, VInt 1)]), u) \<and>
     [(CONF_HOST, VStr ''b''), (CONF_PORT, VInt 1)] \<in> ce_data ` set (fl_entries (t :: flows))"
proof -
  define entry where "entry = \<lparr>ce_id = ''e'', ce_unique_id = ''a:1'', ce_data = [], ce_options = []\<rparr>"
  define i where "i = [(CONF_HOST, VStr ''b''), (CONF_PORT, VInt 1)]"
  define s :: flows where "s = world.extend (world_at empty_graph []) \<lparr>fl_entries = [entry], fl_discovery = []\<rparr>"
  have "entry \<in> set (fl_entries s)" and "w_net s = []" by (simp_all add: s_def world.defs world_at_def)
  moreover have "address_id (\<lambda>_. []) (dget i CONF_HOST) (dget i CONF_PORT) \<notin> ce_unique_id ` set (fl_entries s)"
    by (simp add: s_def i_def entry_def world.defs world_at_def address_id_def py_str_def dget_def const_defs)
  moreover have "py_str (\<lambda>_. []) (dget i CONF_HOST) = ''b''" by (simp add: i_def py_str_def dget_def)
  ultimately show ?thesis using reconfigured_twice [of entry s "\<lambda>_. []" i] unfolding i_def by auto
qed

end
