(* ===== verification/Services.thy ===== *)
theory Services
  imports Coordinator Context_Export Mesh_Sync Mesh_Reports Integration_Setup
begin

text \<open>
  The services of \<open>__init__.py\<close> over the config entries of the integration: the handlers, the registration
  of their names and the mesh scan of the coordinator.  The data of a call has passed the schema of its
  service (\<open>Service_Schemas\<close>), so its fields have the types the schema asks for.  An operation runs when the lock of its
  coordinator lets it (\<open>Op_Lock\<close>).
\<close>

section \<open>The loaded entries\<close>

record 'c service_entry =
  se_loaded :: bool
  se_options :: dict
  se_coordinator :: 'c

text \<open>
  A handler that serves every loaded entry, one after the other, and a handler that asks the first one.  An
  entry that is not loaded is skipped by both.
\<close>

fun for_loaded :: "(dict \<Rightarrow> ('c, 'a) op) \<Rightarrow> ('c service_entry list, unit) op" where
  "for_loaded m [] = (Inr (), [])"
| "for_loaded m (x # xs) =
     (if \<not> se_loaded x then (let (r, ys) = for_loaded m xs in (r, x # ys))
      else (case m (se_options x) (se_coordinator x) of
          (Inl e, c) \<Rightarrow> (Inl e, x\<lparr>se_coordinator := c\<rparr> # xs)
        | (Inr _, c) \<Rightarrow> (let (r, ys) = for_loaded m xs in (r, x\<lparr>se_coordinator := c\<rparr> # ys))))"

fun with_first :: "exn + 'a \<Rightarrow> (dict \<Rightarrow> ('c, 'a) op) \<Rightarrow> ('c service_entry list, 'a) op" where
  "with_first none m [] = (none, [])"
| "with_first none m (x # xs) =
     (if \<not> se_loaded x then (let (r, ys) = with_first none m xs in (r, x # ys))
      else (let (r, c) = m (se_options x) (se_coordinator x) in (r, x\<lparr>se_coordinator := c\<rparr> # xs)))"

definition text_arg :: "dict \<Rightarrow> string \<Rightarrow> string" where
  "text_arg data k = (case dget data k of VStr s \<Rightarrow> s | _ \<Rightarrow> [])"

definition optional_text_arg :: "dict \<Rightarrow> string \<Rightarrow> string option" where
  "optional_text_arg data k = (case dget data k of VStr s \<Rightarrow> Some s | _ \<Rightarrow> None)"

definition optional_int_arg :: "dict \<Rightarrow> string \<Rightarrow> int option" where
  "optional_int_arg data k = (case dget data k of VInt i \<Rightarrow> Some i | _ \<Rightarrow> None)"

text \<open>The rejections of the model are answered as validation errors of the service.\<close>

definition reporting :: "(exn \<Rightarrow> bool) \<Rightarrow> ('s, 'a) op \<Rightarrow> ('s, 'a) op" where
  "reporting rejection m =
     otry m (\<lambda>err. oraise (if rejection err then ServiceValidationError (exn_message err) else err))"

fun query_rejected :: "exn \<Rightarrow> bool" where
  "query_rejected (QueryRejected _) = True"
| "query_rejected _ = False"

fun import_rejected :: "exn \<Rightarrow> bool" where
  "import_rejected (OverrideImportRejected _) = True"
| "import_rejected _ = False"

fun role_rejected :: "exn \<Rightarrow> bool" where
  "role_rejected (EnergyRoleRejected _) = True"
| "role_rejected _ = False"

section \<open>The mesh scan of the coordinator\<close>

definition scan_options_of :: "dict \<Rightarrow> scan_options" where
  "scan_options_of options =
     \<lparr>sn_retention_days = nat (int_of (option_or options CONF_MESH_SNAPSHOT_RETENTION_DAYS
        (VInt (int DEFAULT_MESH_SNAPSHOT_RETENTION_DAYS)))),
      sn_coordinator_device = (case dget options CONF_COORDINATOR_DEVICE_ID of
          VStr s \<Rightarrow> if s = [] then None else Some s | _ \<Rightarrow> None),
      sn_keep_sibling_history = truthy (option_or options CONF_MESH_HISTORY_KEEP_SIBLINGS
        (VBool DEFAULT_MESH_HISTORY_KEEP_SIBLINGS))\<rparr>"

definition execute_scan_zigbee_mesh :: "hass \<Rightarrow> pval option \<Rightarrow> dict \<Rightarrow> nat cop" where
  "execute_scan_zigbee_mesh h response options =
     obind utc_now (\<lambda>start.
     obind (otry (async_scan_zigbee_mesh h (scan_options_of options) response) (\<lambda>err.
         obind utc_now (\<lambda>stop.
         oseq (omodify (\<lambda>s. s\<lparr>co_mesh_duration_ms := Some (round1 (milliseconds start stop))\<rparr>))
        (oseq (record_failure err) (oraise err)))))
       (\<lambda>links.
         obind utc_now (\<lambda>stop.
         oseq (omodify (\<lambda>s. s\<lparr>co_mesh_duration_ms := Some (round1 (milliseconds start stop)),
                 co_mesh_links := Some (int links)\<rparr>))
        (oseq record_success
        (oseq refresh_counts (oret links))))))"

section \<open>Services that act on every entry\<close>

definition entry_surroundings :: "surroundings \<Rightarrow> dict \<Rightarrow> surroundings" where
  "entry_surroundings u options =
     u\<lparr>su_auto_classify := truthy (option_or options CONF_AUTO_CLASSIFY (VBool DEFAULT_AUTO_CLASSIFY))\<rparr>"

definition handle_rebuild :: "surroundings \<Rightarrow> (coord service_entry list, unit) op" where
  "handle_rebuild u = for_loaded (\<lambda>options. async_rebuild (entry_surroundings u options))"

definition handle_resync :: "surroundings \<Rightarrow> (coord service_entry list, unit) op" where
  "handle_resync u = for_loaded (\<lambda>options. async_resync (entry_surroundings u options))"

definition handle_sync_entity :: "surroundings \<Rightarrow> dict \<Rightarrow> (coord service_entry list, unit) op" where
  "handle_sync_entity u data = for_loaded (\<lambda>options. async_sync_entity u (text_arg data ATTR_ENTITY_ID))"

definition handle_validate :: "surroundings \<Rightarrow> (coord service_entry list, unit) op" where
  "handle_validate u = for_loaded (\<lambda>options. execute_validate u)"

definition handle_refresh_semantics :: "surroundings \<Rightarrow> dict \<Rightarrow> (coord service_entry list, unit) op" where
  "handle_refresh_semantics u data =
     for_loaded (\<lambda>options. execute_semantic_refresh u (optional_text_arg data ATTR_ENTITY_ID))"

definition handle_sync_spatial_layout ::
  "surroundings \<Rightarrow> (pval \<Rightarrow> string) \<Rightarrow> dict option \<Rightarrow> (coord service_entry list, unit) op" where
  "handle_sync_spatial_layout u str_of response = for_loaded (\<lambda>options. execute_sync_spatial_layout u str_of response)"

definition handle_scan_zigbee_mesh :: "hass \<Rightarrow> pval option \<Rightarrow> (coord service_entry list, unit) op" where
  "handle_scan_zigbee_mesh h response = for_loaded (execute_scan_zigbee_mesh h response)"

section \<open>Services that ask the first entry\<close>

definition handle_query ::
  "(string \<Rightarrow> 'r list stmt) \<Rightarrow> dict \<Rightarrow> (coord service_entry list, 'r query_answer) op" where
  "handle_query server data =
     with_first (Inr \<lparr>qa_rows = [], qa_truncated = False, qa_row_count = 0\<rparr>)
       (\<lambda>options. reporting query_rejected
          (async_query server (text_arg data ATTR_CYPHER) (optional_int_arg data ATTR_LIMIT)))"

definition handle_export_overrides :: "('z world_scheme service_entry list, pval) op" where
  "handle_export_overrides =
     with_first (Inr (VDict [(''version'', VInt 1), (''exported_at'', VNone), (''overrides'', VList [])]))
       (\<lambda>options. async_export_overrides)"

definition handle_import_overrides :: "dict \<Rightarrow> ('z world_scheme service_entry list, dict) op" where
  "handle_import_overrides data =
     with_first (Inr [(''imported_count'', VInt 0)])
       (\<lambda>options. obind (reporting import_rejected (async_import_overrides (dget data ATTR_PAYLOAD)))
          (\<lambda>imported_count. oret [(''imported_count'', VInt (int imported_count))]))"

definition handle_search :: "dict \<Rightarrow> ('z world_scheme service_entry list, dict) op" where
  "handle_search data =
     with_first (Inr (not_found_result (text_arg data ATTR_TERM)))
       (\<lambda>options. search (text_arg data ATTR_TERM) (optional_int_arg data ATTR_LIMIT))"

definition handle_area_context :: "dict \<Rightarrow> ('z world_scheme service_entry list, dict) op" where
  "handle_area_context data =
     with_first (Inr (not_found_result (text_arg data ATTR_AREA))) (\<lambda>options. area_context (text_arg data ATTR_AREA))"

definition handle_device_context :: "dict \<Rightarrow> ('z world_scheme service_entry list, dict) op" where
  "handle_device_context data =
     with_first (Inr (not_found_result (text_arg data ATTR_DEVICE))) (\<lambda>options. device_context (text_arg data ATTR_DEVICE))"

definition handle_entity_context :: "dict \<Rightarrow> ('z world_scheme service_entry list, dict) op" where
  "handle_entity_context data =
     with_first (Inr (not_found_result (text_arg data ATTR_ENTITY))) (\<lambda>options. entity_context (text_arg data ATTR_ENTITY))"

definition handle_automation_dependencies :: "dict \<Rightarrow> ('z world_scheme service_entry list, dict) op" where
  "handle_automation_dependencies data =
     with_first (Inr (not_found_result (text_arg data ATTR_ENTITY)))
       (\<lambda>options. automation_dependencies (text_arg data ATTR_ENTITY))"

definition handle_impact_analysis :: "dict \<Rightarrow> ('z audited_scheme service_entry list, dict) op" where
  "handle_impact_analysis data =
     with_first (Inr (not_found_result (text_arg data ATTR_TARGET)))
       (\<lambda>options. analyze (text_arg data ATTR_TARGET_TYPE) (text_arg data ATTR_TARGET) True)"

definition handle_export_context :: "dict \<Rightarrow> ('z audited_scheme service_entry list, dict) op" where
  "handle_export_context data =
     with_first (Inr (not_found_result (case optional_text_arg data ATTR_TARGET of
          Some t \<Rightarrow> if t = [] then ''whole_home'' else t | None \<Rightarrow> ''whole_home'')))
       (\<lambda>options. export (text_arg data ATTR_EXPORT_TYPE) (optional_text_arg data ATTR_TARGET) True)"

definition dependency_unavailable :: "string \<Rightarrow> dict" where
  "dependency_unavailable result_type =
     build_tool_result ''home'' result_type VNone [''ontology dependency unavailable''] ''degraded''"

text \<open>A call may ask for less than the configured limit, never for more.\<close>

definition configured_limit :: "dict \<Rightarrow> int" where
  "configured_limit options =
     int_of (option_or options CONF_RELATIONSHIP_RESULT_LIMIT (VInt (int DEFAULT_RELATIONSHIP_RESULT_LIMIT)))"

definition call_limit :: "dict \<Rightarrow> dict \<Rightarrow> int" where
  "call_limit data options =
     min (int_of (option_or data ATTR_LIMIT (VInt (configured_limit options)))) (configured_limit options)"

definition number_setting :: "dict \<Rightarrow> string \<Rightarrow> dict \<Rightarrow> string \<Rightarrow> rat \<Rightarrow> rat" where
  "number_setting data attr options conf default_value =
     rat_of (option_or data attr (option_or options conf (VFloat (Fin default_value))))"

definition handle_low_battery_areas :: "dict \<Rightarrow> ('z world_scheme service_entry list, dict) op" where
  "handle_low_battery_areas data =
     with_first (Inr (dependency_unavailable RESULT_TYPE_LOW_BATTERY_AREAS)) (\<lambda>options.
       low_battery_areas
         (number_setting data ATTR_THRESHOLD_PERCENTAGE options CONF_LOW_BATTERY_THRESHOLD DEFAULT_LOW_BATTERY_THRESHOLD)
         (number_setting data ATTR_MAX_AGE_HOURS options CONF_MAX_MEASUREMENT_AGE_HOURS DEFAULT_MAX_MEASUREMENT_AGE_HOURS)
         (Some (call_limit data options)))"

definition handle_active_consumers :: "dict \<Rightarrow> ('z world_scheme service_entry list, dict) op" where
  "handle_active_consumers data =
     with_first (Inr (dependency_unavailable RESULT_TYPE_ACTIVE_CONSUMERS)) (\<lambda>options.
       active_consumers
         (number_setting data ATTR_THRESHOLD_WATTS options CONF_ACTIVE_POWER_THRESHOLD DEFAULT_ACTIVE_POWER_THRESHOLD)
         (number_setting data ATTR_MAX_AGE_HOURS options CONF_MAX_MEASUREMENT_AGE_HOURS DEFAULT_MAX_MEASUREMENT_AGE_HOURS)
         (Some (call_limit data options)))"

definition option_number :: "dict \<Rightarrow> string \<Rightarrow> rat \<Rightarrow> rat" where
  "option_number options conf default_value = rat_of (option_or options conf (VFloat (Fin default_value)))"

definition handle_mesh_link_walls :: "dict \<Rightarrow> ('z world_scheme service_entry list, dict) op" where
  "handle_mesh_link_walls data =
     with_first (Inr (dependency_unavailable RESULT_TYPE_MESH_LINK_WALLS)) (\<lambda>options.
       mesh_link_walls (option_number data ATTR_MAX_LQI 255) (Some (call_limit data options))
         (option_number options CONF_FLOOR_HEIGHT_M DEFAULT_FLOOR_HEIGHT_M)
         (option_number options CONF_FLOOR_SLAB_ATTENUATION_DB DEFAULT_FLOOR_SLAB_ATTENUATION_DB)
         (truthy (option_or data ATTR_INCLUDE_SIBLINGS (VBool False))))"

definition handle_mesh_health :: "dict \<Rightarrow> ('z world_scheme service_entry list, dict) op" where
  "handle_mesh_health data =
     with_first (Inr (dependency_unavailable RESULT_TYPE_MESH_HEALTH)) (\<lambda>options.
       mesh_health (option_number data ATTR_WEAK_LQI 40) (Some (call_limit data options))
         (option_number options CONF_FLOOR_HEIGHT_M DEFAULT_FLOOR_HEIGHT_M)
         (option_number options CONF_FLOOR_SLAB_ATTENUATION_DB DEFAULT_FLOOR_SLAB_ATTENUATION_DB))"

definition handle_set_energy_role ::
  "(string \<Rightarrow> string) \<Rightarrow> dict \<Rightarrow> ('z world_scheme service_entry list, role_result) op" where
  "handle_set_energy_role uuid data =
     with_first (Inl (ServiceValidationError ''Ontology dependency unavailable''))
       (\<lambda>options. reporting role_rejected (async_set_energy_role uuid (text_arg data ATTR_ENTITY) (dget data ATTR_ROLE)))"

definition handle_delete_energy_role ::
  "(string \<Rightarrow> string) \<Rightarrow> dict \<Rightarrow> ('z world_scheme service_entry list, delete_result) op" where
  "handle_delete_energy_role uuid data =
     with_first (Inl (ServiceValidationError ''Ontology dependency unavailable''))
       (\<lambda>options. reporting role_rejected (async_delete_user_energy_role uuid (text_arg data ATTR_ENTITY)))"

section \<open>Registration\<close>

text \<open>The services of Home Assistant, and the ids of the entries it lists for the integration.\<close>

record serving = installed +
  sv_services :: "(string \<times> string) list"
  sv_entries :: "string list"

definition REGISTERED_SERVICES :: "string list" where
  "REGISTERED_SERVICES = [SERVICE_REBUILD, SERVICE_RESYNC, SERVICE_SYNC_ENTITY, SERVICE_VALIDATE,
     SERVICE_REFRESH_SEMANTICS, SERVICE_SYNC_SPATIAL_LAYOUT, SERVICE_SCAN_ZIGBEE_MESH, SERVICE_QUERY,
     SERVICE_EXPORT_OVERRIDES, SERVICE_IMPORT_OVERRIDES, SERVICE_SEARCH, SERVICE_AREA_CONTEXT,
     SERVICE_DEVICE_CONTEXT, SERVICE_ENTITY_CONTEXT, SERVICE_AUTOMATION_DEPENDENCIES, SERVICE_IMPACT_ANALYSIS,
     SERVICE_EXPORT_CONTEXT, SERVICE_LOW_BATTERY_AREAS, SERVICE_ACTIVE_CONSUMERS, SERVICE_MESH_HEALTH,
     SERVICE_MESH_LINK_WALLS, SERVICE_SET_ENERGY_ROLE, SERVICE_DELETE_ENERGY_ROLE]"

definition async_register_services :: "('z serving_scheme, unit) op" where
  "async_register_services =
     omodify (\<lambda>s. if (DOMAIN, SERVICE_REBUILD) \<in> set (sv_services s) then s
       else s\<lparr>sv_services := sv_services s @ map (Pair DOMAIN) REGISTERED_SERVICES\<rparr>)"

definition REMOVED_SERVICES :: "string list" where
  "REMOVED_SERVICES = [SERVICE_REBUILD, SERVICE_RESYNC, SERVICE_SYNC_ENTITY, SERVICE_VALIDATE,
     SERVICE_REFRESH_SEMANTICS, SERVICE_SYNC_SPATIAL_LAYOUT, SERVICE_SCAN_ZIGBEE_MESH, SERVICE_QUERY,
     SERVICE_EXPORT_OVERRIDES, SERVICE_IMPORT_OVERRIDES, SERVICE_SEARCH, SERVICE_AREA_CONTEXT,
     SERVICE_DEVICE_CONTEXT, SERVICE_ENTITY_CONTEXT, SERVICE_AUTOMATION_DEPENDENCIES, SERVICE_IMPACT_ANALYSIS,
     SERVICE_EXPORT_CONTEXT, SERVICE_LOW_BATTERY_AREAS, SERVICE_ACTIVE_CONSUMERS, SERVICE_MESH_LINK_WALLS,
     SERVICE_MESH_HEALTH, SERVICE_SET_ENERGY_ROLE, SERVICE_DELETE_ENERGY_ROLE]"

definition async_unregister_services :: "('z serving_scheme, unit) op" where
  "async_unregister_services =
     omodify (\<lambda>s. if sv_entries s \<noteq> [] then s
       else s\<lparr>sv_services := filter (\<lambda>x. x \<notin> set (map (Pair DOMAIN) REMOVED_SERVICES)) (sv_services s)\<rparr>)"

text \<open>Whether the platforms could be unloaded is Home Assistant's answer.\<close>

definition async_unload_entry :: "bool \<Rightarrow> ('z serving_scheme, bool) op" where
  "async_unload_entry unload_ok =
     (if unload_ok then oseq close (oseq async_unregister_services (oret True)) else oret False)"

section \<open>What a handler does to the entries\<close>

definition run_entry :: "(dict \<Rightarrow> ('c, 'a) op) \<Rightarrow> 'c service_entry \<Rightarrow> 'c service_entry" where
  "run_entry m x =
     (if se_loaded x then x\<lparr>se_coordinator := snd (m (se_options x) (se_coordinator x))\<rparr> else x)"

definition serve_error :: "(dict \<Rightarrow> ('c, 'a) op) \<Rightarrow> 'c service_entry \<Rightarrow> exn option" where
  "serve_error m x =
     (if se_loaded x then (case fst (m (se_options x) (se_coordinator x)) of Inl e \<Rightarrow> Some e | Inr _ \<Rightarrow> None) else None)"

lemma for_loaded_Cons:
  "for_loaded m (x # xs) =
     (case serve_error m x of
        Some e \<Rightarrow> (Inl e, run_entry m x # xs)
      | None \<Rightarrow> (let (r, ys) = for_loaded m xs in (r, run_entry m x # ys)))"
  by (auto simp: run_entry_def serve_error_def split: prod.splits sum.splits)

lemma with_first_eq:
  "find se_loaded xs = Some x \<Longrightarrow> fst (with_first none m xs) = fst (m (se_options x) (se_coordinator x))"
  by (induction xs) (auto simp: Let_def split: prod.splits if_splits)

lemma with_first_none: "find se_loaded xs = None \<Longrightarrow> with_first none m xs = (none, xs)"
  by (induction xs) (auto simp: Let_def split: prod.splits if_splits)

lemma with_first_error:
  assumes "with_first (Inr a) m xs = (Inl e, ys)"
  obtains x c where "find se_loaded xs = Some x" and "m (se_options x) (se_coordinator x) = (Inl e, c)"
    and "c = se_coordinator x \<longrightarrow> ys = xs"
  using assms
proof (induction xs arbitrary: ys thesis)
  case Nil
  then show ?case by simp
next
  case (Cons y xs)
  show ?case
  proof (cases "se_loaded y")
    case True
    then show ?thesis using Cons.prems by (auto simp: Let_def split: prod.splits)
  next
    case False
    then obtain zs where "with_first (Inr a) m xs = (Inl e, zs)" and ys: "ys = y # zs"
      using Cons.prems(2) by (auto simp: Let_def split: prod.splits)
    from Cons.IH [OF _ this(1)] obtain x c where "find se_loaded xs = Some x"
      and "m (se_options x) (se_coordinator x) = (Inl e, c)" and "c = se_coordinator x \<longrightarrow> zs = xs" by blast
    then show ?thesis using Cons.prems(1) False ys by simp
  qed
qed

lemma for_loaded_stops:
  "case for_loaded m xs of
     (Inr _, ys) \<Rightarrow> ys = map (run_entry m) xs
   | (Inl e, ys) \<Rightarrow> \<exists>pre x rest. xs = pre @ x # rest \<and> serve_error m x = Some e \<and>
       ys = map (run_entry m) (pre @ [x]) @ rest"
proof (induction xs)
  case Nil
  then show ?case by simp
next
  case (Cons x xs)
  show ?case
  proof (cases "serve_error m x")
    case (Some e)
    then show ?thesis by (auto simp: for_loaded_Cons simp del: for_loaded.simps intro!: exI [of _ "[]"])
  next
    case None
    obtain r ys where step: "for_loaded m xs = (r, ys)" by (cases "for_loaded m xs")
    show ?thesis
    proof (cases r)
      case (Inl e)
      then obtain pre y rest where "xs = pre @ y # rest" and "serve_error m y = Some e"
        and "ys = map (run_entry m) (pre @ [y]) @ rest"
        using Cons.IH step by auto
      then show ?thesis
        using None step Inl by (auto simp: for_loaded_Cons simp del: for_loaded.simps intro!: exI [of _ "x # pre"])
    next
      case (Inr u)
      then show ?thesis using Cons.IH None step by (simp add: for_loaded_Cons del: for_loaded.simps)
    qed
  qed
qed

text \<open>
  A rebuild of all entries goes through the loaded ones in order and stops at the first failure: the error
  is the answer of the service, and the entries behind it are not rebuilt.
\<close>

theorem rebuild_stops_at_failure:
  "case handle_rebuild u xs of
     (Inr _, ys) \<Rightarrow> ys = map (run_entry (\<lambda>options. async_rebuild (entry_surroundings u options))) xs
   | (Inl e, ys) \<Rightarrow> \<exists>pre x rest. xs = pre @ x # rest \<and>
       serve_error (\<lambda>options. async_rebuild (entry_surroundings u options)) x = Some e \<and>
       ys = map (run_entry (\<lambda>options. async_rebuild (entry_surroundings u options))) (pre @ [x]) @ rest"
  unfolding handle_rebuild_def by (rule for_loaded_stops)

section \<open>Rejections\<close>

lemma reporting_error: "reporting r m s = (Inl e, t) \<Longrightarrow> (\<And>msg. \<not> r (ServiceValidationError msg)) \<Longrightarrow> \<not> r e"
  by (auto simp: reporting_def otry_def oraise_def split: prod.splits sum.splits if_splits)

fun validation_error :: "exn \<Rightarrow> bool" where
  "validation_error (ServiceValidationError _) = True"
| "validation_error _ = False"

lemma query_error_kind: "\<not> validation_error (query_error f) \<and> \<not> query_rejected (query_error f)"
  by (cases f) simp_all

lemma query_kinds:
  "execute_query server cypher limit w = (Inl e, t) \<Longrightarrow> query_rejected e \<and> t = w \<or> \<not> query_rejected e \<and> \<not> validation_error e"
  using query_error_kind
  by (auto simp: execute_query_def run_query_limited_def obind_def oret_def run_query_eq validate_syntax_def
      validate_read_only_def Let_def oraise_def split: sum.splits prod.splits list.splits net.splits if_splits option.splits)

lemma with_first_error_kind:
  assumes "\<And>options s e t. m options s = (Inl e, t) \<Longrightarrow> \<not> r e" and "case none of Inl e \<Rightarrow> \<not> r e | Inr _ \<Rightarrow> True"
  shows "case fst (with_first none m xs) of Inl e \<Rightarrow> \<not> r e | Inr _ \<Rightarrow> True"
proof (cases "find se_loaded xs")
  case None
  then show ?thesis using assms(2) by (simp add: with_first_none)
next
  case (Some x)
  show ?thesis
    using assms(1) [of "se_options x" "se_coordinator x"]
    by (cases "m (se_options x) (se_coordinator x)") (auto simp: with_first_eq [OF Some] split: sum.splits)
qed

lemma query_service_error:
  assumes "reporting query_rejected (async_query server cypher limit) s = (Inl e, t)"
  shows "\<not> query_rejected e \<and> \<not> (validation_error e \<and> t \<noteq> s)"
proof (cases "execute_query server cypher limit s")
  case (Pair r u)
  then obtain f where r: "r = Inl f" and t: "t = u"
    and e: "e = (if query_rejected f then ServiceValidationError (exn_message f) else f)"
    using assms by (cases r) (auto simp: reporting_def otry_def oraise_def async_query_def)
  then show ?thesis using query_kinds [OF Pair [unfolded r]] by auto
qed

text \<open>
  What the model rejects (a query that is not read-only, an invalid payload, an unknown role) never escapes a
  service as an internal error, and a query that is answered with a validation error has changed nothing.
\<close>

theorem rejections_reported:
  "(case handle_query server data xs of
      (Inl e, ys) \<Rightarrow> \<not> query_rejected e \<and> \<not> (validation_error e \<and> ys \<noteq> xs) | (Inr _, _) \<Rightarrow> True) \<and>
   (case fst (handle_import_overrides data os) of Inl e \<Rightarrow> \<not> import_rejected e | Inr _ \<Rightarrow> True) \<and>
   (case fst (handle_set_energy_role uuid data ss) of Inl e \<Rightarrow> \<not> role_rejected e | Inr _ \<Rightarrow> True) \<and>
   (case fst (handle_delete_energy_role uuid data ds) of Inl e \<Rightarrow> \<not> role_rejected e | Inr _ \<Rightarrow> True)"
proof (intro conjI)
  show "case handle_query server data xs of
      (Inl e, ys) \<Rightarrow> \<not> query_rejected e \<and> \<not> (validation_error e \<and> ys \<noteq> xs) | (Inr _, _) \<Rightarrow> True"
  proof (cases "handle_query server data xs")
    case (Pair r ys)
    show ?thesis
    proof (cases r)
      case (Inl e)
      obtain x c where "find se_loaded xs = Some x" and run: "reporting query_rejected (async_query server (text_arg data ATTR_CYPHER)
          (optional_int_arg data ATTR_LIMIT)) (se_coordinator x) = (Inl e, c)"
        and same: "c = se_coordinator x \<longrightarrow> ys = xs"
        by (rule with_first_error [OF Pair [unfolded Inl handle_query_def]])
      then show ?thesis
        using query_service_error [OF run] same Pair Inl by auto
    qed (simp add: Pair)
  qed
next
  show "case fst (handle_import_overrides data os) of Inl e \<Rightarrow> \<not> import_rejected e | Inr _ \<Rightarrow> True"
    unfolding handle_import_overrides_def
    by (rule with_first_error_kind)
      (auto simp: obind_def oret_def dest!: reporting_error split: prod.splits sum.splits)
next
  show "case fst (handle_set_energy_role uuid data ss) of Inl e \<Rightarrow> \<not> role_rejected e | Inr _ \<Rightarrow> True"
    unfolding handle_set_energy_role_def by (rule with_first_error_kind) (auto dest!: reporting_error)
next
  show "case fst (handle_delete_energy_role uuid data ds) of Inl e \<Rightarrow> \<not> role_rejected e | Inr _ \<Rightarrow> True"
    unfolding handle_delete_energy_role_def by (rule with_first_error_kind) (auto dest!: reporting_error)
qed

section \<open>Limits\<close>

text \<open>How many items an answer of a tool lists under a key.\<close>

definition listed :: "dict \<Rightarrow> string \<Rightarrow> nat" where
  "listed answer key = (case dget answer ''result'' of VDict r \<Rightarrow> length (value_list (dget r key)) | _ \<Rightarrow> 0)"

lemma redact_items_get:
  "map_of (redact_items d) key =
     map_option (\<lambda>v. if secret_key_search key then VStr REDACTED else redact_value v) (map_of d key)"
  by (induction d) (auto split: prod.splits)

lemma redact_list_length [simp]: "length (redact_list xs) = length xs"
  by (induction xs) simp_all

lemma redact_value_list: "length (value_list (redact_value v)) = length (value_list v)"
  by (cases v) (simp_all add: value_list_def)

lemma listed_tool_result: "listed (build_tool_result t ty (VDict d) w o') key \<le> length (value_list (dget d key))"
proof -
  have "dget (build_tool_result t ty (VDict d) w o') ''result'' = VDict (redact_items d)"
    by (simp add: build_tool_result_def dget_def)
  then show ?thesis
    by (auto simp: listed_def dget_def redact_items_get redact_value_list value_list_def [of "VStr REDACTED"]
        split: option.splits)
qed

lemma upsert_length: "length (upsert k f al) \<le> Suc (length al)"
proof -
  have "length (AList.update k v al) \<le> Suc (length al)" for v by (induction al) auto
  then show ?thesis by (simp add: upsert_def)
qed

lemma battery_groups_length: "length (battery_groups rows) \<le> length rows"
proof -
  have "length (fold add_battery_row rows gs) \<le> length rows + length gs" for gs
  proof (induction rows arbitrary: gs)
    case Nil
    then show ?case by simp
  next
    case (Cons r rows)
    have "length (add_battery_row r gs) \<le> Suc (length gs)" unfolding add_battery_row_def by (rule upsert_length)
    then show ?case using Cons [of "add_battery_row r gs"] by simp
  qed
  from this [of "[]"] show ?thesis by (simp add: battery_groups_def)
qed

lemma yields_limited: "yields (\<lambda>_. True) (run_query_limited q n) (\<lambda>r _. length (fst r) \<le> n)"
proof (rule yieldsI)
  fix s x t assume "run_query_limited q n s = (Inr x, t)"
  then obtain records where "x = collect_limited n [] records"
    by (auto simp: run_query_limited_def elim!: obind_result)
  then show "length (fst x) \<le> n" using collect_limited_length [of "[]" n records] by simp
qed

lemma yields_const: "yields (\<lambda>_. A) m (\<lambda>_ _. A)"
  by (simp add: yields_def)

lemma low_battery_limited:
  "yields (\<lambda>_. True) (low_battery_areas threshold age limit) (\<lambda>a _. listed a ''areas'' \<le> nat (tool_limit limit))"
  unfolding low_battery_areas_def Let_def
  apply (rule yields_obind [OF yields_const])
  apply (rule yields_obind [OF yields_limited])
  apply (simp only: split_paired_all prod.case fst_conv)
  apply (rule yields_obind [OF yields_const])
  apply (rule yields_oret, rule order_trans [OF listed_tool_result])
  apply (simp add: dget_def battery_payload_def value_list_def order_trans [OF battery_groups_length])
  done

lemma active_consumers_limited:
  "yields (\<lambda>_. True) (active_consumers threshold age limit) (\<lambda>a _. listed a ''consumers'' \<le> nat (tool_limit limit))"
  unfolding active_consumers_def Let_def
  apply (rule yields_obind [OF yields_const])
  apply (rule yields_obind [OF yields_limited])
  apply (simp only: split_paired_all prod.case fst_conv)
  apply (rule yields_obind [OF yields_const])
  apply (rule yields_obind [OF yields_const])
  apply (rule yields_oret, rule order_trans [OF listed_tool_result])
  apply (simp add: dget_def value_list_def)
  done

lemma yields_case_option:
  "yields P a R \<Longrightarrow> (\<And>x. yields P (b x) R) \<Longrightarrow> yields P (case v of None \<Rightarrow> a | Some x \<Rightarrow> b x) R"
  by (cases v) simp_all

lemma mesh_links_limited:
  "yields (\<lambda>_. True) (mesh_link_walls lqi limit height slab siblings) (\<lambda>a _. listed a ''links'' \<le> nat (tool_limit limit))"
  unfolding mesh_link_walls_def Let_def
  apply (rule yields_obind [OF yields_const])
  apply (rule yields_case_option)
   apply (rule yields_oret, rule order_trans [OF listed_tool_result], simp add: dget_def value_list_def)
  apply (rule yields_obind [OF yields_limited])
  apply (simp only: split_paired_all prod.case fst_conv)
  apply (rule yields_obind [OF yields_const])
  apply (simp only: split_paired_all prod.case fst_conv)
  apply (rule yields_oret, rule order_trans [OF listed_tool_result])
  apply (simp add: dget_def value_list_def)
  done

lemma tool_limit_call:
  assumes "1 \<le> configured_limit options" and "1 \<le> int_of (option_or data ATTR_LIMIT (VInt 1))"
  shows "tool_limit (Some (call_limit data options)) \<le> configured_limit options"
proof -
  have "1 \<le> call_limit data options"
    using assms by (auto simp: call_limit_def option_or_def int_of_def split: option.splits)
  then show ?thesis by (auto simp: tool_limit_def call_limit_def)
qed

lemma with_first_within:
  assumes "find se_loaded xs = Some x" and "k \<le> n"
    and "yields (\<lambda>_. True) (m (se_options x)) (\<lambda>a _. listed a key \<le> k)"
  shows "case fst (with_first none m xs) of Inl _ \<Rightarrow> True | Inr a \<Rightarrow> listed a key \<le> n"
  using assms(2,3) by (cases "m (se_options x) (se_coordinator x)")
    (auto simp: with_first_eq [OF assms(1)] dest: yieldsD split: sum.splits)

text \<open>
  A call that asks for at least one item gets no more areas, consumers or links than the configured number.
\<close>

lemma answers_bounded:
  assumes "find se_loaded xs = Some x" and "1 \<le> configured_limit (se_options x)"
    and "1 \<le> int_of (option_or data ATTR_LIMIT (VInt 1))"
  defines "n \<equiv> nat (configured_limit (se_options x))"
  shows "case fst (handle_low_battery_areas data xs) of Inl _ \<Rightarrow> True | Inr a \<Rightarrow> listed a ''areas'' \<le> n"
    and "case fst (handle_active_consumers data xs) of Inl _ \<Rightarrow> True | Inr a \<Rightarrow> listed a ''consumers'' \<le> n"
    and "case fst (handle_mesh_link_walls data xs) of Inl _ \<Rightarrow> True | Inr a \<Rightarrow> listed a ''links'' \<le> n"
proof -
  have le: "nat (tool_limit (Some (call_limit data (se_options x)))) \<le> n"
    using tool_limit_call [OF assms(2,3)] by (simp add: n_def)
  show "case fst (handle_low_battery_areas data xs) of Inl _ \<Rightarrow> True | Inr a \<Rightarrow> listed a ''areas'' \<le> n"
    unfolding handle_low_battery_areas_def by (rule with_first_within [OF assms(1) le], rule low_battery_limited)
  show "case fst (handle_active_consumers data xs) of Inl _ \<Rightarrow> True | Inr a \<Rightarrow> listed a ''consumers'' \<le> n"
    unfolding handle_active_consumers_def by (rule with_first_within [OF assms(1) le], rule active_consumers_limited)
  show "case fst (handle_mesh_link_walls data xs) of Inl _ \<Rightarrow> True | Inr a \<Rightarrow> listed a ''links'' \<le> n"
    unfolding handle_mesh_link_walls_def by (rule with_first_within [OF assms(1) le], rule mesh_links_limited)
qed

definition one_home :: "world service_entry list" where
  "one_home = [\<lparr>se_loaded = False, se_options = [], se_coordinator = world_at empty_graph []\<rparr>,
     \<lparr>se_loaded = True, se_options = [(CONF_RELATIONSHIP_RESULT_LIMIT, VInt 1)], se_coordinator = world_at metered_graph []\<rparr>]"

text \<open>
  The services that were registered at the first set-up go with the last entry, all of them and no other: but
  only an unload during which Home Assistant no longer lists an entry removes them.
\<close>

theorem services_follow_entries:
  assumes "list_all (\<lambda>x. fst x \<noteq> DOMAIN) (sv_services s)"
  shows "sv_services (snd (async_unload_entry True (snd (async_register_services s)))) =
    sv_services s @ (if sv_entries s = [] then [] else map (Pair DOMAIN) REGISTERED_SERVICES)"
proof -
  have "set REGISTERED_SERVICES \<subseteq> set REMOVED_SERVICES"
    by (simp add: REGISTERED_SERVICES_def REMOVED_SERVICES_def)
  moreover have "filter (\<lambda>x. x \<notin> set (map (Pair DOMAIN) REMOVED_SERVICES)) (sv_services s) = sv_services s"
    using assms by (auto simp: filter_id_conv list_all_iff)
  moreover have "(DOMAIN, SERVICE_REBUILD) \<notin> set (sv_services s)" using assms by (auto simp: list_all_iff)
  ultimately show ?thesis
    by (auto simp: async_unload_entry_def async_register_services_def async_unregister_services_def op_defs close_def
        filter_empty_conv)
qed

theorem services_follow_entries_witness:
  "sv_services (snd (async_unload_entry True (snd (async_register_services
     (world.extend (world_at empty_graph [])
        \<lparr>in_issues = [], sv_services = [(''light'', ''turn_on'')], sv_entries = []\<rparr>))))) = [(''light'', ''turn_on'')]"
  by (subst services_follow_entries) (simp_all add: world.defs world_at_def DOMAIN_def)

end
