(* ===== verification/Entities.thy ===== *)
theory Entities
  imports Services
begin

text \<open>
  What the integration shows of itself: the sensors of \<open>sensor.py\<close> with the values they put back after a
  restart, the buttons of \<open>button.py\<close>, and the diagnostics of \<open>diagnostics.py\<close>.
\<close>

section \<open>Sensors\<close>

definition ms_to_seconds :: "rat option \<Rightarrow> rat option" where
  "ms_to_seconds duration_ms = map_option (\<lambda>d. of_int (round_half_even (d / 1000 * 1000)) / 1000) duration_ms"

definition as_int :: "pval \<Rightarrow> int option" where
  "as_int v = (case v of VInt i \<Rightarrow> Some i | _ \<Rightarrow> None)"

definition opt_number :: "rat option \<Rightarrow> pval" where
  "opt_number v = (case v of None \<Rightarrow> VNone | Some q \<Rightarrow> VFloat (Fin q))"

definition opt_whole :: "int option \<Rightarrow> pval" where
  "opt_whole v = (case v of None \<Rightarrow> VNone | Some i \<Rightarrow> VInt i)"

text \<open>Each sensor with its value and its attributes.\<close>

record sensor =
  sr_key :: string
  sr_value :: "coord \<Rightarrow> pval"
  sr_attributes :: "(coord \<Rightarrow> dict) option"
  sr_restore :: "(rat \<Rightarrow> dict \<Rightarrow> coord \<Rightarrow> coord) option"

definition restore_spatial_sync :: "rat \<Rightarrow> dict \<Rightarrow> coord \<Rightarrow> coord" where
  "restore_spatial_sync duration_ms attrs s =
     s\<lparr>co_spatial_duration_ms := Some duration_ms, co_spatial_walls := as_int (dget attrs ''walls''),
       co_spatial_pinned := as_int (dget attrs ''pinned_on_floor'')\<rparr>"

definition restore_mesh_scan :: "rat \<Rightarrow> dict \<Rightarrow> coord \<Rightarrow> coord" where
  "restore_mesh_scan duration_ms attrs s =
     s\<lparr>co_mesh_duration_ms := Some duration_ms, co_mesh_links := as_int (dget attrs ''links'')\<rparr>"

definition plain_sensor :: "string \<Rightarrow> (coord \<Rightarrow> pval) \<Rightarrow> sensor" where
  "plain_sensor key f = \<lparr>sr_key = key, sr_value = f, sr_attributes = None, sr_restore = None\<rparr>"

definition SENSOR_DESCRIPTIONS :: "sensor list" where
  "SENSOR_DESCRIPTIONS =
     [plain_sensor ''health'' (\<lambda>s. VStr (co_health s)),
      plain_sensor ''nodes'' (\<lambda>s. VInt (int (co_node_count s))),
      plain_sensor ''relationships'' (\<lambda>s. VInt (int (co_relationship_count s))),
      plain_sensor ''last_sync'' co_last_sync,
      plain_sensor ''last_error'' (\<lambda>s. VStr (case co_last_error s of
        None \<Rightarrow> ''none'' | Some e \<Rightarrow> if e = [] then ''none'' else e)),
      plain_sensor ''schema_version'' co_schema_version,
      \<lparr>sr_key = ''sync_activity'', sr_value = (\<lambda>s. VInt (int (fst (snd (co_sync_activity s))))),
       sr_attributes = Some (\<lambda>s. [(''events_debounced'', VInt (int (fst (co_sync_activity s)))),
         (''avg_batch_size'', VFloat (Fin (snd (snd (co_sync_activity s))))),
         (''last_batch_duration_ms'', opt_number (co_last_batch_ms s))]), sr_restore = None\<rparr>,
      \<lparr>sr_key = ''spatial_sync_duration'', sr_value = (\<lambda>s. opt_number (ms_to_seconds (co_spatial_duration_ms s))),
       sr_attributes = Some (\<lambda>s. [(''walls'', opt_whole (co_spatial_walls s)),
         (''pinned_on_floor'', opt_whole (co_spatial_pinned s))]), sr_restore = Some restore_spatial_sync\<rparr>,
      \<lparr>sr_key = ''mesh_scan_duration'', sr_value = (\<lambda>s. opt_number (ms_to_seconds (co_mesh_duration_ms s))),
       sr_attributes = Some (\<lambda>s. [(''links'', opt_whole (co_mesh_links s))]), sr_restore = Some restore_mesh_scan\<rparr>]"

text \<open>The state Home Assistant kept from before the restart.\<close>

record last_state =
  ls_state :: string
  ls_attributes :: dict

definition restored_duration :: "last_state \<Rightarrow> rat option" where
  "restored_duration l =
     (case py_float (ls_state l) of
        Some (Fin v) \<Rightarrow>
          (if dget (ls_attributes l) ''unit_of_measurement'' = VStr ''ms'' then Some (round1 v)
           else if dget (ls_attributes l) ''unit_of_measurement'' = VStr ''s'' then Some (round1 (v * 1000))
           else None)
      | _ \<Rightarrow> None)"

definition added_to_hass :: "sensor \<Rightarrow> last_state option \<Rightarrow> coord \<Rightarrow> coord" where
  "added_to_hass d last_known s =
     (case (sr_restore d, last_known) of
        (Some restore, Some l) \<Rightarrow>
          if sr_value d s \<noteq> VNone then s
          else (case restored_duration l of
              Some duration_ms \<Rightarrow> restore duration_ms (ls_attributes l) s
            | None \<Rightarrow> s)
      | _ \<Rightarrow> s)"

section \<open>Buttons\<close>

text \<open>What a button does to its coordinator.\<close>

definition button_operations :: "surroundings \<Rightarrow> (pval \<Rightarrow> string) \<Rightarrow> dict option \<Rightarrow> pval option \<Rightarrow> dict \<Rightarrow>
    (string \<times> unit cop) list" where
  "button_operations u str_of layout scan options =
     [(''rebuild'', async_rebuild (entry_surroundings u options)),
      (''validate'', execute_validate u),
      (''resync'', async_resync (entry_surroundings u options)),
      (BUTTON_KEY_SYNC_SPATIAL_LAYOUT, oseq (execute_sync_spatial_layout u str_of layout) (oret ())),
      (BUTTON_KEY_SCAN_ZIGBEE_MESH, oseq (execute_scan_zigbee_mesh (su_hass u) scan options) (oret ()))]"

definition button_keys :: "dict \<Rightarrow> string list" where
  "button_keys options =
     [''rebuild'', ''validate'', ''resync'', BUTTON_KEY_SYNC_SPATIAL_LAYOUT, BUTTON_KEY_SCAN_ZIGBEE_MESH] @
     (if truthy (option_or options CONF_MCP_ENABLED (VBool DEFAULT_MCP_ENABLED))
      then [BUTTON_KEY_REGENERATE_MCP_TOKEN] else [])"

section \<open>Diagnostics\<close>








section \<open>Nothing secret, nothing lost\<close>



lemma round1_of_int [simp]: "round1 (of_int n) = of_int n"
proof -
  have "of_int n * 10 = (of_int (n * 10) :: rat)" by simp
  then show ?thesis by (simp only: round1_def round_half_even_of_int)
qed

lemma seconds_round_trip: "round1 (the (ms_to_seconds (Some d)) * 1000) = of_int (round_half_even d)"
  by (simp add: ms_to_seconds_def)

lemma mesh_sensor:
  "SENSOR_DESCRIPTIONS ! 8 =
     \<lparr>sr_key = ''mesh_scan_duration'', sr_value = (\<lambda>s. opt_number (ms_to_seconds (co_mesh_duration_ms s))),
      sr_attributes = Some (\<lambda>s. [(''links'', opt_whole (co_mesh_links s))]), sr_restore = Some restore_mesh_scan\<rparr>"
  by (simp add: SENSOR_DESCRIPTIONS_def)

text \<open>
  A duration that was shown before a restart is put back: it differs from the measured one by at most half a
  millisecond, the counts that went with it come back exactly, and a newer value is never overwritten.
\<close>

theorem durations_survive_restart:
  assumes "co_mesh_duration_ms s = Some d" and "co_mesh_links s = Some n"
    and "py_float text = Some (Fin (the (ms_to_seconds (Some d))))"
  defines "l \<equiv> \<lparr>ls_state = text, ls_attributes = (''unit_of_measurement'', VStr ''s'') #
    the (sr_attributes (SENSOR_DESCRIPTIONS ! 8)) s\<rparr>"
  shows "\<exists>d'. co_mesh_duration_ms (added_to_hass (SENSOR_DESCRIPTIONS ! 8) (Some l) (new_coord g)) = Some d' \<and>
    \<bar>d' - d\<bar> \<le> 1 / 2 \<and> co_mesh_links (added_to_hass (SENSOR_DESCRIPTIONS ! 8) (Some l) (new_coord g)) = Some n \<and>
    added_to_hass (SENSOR_DESCRIPTIONS ! 8) (Some l) s = s"
proof -
  have "restored_duration l = Some (of_int (round_half_even d))"
    using assms(3) by (simp add: restored_duration_def l_def dget_def seconds_round_trip del: option.sel)
  moreover have "dget (ls_attributes l) ''links'' = VInt n"
    using assms(2) by (simp add: l_def mesh_sensor dget_def opt_whole_def)
  ultimately show ?thesis
    using assms(1) round_half_even_near [of d]
    by (simp add: added_to_hass_def mesh_sensor new_coord_def opt_number_def ms_to_seconds_def restore_mesh_scan_def
        as_int_def)
qed

theorem durations_survive_restart_witness:
  "\<exists>d'. co_mesh_duration_ms (added_to_hass (SENSOR_DESCRIPTIONS ! 8)
      (Some \<lparr>ls_state = ''2'', ls_attributes = (''unit_of_measurement'', VStr ''s'') # [(''links'', VInt 7)]\<rparr>)
      (new_coord empty_graph)) = Some d' \<and> \<bar>d' - 2000\<bar> \<le> 1 / 2"
proof -
  let ?s = "(new_coord empty_graph)\<lparr>co_mesh_duration_ms := Some 2000, co_mesh_links := Some 7\<rparr>"
  have "scan_number ''2'' = Some 2"
    by (simp add: scan_number_def scan_exponent_def is_digit_def digit_val_def power10_def)
  then have "py_float ''2'' = Some (Fin 2)"
    by (simp add: py_float_def scan_sign_def strip_def lower_def is_space_def to_lower_def round_float_def float_limit_def)
  moreover have "the (ms_to_seconds (Some 2000)) = 2"
    using round_half_even_of_int [of 2000, where 'a = rat] by (simp add: ms_to_seconds_def)
  ultimately show ?thesis
    using durations_survive_restart [of ?s 2000 7 "''2''" empty_graph]
    by (auto simp: mesh_sensor opt_whole_def)
qed

end
