(* ===== verification/Tool_Reads.thy ===== *)
theory Tool_Reads
  imports Services
begin

text \<open>
  The tools the services, the local endpoint and the Assist intents share only read: each keeps the graph and
  the audit log as they are, whatever the database answers.
\<close>

lemma keeps_clock [keeps_intros]: "keeps (undisturbed g l) utc_now"
  by (simp add: keeps_def undisturbed_def utc_now_def)

lemma keeps_search [keeps_intros]: "keeps (undisturbed g l) (search term limit)"
  unfolding search_def by (intro keeps_intros)

lemma keeps_automation_dependencies [keeps_intros]: "keeps (undisturbed g l) (automation_dependencies entity)"
  unfolding automation_dependencies_def by (intro keeps_intros)

lemma keeps_low_battery_areas [keeps_intros]: "keeps (undisturbed g l) (low_battery_areas threshold age limit)"
  unfolding low_battery_areas_def by (intro keeps_intros)

lemma keeps_active_consumers [keeps_intros]: "keeps (undisturbed g l) (active_consumers threshold age limit)"
  unfolding active_consumers_def by (intro keeps_intros)

lemma keeps_export_unaudited [keeps_intros]: "keeps (undisturbed g l) (export export_type target False)"
  unfolding export_def if_False by (intro keeps_intros keeps_export_document)

lemma keeps_unassigned [keeps_intros]: "keeps (undisturbed g l) (unassigned_area_items limit)"
  unfolding unassigned_area_items_def Let_def by (intro keeps_intros)

end
