(* ===== verification/Network_Access.thy ===== *)
theory Network_Access
  imports Const
begin

text \<open>
  Who may reach the local tool endpoint: \<open>_is_remote_allowed\<close> and \<open>_is_local_remote\<close> of \<open>mcp_server.py\<close> with the
  part of Python's \<open>ipaddress\<close> they use.  An address is its version and its number; \<open>None\<close> is a \<open>ValueError\<close>.
\<close>

section \<open>Addresses\<close>

datatype ip_address = IPv4 nat | IPv6 nat

fun digits_value :: "nat \<Rightarrow> string \<Rightarrow> nat" where
  "digits_value v [] = v"
| "digits_value v (c # cs) = digits_value (10 * v + (of_char c - 48)) cs"

definition all_digits :: "string \<Rightarrow> bool" where
  "all_digits s \<longleftrightarrow> s \<noteq> [] \<and> list_all is_digit s"

text \<open>\<open>_parse_octet\<close>: no leading zeros.\<close>

definition parse_octet :: "string \<Rightarrow> nat option" where
  "parse_octet s =
     (if \<not> all_digits s \<or> 3 < length s \<or> (s \<noteq> ''0'' \<and> hd s = CHR ''0'') \<or> 255 < digits_value 0 s then None
      else Some (digits_value 0 s))"

fun parse_octets :: "nat \<Rightarrow> string list \<Rightarrow> nat option" where
  "parse_octets v [] = Some v"
| "parse_octets v (s # ss) = (case parse_octet s of None \<Rightarrow> None | Some n \<Rightarrow> parse_octets (256 * v + n) ss)"

definition parse_ipv4 :: "string \<Rightarrow> nat option" where
  "parse_ipv4 s = (let octets = split_on CHR ''.'' s in if length octets \<noteq> 4 then None else parse_octets 0 octets)"

definition hex_value :: "char \<Rightarrow> nat option" where
  "hex_value c = (let n = of_char c; l = of_char (to_lower c) :: nat in
     if is_digit c then Some (n - 48) else if 97 \<le> l \<and> l \<le> 102 then Some (l - 87) else None)"

fun hex_digits :: "nat \<Rightarrow> string \<Rightarrow> nat option" where
  "hex_digits v [] = Some v"
| "hex_digits v (c # cs) = (case hex_value c of None \<Rightarrow> None | Some n \<Rightarrow> hex_digits (16 * v + n) cs)"

definition parse_hextet :: "string \<Rightarrow> nat option" where
  "parse_hextet s = (if s = [] \<or> 4 < length s then None else hex_digits 0 s)"

text \<open>A dotted tail gives the two last parts; they are numbers by then, not texts.\<close>

definition split_tail :: "string list \<Rightarrow> (string list \<times> nat list) option" where
  "split_tail parts =
     (if CHR ''.'' \<in> set (last parts)
      then map_option (\<lambda>n. (butlast parts, [n div 65536, n mod 65536])) (parse_ipv4 (last parts))
      else Some (parts, []))"

text \<open>
  The parts as the code sees them after the dotted tail was replaced: a text to be read as a hexadecimal
  number, or a number.
\<close>

definition hextet_parts :: "string list \<times> nat list \<Rightarrow> (string + nat) list" where
  "hextet_parts p = map Inl (fst p) @ map Inr (snd p)"

fun part_value :: "string + nat \<Rightarrow> nat option" where
  "part_value (Inl s) = parse_hextet s"
| "part_value (Inr n) = Some n"

fun parts_value :: "nat \<Rightarrow> (string + nat) list \<Rightarrow> nat option" where
  "parts_value v [] = Some v"
| "parts_value v (p # ps) = (case part_value p of None \<Rightarrow> None | Some n \<Rightarrow> parts_value (65536 * v + n) ps)"

text \<open>The indices of the empty parts that are neither the first nor the last.\<close>

definition skip_indices :: "(string + nat) list \<Rightarrow> nat list" where
  "skip_indices parts = filter (\<lambda>i. parts ! i = Inl []) [1..<length parts - 1]"

definition parse_parts :: "(string + nat) list \<Rightarrow> nat option" where
  "parse_parts parts =
     (case skip_indices parts of
        [] \<Rightarrow> if length parts \<noteq> 8 \<or> hd parts = Inl [] \<or> last parts = Inl [] then None else parts_value 0 parts
      | [skip_index] \<Rightarrow>
          (let parts_hi = (if hd parts = Inl [] then skip_index - 1 else skip_index);
               lo = length parts - skip_index - 1;
               parts_lo = (if last parts = Inl [] then lo - 1 else lo)
           in if (hd parts = Inl [] \<and> parts_hi \<noteq> 0) \<or> (last parts = Inl [] \<and> parts_lo \<noteq> 0) \<or> 7 < parts_hi + parts_lo
              then None
              else (case parts_value 0 (take parts_hi parts) of
                  None \<Rightarrow> None
                | Some v \<Rightarrow> parts_value (v * 65536 ^ (8 - (parts_hi + parts_lo))) (drop (length parts - parts_lo) parts)))
      | _ \<Rightarrow> None)"

definition ipv6_number :: "string \<Rightarrow> nat option" where
  "ipv6_number s =
     (let parts = split_on CHR '':'' s
      in if length parts < 3 then None
         else (case split_tail parts of
             None \<Rightarrow> None
           | Some p \<Rightarrow> if 9 < length (hextet_parts p) then None else parse_parts (hextet_parts p)))"

text \<open>\<open>_split_scope_id\<close>: the zone of an address is not part of its number.\<close>

definition parse_ipv6 :: "string \<Rightarrow> nat option" where
  "parse_ipv6 s =
     (case after CHR ''%'' s of
        None \<Rightarrow> ipv6_number s
      | Some zone \<Rightarrow> if zone = [] \<or> CHR ''%'' \<in> set zone then None else ipv6_number (before CHR ''%'' s))"

definition parse_address :: "string \<Rightarrow> ip_address option" where
  "parse_address s =
     (if CHR ''/'' \<in> set s then None
      else case parse_ipv4 s of Some n \<Rightarrow> Some (IPv4 n) | None \<Rightarrow> map_option IPv6 (parse_ipv6 s))"

section \<open>Networks\<close>

text \<open>A network is an address and the number of its leading bits.\<close>

definition parse_prefix :: "nat \<Rightarrow> string \<Rightarrow> nat option" where
  "parse_prefix max_prefix s =
     (if all_digits s \<and> digits_value 0 s \<le> max_prefix then Some (digits_value 0 s) else None)"

text \<open>\<open>_prefix_from_ip_int\<close>: ones followed by zeros.\<close>

definition prefix_from_mask :: "nat \<Rightarrow> nat option" where
  "prefix_from_mask bits = List.find (\<lambda>p. bits = 2 ^ 32 - 2 ^ (32 - p)) [0..<33]"

text \<open>\<open>_prefix_from_ip_string\<close>: a net mask, or else a host mask.\<close>

definition parse_mask :: "string \<Rightarrow> nat option" where
  "parse_mask s =
     (case parse_ipv4 s of
        None \<Rightarrow> None
      | Some bits \<Rightarrow>
          (case prefix_from_mask bits of Some p \<Rightarrow> Some p | None \<Rightarrow> prefix_from_mask (2 ^ 32 - 1 - bits)))"

definition parse_network :: "string \<Rightarrow> (ip_address \<times> nat) option" where
  "parse_network s =
     (case split_on CHR ''/'' s of
        [a] \<Rightarrow> (case parse_address a of None \<Rightarrow> None | Some (IPv4 n) \<Rightarrow> Some (IPv4 n, 32) | Some (IPv6 n) \<Rightarrow> Some (IPv6 n, 128))
      | [a, m] \<Rightarrow>
          (case parse_address a of
             None \<Rightarrow> None
           | Some (IPv4 n) \<Rightarrow>
               map_option (Pair (IPv4 n)) (case parse_prefix 32 m of Some p \<Rightarrow> Some p | None \<Rightarrow> parse_mask m)
           | Some (IPv6 n) \<Rightarrow> map_option (Pair (IPv6 n)) (parse_prefix 128 m))
      | _ \<Rightarrow> None)"

text \<open>\<open>address in network\<close>: the leading bits agree.\<close>

fun in_network :: "ip_address \<Rightarrow> ip_address \<times> nat \<Rightarrow> bool" where
  "in_network (IPv4 a) (IPv4 n, p) = (a div 2 ^ (32 - p) = n div 2 ^ (32 - p))"
| "in_network (IPv6 a) (IPv6 n, p) = (a div 2 ^ (128 - p) = n div 2 ^ (128 - p))"
| "in_network _ _ = False"

section \<open>Admission\<close>

fun all_parsed :: "'a option list \<Rightarrow> 'a list option" where
  "all_parsed [] = Some []"
| "all_parsed (x # xs) = (case x of None \<Rightarrow> None | Some y \<Rightarrow> map_option ((#) y) (all_parsed xs))"

definition configured_networks :: "string \<Rightarrow> (ip_address \<times> nat) list option" where
  "configured_networks text = all_parsed (map (\<lambda>v. parse_network (strip v))
     (filter (\<lambda>v. strip v \<noteq> []) (split_on CHR '','' text)))"

definition is_remote_allowed :: "string option \<Rightarrow> string \<Rightarrow> bool" where
  "is_remote_allowed remote networks =
     (case remote of
        None \<Rightarrow> False
      | Some r \<Rightarrow>
          if r = [] then False
          else (case parse_address r of
              None \<Rightarrow> False
            | Some address \<Rightarrow>
                (case configured_networks networks of None \<Rightarrow> False | Some ns \<Rightarrow> list_ex (in_network address) ns)))"

definition LOCAL_NETWORKS :: "(ip_address \<times> nat) list" where
  "LOCAL_NETWORKS = map (the \<circ> parse_network)
     [''127.0.0.0/8'', ''::1/128'', ''10.0.0.0/8'', ''172.16.0.0/12'', ''192.168.0.0/16'', ''fc00::/7'']"

definition is_local_remote :: "string option \<Rightarrow> bool" where
  "is_local_remote remote =
     (case remote of
        None \<Rightarrow> False
      | Some r \<Rightarrow> r \<noteq> [] \<and>
          (case parse_address r of None \<Rightarrow> False | Some address \<Rightarrow> list_ex (in_network address) LOCAL_NETWORKS))"

section \<open>What the default admits\<close>

definition dotted :: "nat list \<Rightarrow> string" where
  "dotted octets = join ''.'' (map str_of_nat octets)"

lemma split_on_notin: "d \<notin> set s \<Longrightarrow> split_on d s = [s]"
  by (induction s) auto

lemma split_on_Cons: "d \<notin> set s \<Longrightarrow> split_on d (s @ d # r) = s # split_on d r"
  by (induction s) auto

lemma small_texts:
  "n < 10 \<Longrightarrow> str_of_nat n = [char_of (48 + n)]"
  "10 \<le> n \<Longrightarrow> n < 100 \<Longrightarrow> str_of_nat n = [char_of (48 + n div 10), char_of (48 + n mod 10)]"
  "100 \<le> n \<Longrightarrow> n < 1000 \<Longrightarrow>
    str_of_nat n = [char_of (48 + n div 100), char_of (48 + n div 10 mod 10), char_of (48 + n mod 10)]"
proof -
  show one: "str_of_nat n = [char_of (48 + n)]" if "n < 10" for n
    using that by (simp add: str_of_nat_def nat_digits.simps [of n])
  have step: "str_of_nat n = str_of_nat (n div 10) @ [char_of (48 + n mod 10)]" if "10 \<le> n" for n
    using that by (simp add: str_of_nat_def nat_digits.simps [of n])
  show two: "str_of_nat n = [char_of (48 + n div 10), char_of (48 + n mod 10)]" if "10 \<le> n" "n < 100" for n
  proof -
    have "n div 10 < 10" using that by linarith
    then show ?thesis using step [OF that(1)] one [of "n div 10"] by simp
  qed
  show "str_of_nat n = [char_of (48 + n div 100), char_of (48 + n div 10 mod 10), char_of (48 + n mod 10)]"
    if "100 \<le> n" "n < 1000"
  proof -
    have "10 \<le> n div 10" "n div 10 < 100" "10 \<le> n" using that by linarith+
    then show ?thesis using step [of n] two [of "n div 10"] by (simp add: div_mult2_eq [symmetric])
  qed
qed

lemma digit_char:
  assumes "k < 10"
  shows "of_char (char_of (48 + k :: nat)) = 48 + k" "is_digit (char_of (48 + k))"
    "char_of (48 + k) \<noteq> CHR ''.''" "char_of (48 + k) \<noteq> CHR ''/''" "char_of (48 + k) = CHR ''0'' \<longleftrightarrow> k = 0"
proof -
  show o: "of_char (char_of (48 + k :: nat)) = 48 + k" using assms by simp
  then show "is_digit (char_of (48 + k))" using assms by (simp add: is_digit_def)
  have eq: "char_of (48 + k) = c \<longleftrightarrow> 48 + k = of_char c" for c :: char
    using o by (metis char_of_char)
  show "char_of (48 + k) \<noteq> CHR ''.''" "char_of (48 + k) \<noteq> CHR ''/''" "char_of (48 + k) = CHR ''0'' \<longleftrightarrow> k = 0"
    by (simp_all add: eq)
qed

lemma octet_text:
  assumes "n < 256"
  shows "parse_octet (str_of_nat n) = Some n" "CHR ''.'' \<notin> set (str_of_nat n)" "CHR ''/'' \<notin> set (str_of_nat n)"
proof -
  consider "n < 10" | "10 \<le> n" "n < 100" | "100 \<le> n" by linarith
  then have "parse_octet (str_of_nat n) = Some n \<and> CHR ''.'' \<notin> set (str_of_nat n) \<and> CHR ''/'' \<notin> set (str_of_nat n)"
  proof cases
    case 1
    then show ?thesis using digit_char [of n] by (auto simp: small_texts parse_octet_def all_digits_def)
  next
    case 2
    then have d: "n div 10 < 10" "n mod 10 < 10" "n div 10 \<noteq> 0" by auto
    then show ?thesis using 2 digit_char [OF d(1)] digit_char [OF d(2)]
      by (auto simp: small_texts parse_octet_def all_digits_def)
  next
    case 3
    have d: "n div 100 < 10" "n div 10 mod 10 < 10" "n mod 10 < 10" "n div 100 \<noteq> 0" using 3 assms by auto
    have "n = 10 * (10 * (n div 100) + n div 10 mod 10) + n mod 10"
      using div_mult_mod_eq [of n 10] div_mult_mod_eq [of "n div 10" 10] div_mult2_eq [of n 10 10] by simp
    then show ?thesis using 3 assms d digit_char [OF d(1)] digit_char [OF d(2)] digit_char [OF d(3)]
      by (auto simp: small_texts parse_octet_def all_digits_def)
  qed
  then show "parse_octet (str_of_nat n) = Some n" "CHR ''.'' \<notin> set (str_of_nat n)" "CHR ''/'' \<notin> set (str_of_nat n)" by blast+
qed

lemma parse_dotted:
  assumes "list_all (\<lambda>n. n < 256) [a, b, c, d]"
  shows "parse_address (dotted [a, b, c, d]) = Some (IPv4 (((a * 256 + b) * 256 + c) * 256 + d))"
proof -
  have "split_on CHR ''.'' (dotted [a, b, c, d]) = map str_of_nat [a, b, c, d]"
    using assms octet_text by (simp add: dotted_def join_def split_on_Cons split_on_notin)
  moreover have "CHR ''/'' \<notin> set (dotted [a, b, c, d])"
    using assms octet_text by (auto simp: dotted_def join_def)
  ultimately show ?thesis
    using assms octet_text by (simp add: parse_address_def parse_ipv4_def algebra_simps)
qed

lemma default_networks:
  "configured_networks DEFAULT_MCP_ALLOWED_NETWORKS = Some [(IPv4 (127 * 2 ^ 24), 8), (IPv6 1, 128)]"
proof -
  have "strip '' ::1/128'' = ''::1/128''" "strip ''127.0.0.0/8'' = ''127.0.0.0/8''" by (simp_all add: strip_def is_space_def)
  moreover have "split_on CHR '','' DEFAULT_MCP_ALLOWED_NETWORKS = [''127.0.0.0/8'', '' ::1/128'']"
    by (simp add: DEFAULT_MCP_ALLOWED_NETWORKS_def)
  moreover have "parse_address ''127.0.0.0'' = Some (IPv4 (127 * 2 ^ 24))"
    by (simp add: parse_address_def parse_ipv4_def parse_octet_def all_digits_def is_digit_def)
  moreover have "parse_ipv4 ''::1'' = None" by (simp add: parse_ipv4_def)
  moreover have "parse_ipv6 ''::1'' = Some 1"
    by (simp add: parse_ipv6_def after_def ipv6_number_def split_tail_def hextet_parts_def parse_parts_def skip_indices_def
        parse_hextet_def hex_value_def is_digit_def)
  ultimately show ?thesis
    by (simp add: configured_networks_def parse_network_def parse_address_def parse_prefix_def all_digits_def is_digit_def)
qed

text \<open>
  C34. The allow list an entry starts with admits exactly the loopback addresses: of the dotted addresses those
  that begin with 127, of the IPv6 addresses the one.  An entry of a list that is no network closes the
  endpoint for everybody, whatever else the list says.
\<close>

theorem default_admits_loopback:
  assumes "list_all (\<lambda>n. n < 256) [a, b, c, d]"
  shows "(is_remote_allowed (Some (dotted [a, b, c, d])) DEFAULT_MCP_ALLOWED_NETWORKS \<longleftrightarrow> a = 127) \<and>
    (is_remote_allowed (Some r) DEFAULT_MCP_ALLOWED_NETWORKS \<longleftrightarrow>
       (case parse_address r of Some (IPv4 n) \<Rightarrow> n div 2 ^ 24 = 127 | Some (IPv6 n) \<Rightarrow> n = 1 | None \<Rightarrow> False)) \<and>
    \<not> (parse_network (strip v) = None \<and> strip v \<noteq> [] \<and> v \<in> set (split_on CHR '','' networks) \<and>
       is_remote_allowed remote networks)"
proof -
  have spec: "is_remote_allowed (Some r) DEFAULT_MCP_ALLOWED_NETWORKS \<longleftrightarrow>
      (case parse_address r of Some (IPv4 n) \<Rightarrow> n div 2 ^ 24 = 127 | Some (IPv6 n) \<Rightarrow> n = 1 | None \<Rightarrow> False)" for r
  proof -
    have "parse_address [] = None"
      by (simp add: parse_address_def parse_ipv4_def parse_ipv6_def after_def ipv6_number_def)
    then show ?thesis
      by (cases "r = []") (auto simp: is_remote_allowed_def default_networks split: option.splits ip_address.splits)
  qed
  have "(((a * 256 + b) * 256 + c) * 256 + d) div 2 ^ 24 = a"
  proof -
    have step: "(x * 256 + y) div 256 = x" if "y < 256" for x y :: nat using that by simp
    have "b < 256" "c < 256" "d < 256" using assms by simp_all
    then have "(((a * 256 + b) * 256 + c) * 256 + d) div 256 div 256 div 256 = a" by (simp only: step)
    then show ?thesis by (simp add: div_mult2_eq [symmetric])
  qed
  moreover have "\<not> (parse_network (strip v) = None \<and> strip v \<noteq> [] \<and> v \<in> set (split_on CHR '','' networks) \<and>
       is_remote_allowed remote networks)"
  proof -
    have none: "all_parsed xs = None" if "None \<in> set xs" for xs :: "(ip_address \<times> nat) option list"
      using that by (induction xs) (auto split: option.splits)
    have "configured_networks networks = None"
      if "parse_network (strip v) = None" "strip v \<noteq> []" "v \<in> set (split_on CHR '','' networks)"
      unfolding configured_networks_def using that by (intro none) force
    moreover have "configured_networks networks = None \<Longrightarrow> \<not> is_remote_allowed remote networks"
      by (auto simp: is_remote_allowed_def split: option.splits)
    ultimately show ?thesis by blast
  qed
  ultimately show ?thesis
    using spec [of "dotted [a, b, c, d]"] spec [of r] parse_dotted [OF assms] by simp
qed

theorem default_admits_loopback_witness:
  "is_remote_allowed (Some (dotted [127, 0, 0, 1])) DEFAULT_MCP_ALLOWED_NETWORKS \<and>
   \<not> is_remote_allowed (Some (dotted [192, 168, 0, 9])) DEFAULT_MCP_ALLOWED_NETWORKS"
  using default_admits_loopback [of 127 0 0 1 "[]" "[]" "[]" None] default_admits_loopback [of 192 168 0 9 "[]" "[]" "[]" None]
  by (simp del: One_nat_def)

end
