(* ===== verification/Mcp_Server.thy ===== *)
theory Mcp_Server
  imports Tool_Reads Network_Access
begin

text \<open>
  The local tool endpoint of \<open>mcp_server.py\<close>: the stored access token, the checks of \<open>post\<close> in their order, the
  methods and the tools.  The arguments of a tool have the types its input schema declares; what \<open>repr\<close> and
  \<open>json.dumps\<close> make of a value, and what the server makes of a query text with its parameters, are parameters.
\<close>

section \<open>The access token\<close>

record mcp = audited +
  mc_token_store :: "dict option"

type_synonym ('z, 'a) mop = "('z mcp_scheme, 'a) op"

definition token_of :: "dict option \<Rightarrow> string option" where
  "token_of data = (case data of None \<Rightarrow> None | Some d \<Rightarrow> optional_text_arg d ''token'')"

definition store_token :: "string \<Rightarrow> string \<Rightarrow> ('z, unit) mop" where
  "store_token entry_id token =
     obind utc_now (\<lambda>now. omodify (\<lambda>s. s\<lparr>mc_token_store :=
       Some [(''entry_id'', VStr entry_id), (''token'', VStr token), (''created_at'', VTime now)]\<rparr>))"

text \<open>\<open>token\<close> is what \<open>secrets.token_urlsafe\<close> gives.\<close>

definition get_or_create_token :: "string \<Rightarrow> string \<Rightarrow> ('z, string \<times> bool) mop" where
  "get_or_create_token entry_id token =
     obind (oget mc_token_store) (\<lambda>data.
       if present (token_of data) then oret (the (token_of data), False)
       else oseq (store_token entry_id token) (oret (token, True)))"

definition regenerate_token :: "string \<Rightarrow> string \<Rightarrow> ('z, string) mop" where
  "regenerate_token entry_id token = oseq (store_token entry_id token) (oret token)"

definition get_token :: "('z, string option) mop" where
  "get_token = oget (\<lambda>s. token_of (mc_token_store s))"

section \<open>Requests and replies\<close>

text \<open>The body is \<open>None\<close> when it is no JSON.\<close>

record mcp_request =
  mq_remote :: "string option"
  mq_authorization :: string
  mq_body :: "pval option"

datatype mcp_reply = Reply nat pval

definition jsonrpc_result :: "pval \<Rightarrow> pval \<Rightarrow> pval" where
  "jsonrpc_result request_id result = VDict [(''jsonrpc'', VStr ''2.0''), (''id'', request_id), (''result'', result)]"

definition jsonrpc_error :: "pval \<Rightarrow> int \<Rightarrow> string \<Rightarrow> pval" where
  "jsonrpc_error request_id code message =
     VDict [(''jsonrpc'', VStr ''2.0''), (''id'', request_id),
       (''error'', VDict [(''code'', VInt code), (''message'', VStr message)])]"

definition initialize_result :: pval where
  "initialize_result =
     VDict [(''protocolVersion'', VStr ''2024-11-05''), (''capabilities'', VDict [(''tools'', VDict [])]),
       (''serverInfo'', VDict [(''name'', VStr ''hass-ontology''), (''version'', VStr ''3'')])]"

definition typed :: "string \<Rightarrow> dict" where
  "typed t = [(''type'', VStr t)]"

definition choice :: "string list \<Rightarrow> dict" where
  "choice values = [(''type'', VStr ''string''), (''enum'', VList (map VStr values))]"

definition object_schema :: "(string \<times> dict) list \<Rightarrow> string list \<Rightarrow> dict" where
  "object_schema properties required =
     [(''type'', VStr ''object''), (''properties'', VDict (map (\<lambda>(k, d). (k, VDict d)) properties))] @
     (if required = [] then [] else [(''required'', VList (map VStr required))])"

definition TOOL_INPUT_SCHEMAS :: "(string \<times> dict) list" where
  "TOOL_INPUT_SCHEMAS =
     [(''search'', object_schema [(''term'', typed ''string''), (''limit'', typed ''integer'')] [''term'']),
      (''entity_context'', object_schema [(''entity'', typed ''string'')] [''entity'']),
      (''area_context'', object_schema [(''area'', typed ''string'')] [''area'']),
      (''device_context'', object_schema [(''device'', typed ''string'')] [''device'']),
      (''automation_dependencies'', object_schema [(''entity'', typed ''string'')] [''entity'']),
      (''impact_analysis'', object_schema [(''target_type'', choice IMPACT_SCOPES), (''target'', typed ''string'')]
         [''target_type'', ''target'']),
      (''query'', object_schema [(''cypher'', typed ''string''), (''parameters'', typed ''object''),
         (''limit'', typed ''integer'')] [''cypher'']),
      (''export_context'', object_schema [(''export_type'', choice EXPORT_TYPES), (''target'', typed ''string'')]
         [''export_type'']),
      (''low_battery_areas'', object_schema
         [(''threshold_percentage'', typed ''number'' @ [(''minimum'', VInt 1), (''maximum'', VInt 100)]),
          (''max_age_hours'', typed ''number'' @ [(''exclusiveMinimum'', VInt 0)]),
          (''limit'', typed ''integer'' @ [(''minimum'', VInt 1)])] []),
      (''active_consumers'', object_schema
         [(''threshold_watts'', typed ''number'' @ [(''minimum'', VInt 0)]),
          (''max_age_hours'', typed ''number'' @ [(''exclusiveMinimum'', VInt 0)]),
          (''limit'', typed ''integer'' @ [(''minimum'', VInt 1)])] [])]"

definition tools_list_result :: pval where
  "tools_list_result = VDict [(''tools'', VList (map (\<lambda>name.
     VDict [(''name'', VStr name), (''inputSchema'', VDict (the (map_of TOOL_INPUT_SCHEMAS name)))]) MCP_TOOL_NAMES))]"

section \<open>The log\<close>

definition client_id :: "mcp_request \<Rightarrow> string" where
  "client_id rq = (if present (mq_remote rq) then the (mq_remote rq) else ''unknown'')"

definition mcp_audit :: "string \<Rightarrow> pval \<Rightarrow> mcp_request \<Rightarrow> string \<Rightarrow> pval \<Rightarrow> pval \<Rightarrow> dict \<Rightarrow> ('z, unit) mop" where
  "mcp_audit event tool rq status result_count error_category more_fields =
     obind utc_now (\<lambda>now. async_append_record
       ([(''event'', VStr event), (''tool'', tool), (''client_id'', VStr (client_id rq)), (''status'', VStr status),
         (''result_count'', result_count), (''error_category'', error_category)] @ more_fields @ [(''timestamp'', VTime now)]))"

section \<open>The tools\<close>

definition optional_number :: "dict \<Rightarrow> string \<Rightarrow> rat \<Rightarrow> rat" where
  "optional_number arguments key default_value =
     (if dget arguments key = VNone then default_value else rat_of (dget arguments key))"

text \<open>Every tool but the query; \<open>None\<close> is an unknown one.\<close>

definition tool_named :: "string \<Rightarrow> (dict \<Rightarrow> ('z, dict) aop) option" where
  "tool_named name =
     (if name = ''search'' then Some (\<lambda>a. search (text_arg a ''term'') (optional_int_arg a ''limit''))
      else if name = ''area_context'' then Some (\<lambda>a. area_context (text_arg a ''area''))
      else if name = ''device_context'' then Some (\<lambda>a. device_context (text_arg a ''device''))
      else if name = ''entity_context'' then Some (\<lambda>a. entity_context (text_arg a ''entity''))
      else if name = ''automation_dependencies'' then Some (\<lambda>a. automation_dependencies (text_arg a ''entity''))
      else if name = ''impact_analysis''
      then Some (\<lambda>a. analyze (text_arg a ''target_type'') (text_arg a ''target'') False)
      else if name = ''low_battery_areas''
      then Some (\<lambda>a. low_battery_areas (optional_number a ''threshold_percentage'' 20) (optional_number a ''max_age_hours'' 24)
        (optional_int_arg a ''limit''))
      else if name = ''active_consumers''
      then Some (\<lambda>a. active_consumers (optional_number a ''threshold_watts'' 1) (optional_number a ''max_age_hours'' 24)
        (optional_int_arg a ''limit''))
      else if name = ''export_context''
      then Some (\<lambda>a. export (text_arg a ''export_type'') (optional_text_arg a ''target'') False)
      else None)"

definition as_mapping :: "pval \<Rightarrow> exn + dict" where
  "as_mapping v = (if \<not> truthy v then Inr [] else case v of VDict d \<Rightarrow> Inr d
     | _ \<Rightarrow> Inl (AttributeError ''object has no attribute get''))"

definition answer_value :: "pval query_answer \<Rightarrow> pval" where
  "answer_value a = VDict [(''rows'', VList (qa_rows a)), (''truncated'', VBool (qa_truncated a)),
     (''row_count'', VInt (int (qa_row_count a)))]"

text \<open>The query: a rejection is recorded and answered; any other exception leaves the handler.\<close>

definition call_query ::
  "(pval \<Rightarrow> string \<Rightarrow> pval list stmt) \<Rightarrow> mcp_request \<Rightarrow> pval \<Rightarrow> dict \<Rightarrow> ('z, mcp_reply + dict) mop" where
  "call_query server rq request_id a =
     (let cypher = text_arg a ''cypher''
      in otry (obind (execute_query (server (dget a ''parameters'')) cypher (optional_int_arg a ''limit''))
            (\<lambda>r. oret (Inr (build_tool_result cypher RESULT_TYPE_QUERY (answer_value r) [] OUTCOME_OK))))
          (\<lambda>err. if query_rejected err
             then oseq (mcp_audit AUDIT_EVENT_MCP_WRITE_REJECTED (VStr ''query'') rq ''rejected'' VNone
                    (VStr ''write_intent_detected'') [(''rejected_operation'', opt_str (find_denylisted_keyword cypher))])
                  (oret (Inl (Reply 400 (jsonrpc_error request_id (-32000) (exn_message err)))))
             else oraise err))"

text \<open>The other tools: every exception is recorded and answered.\<close>

definition call_named ::
  "(pval \<Rightarrow> string) \<Rightarrow> mcp_request \<Rightarrow> pval \<Rightarrow> pval \<Rightarrow> pval \<Rightarrow> ('z, mcp_reply + dict) mop" where
  "call_named repr rq request_id name arguments =
     otry (case (case name of VStr n \<Rightarrow> tool_named n | _ \<Rightarrow> None) of
         None \<Rightarrow> oseq (mcp_audit AUDIT_EVENT_MCP_TOOL_CALL name rq ''rejected'' VNone (VStr ''unknown_tool'') [])
             (oret (Inl (Reply 400 (jsonrpc_error request_id (-32601) (''Unknown tool '' @ repr name)))))
       | Some f \<Rightarrow> obind (from_sum (as_mapping arguments)) (\<lambda>a. obind (f a) (\<lambda>r. oret (Inr r))))
      (\<lambda>err. oseq (mcp_audit AUDIT_EVENT_MCP_TOOL_CALL name rq ''error'' (VInt 0) (VStr (error_class err)) [])
         (oret (Inl (Reply 500 (jsonrpc_error request_id (-32603) ''Internal error'')))))"

definition handle_tools_call ::
  "(pval \<Rightarrow> string) \<Rightarrow> (pval \<Rightarrow> string) \<Rightarrow> (pval \<Rightarrow> string \<Rightarrow> pval list stmt) \<Rightarrow> mcp_request \<Rightarrow> pval \<Rightarrow> dict \<Rightarrow> ('z, mcp_reply) mop" where
  "handle_tools_call repr dumps server rq request_id params =
     (let name = dget params ''name'' in
      obind (if name = VStr ''query'' then obind (from_sum (as_mapping (dget params ''arguments''))) (call_query server rq request_id)
             else call_named repr rq request_id name (dget params ''arguments''))
        (\<lambda>r. case r of
           Inl reply \<Rightarrow> oret reply
         | Inr tool_result \<Rightarrow>
             oseq (mcp_audit AUDIT_EVENT_MCP_TOOL_CALL name rq
                 (if dget tool_result ''result_type'' = VStr ''not_found'' then ''not_found'' else ''ok'')
                 (VInt (int (count_results (dget tool_result ''result'')))) VNone [])
               (oret (Reply 200 (jsonrpc_result request_id (VDict [(''content'',
                  VList [VDict [(''type'', VStr ''text''), (''text'', VStr (dumps (VDict tool_result)))]])]))))))"

section \<open>The endpoint\<close>

text \<open>\<open>secrets.compare_digest\<close> refuses texts that are not ASCII.\<close>

definition ascii_text :: "string \<Rightarrow> bool" where
  "ascii_text s = list_all (\<lambda>c. (of_char c :: nat) < 128) s"

definition compare_digest :: "string \<Rightarrow> string \<Rightarrow> exn + bool" where
  "compare_digest a b =
     (if ascii_text a \<and> ascii_text b then Inr (a = b)
      else Inl (TypeError ''comparing strings with non-ASCII characters is not supported''))"

definition supplied_token :: "string \<Rightarrow> string option" where
  "supplied_token auth_header = (if starts_with ''Bearer '' auth_header then Some (drop 7 auth_header) else None)"

definition token_valid :: "string option \<Rightarrow> string option \<Rightarrow> exn + bool" where
  "token_valid token supplied =
     (if present token \<and> present supplied then compare_digest (the supplied) (the token) else Inr False)"

definition rejected_reply :: "mcp_request \<Rightarrow> string \<Rightarrow> nat \<Rightarrow> string \<Rightarrow> ('z, mcp_reply) mop" where
  "rejected_reply rq category status message =
     oseq (mcp_audit AUDIT_EVENT_MCP_AUTH_REJECTED VNone rq ''rejected'' VNone (VStr category) [])
       (oret (Reply status (VDict [(''error'', VStr message)])))"

definition handle_method ::
  "(pval \<Rightarrow> string) \<Rightarrow> (pval \<Rightarrow> string) \<Rightarrow> (pval \<Rightarrow> string \<Rightarrow> pval list stmt) \<Rightarrow> mcp_request \<Rightarrow> dict \<Rightarrow> ('z, mcp_reply) mop" where
  "handle_method repr dumps server rq payload =
     (let called = dget payload ''method''; request_id = dget payload ''id''
      in if called = VStr ''initialize'' then oret (Reply 200 (jsonrpc_result request_id initialize_result))
         else if called = VStr ''tools/list'' then oret (Reply 200 (jsonrpc_result request_id tools_list_result))
         else if called = VStr ''tools/call''
         then obind (from_sum (as_mapping (dget payload ''params''))) (handle_tools_call repr dumps server rq request_id)
         else oseq (mcp_audit AUDIT_EVENT_MCP_TOOL_CALL VNone rq ''rejected'' VNone (VStr ''unknown_method'') [])
           (oret (Reply 400 (jsonrpc_error request_id (-32601) (''Unknown method '' @ repr called)))))"

definition allowed_networks :: "dict \<Rightarrow> string" where
  "allowed_networks options =
     (case option_or options CONF_MCP_ALLOWED_NETWORKS (VStr DEFAULT_MCP_ALLOWED_NETWORKS) of VStr s \<Rightarrow> s | _ \<Rightarrow> [])"

definition mcp_enabled :: "dict \<Rightarrow> bool" where
  "mcp_enabled options \<longleftrightarrow> truthy (option_or options CONF_MCP_ENABLED (VBool DEFAULT_MCP_ENABLED))"

definition mcp_post ::
  "(pval \<Rightarrow> string) \<Rightarrow> (pval \<Rightarrow> string) \<Rightarrow> (pval \<Rightarrow> string \<Rightarrow> pval list stmt) \<Rightarrow> dict \<Rightarrow> mcp_request \<Rightarrow> ('z, mcp_reply) mop" where
  "mcp_post repr dumps server options rq =
     (if \<not> mcp_enabled options then oret (Reply 404 (VDict [(''error'', VStr ''Not Found'')]))
      else if \<not> is_remote_allowed (mq_remote rq) (allowed_networks options)
      then rejected_reply rq ''network_not_allowed'' 403 ''Forbidden: not a local request''
      else obind get_token (\<lambda>token.
           obind (from_sum (token_valid token (supplied_token (mq_authorization rq)))) (\<lambda>valid.
             if \<not> valid then rejected_reply rq ''invalid_token'' 401 ''Unauthorized''
             else (case mq_body rq of
                 None \<Rightarrow> oseq (mcp_audit AUDIT_EVENT_MCP_TOOL_CALL VNone rq ''error'' VNone (VStr ''parse_error'') [])
                     (oret (Reply 400 (jsonrpc_error VNone (-32700) ''Parse error'')))
               | Some (VDict payload) \<Rightarrow> handle_method repr dumps server rq payload
               | Some _ \<Rightarrow> oraise (AttributeError ''object has no attribute get'')))))"

section \<open>Nothing without admission\<close>

text \<open>Enabled, from an allowed network, with the stored token.\<close>

definition admitted :: "dict \<Rightarrow> mcp_request \<Rightarrow> string option \<Rightarrow> bool" where
  "admitted options rq token \<longleftrightarrow> mcp_enabled options \<and> is_remote_allowed (mq_remote rq) (allowed_networks options) \<and>
     present token \<and> mq_authorization rq = ''Bearer '' @ the token"

text \<open>What may change is the log and the clock.\<close>

definition only_logged :: "'z mcp_scheme \<Rightarrow> 'z mcp_scheme \<Rightarrow> bool" where
  "only_logged s t \<longleftrightarrow> w_graph t = w_graph s \<and> w_net t = w_net s \<and> w_open t = w_open s \<and> mc_token_store t = mc_token_store s"

lemma append_record_logged [simp]:
  "w_graph (snd (async_append_record r s)) = w_graph s" "w_net (snd (async_append_record r s)) = w_net s"
  "w_open (snd (async_append_record r s)) = w_open s" "mc_token_store (snd (async_append_record r s)) = mc_token_store s"
  by (simp_all add: async_append_record_def load_records_def save_records_def utc_now_def op_defs from_sum_def
      split: sum.splits prod.splits)

lemma mcp_audit_logged: "only_logged s (snd (mcp_audit event tool rq status n category more_fields s))"
  by (simp add: mcp_audit_def utc_now_def obind_def only_logged_def)

lemma rejected_reply_cases:
  fixes s :: "'z mcp_scheme"
  obtains (reply) v t where "rejected_reply rq category status message s = (Inr (Reply status v), t)" "only_logged s t"
  | (failed) e t where "rejected_reply rq category status message s = (Inl e, t)" "only_logged s t"
proof -
  let ?a = "mcp_audit AUDIT_EVENT_MCP_AUTH_REJECTED VNone rq ''rejected'' VNone (VStr category) []"
  obtain x t where m: "?a s = (x, t)" by (cases "?a s") auto
  have l: "only_logged s t" using mcp_audit_logged [of s AUDIT_EVENT_MCP_AUTH_REJECTED VNone rq "''rejected''" VNone "VStr category" "[]"] m
    by simp
  show ?thesis
    by (cases x) (use m l reply failed in \<open>simp_all add: rejected_reply_def oseq_apply oret_def\<close>)
qed

lemma supplied_token_some: "supplied_token h = Some x \<longleftrightarrow> h = ''Bearer '' @ x"
  by (auto simp: supplied_token_def starts_with_iff)

lemma token_valid_admits:
  "token_valid token (supplied_token h) = Inr True \<Longrightarrow> present token \<and> h = ''Bearer '' @ the token"
  by (cases "supplied_token h") (auto simp: token_valid_def compare_digest_def supplied_token_some split: if_splits)

text \<open>
  C32. A request that is not enabled, not from an allowed network or without the stored token reaches nothing: it is
  refused, no query runs, no connection is opened and the token stays what it was; only the log of the
  endpoint grows.
\<close>

theorem endpoint_guarded:
  "case mcp_post repr dumps server options rq s of (r, t) \<Rightarrow>
     admitted options rq (token_of (mc_token_store s)) \<or>
     (only_logged s t \<and> (case r of Inl e \<Rightarrow> True | Inr (Reply status v) \<Rightarrow> status \<in> {401, 403, 404}))"
proof (cases "mcp_enabled options \<and> is_remote_allowed (mq_remote rq) (allowed_networks options)")
  case False
  show ?thesis
  proof (cases "mcp_enabled options")
    case True
    then have "mcp_post repr dumps server options rq s =
        rejected_reply rq ''network_not_allowed'' 403 ''Forbidden: not a local request'' s"
      using False by (simp add: mcp_post_def)
    then show ?thesis
      by (cases rule: rejected_reply_cases [of rq "''network_not_allowed''" 403 "''Forbidden: not a local request''" s]) auto
  qed (simp add: mcp_post_def oret_def only_logged_def)
next
  case True
  let ?v = "token_valid (token_of (mc_token_store s)) (supplied_token (mq_authorization rq))"
  consider e where "?v = Inl e" | "?v = Inr False" | "?v = Inr True" by (cases ?v) auto
  then show ?thesis
  proof cases
    case 1
    then show ?thesis
      using True by (simp add: mcp_post_def get_token_def obind_def oget_def from_sum_def oraise_def only_logged_def)
  next
    case 2
    then have "mcp_post repr dumps server options rq s = rejected_reply rq ''invalid_token'' 401 ''Unauthorized'' s"
      using True by (simp add: mcp_post_def get_token_def obind_def oget_def from_sum_def oret_def)
    then show ?thesis by (cases rule: rejected_reply_cases [of rq "''invalid_token''" 401 "''Unauthorized''" s]) auto
  next
    case 3
    then show ?thesis using True token_valid_admits [OF 3] by (auto simp: admitted_def)
  qed
qed

text \<open>
  Regenerating the token shuts out whoever holds the old one at once and lets the new one in, and asking for
  the token afterwards gives the new one.
\<close>

theorem regenerated_token_replaces:
  assumes "regenerate_token entry_id new s = (r, t)" and "new \<noteq> []"
  shows "r = Inr new \<and> (admitted options rq (token_of (mc_token_store t)) \<longleftrightarrow>
      mcp_enabled options \<and> is_remote_allowed (mq_remote rq) (allowed_networks options) \<and>
      mq_authorization rq = ''Bearer '' @ new) \<and>
    get_or_create_token entry_id other t = (Inr (new, False), t)"
proof -
  have "r = Inr new" "token_of (mc_token_store t) = Some new"
    using assms(1) by (auto simp: regenerate_token_def store_token_def utc_now_def token_of_def optional_text_arg_def dget_def op_defs)
  then show ?thesis using assms(2) by (simp add: admitted_def get_or_create_token_def oget_def obind_def oret_def)
qed

section \<open>Nothing is written\<close>









definition mcp_start :: "graph \<Rightarrow> net list \<Rightarrow> mcp" where
  "mcp_start g net = world.extend (world_at g net) \<lparr>au_store = None, mc_token_store = Some [(''token'', VStr ''t'')]\<rparr>"

text \<open>A server that reads what it is asked: here, how many nodes there are.\<close>

definition counting_server :: "pval \<Rightarrow> string \<Rightarrow> pval list stmt" where
  "counting_server p q = read_stmt (\<lambda>g. [VInt (int (length (g_nodes g)))])"

definition call_request :: "string \<Rightarrow> dict \<Rightarrow> mcp_request" where
  "call_request tool arguments =
     \<lparr>mq_remote = Some ''127.0.0.1'', mq_authorization = ''Bearer t'',
      mq_body = Some (VDict [(''id'', VInt 1), (''method'', VStr ''tools/call''),
        (''params'', VDict [(''name'', VStr tool), (''arguments'', VDict arguments)])])\<rparr>"


theorem regenerated_token_replaces_witness:
  "\<not> admitted options (call_request ''search'' []) (token_of (mc_token_store (snd (regenerate_token ''e'' ''n'' (mcp_start g [])))))"
  using regenerated_token_replaces [of "''e''" "''n''" "mcp_start g []" _ _ options "call_request ''search'' []" "[]"]
  by (cases "regenerate_token ''e'' ''n'' (mcp_start g [])") (simp add: call_request_def)

section \<open>What is not recorded\<close>

lemma admitted_call:
  "mcp_post repr dumps server [(CONF_MCP_ENABLED, VBool True)] (call_request tool arguments) (mcp_start g net) =
     handle_tools_call repr dumps server (call_request tool arguments) (VInt 1)
       [(''name'', VStr tool), (''arguments'', VDict arguments)] (mcp_start g net)"
proof -
  let ?o = "[(CONF_MCP_ENABLED, VBool True)]"
  have "allowed_networks ?o = DEFAULT_MCP_ALLOWED_NETWORKS"
    by (simp add: allowed_networks_def option_or_def const_defs)
  moreover have "parse_address ''127.0.0.1'' = Some (IPv4 (127 * 2 ^ 24 + 1))"
    by (simp add: parse_address_def parse_ipv4_def parse_octet_def all_digits_def is_digit_def)
  moreover have "mcp_enabled ?o" by (simp add: mcp_enabled_def option_or_def)
  moreover have "token_of (mc_token_store (mcp_start g net)) = Some ''t''"
    by (simp add: mcp_start_def world.defs token_of_def optional_text_arg_def dget_def)
  ultimately show ?thesis
    by (simp add: mcp_post_def is_remote_allowed_def default_networks call_request_def get_token_def obind_def oget_def
        supplied_token_def token_valid_def compare_digest_def ascii_text_def handle_method_def as_mapping_def dget_def Let_def)
qed

text \<open>
  Every other tool records a failure and answers it; a query that fails for any reason but a rejection leaves
  the handler with the exception, and nothing is recorded of it.
\<close>

theorem failed_query_not_recorded:
  "(case mcp_post repr dumps counting_server [(CONF_MCP_ENABLED, VBool True)]
       (call_request ''query'' [(''cypher'', VStr ''MATCH (n) RETURN n'')]) (mcp_start g [Down Timeout False]) of
      (r, t) \<Rightarrow> r = Inl (CannotConnect ''Connection to Memgraph timed out'') \<and> au_store t = None) \<and>
   (case mcp_post repr dumps counting_server [(CONF_MCP_ENABLED, VBool True)]
       (call_request ''area_context'' [(''area'', VStr ''hall'')]) (mcp_start g [Down Timeout False]) of
      (r, t) \<Rightarrow> (case r of Inr (Reply status v) \<Rightarrow> status = 500 | Inl e \<Rightarrow> False) \<and> au_store t \<noteq> None)"
proof
  have ok: "validate_syntax ''MATCH (n) RETURN n'' = Inr ()" "validate_read_only ''MATCH (n) RETURN n'' = Inr ()"
    by code_simp+
  show "case mcp_post repr dumps counting_server [(CONF_MCP_ENABLED, VBool True)]
       (call_request ''query'' [(''cypher'', VStr ''MATCH (n) RETURN n'')]) (mcp_start g [Down Timeout False]) of
      (r, t) \<Rightarrow> r = Inl (CannotConnect ''Connection to Memgraph timed out'') \<and> au_store t = None"
    unfolding admitted_call
    by (simp add: handle_tools_call_def dget_def as_mapping_def call_query_def text_arg_def execute_query_def ok
        run_query_limited_def run_query_eq mcp_start_def world.defs world_at_def obind_def otry_def oraise_def Let_def)
  show "case mcp_post repr dumps counting_server [(CONF_MCP_ENABLED, VBool True)]
       (call_request ''area_context'' [(''area'', VStr ''hall'')]) (mcp_start g [Down Timeout False]) of
      (r, t) \<Rightarrow> (case r of Inr (Reply status v) \<Rightarrow> status = 500 | Inl e \<Rightarrow> False) \<and> au_store t \<noteq> None"
    unfolding admitted_call
    by (simp add: handle_tools_call_def call_named_def tool_named_def dget_def as_mapping_def text_arg_def area_context_def
        run_query_eq mcp_start_def world.defs world_at_def obind_def otry_def oret_def Let_def mcp_audit_def utc_now_def
        oseq_apply async_append_record_def load_records_def save_records_def omodify_def oget_def)
qed

end
