(* ===== verification/Assist_Intents.thy ===== *)
theory Assist_Intents
  imports Tool_Reads Network_Access
begin

text \<open>
  The Assist intents of \<open>intent_handlers.py\<close>: the shared handler with its audit, the tool and the spoken answer of
  each intent, and the installation of the bundled sentences.  \<open>str_of\<close> and \<open>fmt\<close> stand for what \<open>str\<close> and the
  format \<open>:g\<close> make of a value that is no string.
\<close>

section \<open>Speech\<close>

definition NEWLINE :: string where
  "NEWLINE = [CHR 0x0A]"

definition spoken_text :: "pval \<Rightarrow> exn + string" where
  "spoken_text v = (case v of VStr s \<Rightarrow> Inr s | _ \<Rightarrow> Inl (TypeError ''expected str instance''))"

text \<open>Each name once, whatever its case.\<close>

fun names_from :: "string list \<Rightarrow> pval list \<Rightarrow> exn + string list" where
  "names_from seen [] = Inr []"
| "names_from seen (item # items) =
     (case item of
        VDict d \<Rightarrow>
          (let name = value_or (dget d ''name'') (dget d ''ha_id'')
           in if \<not> truthy name then names_from seen items
              else (case spoken_text name of
                  Inl e \<Rightarrow> Inl e
                | Inr s \<Rightarrow>
                    if lower s \<in> set seen then names_from seen items
                    else map_sum id ((#) s) (names_from (lower s # seen) items)))
      | _ \<Rightarrow> Inl (AttributeError ''object has no attribute get''))"

definition bullet_list :: "pval list \<Rightarrow> exn + string" where
  "bullet_list items = map_sum id (\<lambda>names. join NEWLINE (map (\<lambda>n. ''- '' @ n) names)) (names_from [] items)"

definition target_text :: "(pval \<Rightarrow> string) \<Rightarrow> dict \<Rightarrow> string" where
  "target_text str_of r = py_str str_of (dget r ''target'')"

definition speech_default :: "(pval \<Rightarrow> string) \<Rightarrow> dict \<Rightarrow> exn + string" where
  "speech_default str_of r = Inr (''Here is what I found for '' @ target_text str_of r @ ''.'')"

definition automation_line :: "(pval \<Rightarrow> string) \<Rightarrow> dict \<Rightarrow> exn + string" where
  "automation_line str_of d =
     (let name = py_str str_of (value_or (dget d ''name'') (dget d ''ha_id''))
      in if truthy (dget d ''reason'')
         then map_sum id (\<lambda>reason. ''- '' @ name @ '' ('' @ lower reason @ '')'') (spoken_text (dget d ''reason''))
         else Inr (''- '' @ name))"

definition speech_automations :: "(pval \<Rightarrow> string) \<Rightarrow> dict \<Rightarrow> exn + string" where
  "speech_automations str_of r =
     (let automations = dicts_of (list_at (inner_result r) ''automations'')
      in if automations = [] then Inr (''No automations depend on '' @ target_text str_of r @ ''.'')
         else map_sum id (\<lambda>lines. ''These automations depend on '' @ target_text str_of r @ '':'' @ NEWLINE @ join NEWLINE lines)
           (each (automation_line str_of) automations))"

definition speech_area :: "(pval \<Rightarrow> string) \<Rightarrow> dict \<Rightarrow> exn + string" where
  "speech_area str_of r =
     (let devices = list_at (inner_result r) ''devices''
      in if devices = [] then Inr (''There are no known devices in '' @ target_text str_of r @ ''.'')
         else map_sum id (\<lambda>l. target_text str_of r @ '' contains:'' @ NEWLINE @ l) (bullet_list devices))"

definition joined_detail :: "dict \<Rightarrow> string \<Rightarrow> string \<Rightarrow> exn + string list" where
  "joined_detail result key label =
     (if list_at result key = [] then Inr []
      else map_sum id (\<lambda>texts. [label @ '' '' @ join '', '' texts]) (each spoken_text (list_at result key)))"

definition speech_entity :: "(pval \<Rightarrow> string) \<Rightarrow> dict \<Rightarrow> exn + string" where
  "speech_entity str_of r =
     (let result = inner_result r;
          device = dget (dict_at result ''device'') ''name''; area = dget (dict_at result ''area'') ''name'';
          parts = (if truthy device then [''on device '' @ py_str str_of device] else []) @
            (if truthy area then [''in area '' @ py_str str_of area] else []);
          location = (if parts = [] then ''with no known device or area'' else join '' '' parts);
          details = concat (map (\<lambda>key. if truthy (dget result key) then [key @ '' '' @ py_str str_of (dget result key)] else [])
            [''domain'', ''integration''])
      in case joined_detail result ''semantic_types'' ''classifications'' of
           Inl e \<Rightarrow> Inl e
         | Inr types \<Rightarrow>
             map_sum id (\<lambda>dependents.
               let all = details @ types @ dependents
               in target_text str_of r @ '' is '' @ location @ ''.'' @ (if all = [] then [] else '' '' @ join ''; '' all))
               (joined_detail result ''dependents'' ''dependencies''))"

definition speech_impact :: "(pval \<Rightarrow> string) \<Rightarrow> dict \<Rightarrow> exn + string" where
  "speech_impact str_of r =
     (let result = inner_result r
      in if \<not> truthy (dget result ''has_dependencies'') then Inr (''Nothing known depends on '' @ target_text str_of r @ ''.'')
         else map_sum id (\<lambda>sections. ''Removing '' @ target_text str_of r @ '' would affect:'' @ NEWLINE @ join NEWLINE sections)
           (each (\<lambda>(key, label). map_sum id (\<lambda>l. label @ '':'' @ NEWLINE @ l) (bullet_list (list_at result key)))
             (filter (\<lambda>(key, label). list_at result key \<noteq> [])
               [(''automations'', ''Automations''), (''scripts'', ''Scripts''), (''scenes'', ''Scenes''),
                (''dashboards'', ''Dashboards''), (''semantic_assets'', ''Semantic assets'')])))"

definition speech_search :: "(pval \<Rightarrow> string) \<Rightarrow> dict \<Rightarrow> exn + string" where
  "speech_search str_of r =
     (let matches = list_at (inner_result r) ''matches''
      in if matches = [] then Inr (''I found nothing matching '' @ target_text str_of r @ ''.'')
         else map_sum id (\<lambda>l. ''I found:'' @ NEWLINE @ l) (bullet_list matches))"

definition battery_text :: "(pval \<Rightarrow> string) \<Rightarrow> (pval \<Rightarrow> string) \<Rightarrow> dict \<Rightarrow> string" where
  "battery_text str_of fmt item =
     py_str str_of (dget item ''name'') @ '' ('' @ join '', '' (map (\<lambda>m. fmt (dget m ''percentage'') @ ''%'')
       (dicts_of (list_at item ''measurements''))) @ '')''"

definition speech_batteries :: "(pval \<Rightarrow> string) \<Rightarrow> (pval \<Rightarrow> string) \<Rightarrow> dict \<Rightarrow> exn + string" where
  "speech_batteries str_of fmt r =
     (if dget r ''outcome'' = VStr OUTCOME_DEGRADED then Inr (''I can'' @ [CHR 0x27] @ ''t check low batteries because the ontology is unavailable.'')
      else (let result = inner_result r; areas = dicts_of (list_at result ''areas'');
                speech = (if dget r ''outcome'' = VStr OUTCOME_EMPTY \<or> areas = [] then ''No low batteries are known.''
                  else join NEWLINE (map (\<lambda>a. py_str str_of (dget a ''area_name'') @ '': '' @
                    join '', '' (map (battery_text str_of fmt) (dicts_of (list_at a ''items'')))) areas))
            in Inr (speech @ (if truthy (dget result ''truncated'') then '' Additional low-battery results were omitted.'' else []))))"

definition consumer_place :: "(pval \<Rightarrow> string) \<Rightarrow> dict \<Rightarrow> string" where
  "consumer_place str_of consumer =
     (if truthy (dget consumer ''area_name'') then '' in '' @ py_str str_of (dget consumer ''area_name'') else [])"

definition consumer_text :: "(pval \<Rightarrow> string) \<Rightarrow> (pval \<Rightarrow> string) \<Rightarrow> dict \<Rightarrow> string" where
  "consumer_text str_of fmt consumer =
     py_str str_of (dget consumer ''name'') @ consumer_place str_of consumer @ '': '' @
     join '', '' (map (\<lambda>m. py_str str_of (dget m ''name'') @ '' ('' @ fmt (dget m ''watts'') @ '' W)'')
       (dicts_of (list_at consumer ''measurements'')))"

definition speech_consumers :: "(pval \<Rightarrow> string) \<Rightarrow> (pval \<Rightarrow> string) \<Rightarrow> dict \<Rightarrow> exn + string" where
  "speech_consumers str_of fmt r =
     (if dget r ''outcome'' = VStr OUTCOME_DEGRADED
      then Inr (''I can'' @ [CHR 0x27] @ ''t check active electricity consumers because the ontology is unavailable.'')
      else (let result = inner_result r; consumers = dicts_of (list_at result ''consumers'');
                known = dicts_of (list_at result ''known_consumers_without_current_power'');
                speech = (if dget r ''outcome'' = VStr OUTCOME_EMPTY \<or> (consumers = [] \<and> known = [])
                  then ''No active electricity consumers are known.''
                  else join NEWLINE (map (consumer_text str_of fmt) consumers @
                    (if known = [] then [] else [''Known consumers without current power: '' @
                      join '', '' (map (\<lambda>c. py_str str_of (dget c ''name'') @ consumer_place str_of c) known)])))
            in Inr (speech @
              (if truthy (dget result ''unresolved_role_count'') then '' Some active power readings have no energy role.'' else []) @
              (if truthy (dget result ''truncated'') then '' Additional active consumers were omitted.'' else []))))"

definition speech_unassigned :: "dict \<Rightarrow> exn + string" where
  "speech_unassigned r =
     (let result = inner_result r; devices = list_at result ''devices''; sensors = list_at result ''sensors''
      in if devices = [] \<and> sensors = [] then Inr ''All known devices and sensors are linked to an area.''
         else map_sum id (\<lambda>sections. join NEWLINE sections @
             (if truthy (dget result ''truncated'') then '' Additional results were omitted.'' else []))
           (each (\<lambda>(heading, items). map_sum id (\<lambda>l. heading @ NEWLINE @ l) (bullet_list items))
             (filter (\<lambda>(heading, items). items \<noteq> [])
               [(''Devices without an area:'', devices), (''Sensors without an area:'', sensors)])))"

section \<open>The intents\<close>

record 'z intent =
  in_type :: string
  in_slot :: "string option"
  in_tool :: "dict \<Rightarrow> string \<Rightarrow> ('z, dict) aop"
  in_speech :: "dict \<Rightarrow> exn + string"

definition result_limit :: "dict \<Rightarrow> int option" where
  "result_limit options = Some (int_of (option_or options CONF_RELATIONSHIP_RESULT_LIMIT
     (VInt (int DEFAULT_RELATIONSHIP_RESULT_LIMIT))))"

definition INTENTS :: "(pval \<Rightarrow> string) \<Rightarrow> (pval \<Rightarrow> string) \<Rightarrow> 'z intent list" where
  "INTENTS str_of fmt =
     [\<lparr>in_type = INTENT_LOW_BATTERY_AREAS, in_slot = None, in_tool = (\<lambda>options value. low_battery_areas
         (option_number options CONF_LOW_BATTERY_THRESHOLD DEFAULT_LOW_BATTERY_THRESHOLD)
         (option_number options CONF_MAX_MEASUREMENT_AGE_HOURS DEFAULT_MAX_MEASUREMENT_AGE_HOURS) (result_limit options)),
       in_speech = speech_batteries str_of fmt\<rparr>,
      \<lparr>in_type = ''OntologyActiveConsumers'', in_slot = None, in_tool = (\<lambda>options value. active_consumers
         (option_number options CONF_ACTIVE_POWER_THRESHOLD DEFAULT_ACTIVE_POWER_THRESHOLD)
         (option_number options CONF_MAX_MEASUREMENT_AGE_HOURS DEFAULT_MAX_MEASUREMENT_AGE_HOURS) (result_limit options)),
       in_speech = speech_consumers str_of fmt\<rparr>,
      \<lparr>in_type = ''OntologyUnassignedAreaItems'', in_slot = None,
       in_tool = (\<lambda>options value. unassigned_area_items (result_limit options)), in_speech = speech_unassigned\<rparr>,
      \<lparr>in_type = ''OntologyAutomationDependencies'', in_slot = Some ''ontology_entity'',
       in_tool = (\<lambda>options. automation_dependencies), in_speech = speech_automations str_of\<rparr>,
      \<lparr>in_type = ''OntologyAreaContents'', in_slot = Some ''ontology_area'', in_tool = (\<lambda>options. area_context),
       in_speech = speech_area str_of\<rparr>,
      \<lparr>in_type = ''OntologyEntityContext'', in_slot = Some ''ontology_entity'', in_tool = (\<lambda>options. entity_context),
       in_speech = speech_entity str_of\<rparr>,
      \<lparr>in_type = ''OntologyDeviceContext'', in_slot = Some ''ontology_device'', in_tool = (\<lambda>options. device_context),
       in_speech = speech_default str_of\<rparr>,
      \<lparr>in_type = ''OntologyImpactAnalysis'', in_slot = Some ''ontology_entity'',
       in_tool = (\<lambda>options value. analyze IMPACT_SCOPE_ENTITY value False), in_speech = speech_impact str_of\<rparr>,
      \<lparr>in_type = ''OntologySearch'', in_slot = Some ''ontology_term'', in_tool = (\<lambda>options value. search value None),
       in_speech = speech_search str_of\<rparr>]"

section \<open>The shared handler\<close>

record intent_response =
  ir_speech :: string
  ir_result :: pval

record outcome =
  oc_status :: string
  oc_count :: nat
  oc_category :: pval
  oc_response :: intent_response

definition SPOKEN_ERROR :: string where
  "SPOKEN_ERROR = ''Something went wrong answering that ontology question.''"

definition failed_outcome :: "nat \<Rightarrow> exn \<Rightarrow> outcome" where
  "failed_outcome n err = \<lparr>oc_status = ''error'', oc_count = n, oc_category = VStr (error_class err),
     oc_response = \<lparr>ir_speech = SPOKEN_ERROR, ir_result = VNone\<rparr>\<rparr>"

text \<open>The result is counted before it is spoken.\<close>

definition tool_outcome :: "(dict \<Rightarrow> exn + string) \<Rightarrow> string \<Rightarrow> dict \<Rightarrow> outcome" where
  "tool_outcome speech value tool_result =
     (if dget tool_result ''result_type'' = VStr RESULT_TYPE_NOT_FOUND
      then \<lparr>oc_status = ''not_found'', oc_count = 0, oc_category = VNone,
        oc_response = \<lparr>ir_speech = ''I couldn'' @ [CHR 0x27] @ ''t find '' @ value @ '' in the ontology.'', ir_result = VNone\<rparr>\<rparr>
      else (let n = count_results (dget tool_result ''result'')
            in case speech tool_result of
                 Inl err \<Rightarrow> failed_outcome n err
               | Inr text \<Rightarrow> \<lparr>oc_status = ''resolved'', oc_count = n, oc_category = VNone,
                   oc_response = \<lparr>ir_speech = text, ir_result = dget tool_result ''result''\<rparr>\<rparr>))"

definition assist_record :: "string \<Rightarrow> outcome \<Rightarrow> int \<Rightarrow> dict" where
  "assist_record intent_type o' now =
     [(''event'', VStr AUDIT_EVENT_ASSIST_QUERY), (''intent'', VStr intent_type), (''status'', VStr (oc_status o')),
      (''result_count'', VInt (int (oc_count o'))), (''error_category'', oc_category o'), (''timestamp'', VTime now)]"

definition answer_intent :: "'z intent \<Rightarrow> dict \<Rightarrow> string \<Rightarrow> ('z, intent_response) aop" where
  "answer_intent i options value =
     obind (otry (obind (in_tool i options value) (\<lambda>r. oret (tool_outcome (in_speech i) value r)))
         (\<lambda>err. oret (failed_outcome 0 err)))
       (\<lambda>o'. oseq (obind utc_now (\<lambda>now. async_append_record (assist_record (in_type i) o' now))) (oret (oc_response o')))"

text \<open>The intent as Assist calls it; without a loaded entry there is no log to write to.\<close>

definition handle_intent :: "'z intent \<Rightarrow> (string \<times> string) list \<Rightarrow> ('z audited_scheme service_entry list, intent_response) op" where
  "handle_intent i slots =
     (let value = (case in_slot i of None \<Rightarrow> ''home'' | Some k \<Rightarrow> the (map_of slots k))
      in with_first (Inr (oc_response (tool_outcome (in_speech i) value (not_found_result value))))
           (\<lambda>options. answer_intent i options value))"

section \<open>Sentences\<close>

definition SENTENCES_MARKER :: string where
  "SENTENCES_MARKER = ''# Managed by the Home Assistant Ontology integration.'' @ NEWLINE"

definition sentences_name :: "nat \<Rightarrow> string" where
  "sentences_name n = (if n = 1 then ''hass-ontology-managed.yaml'' else ''hass-ontology-managed-'' @ str_of_nat n @ ''.yaml'')"

text \<open>The files of the directory; the search for a name that is free or ours need not end before it finds one.\<close>

partial_function (option) find_sentences :: "(string \<times> string) list \<Rightarrow> nat \<Rightarrow> nat option" where
  "find_sentences files n =
     (case map_of files (sentences_name n) of
        None \<Rightarrow> Some n
      | Some text \<Rightarrow> if starts_with SENTENCES_MARKER text then Some n else find_sentences files (Suc n))"

definition write_sentences :: "string \<Rightarrow> (string \<times> string) list \<Rightarrow> (bool \<times> (string \<times> string) list) option" where
  "write_sentences source files =
     (case find_sentences files 1 of
        None \<Rightarrow> None
      | Some n \<Rightarrow>
          (let content = SENTENCES_MARKER @ source
           in if map_of files (sentences_name n) = Some content then Some (False, files)
              else Some (True, AList.update (sentences_name n) content files)))"

section \<open>An intent is answered\<close>

lemma intents_only_read: "i \<in> set (INTENTS str_of fmt) \<Longrightarrow> keeps (undisturbed g l) (in_tool i options value)"
  by (auto simp: INTENTS_def intro!: keeps_intros)

lemma assist_entry:
  "fst ` set (safe_record (assist_record intent_type o' now)) \<subseteq> set (''intent'' # COMMON_FIELDS)"
  using safe_record_fields [of "assist_record intent_type o' now"]
  by (auto simp: allowed_fields_def assist_record_def dget_def EVENT_FIELDS_def AUDIT_EVENT_ASSIST_QUERY_def)

text \<open>
  C36. Every intent is answered, whatever the database does and whatever the names in the graph are: the handler
  returns a response, it changes nothing in the graph, and it records exactly one entry, which has no field
  for what was asked and whose status is an error exactly when the answer is the spoken apology.
\<close>

theorem intents_answered:
  assumes "i \<in> set (INTENTS str_of fmt)" and "list_all datable (stored s)"
  shows "\<exists>o' now later t. answer_intent i options value s = (Inr (oc_response o'), t) \<and> w_graph t = w_graph s \<and>
    au_store t = Some (filter (fresh later) (stored s) @ [safe_record (assist_record (in_type i) o' now)]) \<and>
    fst ` set (safe_record (assist_record (in_type i) o' now)) \<subseteq> set (''intent'' # COMMON_FIELDS) \<and>
    (case fst (in_tool i options value s) of
       Inl err \<Rightarrow> o' = failed_outcome 0 err | Inr q \<Rightarrow> o' = tool_outcome (in_speech i) value q)"
proof -
  obtain q u where q: "in_tool i options value s = (q, u)" by (cases "in_tool i options value s")
  have u: "w_graph u = w_graph s" "au_store u = au_store s"
    using keeps_step [OF intents_only_read [OF assms(1), of "w_graph s" "au_store s"] _ q] by (simp_all add: undisturbed_def)
  then have d: "list_all datable (stored u)" "stored u = stored s" using assms(2) by simp_all
  have g: "w_graph (snd (utc_now w)) = w_graph w" for w :: "'a audited_scheme" by (simp add: utc_now_def)
  define o' where "o' = (case q of Inl err \<Rightarrow> failed_outcome 0 err | Inr r \<Rightarrow> tool_outcome (in_speech i) value r)"
  show ?thesis
    by (rule exI [of _ o'], rule exI [of _ "w_now u"], rule exI [of _ "w_now (snd (utc_now u))"])
      (use q u d g assist_entry append_datable [OF d(1)] in
        \<open>auto simp: answer_intent_def o'_def obind_def [of "otry _ _"] otry_def oseq_apply oret_def obind_def [of "in_tool _ _ _"]
          split: sum.splits\<close>)
qed

section \<open>Sentences of others are kept\<close>

lemma digits_value_append: "digits_value v (s @ [c]) = 10 * digits_value v s + (of_char c - 48)"
  by (induction s arbitrary: v) simp_all

lemma digits_value_str: "digits_value 0 (str_of_nat n) = n"
proof -
  have "digits_value 0 (nat_digits n) = n"
  proof (induction n rule: nat_digits.induct)
    case (1 n)
    show ?case
    proof (cases "n < 10")
      case True
      then show ?thesis using digit_char(1) [of n] by (simp add: nat_digits.simps [of n])
    next
      case False
      then show ?thesis using 1 digit_char(1) [of "n mod 10"]
        by (simp add: nat_digits.simps [of n] digits_value_append)
    qed
  qed
  then show ?thesis by (simp add: str_of_nat_def)
qed

lemma sentences_name_inj: "inj_on sentences_name {1..}"
proof (rule inj_onI)
  fix m n assume mn: "sentences_name m = sentences_name n" "m \<in> {1..}" "n \<in> {1..}"
  have eq: "str_of_nat a = str_of_nat b \<Longrightarrow> a = b" for a b using digits_value_str by metis
  have "length (sentences_name k) \<noteq> length (sentences_name 1)" if "k \<noteq> 1" for k
    using that by (simp add: sentences_name_def)
  then show "m = n" using mn(1) eq by (cases "m = 1"; cases "n = 1") (metis, metis, metis, simp add: sentences_name_def)
qed

text \<open>From a name that is not ours on, the search goes on as long as names are taken, which is not for ever.\<close>

lemma find_sentences_ends:
  "\<exists>n. find_sentences files start = Some n \<and> start \<le> n \<and>
     (\<forall>k. start \<le> k \<and> k < n \<longrightarrow> (\<exists>text. map_of files (sentences_name k) = Some text \<and> \<not> starts_with SENTENCES_MARKER text)) \<and>
     (case map_of files (sentences_name n) of None \<Rightarrow> True | Some text \<Rightarrow> starts_with SENTENCES_MARKER text)"
  if "1 \<le> start"
proof -
  let ?foreign = "\<lambda>k. \<exists>text. map_of files (sentences_name k) = Some text \<and> \<not> starts_with SENTENCES_MARKER text"
  have "\<exists>n \<ge> start. \<not> ?foreign n"
  proof (rule ccontr)
    assume "\<not> (\<exists>n \<ge> start. \<not> ?foreign n)"
    then have "sentences_name ` {start..} \<subseteq> dom (map_of files)" by auto
    then have "finite (sentences_name ` {start..})" using finite_dom_map_of finite_subset by blast
    moreover have "inj_on sentences_name {start..}" using sentences_name_inj that by (auto intro: inj_on_subset)
    ultimately show False using finite_imageD infinite_Ici by blast
  qed
  then obtain n where n: "start \<le> n" "\<not> ?foreign n" by blast
  then show ?thesis using that
  proof (induction "n - start" arbitrary: start)
    case 0
    then show ?case by (intro exI [of _ start]) (auto simp: find_sentences.simps [of files start] split: option.splits)
  next
    case (Suc d)
    show ?case
    proof (cases "?foreign start")
      case True
      have "d = n - Suc start" "Suc start \<le> n" using Suc.hyps(2) by linarith+
      from Suc.hyps(1) [OF this n(2)] obtain m where m: "find_sentences files (Suc start) = Some m" "Suc start \<le> m"
        "\<forall>k. Suc start \<le> k \<and> k < m \<longrightarrow> ?foreign k"
        "case map_of files (sentences_name m) of None \<Rightarrow> True | Some text \<Rightarrow> starts_with SENTENCES_MARKER text" by auto
      moreover have "?foreign k" if "start \<le> k" "k < m" for k
        using that m(3) True by (cases "k = start") auto
      moreover have "find_sentences files start = find_sentences files (Suc start)"
        using True by (auto simp: find_sentences.simps [of files start])
      ultimately show ?thesis by (intro exI [of _ m]) auto
    next
      case False
      then show ?thesis by (intro exI [of _ start]) (auto simp: find_sentences.simps [of files start] split: option.splits)
    qed
  qed
qed

text \<open>
  C37. The installation of the sentences ends in every directory, also when every name it would take is taken; it
  leaves every file that is not the integration's own as it is, the bundled sentences are there afterwards,
  and a second run finds nothing to do.
\<close>

theorem sentences_installed:
  "\<exists>changed files'. write_sentences source files = Some (changed, files') \<and>
     \<not> (\<exists>name text. map_of files name = Some text \<and> \<not> starts_with SENTENCES_MARKER text \<and> map_of files' name \<noteq> Some text) \<and>
     SENTENCES_MARKER @ source \<in> ran (map_of files') \<and> write_sentences source files' = Some (False, files')"
proof -
  let ?c = "SENTENCES_MARKER @ source"
  obtain n where n: "find_sentences files 1 = Some n" "1 \<le> n"
    and foreign: "\<forall>k. 1 \<le> k \<and> k < n \<longrightarrow> (\<exists>text. map_of files (sentences_name k) = Some text \<and> \<not> starts_with SENTENCES_MARKER text)"
    and free: "case map_of files (sentences_name n) of None \<Rightarrow> True | Some text \<Rightarrow> starts_with SENTENCES_MARKER text"
    using find_sentences_ends [of 1 files] by auto
  let ?f = "AList.update (sentences_name n) ?c files"
  have mark: "starts_with SENTENCES_MARKER ?c" by (auto simp: starts_with_iff)
  have other: "map_of ?f (sentences_name k) = map_of files (sentences_name k)" if "1 \<le> k" "k < n" for k
    using that inj_onD [OF sentences_name_inj, of k n] n(2) by auto
  obtain m where m: "find_sentences ?f 1 = Some m" "1 \<le> m"
    and foreign': "\<forall>k. 1 \<le> k \<and> k < m \<longrightarrow> (\<exists>text. map_of ?f (sentences_name k) = Some text \<and> \<not> starts_with SENTENCES_MARKER text)"
    and free': "case map_of ?f (sentences_name m) of None \<Rightarrow> True | Some text \<Rightarrow> starts_with SENTENCES_MARKER text"
    using find_sentences_ends [of 1 ?f] by auto
  have "m = n"
  proof (rule linorder_cases [of m n])
    assume "m < n"
    then show ?thesis using foreign free' other [OF m(2)] m(2) by fastforce
  next
    assume "n < m"
    then show ?thesis using foreign' n(2) mark by fastforce
  qed
  then have again: "write_sentences source ?f = Some (False, ?f)" using m(1) by (simp add: write_sentences_def)
  show ?thesis
  proof (cases "map_of files (sentences_name n) = Some ?c")
    case True
    then have "write_sentences source files = Some (False, files)" using n(1) by (simp add: write_sentences_def)
    then show ?thesis using True by (auto simp: ran_def)
  next
    case False
    then have "write_sentences source files = Some (True, ?f)" using n(1) by (simp add: write_sentences_def)
    then show ?thesis using again free mark by (auto simp: ran_def split: option.splits if_splits)
  qed
qed

theorem intents_answered_witness:
  "let i = INTENTS (\<lambda>v. []) (\<lambda>v. []) ! 8
   in \<exists>response t. answer_intent i [] ''lamp'' quiet_log = (Inr response, t) \<and> w_graph t = empty_graph"
proof -
  have "INTENTS (\<lambda>v. []) (\<lambda>v. []) ! 8 \<in> set (INTENTS (\<lambda>v. []) (\<lambda>v. []) :: unit intent list)"
    by (rule nth_mem) (simp add: INTENTS_def)
  from intents_answered [OF this, of quiet_log "[]" "''lamp''"]
  show ?thesis by (auto simp: quiet_log_def)
qed

end
