(* ===== verification/Live_Updates.thy ===== *)
theory Live_Updates
  imports Change_Buffer "HOL-Library.AList"
begin

text \<open>
  The live updates of the explorer, \<open>_handle_graph_subscribe\<close> of \<open>websocket_api.py\<close>, over the change buffer of
  the coordinator: the replay, the coalescing per element with a trailing timer, and the end of the
  subscription, as a step relation over publications, timers and time.
\<close>

section \<open>A subscription\<close>

text \<open>
  What is waiting for each element; the timer kept for each element; the timers the event loop still holds,
  each with its due time and its element; and what the connection has been sent.  A message has the fields of
  an event.
\<close>

record timer =
  tm_handle :: nat
  tm_due :: rat
  tm_element :: string

record subscription =
  sb_id :: string
  sb_pending :: "(string \<times> change_event) list"
  sb_timers :: "(string \<times> nat) list"
  sb_scheduled :: "timer list"
  sb_next :: nat
  sb_sent :: "change_event list"

definition new_subscription :: "string \<Rightarrow> change_event list \<Rightarrow> subscription" where
  "new_subscription i sent =
     \<lparr>sb_id = i, sb_pending = [], sb_timers = [], sb_scheduled = [], sb_next = 0, sb_sent = sent\<rparr>"

definition send_event :: "change_event \<Rightarrow> subscription \<Rightarrow> subscription" where
  "send_event m s = s\<lparr>sb_sent := sb_sent s @ [m]\<rparr>"

definition cancel :: "nat \<Rightarrow> subscription \<Rightarrow> subscription" where
  "cancel h s = s\<lparr>sb_scheduled := filter (\<lambda>t. tm_handle t \<noteq> h) (sb_scheduled s)\<rparr>"

definition call_later :: "rat \<Rightarrow> string \<Rightarrow> subscription \<Rightarrow> subscription" where
  "call_later now el s =
     s\<lparr>sb_scheduled := sb_scheduled s @ [\<lparr>tm_handle = sb_next s, tm_due = now + GRAPH_UPDATE_DEBOUNCE_SECONDS, tm_element = el\<rparr>],
       sb_timers := AList.update el (sb_next s) (sb_timers s), sb_next := Suc (sb_next s)\<rparr>"

definition flush_element :: "string \<Rightarrow> subscription \<Rightarrow> subscription" where
  "flush_element el s =
     (let s' = s\<lparr>sb_pending := AList.delete el (sb_pending s), sb_timers := AList.delete el (sb_timers s)\<rparr>
      in case map_of (sb_pending s) el of None \<Rightarrow> s' | Some m \<Rightarrow> send_event m s')"

definition element_ids :: "change_event \<Rightarrow> string list" where
  "element_ids e = ev_node_ids e @ ev_relationship_ids e"

text \<open>The changed properties are a set in the code; here they keep the order of their first mention.\<close>

definition coalesced :: "change_event \<Rightarrow> change_event \<Rightarrow> change_event" where
  "coalesced e existing =
     existing\<lparr>ev_revision := max (ev_revision existing) (ev_revision e),
       ev_changed_properties := keep_first (ev_changed_properties existing @ ev_changed_properties e)\<rparr>"

definition first_message :: "change_event \<Rightarrow> string \<Rightarrow> change_event" where
  "first_message e el =
     e\<lparr>ev_node_ids := (if el \<in> set (ev_node_ids e) then [el] else []),
       ev_relationship_ids := (if el \<in> set (ev_relationship_ids e) then [el] else [])\<rparr>"

definition on_element :: "rat \<Rightarrow> change_event \<Rightarrow> string \<Rightarrow> subscription \<Rightarrow> subscription" where
  "on_element now e el s =
     call_later now el
       (case map_of (sb_pending s) el of
          Some existing \<Rightarrow>
            (let s' = s\<lparr>sb_pending := AList.update el (coalesced e existing) (sb_pending s)\<rparr>
             in case map_of (sb_timers s) el of None \<Rightarrow> s' | Some h \<Rightarrow> cancel h s')
        | None \<Rightarrow> s\<lparr>sb_pending := AList.update el (first_message e el) (sb_pending s)\<rparr>)"

text \<open>A reconciliation forgets what was waiting; the timers it drops are not cancelled.\<close>

definition on_event :: "rat \<Rightarrow> change_event \<Rightarrow> subscription \<Rightarrow> subscription" where
  "on_event now e s =
     (if ev_kind e = ''reconcile''
      then send_event e (s\<lparr>sb_timers := filter (\<lambda>(el, _). el \<notin> fst ` set (sb_pending s)) (sb_timers s), sb_pending := []\<rparr>)
      else fold (on_element now e) (element_ids e) s)"

text \<open>The buffer, its subscriber and the clock of the event loop.\<close>

record live =
  lv_buffer :: change_buffer
  lv_sub :: subscription
  lv_now :: rat

definition unsubscribe_live :: "live \<Rightarrow> live" where
  "unsubscribe_live l =
     l\<lparr>lv_buffer := unsubscribe (sb_id (lv_sub l)) (lv_buffer l),
       lv_sub := (fold (\<lambda>(_, h). cancel h) (sb_timers (lv_sub l)) (lv_sub l))\<lparr>sb_timers := [], sb_pending := []\<rparr>\<rparr>"

definition reconcile_message :: "change_buffer \<Rightarrow> pval \<Rightarrow> change_event" where
  "reconcile_message b occurred_at =
     \<lparr>ev_revision = cb_revision b, ev_kind = ''reconcile'', ev_node_ids = [], ev_relationship_ids = [],
      ev_changed_properties = [], ev_occurred_at = occurred_at\<rparr>"

text \<open>The handler: the buffer is that of the first loaded coordinator, when there is one.\<close>

definition handle_graph_subscribe ::
  "string \<Rightarrow> int \<Rightarrow> pval \<Rightarrow> rat \<Rightarrow> change_buffer option \<Rightarrow> (string \<times> string) + live" where
  "handle_graph_subscribe i from_revision occurred_at now buffer =
     (case buffer of
        None \<Rightarrow> Inl (''gateway_unavailable'', ''Ontology graph is unavailable'')
      | Some b \<Rightarrow>
          Inr \<lparr>lv_buffer = subscribe i b,
            lv_sub = new_subscription i (case events_since b from_revision of
                None \<Rightarrow> [reconcile_message b occurred_at] | Some replay \<Rightarrow> replay),
            lv_now = now\<rparr>)"

section \<open>Steps\<close>

text \<open>The buffer hands an event to its subscribers; ours handles it at once.\<close>

definition published :: "string \<Rightarrow> string list \<Rightarrow> string list \<Rightarrow> string list \<Rightarrow> pval \<Rightarrow> change_buffer \<Rightarrow> change_event" where
  "published kind nodes rels changed t b =
     \<lparr>ev_revision = Suc (cb_revision b), ev_kind = kind, ev_node_ids = nodes, ev_relationship_ids = rels,
      ev_changed_properties = changed, ev_occurred_at = t\<rparr>"

definition live_publish :: "string \<Rightarrow> string list \<Rightarrow> string list \<Rightarrow> string list \<Rightarrow> pval \<Rightarrow> live \<Rightarrow> live" where
  "live_publish kind nodes rels changed t l =
     l\<lparr>lv_buffer := publish_event kind nodes rels changed t (lv_buffer l),
       lv_sub := (if sb_id (lv_sub l) \<in> set (cb_subscribers (lv_buffer l))
         then on_event (lv_now l) (published kind nodes rels changed t (lv_buffer l)) (lv_sub l) else lv_sub l)\<rparr>"

definition fire_timer :: "timer \<Rightarrow> live \<Rightarrow> live" where
  "fire_timer t l = l\<lparr>lv_sub := flush_element (tm_element t)
     ((lv_sub l)\<lparr>sb_scheduled := remove1 t (sb_scheduled (lv_sub l))\<rparr>)\<rparr>"

inductive live_step :: "live \<Rightarrow> change_event list \<Rightarrow> live \<Rightarrow> bool" where
  step_publish: "live_step l [published kind nodes rels changed t (lv_buffer l)] (live_publish kind nodes rels changed t l)"
| step_fire: "t \<in> set (sb_scheduled (lv_sub l)) \<Longrightarrow> tm_due t \<le> lv_now l \<Longrightarrow> live_step l [] (fire_timer t l)"
| step_wait: "0 \<le> d \<Longrightarrow> live_step l [] (l\<lparr>lv_now := lv_now l + d\<rparr>)"
| step_subscribe: "i \<noteq> sb_id (lv_sub l) \<Longrightarrow> live_step l [] (l\<lparr>lv_buffer := subscribe i (lv_buffer l)\<rparr>)"
| step_unsubscribe: "i \<noteq> sb_id (lv_sub l) \<Longrightarrow> live_step l [] (l\<lparr>lv_buffer := unsubscribe i (lv_buffer l)\<rparr>)"

text \<open>A run of a subscription, with everything the buffer ever published.\<close>

inductive live_run :: "int \<Rightarrow> live \<Rightarrow> change_event list \<Rightarrow> bool" for from_revision where
  run_subscribed: "buffer_run n b history \<Longrightarrow> 0 < n \<Longrightarrow>
    handle_graph_subscribe i from_revision occurred_at now (Some b) = Inr l \<Longrightarrow> live_run from_revision l history"
| run_step: "live_run from_revision l history \<Longrightarrow> live_step l es l' \<Longrightarrow> live_run from_revision l' (history @ es)"

inductive_cases live_stepE: "live_step l es l'"

section \<open>Timers\<close>

text \<open>Whatever waits has a timer of its own that is still scheduled.\<close>

definition timers_kept :: "rat \<Rightarrow> subscription \<Rightarrow> bool" where
  "timers_kept now s \<longleftrightarrow>
     distinct (map tm_handle (sb_scheduled s)) \<and>
     (\<forall>t \<in> set (sb_scheduled s). tm_handle t < sb_next s \<and> tm_due t \<le> now + GRAPH_UPDATE_DEBOUNCE_SECONDS) \<and>
     (\<forall>el m. map_of (sb_pending s) el = Some m \<longrightarrow>
        (\<exists>t \<in> set (sb_scheduled s). map_of (sb_timers s) el = Some (tm_handle t) \<and> tm_element t = el))"

lemma timers_keptD:
  assumes "timers_kept now s" and "map_of (sb_pending s) el = Some m"
  obtains t where "t \<in> set (sb_scheduled s)" "map_of (sb_timers s) el = Some (tm_handle t)" "tm_element t = el"
    "tm_due t \<le> now + GRAPH_UPDATE_DEBOUNCE_SECONDS"
  using assms by (auto simp: timers_kept_def)

lemma handle_inj:
  "distinct (map tm_handle xs) \<Longrightarrow> t \<in> set xs \<Longrightarrow> u \<in> set xs \<Longrightarrow> tm_handle t = tm_handle u \<Longrightarrow> t = u"
  by (meson distinct_map inj_onD)

lemma subscription_simps [simp]:
  "sb_sent (cancel h s) = sb_sent s" "sb_pending (cancel h s) = sb_pending s" "sb_timers (cancel h s) = sb_timers s"
  "sb_sent (call_later now el s) = sb_sent s" "sb_pending (call_later now el s) = sb_pending s"
  "sb_id (cancel h s) = sb_id s" "sb_id (call_later now el s) = sb_id s" "sb_id (send_event m s) = sb_id s"
  "sb_next (cancel h s) = sb_next s" "sb_scheduled (send_event m s) = sb_scheduled s"
  "sb_pending (send_event m s) = sb_pending s" "sb_timers (send_event m s) = sb_timers s"
  "sb_next (send_event m s) = sb_next s" "sb_sent (send_event m s) = sb_sent s @ [m]"
  "set (sb_scheduled (cancel h s)) = {t \<in> set (sb_scheduled s). tm_handle t \<noteq> h}"
  by (simp_all add: cancel_def call_later_def send_event_def)

lemma timers_kept_call_later:
  assumes "distinct (map tm_handle (sb_scheduled s))"
    and "\<forall>t \<in> set (sb_scheduled s). tm_handle t < sb_next s \<and> tm_due t \<le> now + GRAPH_UPDATE_DEBOUNCE_SECONDS"
    and "\<And>x m. map_of (sb_pending s) x = Some m \<Longrightarrow> x \<noteq> el \<Longrightarrow>
      \<exists>t \<in> set (sb_scheduled s). map_of (sb_timers s) x = Some (tm_handle t) \<and> tm_element t = x"
  shows "timers_kept now (call_later now el s)"
  using assms by (auto simp: timers_kept_def call_later_def update_conv' intro: less_SucI)

lemma timers_kept_on_element:
  assumes "timers_kept now s"
  shows "timers_kept now (on_element now e el s)"
proof (cases "map_of (sb_pending s) el")
  case None
  have "timers_kept now (call_later now el (s\<lparr>sb_pending := AList.update el (first_message e el) (sb_pending s)\<rparr>))"
    using assms by (intro timers_kept_call_later) (auto simp: timers_kept_def)
  then show ?thesis using None by (simp add: on_element_def)
next
  case (Some m)
  obtain t where t: "t \<in> set (sb_scheduled s)" "map_of (sb_timers s) el = Some (tm_handle t)" "tm_element t = el"
    by (rule timers_keptD [OF assms Some])
  let ?s = "cancel (tm_handle t) (s\<lparr>sb_pending := AList.update el (coalesced e m) (sb_pending s)\<rparr>)"
  have "timers_kept now (call_later now el ?s)"
  proof (rule timers_kept_call_later)
    show "distinct (map tm_handle (sb_scheduled ?s))"
      using assms by (simp add: timers_kept_def cancel_def distinct_map_filter)
    show "\<forall>t \<in> set (sb_scheduled ?s). tm_handle t < sb_next ?s \<and> tm_due t \<le> now + GRAPH_UPDATE_DEBOUNCE_SECONDS"
      using assms by (simp add: timers_kept_def)
    fix x m' assume x: "map_of (sb_pending ?s) x = Some m'" "x \<noteq> el"
    then obtain u where u: "u \<in> set (sb_scheduled s)" "map_of (sb_timers s) x = Some (tm_handle u)" "tm_element u = x"
      using timers_keptD [OF assms, of x m'] by auto
    have "tm_handle u \<noteq> tm_handle t"
      using assms handle_inj [of "sb_scheduled s" u t] u t x(2) by (auto simp: timers_kept_def)
    then show "\<exists>t \<in> set (sb_scheduled ?s). map_of (sb_timers ?s) x = Some (tm_handle t) \<and> tm_element t = x"
      using u by auto
  qed
  then show ?thesis using Some t by (simp add: on_element_def)
qed

lemma timers_kept_on_event:
  assumes "timers_kept now s"
  shows "timers_kept now (on_event now e s)"
proof -
  have "timers_kept now (fold (on_element now e) xs s)" for xs
    using assms by (induction xs arbitrary: s) (simp_all add: timers_kept_on_element)
  then show ?thesis using assms by (auto simp: on_event_def timers_kept_def)
qed

lemma timers_kept_fire:
  assumes "timers_kept now s" and "t \<in> set (sb_scheduled s)"
  shows "timers_kept now (flush_element (tm_element t) (s\<lparr>sb_scheduled := remove1 t (sb_scheduled s)\<rparr>))"
proof -
  have "distinct (sb_scheduled s)" using assms(1) by (auto simp: timers_kept_def distinct_map)
  then show ?thesis
    using assms
    by (auto simp: timers_kept_def flush_element_def Let_def distinct_map delete_conv' inj_on_def split: option.splits)
qed

section \<open>What the client is owed\<close>

text \<open>
  A change of an element is covered by a message sent since that is about the element or asks for a reload, or
  by what waits for the element.
\<close>

definition told :: "subscription \<Rightarrow> change_event \<Rightarrow> string \<Rightarrow> bool" where
  "told s e el \<longleftrightarrow> (\<exists>m \<in> set (sb_sent s). ev_revision e \<le> ev_revision m \<and>
     (ev_kind m = ''reconcile'' \<or> el \<in> set (element_ids m)))"

definition waits :: "subscription \<Rightarrow> change_event \<Rightarrow> string \<Rightarrow> bool" where
  "waits s e el \<longleftrightarrow> (\<exists>m. map_of (sb_pending s) el = Some m \<and> ev_revision e \<le> ev_revision m)"

text \<open>What waits for an element, and what was sent, is about events that were published.\<close>

definition stands_for :: "change_event list \<Rightarrow> change_event \<Rightarrow> bool" where
  "stands_for history m \<longleftrightarrow> ev_kind m = ''reconcile'' \<or>
     (\<exists>e \<in> set history. ev_revision e = ev_revision m \<and> set (element_ids m) \<subseteq> set (element_ids e))"

definition messages_ok :: "change_event list \<Rightarrow> subscription \<Rightarrow> bool" where
  "messages_ok history s \<longleftrightarrow>
     (\<forall>m \<in> set (sb_sent s). stands_for history m) \<and>
     (\<forall>el m. map_of (sb_pending s) el = Some m \<longrightarrow> set (element_ids m) = {el} \<and> stands_for history m)"

lemma element_ids_first: "el \<in> set (element_ids e) \<Longrightarrow> set (element_ids (first_message e el)) = {el}"
  by (auto simp: element_ids_def first_message_def)

lemma element_ids_coalesced [simp]: "element_ids (coalesced e m) = element_ids m"
  by (simp add: element_ids_def coalesced_def)

lemma on_element_sent [simp]: "sb_sent (on_element now e el s) = sb_sent s"
  by (simp add: on_element_def Let_def split: option.splits)

lemma on_element_pending:
  "map_of (sb_pending (on_element now e el s)) =
     (map_of (sb_pending s))(el \<mapsto> (case map_of (sb_pending s) el of None \<Rightarrow> first_message e el | Some m \<Rightarrow> coalesced e m))"
  by (simp add: on_element_def Let_def update_conv' split: option.splits)

lemma stands_for_append: "stands_for history m \<Longrightarrow> stands_for (history @ es) m"
  by (auto simp: stands_for_def)

text \<open>One element of a new event: its revision is above all that was published before.\<close>

lemma on_element_told:
  "told (on_element now e el s) x y \<longleftrightarrow> told s x y"
  by (simp add: told_def)

lemma on_element_waits:
  assumes "waits s x y" and "ev_revision x \<le> ev_revision e"
  shows "waits (on_element now e el s) x y"
  using assms by (auto simp: waits_def on_element_pending coalesced_def split: option.splits)

lemma on_element_waits_new: "waits (on_element now e el s) e el"
  by (auto simp: waits_def on_element_pending coalesced_def first_message_def split: option.splits)

lemma on_element_messages:
  assumes "messages_ok history s" and "e \<in> set history" and "el \<in> set (element_ids e)"
    and "\<forall>x \<in> set history. ev_revision x \<le> ev_revision e"
    and "\<forall>x m. map_of (sb_pending s) x = Some m \<longrightarrow> ev_revision m \<le> ev_revision e"
  shows "messages_ok history (on_element now e el s) \<and>
    (\<forall>x m. map_of (sb_pending (on_element now e el s)) x = Some m \<longrightarrow> ev_revision m \<le> ev_revision e)"
proof -
  have "stands_for history (first_message e el)"
    using assms(2,3) element_ids_first [of el e] unfolding stands_for_def
    by (intro disjI2 bexI [of _ e]) (auto simp: first_message_def element_ids_def)
  moreover have "set (element_ids (coalesced e m)) = {el} \<and> stands_for history (coalesced e m)"
    if "map_of (sb_pending s) el = Some m" for m
  proof -
    have "ev_revision (coalesced e m) = ev_revision e"
      using that assms(5) by (auto simp: coalesced_def max_def dest: le_antisym)
    moreover have "set (element_ids m) = {el}" using that assms(1) by (simp add: messages_ok_def)
    ultimately show ?thesis using assms(2,3) by (auto simp: stands_for_def)
  qed
  ultimately show ?thesis
    using assms element_ids_first [of el e]
    by (auto simp: messages_ok_def on_element_pending coalesced_def first_message_def split: option.splits if_splits)
qed

text \<open>The invariant of a run, \<open>r\<close> the revision the client asked from.\<close>

definition live_ok :: "int \<Rightarrow> live \<Rightarrow> change_event list \<Rightarrow> bool" where
  "live_ok r l history \<longleftrightarrow>
     buffers (lv_buffer l) history \<and> sb_id (lv_sub l) \<in> set (cb_subscribers (lv_buffer l)) \<and>
     timers_kept (lv_now l) (lv_sub l) \<and> messages_ok history (lv_sub l) \<and>
     (\<forall>x m. map_of (sb_pending (lv_sub l)) x = Some m \<longrightarrow> ev_revision m \<le> length history) \<and>
     (\<forall>e \<in> set history. \<forall>x \<in> set (element_ids e). r < int (ev_revision e) \<longrightarrow>
        told (lv_sub l) e x \<or> waits (lv_sub l) e x)"

lemma history_revisions: "buffers b history \<Longrightarrow> e \<in> set history \<Longrightarrow> ev_revision e \<le> length history"
  using history_nth [of history] by (auto simp: buffers_def in_set_conv_nth)

lemma live_ok_start:
  assumes "buffers b history" and "handle_graph_subscribe i r occurred_at now (Some b) = Inr l"
  shows "live_ok r l history"
proof -
  have b: "map ev_revision history = [1..<Suc (length history)]" "cb_revision b = length history"
    using assms(1) by (auto simp: buffers_def)
  have later: "e \<in> set (drop (nat r) history)" if "e \<in> set history" "r < int (ev_revision e)" for e
  proof -
    from that(1) obtain k where k: "k < length history" "history ! k = e" unfolding in_set_conv_nth by blast
    then have "nat r \<le> k" using that(2) history_nth [OF b(1) k(1)] by simp
    then have "drop (nat r) history ! (k - nat r) = e" "k - nat r < length (drop (nat r) history)" using k by simp_all
    then show ?thesis using nth_mem [of "k - nat r" "drop (nat r) history"] by simp
  qed
  have sub: "e \<in> set history" if "e \<in> set (drop (nat r) history)" for e using that by (rule in_set_dropD)
  show ?thesis
  proof (cases "events_since b r")
    case None
    then show ?thesis
      using assms history_revisions [OF assms(1)] b(2)
      by (auto simp: handle_graph_subscribe_def live_ok_def new_subscription_def reconcile_message_def timers_kept_def
          messages_ok_def stands_for_def told_def subscribe_def buffers_def)
  next
    case (Some replay)
    then have replay: "replay = drop (nat r) history"
      using events_since_history [OF assms(1), of r] by (auto split: if_splits)
    show ?thesis
      using assms Some later sub
      by (auto simp: replay handle_graph_subscribe_def live_ok_def new_subscription_def timers_kept_def
          messages_ok_def stands_for_def told_def subscribe_def buffers_def)
  qed
qed

lemma on_event_other_id [simp]: "sb_id (on_event now e s) = sb_id s"
proof -
  have "sb_id (on_element now e el s) = sb_id s" for el s
    by (simp add: on_element_def Let_def split: option.splits)
  then have "sb_id (fold (on_element now e) xs s) = sb_id s" for xs by (induction xs arbitrary: s) simp_all
  then show ?thesis by (simp add: on_event_def send_event_def)
qed

lemma on_elements:
  assumes "set xs \<subseteq> set (element_ids e)" and "messages_ok history s" and "e \<in> set history"
    and "\<forall>x \<in> set history. ev_revision x \<le> ev_revision e"
    and "\<forall>x m. map_of (sb_pending s) x = Some m \<longrightarrow> ev_revision m \<le> ev_revision e"
    and "t = fold (on_element now e) xs s"
  shows "messages_ok history t \<and> (\<forall>x m. map_of (sb_pending t) x = Some m \<longrightarrow> ev_revision m \<le> ev_revision e) \<and>
    sb_sent t = sb_sent s \<and> (\<forall>y x. waits s y x \<longrightarrow> ev_revision y \<le> ev_revision e \<longrightarrow> waits t y x) \<and>
    (\<forall>x \<in> set xs. waits t e x)"
  using assms
proof (induction xs arbitrary: s t)
  case Nil
  then show ?case by simp
next
  case (Cons x xs)
  let ?s = "on_element now e x s"
  have "messages_ok history ?s \<and> (\<forall>x m. map_of (sb_pending ?s) x = Some m \<longrightarrow> ev_revision m \<le> ev_revision e)"
    using Cons.prems by (intro on_element_messages) auto
  then have "messages_ok history (fold (on_element now e) xs ?s) \<and>
      (\<forall>x m. map_of (sb_pending (fold (on_element now e) xs ?s)) x = Some m \<longrightarrow> ev_revision m \<le> ev_revision e) \<and>
      sb_sent (fold (on_element now e) xs ?s) = sb_sent ?s \<and>
      (\<forall>y x. waits ?s y x \<longrightarrow> ev_revision y \<le> ev_revision e \<longrightarrow> waits (fold (on_element now e) xs ?s) y x) \<and>
      (\<forall>x \<in> set xs. waits (fold (on_element now e) xs ?s) e x)"
    using Cons.prems by (intro Cons.IH [OF _ _ _ _ _ refl]) auto
  then show ?case using on_element_waits [of s _ _ e now x] on_element_waits_new [of now e x s] Cons.prems(6)
    by auto
qed

lemma live_ok_publish:
  assumes ok: "live_ok r l history"
  shows "live_ok r (live_publish kind nodes rels changed t l) (history @ [published kind nodes rels changed t (lv_buffer l)])"
proof -
  let ?b = "lv_buffer l" and ?e = "published kind nodes rels changed t (lv_buffer l)" and ?s = "lv_sub l"
  let ?h = "history @ [?e]"
  have b: "buffers ?b history" and id: "sb_id ?s \<in> set (cb_subscribers ?b)"
    and m: "messages_ok history ?s" and p: "\<forall>x m. map_of (sb_pending ?s) x = Some m \<longrightarrow> ev_revision m \<le> length history"
    and c: "\<forall>e \<in> set history. \<forall>x \<in> set (element_ids e). r < int (ev_revision e) \<longrightarrow> told ?s e x \<or> waits ?s e x"
    using ok by (simp_all add: live_ok_def)
  have rev: "ev_revision ?e = Suc (length history)" using b by (simp add: published_def buffers_def)
  have old: "\<forall>e \<in> set ?h. ev_revision e \<le> ev_revision ?e" using history_revisions [OF b] rev by fastforce
  have "buffers (publish_event kind nodes rels changed t ?b) ?h"
    using buffers_publish [OF b] by (simp add: published_def)
  moreover have "cb_subscribers (publish_event kind nodes rels changed t ?b) = cb_subscribers ?b"
    by (simp add: publish_event_def publish_def next_revision_def Let_def)
  moreover have "timers_kept (lv_now l) (on_event (lv_now l) ?e ?s)"
    using ok by (intro timers_kept_on_event) (simp add: live_ok_def)
  moreover have "messages_ok ?h (on_event (lv_now l) ?e ?s) \<and>
      (\<forall>x m. map_of (sb_pending (on_event (lv_now l) ?e ?s)) x = Some m \<longrightarrow> ev_revision m \<le> length ?h) \<and>
      (\<forall>e \<in> set ?h. \<forall>x \<in> set (element_ids e). r < int (ev_revision e) \<longrightarrow>
         told (on_event (lv_now l) ?e ?s) e x \<or> waits (on_event (lv_now l) ?e ?s) e x)"
  proof (cases "kind = ''reconcile''")
    case True
    then show ?thesis using m old
      by (auto simp: on_event_def published_def messages_ok_def stands_for_def told_def)
  next
    case False
    have m': "messages_ok ?h ?s" using m stands_for_append by (auto simp: messages_ok_def)
    have "\<forall>x m. map_of (sb_pending ?s) x = Some m \<longrightarrow> ev_revision m \<le> ev_revision ?e" using p rev by fastforce
    note el = on_elements [OF subset_refl m' _ old this refl, where now = "lv_now l", simplified]
    have ev: "on_event (lv_now l) ?e ?s = fold (on_element (lv_now l) ?e) (element_ids ?e) ?s"
      using False by (simp add: on_event_def published_def)
    have "told (on_event (lv_now l) ?e ?s) e x \<or> waits (on_event (lv_now l) ?e ?s) e x"
      if "e \<in> set ?h" "x \<in> set (element_ids e)" "r < int (ev_revision e)" for e x
    proof (cases "e = ?e")
      case True
      then show ?thesis using el that ev by simp
    next
      case False
      then have "told ?s e x \<or> waits ?s e x" "ev_revision e \<le> ev_revision ?e" using c old that by auto
      then show ?thesis using el ev by (auto simp: told_def)
    qed
    then show ?thesis using el ev rev by auto
  qed
  ultimately show ?thesis using id by (simp add: live_ok_def live_publish_def)
qed

lemma live_ok_fire:
  assumes ok: "live_ok r l history" and t: "t \<in> set (sb_scheduled (lv_sub l))"
  shows "live_ok r (fire_timer t l) history"
proof -
  let ?s = "(lv_sub l)\<lparr>sb_scheduled := remove1 t (sb_scheduled (lv_sub l))\<rparr>"
  have "timers_kept (lv_now l) (flush_element (tm_element t) ?s)"
    using ok t by (intro timers_kept_fire) (simp_all add: live_ok_def)
  moreover have "messages_ok history (flush_element (tm_element t) ?s)"
    using ok by (auto simp: live_ok_def messages_ok_def flush_element_def Let_def delete_conv' split: option.splits if_splits)
  moreover have "told (flush_element (tm_element t) ?s) e x \<or> waits (flush_element (tm_element t) ?s) e x"
    if "told (lv_sub l) e x \<or> waits (lv_sub l) e x" for e x
    using ok that
    by (auto simp: live_ok_def messages_ok_def told_def waits_def flush_element_def Let_def delete_conv' split: option.splits)
  ultimately show ?thesis using ok
    by (auto simp: live_ok_def fire_timer_def flush_element_def Let_def delete_conv' split: option.splits if_splits)
qed

lemma live_ok_step: "live_step l es l' \<Longrightarrow> live_ok r l history \<Longrightarrow> live_ok r l' (history @ es)"
proof (induction rule: live_step.induct)
  case (step_wait d l)
  then have "timers_kept (lv_now l + d) (lv_sub l)" by (force simp: live_ok_def timers_kept_def)
  then show ?case using step_wait by (simp add: live_ok_def)
qed (auto simp: live_ok_publish live_ok_fire, auto simp: live_ok_def subscribe_def unsubscribe_def buffers_def)

lemma live_run_ok: "live_run r l history \<Longrightarrow> live_ok r l history"
proof (induction rule: live_run.induct)
  case (run_subscribed n b history i occurred_at now l)
  then show ?case using buffer_run_buffers live_ok_start by blast
qed (rule live_ok_step)

section \<open>What the explorer can rely on\<close>

text \<open>
  C30. A client that subscribed from a revision is told of every change after it: for each element of each event
  published since, whatever was published, whatever timers fired and however long it took, a message about the
  element with that revision or a later one was sent, or a request to reload; or the change waits for the
  element, and a timer due within the debounce time will send it.  And every message but a request to reload
  has the revision of an event that was published about its elements.
\<close>

theorem live_updates_complete:
  assumes "live_run r l history" and "e \<in> set history" and "r < int (ev_revision e)" and "el \<in> set (element_ids e)"
  shows "(told (lv_sub l) e el \<or>
      (\<exists>m t. map_of (sb_pending (lv_sub l)) el = Some m \<and> ev_revision e \<le> ev_revision m \<and>
         t \<in> set (sb_scheduled (lv_sub l)) \<and> tm_element t = el \<and> tm_due t \<le> lv_now l + GRAPH_UPDATE_DEBOUNCE_SECONDS \<and>
         sb_sent (lv_sub (fire_timer t l)) = sb_sent (lv_sub l) @ [m] \<and> told (lv_sub (fire_timer t l)) e el)) \<and>
    list_all (stands_for history) (sb_sent (lv_sub l))"
proof -
  have ok: "live_ok r l history" by (rule live_run_ok [OF assms(1)])
  then have s: "list_all (stands_for history) (sb_sent (lv_sub l))" by (simp add: live_ok_def messages_ok_def list_all_iff)
  have kept: "timers_kept (lv_now l) (lv_sub l)" using ok by (simp add: live_ok_def)
  show ?thesis
  proof (cases "told (lv_sub l) e el")
    case False
    then obtain m where m: "map_of (sb_pending (lv_sub l)) el = Some m" "ev_revision e \<le> ev_revision m"
      using ok assms(2-4) unfolding live_ok_def waits_def by blast
    obtain t where t: "t \<in> set (sb_scheduled (lv_sub l))" "tm_element t = el" "tm_due t \<le> lv_now l + GRAPH_UPDATE_DEBOUNCE_SECONDS"
      by (rule timers_keptD [OF kept m(1)])
    have "set (element_ids m) = {el}" using ok m by (simp add: live_ok_def messages_ok_def)
    then have "sb_sent (lv_sub (fire_timer t l)) = sb_sent (lv_sub l) @ [m] \<and> told (lv_sub (fire_timer t l)) e el"
      using m t by (auto simp: fire_timer_def flush_element_def told_def)
    then show ?thesis using m t s by blast
  qed (use s in simp)
qed

definition sample_live :: live where
  "sample_live = \<lparr>lv_buffer = subscribe ''s'' (new_change_buffer 5), lv_sub = new_subscription ''s'' [], lv_now = 0\<rparr>"

definition sample_upsert :: change_event where
  "sample_upsert = \<lparr>ev_revision = 1, ev_kind = ''upsert'', ev_node_ids = [''Entity:a''], ev_relationship_ids = [],
     ev_changed_properties = [''state''], ev_occurred_at = VNone\<rparr>"

lemma sample_run: "live_run 0 sample_live []"
proof (rule run_subscribed [OF run_new])
  show "0 < (5 :: nat)" by simp
  show "handle_graph_subscribe ''s'' 0 VNone 0 (Some (new_change_buffer 5)) = Inr sample_live"
    by (simp add: handle_graph_subscribe_def sample_live_def events_since_def new_change_buffer_def)
qed

lemma sample_published:
  "published ''upsert'' [''Entity:a''] [] [''state''] VNone (lv_buffer sample_live) = sample_upsert"
  by (simp add: published_def sample_live_def sample_upsert_def subscribe_def new_change_buffer_def)

lemma sample_upserted: "live_publish ''upsert'' [''Entity:a''] [] [''state''] VNone sample_live =
    \<lparr>lv_buffer = publish_event ''upsert'' [''Entity:a''] [] [''state''] VNone (lv_buffer sample_live),
     lv_sub = \<lparr>sb_id = ''s'', sb_pending = [(''Entity:a'', sample_upsert)], sb_timers = [(''Entity:a'', 0)],
       sb_scheduled = [\<lparr>tm_handle = 0, tm_due = 1 / 4, tm_element = ''Entity:a''\<rparr>], sb_next = 1, sb_sent = []\<rparr>, lv_now = 0\<rparr>"
  by (simp add: sample_live_def new_subscription_def subscribe_def new_change_buffer_def published_def live_publish_def
      on_event_def sample_upsert_def element_ids_def on_element_def first_message_def call_later_def
      GRAPH_UPDATE_DEBOUNCE_SECONDS_def)

theorem live_updates_complete_witness:
  "let l = live_publish ''upsert'' [''Entity:a''] [] [''state''] VNone sample_live
   in \<exists>t. t \<in> set (sb_scheduled (lv_sub l)) \<and> told (lv_sub (fire_timer t l)) sample_upsert ''Entity:a''"
proof -
  let ?l = "live_publish ''upsert'' [''Entity:a''] [] [''state''] VNone sample_live"
  have "live_run 0 ?l ([] @ [published ''upsert'' [''Entity:a''] [] [''state''] VNone (lv_buffer sample_live)])"
    by (rule run_step [OF sample_run step_publish])
  then have "live_run 0 ?l [sample_upsert]" by (simp add: sample_published)
  from live_updates_complete [OF this, of sample_upsert "''Entity:a''"]
  show ?thesis by (auto simp: sample_upserted told_def sample_upsert_def element_ids_def)
qed


text \<open>
  A reconciliation drops the timers of what was waiting without cancelling them, so a later change of the
  same element is sent when the old timer fires: here at 250 ms, 50 ms after the change.
\<close>

definition reconciled_live :: live where
  "reconciled_live =
     (let l = live_publish ''upsert'' [''Entity:a''] [] [''state''] VNone sample_live;
          l = live_publish ''reconcile'' [] [] [] VNone (l\<lparr>lv_now := 1 / 10\<rparr>)
      in live_publish ''upsert'' [''Entity:a''] [] [''state''] VNone (l\<lparr>lv_now := 1 / 5\<rparr>))"

theorem stale_timer_sends_early:
  "lv_now reconciled_live = 1 / 5 \<and>
   (\<exists>t \<in> set (sb_scheduled (lv_sub reconciled_live)). tm_due t = 1 / 4 \<and>
      map ev_revision (sb_sent (lv_sub (fire_timer t reconciled_live))) = [2, 3])"
  unfolding reconciled_live_def Let_def sample_upserted
  by (simp add: live_publish_def publish_event_def publish_def next_revision_def sample_live_def subscribe_def
      new_change_buffer_def published_def on_event_def element_ids_def on_element_def sample_upsert_def
      call_later_def fire_timer_def flush_element_def send_event_def first_message_def)

section \<open>After the end of the subscription\<close>

definition silent :: "change_event list \<Rightarrow> live \<Rightarrow> bool" where
  "silent sent l \<longleftrightarrow> sb_id (lv_sub l) \<notin> set (cb_subscribers (lv_buffer l)) \<and> sb_pending (lv_sub l) = [] \<and>
     sb_sent (lv_sub l) = sent"

lemma silent_step: "live_step l es l' \<Longrightarrow> silent sent l \<Longrightarrow> silent sent l'"
  by (erule live_stepE)
    (auto simp: silent_def live_publish_def publish_event_def publish_def next_revision_def Let_def fire_timer_def
      flush_element_def subscribe_def unsubscribe_def)

lemma cancel_all:
  "sb_sent (fold (\<lambda>(_, h). cancel h) ts s) = sb_sent s \<and> sb_id (fold (\<lambda>(_, h). cancel h) ts s) = sb_id s"
  by (induction ts arbitrary: s) auto

text \<open>
  A client that unsubscribed is sent nothing more, whatever is published and whatever timers the event loop
  still holds: what was waiting for it is gone, also where its timer was not cancelled.
\<close>

theorem unsubscribed_stays_silent:
  assumes "(\<lambda>l l'. \<exists>es. live_step l es l')\<^sup>*\<^sup>* (unsubscribe_live l) l'"
  shows "sb_sent (lv_sub l') = sb_sent (lv_sub l) \<and> sb_pending (lv_sub l') = [] \<and>
    sb_id (lv_sub l') \<notin> set (cb_subscribers (lv_buffer l'))"
proof -
  have "silent (sb_sent (lv_sub l)) (unsubscribe_live l)"
    using cancel_all by (auto simp: silent_def unsubscribe_live_def unsubscribe_def)
  with assms have "silent (sb_sent (lv_sub l)) l'"
    by (induction rule: rtranclp_induct) (auto intro: silent_step)
  then show ?thesis by (simp add: silent_def)
qed

theorem unsubscribed_stays_silent_witness:
  "map ev_revision (sb_sent (lv_sub (live_publish ''remove'' [''Entity:a''] [] [] VNone (unsubscribe_live reconciled_live)))) =
   map ev_revision (sb_sent (lv_sub reconciled_live))"
proof -
  have "\<exists>es. live_step (unsubscribe_live reconciled_live) es
      (live_publish ''remove'' [''Entity:a''] [] [] VNone (unsubscribe_live reconciled_live))"
    by (rule exI, rule step_publish)
  then show ?thesis using unsubscribed_stays_silent [OF r_into_rtranclp] by auto
qed

end
