(* ===== verification/Websocket_Api.thy ===== *)
theory Websocket_Api
  imports Services Live_Updates Graph_Gateway
begin

text \<open>
  The commands of the explorer, \<open>websocket_api.py\<close>: each as an operation over the config entries, with what the
  connection is sent as its result.  The fields of a message have passed the schema of their command; the
  subscription to live changes is in \<open>Live_Updates\<close>.
\<close>

section \<open>Messages\<close>

datatype 'a ws_reply = SendResult 'a | SendError string string

definition GRAPH_UNAVAILABLE :: "'a ws_reply" where
  "GRAPH_UNAVAILABLE = SendError ''gateway_unavailable'' ''Ontology graph is unavailable''"

definition NO_ENTRY :: "'a ws_reply" where
  "NO_ENTRY = SendError ''not_found'' ''No loaded Ontology config entry''"

definition trimmed_search_term :: "string \<Rightarrow> string option" where
  "trimmed_search_term value = (let term = strip value in if 1 \<le> length term \<and> length term \<le> 256 then Some term else None)"

text \<open>
  \<open>_STABLE_GRAPH_ID\<close>: a label, a colon, a character that is neither blank, control nor colon, and at most 510
  characters that are no control characters.  The label has no colon, so the first colon ends it.
\<close>

definition is_stable_graph_id :: "string \<Rightarrow> bool" where
  "is_stable_graph_id value \<longleftrightarrow>
     (case (before CHR '':'' value, after CHR '':'' value) of
        (l # ls, Some (c # cs)) \<Rightarrow>
          is_alpha l \<and> list_all is_word ls \<and> 32 < (of_char c :: nat) \<and> (of_char c :: nat) \<noteq> 127 \<and> c \<noteq> CHR '':'' \<and>
          list_all (\<lambda>x. 31 < (of_char x :: nat) \<and> (of_char x :: nat) \<noteq> 127) cs \<and> length cs \<le> 510
      | _ \<Rightarrow> False)"

section \<open>The graph\<close>

text \<open>The gateway of an entry with the change buffer of its coordinator.\<close>

record served = gated +
  sv_buffer :: change_buffer

text \<open>The revision is read before the graph is.\<close>

definition handle_graph_snapshot ::
  "(int option \<Rightarrow> ('z served_scheme, graph_slice) op) \<Rightarrow> nat \<Rightarrow> ('z served_scheme service_entry list, graph_slice ws_reply) op" where
  "handle_graph_snapshot backend limit =
     with_first (Inr GRAPH_UNAVAILABLE) (\<lambda>options.
       obind (oget (\<lambda>s. cb_revision (sv_buffer s))) (\<lambda>snapshot_revision.
       obind (gateway_initial_graph backend (Some (int limit))) (\<lambda>result.
         oret (case result of
             GatewayUnavailable \<Rightarrow> GRAPH_UNAVAILABLE
           | Answered sl \<Rightarrow> SendResult (sl\<lparr>sl_revision := int snapshot_revision\<rparr>)))))"

definition handle_graph_search ::
  "(string \<Rightarrow> int option \<Rightarrow> ('z gated_scheme, 'm) op) \<Rightarrow> string \<Rightarrow> nat \<Rightarrow> ('z gated_scheme service_entry list, 'm ws_reply) op" where
  "handle_graph_search backend term limit =
     with_first (Inr GRAPH_UNAVAILABLE) (\<lambda>options.
       obind (gateway_search_graph backend (strip term) (Some (int limit))) (\<lambda>result.
         oret (case result of GatewayUnavailable \<Rightarrow> GRAPH_UNAVAILABLE | Answered m \<Rightarrow> SendResult m)))"

text \<open>The gateway gives no element both for an unknown one and when it is unavailable.\<close>

definition handle_graph_detail ::
  "(string \<Rightarrow> ('z gated_scheme, 'e option) op) \<Rightarrow> string \<Rightarrow> ('z gated_scheme service_entry list, 'e ws_reply) op" where
  "handle_graph_detail backend element_id =
     (if \<not> is_stable_graph_id element_id then oret (SendError ''invalid_format'' ''Graph element ID is invalid'')
      else with_first (Inr GRAPH_UNAVAILABLE) (\<lambda>options.
        obind (gateway_graph_element backend element_id) (\<lambda>result.
          oret (case result of
              None \<Rightarrow> SendError ''not_found'' ''Graph element was not found''
            | Some e \<Rightarrow> SendResult e))))"

definition handle_graph_expand ::
  "(string \<Rightarrow> int option \<Rightarrow> int option \<Rightarrow> ('z gated_scheme, graph_slice) op) \<Rightarrow> string \<Rightarrow> nat \<Rightarrow> nat \<Rightarrow>
   ('z gated_scheme service_entry list, graph_slice ws_reply) op" where
  "handle_graph_expand backend node_id node_limit edge_limit =
     (if \<not> is_stable_graph_id node_id then oret (SendError ''invalid_format'' ''Graph element ID is invalid'')
      else with_first (Inr GRAPH_UNAVAILABLE) (\<lambda>options.
        obind (gateway_expand_node backend node_id (Some (int node_limit)) (Some (int edge_limit))) (\<lambda>result.
          oret (case result of GatewayUnavailable \<Rightarrow> GRAPH_UNAVAILABLE | Answered sl \<Rightarrow> SendResult sl))))"

section \<open>Contexts and search\<close>

definition state_value :: "hass \<Rightarrow> string \<Rightarrow> pval" where
  "state_value h entity_id = (case get_state h entity_id of None \<Rightarrow> VNone | Some st \<Rightarrow> VStr (st_state st))"

text \<open>The row about an area, as the server answers its query: the area, the devices, the entities with their types.\<close>

record ws_area_row =
  wa_area :: pval
  wa_devices :: "dict list"
  wa_entities :: "(dict option \<times> string list) list"

definition area_answer :: "hass \<Rightarrow> ws_area_row \<Rightarrow> exn + dict" where
  "area_answer h row =
     (case node_properties (wa_area row) of
        Inl e \<Rightarrow> Inl e
      | Inr area \<Rightarrow> Inr
          [(''area'', VDict (or_empty area)), (''devices'', VList (map VDict (wa_devices row))),
           (''entities'', VList (concat (map (\<lambda>(entity, types). case entity of
               None \<Rightarrow> []
             | Some e \<Rightarrow> [VDict [(''entity'', VDict e),
                 (''state'', case dget e ''ha_id'' of VStr i \<Rightarrow> state_value h i | _ \<Rightarrow> VNone),
                 (''semantic_types'', VList (map VStr (filter (\<lambda>t. t \<noteq> []) types)))]]) (wa_entities row))))])"

definition ws_area_context ::
  "hass \<Rightarrow> (string \<Rightarrow> ws_area_row list stmt) \<Rightarrow> string \<Rightarrow> ('z world_scheme service_entry list, dict ws_reply) op" where
  "ws_area_context h server area_id =
     with_first (Inr NO_ENTRY) (\<lambda>options.
       obind (run_query (server area_id)) (\<lambda>rows.
         case rows of
           [] \<Rightarrow> oret (SendError ''not_found'' (''Area '' @ area_id @ '' not found''))
         | row # _ \<Rightarrow>
             if wa_area row = VNone then oret (SendError ''not_found'' (''Area '' @ area_id @ '' not found''))
             else obind (from_sum (area_answer h row)) (\<lambda>a. oret (SendResult a))))"

definition incoming :: "graph \<Rightarrow> string \<Rightarrow> nkey \<Rightarrow> pval list" where
  "incoming g t target = map (\<lambda>k. VDict (or_empty (node g k))) (keep_first (map (fst \<circ> fst)
     (filter (\<lambda>((a, t', b), d). b = target \<and> t' = t) (g_rels g))))"

text \<open>The first device of the entity; its area, or else the one the entity is placed in itself.\<close>

definition ws_entity_rows :: "hass \<Rightarrow> string \<Rightarrow> graph \<Rightarrow> dict list" where
  "ws_entity_rows h entity_id g =
     (case node g (LABEL_ENTITY, entity_id) of
        None \<Rightarrow> []
      | Some d \<Rightarrow>
          (let e = (LABEL_ENTITY, entity_id);
               devices = sources_of g LABEL_DEVICE [REL_HAS_ENTITY] e;
               areas = (case devices of [] \<Rightarrow> [] | d # _ \<Rightarrow> sources_of g LABEL_AREA [REL_HAS_DEVICE] d) @
                 sources_of g LABEL_AREA [REL_HAS_AREA] e;
               shown = (\<lambda>ks. case ks of [] \<Rightarrow> VNone | k # _ \<Rightarrow> VDict (or_empty (node g k)))
           in [[(''entity'', VDict d), (''state'', state_value h entity_id), (''device'', shown devices),
                (''area'', shown areas),
                (''semantic_types'', VList (map VStr (filter (\<lambda>t. t \<noteq> [])
                   (keep_first (map snd (targets_of g e [REL_CLASSIFIED_AS] (\<lambda>_. True))))))),
                (''dependents'', VList (incoming g REL_REFERENCES e)), (''cards'', VList (incoming g REL_DISPLAYS_ENTITY e))]]))"

definition ws_entity_context :: "hass \<Rightarrow> string \<Rightarrow> ('z world_scheme service_entry list, dict ws_reply) op" where
  "ws_entity_context h entity_id =
     with_first (Inr NO_ENTRY) (\<lambda>options.
       obind (run_query (read_stmt (ws_entity_rows h entity_id))) (\<lambda>rows.
         oret (case rows of
             [] \<Rightarrow> SendError ''not_found'' (''Entity '' @ entity_id @ '' not found'')
           | row # _ \<Rightarrow> SendResult row)))"

definition ws_search_limit :: "int option \<Rightarrow> nat" where
  "ws_search_limit limit = nat (min (case limit of None \<Rightarrow> int DEFAULT_SEARCH_LIMIT
      | Some l \<Rightarrow> if l = 0 then int DEFAULT_SEARCH_LIMIT else l) (int MAX_QUERY_LIMIT))"

definition ws_search :: "string \<Rightarrow> int option \<Rightarrow> ('z world_scheme service_entry list, (dict list \<times> bool) ws_reply) op" where
  "ws_search term limit =
     with_first (Inr NO_ENTRY) (\<lambda>options.
       obind (run_query_limited (read_stmt (search_rows [term])) (ws_search_limit limit)) (\<lambda>(rows, truncated).
         oret (SendResult (map (\<lambda>x. [(''type'', VStr (fst (fst x))), (''ha_id'', VStr (snd (fst x))),
           (''name'', dget (snd x) ''name'')]) rows, truncated))))"

section \<open>Lab\<close>

definition NO_LAB :: dict where
  "NO_LAB = [(''available'', VBool False), (''reason'', VStr ''not_addon_backend''), (''ingress_path'', VNone),
     (''checked_at'', VNone)]"

text \<open>The coordinator's access to the lab, when there is a loaded entry, and the answer of the probe.\<close>

definition handle_lab_status :: "bool \<Rightarrow> http_outcome \<Rightarrow> int \<Rightarrow> lab_access option \<Rightarrow> dict ws_reply \<times> lab_access option" where
  "handle_lab_status is_admin outcome duration_ms lab =
     (if \<not> is_admin then (SendError ''unauthorized'' ''Administrator access required'', lab)
      else (case lab of
          None \<Rightarrow> (SendResult NO_LAB, None)
        | Some l \<Rightarrow>
            (let (capability, l') = get_capability outcome duration_ms l
             in (SendResult [(''available'', option_or capability ''available'' (VBool False)),
                  (''reason'', option_or capability ''reason'' (VStr ''not_addon_backend'')),
                  (''ingress_path'', if truthy (dget capability ''available'') then dget capability ''ingress_path'' else VNone),
                  (''checked_at'', dget capability ''checked_at'')], Some l'))))"

section \<open>Registration\<close>

definition WS_COMMANDS :: "string list" where
  "WS_COMMANDS = [WS_TYPE_AREA_CONTEXT, WS_TYPE_ENTITY_CONTEXT, WS_TYPE_SEARCH, WS_TYPE_GRAPH_SNAPSHOT, WS_TYPE_GRAPH_SEARCH,
     WS_TYPE_GRAPH_DETAIL, WS_TYPE_GRAPH_EXPAND, WS_TYPE_GRAPH_SUBSCRIBE, WS_TYPE_LAB_STATUS]"

text \<open>The flag of Home Assistant's data, and the commands registered so far.\<close>

definition register_commands :: "bool \<times> string list \<Rightarrow> bool \<times> string list" where
  "register_commands s = (if fst s then s else (True, snd s @ WS_COMMANDS))"

section \<open>What the explorer sees\<close>

lemma snapshot_result:
  assumes "se_loaded x" and "fst (handle_graph_snapshot backend limit [x]) = Inr (SendResult sl)"
  shows "sl_revision sl = int (cb_revision (sv_buffer (se_coordinator x)))"
  using assms
  by (auto simp: handle_graph_snapshot_def obind_def oget_def oret_def GRAPH_UNAVAILABLE_def
      split: prod.splits sum.splits gateway_answer.splits)

text \<open>
  C31. From a snapshot to the live updates nothing is lost: a client that takes a snapshot and later subscribes from
  the revision it came with is told at once, for every element, of every change published in between, by the
  change itself or by a request to reload, however long the snapshot took and whatever left the buffer.
\<close>

theorem snapshot_then_subscribe:
  fixes x :: "'z served_scheme service_entry"
  assumes "se_loaded x" and "fst (handle_graph_snapshot backend limit [x]) = Inr (SendResult sl)"
    and "buffer_run n (sv_buffer (se_coordinator x)) history" and "buffer_run n b (history @ since)" and "0 < n"
    and "handle_graph_subscribe i (sl_revision sl) occurred_at now (Some b) = Inr l"
  shows "list_all (\<lambda>e. list_all (told (lv_sub l) e) (element_ids e)) since"
proof -
  have r: "sl_revision sl = int (length history)"
    using snapshot_result [OF assms(1,2)] buffer_run_buffers [OF assms(3,5)] by (simp add: buffers_def)
  have b: "buffers b (history @ since)" using buffer_run_buffers [OF assms(4,5)] by blast
  have m: "map ev_revision (history @ since) = [1..<Suc (length (history @ since))]" using b by (simp only: buffers_def)
  have rev: "length history < ev_revision e" if "e \<in> set since" for e
  proof -
    from that obtain k where k: "k < length since" "since ! k = e" unfolding in_set_conv_nth by blast
    have "(history @ since) ! (length history + k) = e" using k(2) by (simp only: nth_append_length_plus)
    moreover have "length history + k < length (history @ since)" using k(1) by simp
    ultimately have "ev_revision e = Suc (length history + k)" using history_nth [OF m] by metis
    then show ?thesis by linarith
  qed
  have ok: "live_ok (sl_revision sl) l (history @ since)" by (rule live_ok_start [OF b assms(6)])
  have "sb_pending (lv_sub l) = []"
    using assms(6) by (auto simp: handle_graph_subscribe_def new_subscription_def)
  then show ?thesis using ok rev r by (auto simp: live_ok_def waits_def list_all_iff)
qed

definition one_served :: "served service_entry" where
  "one_served = \<lparr>se_loaded = True, se_options = [], se_coordinator =
     world.extend (world_at empty_graph []) \<lparr>gw_available = True, gw_last_error = None, gw_request_count = 0,
       sv_buffer = new_change_buffer 5\<rparr>\<rparr>"

definition empty_slice :: graph_slice where
  "empty_slice = \<lparr>sl_nodes = [], sl_relationships = [], sl_truncated = False, sl_next_cursor = VNone, sl_revision = 7\<rparr>"

theorem snapshot_then_subscribe_witness:
  "told (new_subscription ''s'' [sample_upsert]) sample_upsert ''Entity:a''"
proof -
  let ?b = "publish_event ''upsert'' [''Entity:a''] [] [''state''] VNone (new_change_buffer 5)"
  let ?l = "\<lparr>lv_buffer = subscribe ''s'' ?b, lv_sub = new_subscription ''s'' [sample_upsert], lv_now = 0\<rparr>"
  have snap: "fst (handle_graph_snapshot (\<lambda>_. oret empty_slice) 3 [one_served]) = Inr (SendResult (empty_slice\<lparr>sl_revision := 0\<rparr>))"
    by (simp add: handle_graph_snapshot_def one_served_def obind_def oget_def oret_def gateway_initial_graph_def
        or_unavailable_def gateway_call_def oseq_def omodify_def otry_def new_change_buffer_def world.defs world_at_def)
  have start: "buffer_run 5 (sv_buffer (se_coordinator one_served)) []"
    using run_new by (simp add: one_served_def world.defs)
  have e: "\<lparr>ev_revision = Suc (cb_revision (new_change_buffer 5)), ev_kind = ''upsert'', ev_node_ids = [''Entity:a''],
      ev_relationship_ids = [], ev_changed_properties = [''state''], ev_occurred_at = VNone\<rparr> = sample_upsert"
    by (simp add: sample_upsert_def new_change_buffer_def)
  have later: "buffer_run 5 ?b ([] @ [sample_upsert])"
    using run_publish [OF run_new, of 5 "''upsert''" "[''Entity:a'']" "[]" "[''state'']" VNone] unfolding e .
  have sub: "handle_graph_subscribe ''s'' (sl_revision (empty_slice\<lparr>sl_revision := 0\<rparr>)) VNone 0 (Some ?b) = Inr ?l"
    by (simp add: handle_graph_subscribe_def events_since_def publish_event_def publish_def next_revision_def
        new_change_buffer_def deque_append_def sample_upsert_def)
  have "se_loaded one_served" by (simp add: one_served_def)
  from snapshot_then_subscribe [OF this snap start later _ sub]
  show ?thesis by (simp add: element_ids_def sample_upsert_def)
qed

text \<open>
  An outage of the database is told to the explorer as what it is by every command but one: the detail of an
  element answers that there is no such element.
\<close>

theorem outage_told_as_missing:
  "let entries = [\<lparr>se_loaded = True, se_options = [], se_coordinator = g\<rparr>]; err = CannotConnect message
   in fst (handle_graph_detail (\<lambda>i. oraise err) ''Entity:light.hall'' entries) =
        Inr (SendError ''not_found'' ''Graph element was not found'') \<and>
      fst (handle_graph_expand (\<lambda>i n e. oraise err) ''Entity:light.hall'' 10 10 entries) = Inr GRAPH_UNAVAILABLE \<and>
      fst (handle_graph_search (\<lambda>t n. oraise err) ''hall'' 10 entries) = Inr GRAPH_UNAVAILABLE"
proof -
  have "is_stable_graph_id ''Entity:light.hall''"
    by (simp add: is_stable_graph_id_def before_def after_def is_alpha_def is_word_def is_alnum_def)
  then show ?thesis
    by (simp add: handle_graph_detail_def handle_graph_expand_def handle_graph_search_def obind_def oret_def oraise_def
        gateway_graph_element_def gateway_expand_node_def gateway_search_graph_def or_unavailable_def gateway_call_def
        oseq_def omodify_def otry_def Let_def)
qed

end
