(* ===== verification/Service_Schemas.thy ===== *)
theory Service_Schemas
  imports Services
begin

text \<open>
  The schemas of the services of \<open>__init__.py\<close> and what they make of the data of a call before a handler sees
  it.  A schema is a list of fields with a rule each; the rules are those the schemas use of voluptuous (an
  instance of a type, \<open>In\<close>, \<open>Coerce\<close> followed by \<open>Range\<close>), read as its documentation gives them.  What
  \<open>cv.entity_id\<close> accepts is a parameter.
\<close>

section \<open>Rules\<close>

text \<open>
  A finite number: the lower bound, whether the bound itself is out, the upper bound.  A whole number: both
  bounds.
\<close>

datatype field_rule =
    TextRule
  | WholeRule
  | MappingRule
  | FlagRule
  | EntityIdRule
  | ChoiceRule "string list"
  | FiniteRule rat bool "rat option"
  | CountRule int int

record schema_field =
  sf_required :: bool
  sf_key :: string
  sf_rule :: field_rule


definition optional_key :: "string \<Rightarrow> field_rule \<Rightarrow> schema_field" where
  "optional_key key rule = \<lparr>sf_required = False, sf_key = key, sf_rule = rule\<rparr>"

text \<open>\<open>float(value)\<close>.\<close>

definition to_float :: "pval \<Rightarrow> exn + pyfloat" where
  "to_float v =
     (case v of
        VInt i \<Rightarrow> (case round_float (of_int i) of
            Fin q \<Rightarrow> Inr (Fin q) | _ \<Rightarrow> Inl (OverflowError ''int too large to convert to float''))
      | VBool b \<Rightarrow> Inr (Fin (if b then 1 else 0))
      | VFloat f \<Rightarrow> Inr f
      | VStr s \<Rightarrow> (case py_float s of
            None \<Rightarrow> Inl (ValueError ''could not convert string to float'') | Some f \<Rightarrow> Inr f)
      | _ \<Rightarrow> Inl (TypeError ''float() argument must be a string or a real number''))"

text \<open>
  \<open>Coerce\<close> turns a \<open>ValueError\<close> or a \<open>TypeError\<close> of the conversion into a violation, and lets an
  \<open>OverflowError\<close> through.
\<close>

definition coerced :: "exn + 'a \<Rightarrow> exn + 'a option" where
  "coerced r =
     (case r of
        Inr x \<Rightarrow> Inr (Some x)
      | Inl (OverflowError m) \<Rightarrow> Inl (OverflowError m)
      | Inl _ \<Rightarrow> Inr None)"

definition within_bounds :: "rat \<Rightarrow> bool \<Rightarrow> rat option \<Rightarrow> rat \<Rightarrow> bool" where
  "within_bounds low strict high q \<longleftrightarrow>
     (if strict then low < q else low \<le> q) \<and> (case high of None \<Rightarrow> True | Some h \<Rightarrow> q \<le> h)"

definition converted :: "('a \<Rightarrow> 'b) \<Rightarrow> exn + 'a \<Rightarrow> exn + 'b" where
  "converted f r = (case r of Inl e \<Rightarrow> Inl e | Inr x \<Rightarrow> Inr (f x))"

text \<open>\<open>_FiniteFloat\<close>.\<close>

definition finite_float :: "pval \<Rightarrow> exn + rat option" where
  "finite_float v = converted (\<lambda>r. case r of Some (Fin q) \<Rightarrow> Some q | _ \<Rightarrow> None) (coerced (to_float v))"

definition kept_if :: "(pval \<Rightarrow> bool) \<Rightarrow> pval \<Rightarrow> exn + pval option" where
  "kept_if p v = Inr (if p v then Some v else None)"

definition within_finite :: "rat \<Rightarrow> bool \<Rightarrow> rat option \<Rightarrow> rat option \<Rightarrow> pval option" where
  "within_finite low strict high r =
     (case r of None \<Rightarrow> None | Some q \<Rightarrow> if within_bounds low strict high q then Some (VFloat (Fin q)) else None)"

definition within_count :: "int \<Rightarrow> int \<Rightarrow> int option \<Rightarrow> pval option" where
  "within_count low high r = (case r of None \<Rightarrow> None | Some i \<Rightarrow> if low \<le> i \<and> i \<le> high then Some (VInt i) else None)"

text \<open>What a rule makes of a value, \<open>None\<close> when the value violates it.  A truth value is a whole number.\<close>

fun apply_rule :: "(pval \<Rightarrow> string option) \<Rightarrow> field_rule \<Rightarrow> pval \<Rightarrow> exn + pval option" where
  "apply_rule entity_id TextRule v = kept_if (\<lambda>v. case v of VStr _ \<Rightarrow> True | _ \<Rightarrow> False) v"
| "apply_rule entity_id WholeRule v = kept_if (\<lambda>v. case v of VInt _ \<Rightarrow> True | VBool _ \<Rightarrow> True | _ \<Rightarrow> False) v"
| "apply_rule entity_id MappingRule v = kept_if (\<lambda>v. case v of VDict _ \<Rightarrow> True | _ \<Rightarrow> False) v"
| "apply_rule entity_id FlagRule v = kept_if (\<lambda>v. case v of VBool _ \<Rightarrow> True | _ \<Rightarrow> False) v"
| "apply_rule entity_id EntityIdRule v = Inr (map_option VStr (entity_id v))"
| "apply_rule entity_id (ChoiceRule choices) v = kept_if (\<lambda>v. case v of VStr s \<Rightarrow> s \<in> set choices | _ \<Rightarrow> False) v"
| "apply_rule entity_id (FiniteRule low strict high) v = converted (within_finite low strict high) (finite_float v)"
| "apply_rule entity_id (CountRule low high) v = converted (within_count low high) (coerced (py_int v))"

section \<open>A schema\<close>

text \<open>A call is refused with the keys at fault, or fails with an exception.\<close>

datatype call_error = Invalid "string list" | Failed exn

fun apply_fields :: "(pval \<Rightarrow> string option) \<Rightarrow> schema_field list \<Rightarrow> dict \<Rightarrow> exn + string list \<times> dict" where
  "apply_fields entity_id fs [] = Inr ([], [])"
| "apply_fields entity_id fs ((k, v) # d) =
     (case (case find (\<lambda>f. sf_key f = k) fs of None \<Rightarrow> Inr None | Some f \<Rightarrow> apply_rule entity_id (sf_rule f) v) of
        Inl e \<Rightarrow> Inl e
      | Inr r \<Rightarrow> (case apply_fields entity_id fs d of
            Inl e \<Rightarrow> Inl e
          | Inr (faults, d') \<Rightarrow> Inr (case r of None \<Rightarrow> (k # faults, d') | Some w \<Rightarrow> (faults, (k, w) # d'))))"

definition missing_keys :: "schema_field list \<Rightarrow> dict \<Rightarrow> string list" where
  "missing_keys fs d = filter (\<lambda>k. k \<notin> fst ` set d) (map sf_key (filter sf_required fs))"

definition validated :: "(pval \<Rightarrow> string option) \<Rightarrow> schema_field list \<Rightarrow> dict \<Rightarrow> call_error + dict" where
  "validated entity_id fs data =
     (case apply_fields entity_id fs data of
        Inl e \<Rightarrow> Inl (Failed e)
      | Inr (faults, d) \<Rightarrow>
          (let wrong = faults @ missing_keys fs data in if wrong = [] then Inr d else Inl (Invalid wrong)))"

section \<open>The schemas of the services\<close>















definition MESH_HEALTH_SCHEMA :: "schema_field list" where
  "MESH_HEALTH_SCHEMA = [optional_key ATTR_WEAK_LQI (FiniteRule 0 False None), optional_key ATTR_LIMIT (CountRule 1 1000)]"





section \<open>What a schema establishes\<close>

text \<open>The values a rule lets through to a handler.\<close>

fun conforms :: "(pval \<Rightarrow> string option) \<Rightarrow> field_rule \<Rightarrow> pval \<Rightarrow> bool" where
  "conforms entity_id (FiniteRule low strict high) v =
     (case v of VFloat (Fin q) \<Rightarrow> within_bounds low strict high q | _ \<Rightarrow> False)"
| "conforms entity_id (CountRule low high) v = (case v of VInt i \<Rightarrow> low \<le> i \<and> i \<le> high | _ \<Rightarrow> False)"
| "conforms entity_id EntityIdRule v = (case v of VStr s \<Rightarrow> entity_id (VStr s) = Some s | _ \<Rightarrow> False)"
| "conforms entity_id (ChoiceRule choices) v = (case v of VStr s \<Rightarrow> s \<in> set choices | _ \<Rightarrow> False)"
| "conforms entity_id TextRule v = (case v of VStr _ \<Rightarrow> True | _ \<Rightarrow> False)"
| "conforms entity_id WholeRule v = (case v of VInt _ \<Rightarrow> True | VBool _ \<Rightarrow> True | _ \<Rightarrow> False)"
| "conforms entity_id MappingRule v = (case v of VDict _ \<Rightarrow> True | _ \<Rightarrow> False)"
| "conforms entity_id FlagRule v = (case v of VBool _ \<Rightarrow> True | _ \<Rightarrow> False)"

definition entity_id_settled :: "(pval \<Rightarrow> string option) \<Rightarrow> bool" where
  "entity_id_settled entity_id \<longleftrightarrow> (\<forall>v s. entity_id v = Some s \<longrightarrow> entity_id (VStr s) = Some s)"

lemma apply_rule_conforms:
  "entity_id_settled entity_id \<Longrightarrow> apply_rule entity_id rule v = Inr (Some w) \<Longrightarrow> conforms entity_id rule w"
  by (cases rule) (auto simp: kept_if_def within_finite_def within_count_def converted_def entity_id_settled_def
      split: if_splits pval.splits sum.splits option.splits)

lemma conforms_fixed: "conforms entity_id rule w \<Longrightarrow> apply_rule entity_id rule w = Inr (Some w)"
  by (cases rule) (auto simp: kept_if_def within_finite_def within_count_def finite_float_def converted_def to_float_def coerced_def py_int_def
      split: pval.splits pyfloat.splits)

text \<open>The rule of a key; a key that no field has violates the schema.\<close>

definition field_conforms :: "(pval \<Rightarrow> string option) \<Rightarrow> schema_field list \<Rightarrow> string \<times> pval \<Rightarrow> bool" where
  "field_conforms entity_id fs = (\<lambda>(k, v).
     case find (\<lambda>f. sf_key f = k) fs of None \<Rightarrow> False | Some f \<Rightarrow> conforms entity_id (sf_rule f) v)"

lemma apply_fields_conforms:
  "entity_id_settled entity_id \<Longrightarrow> apply_fields entity_id fs data = Inr ([], d) \<Longrightarrow>
   list_all (field_conforms entity_id fs) d \<and> map fst d = map fst data"
proof (induction data arbitrary: d)
  case Nil
  then show ?case by simp
next
  case (Cons x data)
  obtain k v where x: "x = (k, v)" by (cases x)
  from Cons.prems(2) obtain f w d' where "find (\<lambda>f. sf_key f = k) fs = Some f"
    and "apply_rule entity_id (sf_rule f) v = Inr (Some w)" and "apply_fields entity_id fs data = Inr ([], d')"
    and "d = (k, w) # d'"
    by (auto simp: x split: sum.splits option.splits prod.splits)
  then show ?case using Cons.IH Cons.prems(1) apply_rule_conforms by (auto simp: x field_conforms_def)
qed

lemma conforming_fields_fixed:
  "list_all (field_conforms entity_id fs) d \<Longrightarrow> apply_fields entity_id fs d = Inr ([], d)"
  by (induction d) (auto simp: field_conforms_def conforms_fixed split: option.splits)

lemma validated_Inr:
  "validated entity_id fs data = Inr d \<longleftrightarrow> apply_fields entity_id fs data = Inr ([], d) \<and> missing_keys fs data = []"
  by (auto simp: validated_def Let_def split: sum.splits prod.splits if_splits)

text \<open>
  What a schema lets through has exactly the fields of the call, every required one among them, each within
  its rule; and checking it again changes nothing.
\<close>

theorem schema_establishes:
  assumes "entity_id_settled entity_id" and "validated entity_id fs data = Inr d"
  shows "list_all (field_conforms entity_id fs) d \<and> map fst d = map fst data \<and>
    list_all (\<lambda>f. \<not> (sf_required f \<and> sf_key f \<notin> fst ` set d)) fs \<and> validated entity_id fs d = Inr d"
proof -
  have d: "list_all (field_conforms entity_id fs) d" "map fst d = map fst data"
    using apply_fields_conforms [OF assms(1)] assms(2) by (auto simp: validated_Inr)
  then have keys: "fst ` set d = fst ` set data" by (metis list.set_map)
  then have "missing_keys fs d = []" using assms(2) by (simp add: validated_Inr missing_keys_def)
  then show ?thesis
    using d conforming_fields_fixed [OF d(1)]
    by (simp add: validated_Inr) (auto simp: missing_keys_def filter_empty_conv list_all_iff)
qed

theorem schema_establishes_witness:
  "validated (\<lambda>_. None) MESH_HEALTH_SCHEMA [(ATTR_LIMIT, VInt 7)] = Inr [(ATTR_LIMIT, VInt 7)]"
proof -
  have "validated (\<lambda>_. None) MESH_HEALTH_SCHEMA [(ATTR_LIMIT, VStr '' 7 '')] = Inr [(ATTR_LIMIT, VInt 7)]"
    by (simp add: validated_def MESH_HEALTH_SCHEMA_def optional_key_def missing_keys_def coerced_def converted_def
        within_count_def py_int_def py_int_text_def strip_def is_space_def scan_sign_def is_digit_def digit_val_def
        const_defs)
  moreover have "entity_id_settled (\<lambda>_. None)" by (simp add: entity_id_settled_def)
  ultimately show ?thesis using schema_establishes by blast
qed

section \<open>Limits of the calls\<close>








end
