(* ===== verification/Entry_Lifecycle.thy ===== *)
theory Entry_Lifecycle
  imports Services
begin

text \<open>
  The life of a config entry: what \<open>async_setup_entry\<close> of \<open>__init__.py\<close> leaves running once the connection and
  the schema were accepted, and what an unload takes away.  Home Assistant runs what was given to
  \<open>async_on_unload\<close> after an unload that succeeded and after a set-up that failed.
\<close>

section \<open>What runs for an entry\<close>

text \<open>The callbacks of an entry; the nightly scan with the hour of the day it runs at.\<close>

datatype background =
    EventListeners
  | RetrySweep
  | AuditSweep
  | ActivityPublisher
  | MeshScan int
  | OptionsListener

text \<open>The seconds between two calls of a callback on a timer.\<close>

fun call_interval :: "background \<Rightarrow> rat option" where
  "call_interval RetrySweep = Some FAILED_UPDATE_RETRY_INTERVAL_SECONDS"
| "call_interval AuditSweep = Some AGENT_AUDIT_SWEEP_INTERVAL_SECONDS"
| "call_interval ActivityPublisher = Some SYNC_ACTIVITY_PUBLISH_INTERVAL_SECONDS"
| "call_interval _ = None"

text \<open>
  By entry, what is called until its unload; the background tasks that were started; the entries whose
  endpoint was registered with the server, the notifications, and whether the panel is there.
\<close>

record attached = serving +
  at_running :: "(string \<times> background) list"
  at_tasks :: "string list"
  at_endpoints :: "string list"
  at_notifications :: "(string \<times> string) list"
  at_panel :: bool

type_synonym ('z, 'a) top = "('z attached_scheme, 'a) op"

definition run_for :: "string \<Rightarrow> background \<Rightarrow> ('z, unit) top" where
  "run_for entry_id b = omodify (\<lambda>s. s\<lparr>at_running := at_running s @ [(entry_id, b)]\<rparr>)"

definition create_task :: "string \<Rightarrow> ('z, unit) top" where
  "create_task name = omodify (\<lambda>s. s\<lparr>at_tasks := at_tasks s @ [name]\<rparr>)"

text \<open>The task a callback starts when it is called; the sweep of the failed updates starts one only for some.\<close>

definition task_of :: "string \<Rightarrow> bool \<Rightarrow> background \<Rightarrow> string option" where
  "task_of entry_id has_failed_updates b =
     (case b of
        RetrySweep \<Rightarrow> if has_failed_updates then Some (''ontology_retry_failed_updates_'' @ entry_id) else None
      | AuditSweep \<Rightarrow> Some (''ontology_prune_agent_audit_'' @ entry_id)
      | MeshScan _ \<Rightarrow> Some (''ontology_mesh_scan_'' @ entry_id)
      | _ \<Rightarrow> None)"

definition call_back :: "string \<Rightarrow> bool \<Rightarrow> background \<Rightarrow> ('z, unit) top" where
  "call_back entry_id has_failed_updates b =
     (case task_of entry_id has_failed_updates b of None \<Rightarrow> oret () | Some name \<Rightarrow> create_task name)"

section \<open>The endpoint and the panel\<close>

definition token_message :: "string \<Rightarrow> string" where
  "token_message token =
     ''Local MCP access token generated for the Ontology integration:'' @ [char_of (10 :: nat), char_of (10 :: nat)] @ token @
     [char_of (10 :: nat), char_of (10 :: nat)] @ ''This token will not be shown again. Regenerate it any time via the '' @
     [CHR 0x27] @ ''Regenerate MCP token'' @ [CHR 0x27] @ '' button if it is lost or compromised.''"

text \<open>\<open>issued\<close> is what \<open>get_or_create_token\<close> answered: the token, and whether it is new.\<close>

definition register_mcp_view :: "bool \<Rightarrow> string \<times> bool \<Rightarrow> string \<Rightarrow> ('z, unit) top" where
  "register_mcp_view has_http issued entry_id =
     omodify (\<lambda>s. if \<not> has_http then s
       else (let s = (if snd issued
               then s\<lparr>at_notifications := AList.update (''ontology_mcp_token_'' @ entry_id) (token_message (fst issued)) (at_notifications s)\<rparr>
               else s)
         in s\<lparr>at_endpoints := at_endpoints s @ [entry_id]\<rparr>))"

definition register_panel :: "bool \<Rightarrow> ('z, unit) top" where
  "register_panel has_http = omodify (\<lambda>s. if at_panel s \<or> \<not> has_http then s else s\<lparr>at_panel := True\<rparr>)"

section \<open>Set-up and unload\<close>

text \<open>
  The registrations in the order of the code.  The health of the new coordinator (\<open>Coordinator\<close>), the websocket
  commands (\<open>Websocket_Api\<close>), the intents and their sentences (\<open>Assist_Intents\<close>) have states of their own; the
  platforms are Home Assistant's.
\<close>

definition attach_entry :: "bool \<Rightarrow> string \<times> bool \<Rightarrow> string \<Rightarrow> entry_runtime \<Rightarrow> ('z, unit) top" where
  "attach_entry has_http issued entry_id rt =
     oseq (create_task (''ontology_initial_sync_'' @ entry_id))
    (oseq (run_for entry_id EventListeners)
    (oseq (run_for entry_id RetrySweep)
    (oseq (run_for entry_id AuditSweep)
    (oseq (run_for entry_id ActivityPublisher)
    (oseq (case rt_scan_hour rt of None \<Rightarrow> oret () | Some hour \<Rightarrow> run_for entry_id (MeshScan hour))
    (oseq async_register_services
    (oseq (owhen (rt_mcp_enabled rt) (register_mcp_view has_http issued entry_id))
    (oseq (register_panel has_http)
          (run_for entry_id OptionsListener)))))))))"

definition set_up_entry ::
  "(pval \<Rightarrow> string) \<Rightarrow> bool \<Rightarrow> string \<times> bool \<Rightarrow> string \<Rightarrow> dict \<Rightarrow> dict \<Rightarrow> ('z, entry_runtime) top" where
  "set_up_entry str_of has_http issued entry_id entry_data entry_options =
     obind (async_setup_entry str_of entry_id entry_data entry_options)
       (\<lambda>rt. oseq (attach_entry has_http issued entry_id rt) (oret rt))"

definition unload_entry :: "bool \<Rightarrow> string \<Rightarrow> ('z, bool) top" where
  "unload_entry unload_ok entry_id =
     obind (async_unload_entry unload_ok) (\<lambda>ok.
       oseq (owhen ok (omodify (\<lambda>s. s\<lparr>at_running := filter (\<lambda>x. fst x \<noteq> entry_id) (at_running s)\<rparr>))) (oret ok))"

text \<open>A reload, as the listener of the options asks for it: an unload, and a set-up when that succeeded.\<close>

definition reload_entry ::
  "(pval \<Rightarrow> string) \<Rightarrow> bool \<Rightarrow> bool \<Rightarrow> string \<times> bool \<Rightarrow> string \<Rightarrow> dict \<Rightarrow> dict \<Rightarrow> ('z, bool) top" where
  "reload_entry str_of unload_ok has_http issued entry_id entry_data entry_options =
     obind (unload_entry unload_ok entry_id) (\<lambda>ok.
       if ok then oseq (set_up_entry str_of has_http issued entry_id entry_data entry_options) (oret True) else oret False)"

section \<open>What a set-up and an unload leave\<close>

definition entry_background :: "entry_runtime \<Rightarrow> background list" where
  "entry_background rt = [EventListeners, RetrySweep, AuditSweep, ActivityPublisher] @
     (case rt_scan_hour rt of None \<Rightarrow> [] | Some hour \<Rightarrow> [MeshScan hour]) @ [OptionsListener]"

text \<open>Each step succeeds and changes its own field.\<close>

lemma oseq_done: "fst (m s) = Inr x \<Longrightarrow> oseq m n s = n (snd (m s))"
  by (cases "m s") (simp add: oseq_apply)

lemma run_for_step [simp]:
  "fst (run_for entry_id b s) = Inr ()" "at_running (snd (run_for entry_id b s)) = at_running s @ [(entry_id, b)]"
  "at_panel (snd (run_for entry_id b s)) = at_panel s" "at_endpoints (snd (run_for entry_id b s)) = at_endpoints s"
  "at_notifications (snd (run_for entry_id b s)) = at_notifications s"
  by (simp_all add: run_for_def omodify_def)

lemma create_task_step [simp]:
  "fst (create_task name s) = Inr ()" "at_running (snd (create_task name s)) = at_running s"
  "at_panel (snd (create_task name s)) = at_panel s" "at_endpoints (snd (create_task name s)) = at_endpoints s"
  "at_notifications (snd (create_task name s)) = at_notifications s"
  by (simp_all add: create_task_def omodify_def)

lemma register_services_step [simp]:
  "fst (async_register_services s) = Inr ()" "at_running (snd (async_register_services s)) = at_running s"
  "at_panel (snd (async_register_services s)) = at_panel s" "at_endpoints (snd (async_register_services s)) = at_endpoints s"
  "at_notifications (snd (async_register_services s)) = at_notifications s"
  by (simp_all add: async_register_services_def omodify_def)

lemma register_panel_step [simp]:
  "fst (register_panel has_http s) = Inr ()" "at_running (snd (register_panel has_http s)) = at_running s"
  "at_panel (snd (register_panel has_http s)) \<longleftrightarrow> at_panel s \<or> has_http"
  "at_endpoints (snd (register_panel has_http s)) = at_endpoints s"
  "at_notifications (snd (register_panel has_http s)) = at_notifications s"
  by (simp_all add: register_panel_def omodify_def)

lemma register_mcp_view_step [simp]:
  "fst (register_mcp_view has_http issued entry_id s) = Inr ()"
  "at_running (snd (register_mcp_view has_http issued entry_id s)) = at_running s"
  "at_panel (snd (register_mcp_view has_http issued entry_id s)) = at_panel s"
  "at_endpoints (snd (register_mcp_view has_http issued entry_id s)) = at_endpoints s @ (if has_http then [entry_id] else [])"
  "at_notifications (snd (register_mcp_view has_http issued entry_id s)) = (if has_http \<and> snd issued
     then AList.update (''ontology_mcp_token_'' @ entry_id) (token_message (fst issued)) (at_notifications s)
     else at_notifications s)"
  by (simp_all add: register_mcp_view_def omodify_def Let_def)

lemma attach_entry_run:
  "\<exists>t. attach_entry has_http issued entry_id rt s = (Inr (), t) \<and>
     at_running t = at_running s @ map (Pair entry_id) (entry_background rt) \<and>
     (at_panel t \<longleftrightarrow> at_panel s \<or> has_http) \<and>
     at_endpoints t = at_endpoints s @ (if rt_mcp_enabled rt \<and> has_http then [entry_id] else []) \<and>
     at_notifications t = (if rt_mcp_enabled rt \<and> has_http \<and> snd issued
       then AList.update (''ontology_mcp_token_'' @ entry_id) (token_message (fst issued)) (at_notifications s)
       else at_notifications s)"
proof -
  have none: "oseq (oret ()) n = n" for n :: "('z, unit) top" by (simp add: oseq_def obind_def oret_def)
  have owhen: "owhen b m = (if b then m else oret ())" for b and m :: "('z, unit) top" by (simp add: owhen_def)
  let ?t = "snd (attach_entry has_http issued entry_id rt s)"
  show ?thesis
    by (rule exI [of _ ?t], cases "rt_scan_hour rt"; cases "rt_mcp_enabled rt")
      (simp_all add: attach_entry_def oseq_done none owhen entry_background_def prod_eq_iff)
qed

text \<open>The connection and the schema check reach the world and the issues only.\<close>

lemma keeps_more_run_query [keeps_intros]: "keeps (\<lambda>s. installed.more s = m) (run_query q)"
  by (auto simp: keeps_def run_query_eq split: list.splits net.splits)

lemma keeps_more_test_connection [keeps_intros]: "keeps (\<lambda>s. installed.more s = m) test_connection"
  by (auto simp: keeps_def test_connection_def driver_call_def connect_def oseq_apply read_stmt_def
      split: list.splits net.splits)

lemma keeps_more_clock [keeps_intros]: "keeps (\<lambda>s. installed.more s = m) utc_now"
  by (simp add: keeps_def utc_now_def)

lemma keeps_more_close [keeps_intros]: "keeps (\<lambda>s. installed.more s = m) close"
  by (simp add: keeps_def close_def)

lemma keeps_more_ensure_index [keeps_intros]: "keeps (\<lambda>s. installed.more s = m) (ensure_index existing label)"
  unfolding ensure_index_def by (intro keeps_intros) (auto simp: sanitize_label_def Let_def intro: keeps_intros)

lemma keeps_more_execute_write [keeps_intros]: "keeps (\<lambda>s. installed.more s = m) (execute_write work)"
  unfolding execute_write_def by (intro keeps_intros) (auto split: sum.splits intro: keeps_intros)

lemma keeps_more_migrate [keeps_intros]: "keeps (\<lambda>s. installed.more s = m) migrate_schema_if_supported"
  unfolding migrate_schema_if_supported_def ensure_v3_indexes_def now_iso_def by (intro keeps_intros)

lemma setup_keeps_more: "keeps (\<lambda>s. installed.more s = m) (async_setup_entry str_of entry_id entry_data entry_options)"
  unfolding async_setup_entry_def test_entry_connection_def check_entry_schema_def create_issue_def delete_issue_def
    async_create_schema_mismatch_issue_def async_clear_schema_mismatch_issue_def
  by (intro keeps_intros) (auto split: exn.splits intro!: keeps_intros)

definition same_registrations :: "'z attached_scheme \<Rightarrow> 'z attached_scheme \<Rightarrow> bool" where
  "same_registrations s t \<longleftrightarrow> at_running t = at_running s \<and> at_tasks t = at_tasks s \<and> at_endpoints t = at_endpoints s \<and>
     at_notifications t = at_notifications s \<and> at_panel t = at_panel s \<and> sv_services t = sv_services s"

lemma same_more: "installed.more t = installed.more s \<Longrightarrow> same_registrations s t"
  by (cases s, cases t) (simp add: same_registrations_def)

text \<open>
  A set-up that fails leaves nothing registered and nothing running.  One that succeeds starts what the entry
  needs, once each; the unload that follows stops all of it, closes the connection and leaves what runs for
  other entries; an unload that Home Assistant refuses changes nothing.
\<close>

theorem entry_life:
  "case set_up_entry str_of has_http issued entry_id entry_data entry_options s of
     (Inl e, t) \<Rightarrow> same_registrations s t
   | (Inr rt, t) \<Rightarrow>
       at_running t = at_running s @ map (Pair entry_id) (entry_background rt) \<and> distinct (entry_background rt) \<and>
       (at_panel t \<longleftrightarrow> at_panel s \<or> has_http) \<and>
       (case unload_entry True entry_id t of (r, u) \<Rightarrow>
          r = Inr True \<and> \<not> w_open u \<and> at_running u = filter (\<lambda>x. fst x \<noteq> entry_id) (at_running s)) \<and>
       unload_entry False entry_id t = (Inr False, t)"
proof (cases "async_setup_entry str_of entry_id entry_data entry_options s")
  case (Pair r u)
  have same: "same_registrations s u" using keeps_step [OF setup_keeps_more refl Pair] by (rule same_more)
  show ?thesis
  proof (cases r)
    case (Inl e)
    then show ?thesis using Pair same by (simp add: set_up_entry_def obind_def)
  next
    case (Inr rt)
    obtain t where t: "attach_entry has_http issued entry_id rt u = (Inr (), t)"
      and run: "at_running t = at_running s @ map (Pair entry_id) (entry_background rt)"
      and panel: "at_panel t \<longleftrightarrow> at_panel s \<or> has_http"
      using attach_entry_run [of has_http issued entry_id rt u] same by (auto simp: same_registrations_def)
    have "set_up_entry str_of has_http issued entry_id entry_data entry_options s = (Inr rt, t)"
      using Pair Inr t by (simp add: set_up_entry_def op_defs)
    moreover have "distinct (entry_background rt)" by (cases "rt_scan_hour rt") (simp_all add: entry_background_def)
    ultimately show ?thesis
      using run panel
      by (simp add: unload_entry_def async_unload_entry_def async_unregister_services_def close_def op_defs filter_map o_def)
  qed
qed

text \<open>
  The endpoint of an entry is never taken back: after a reload it is registered twice, also when the endpoint
  was switched off in between; it is the check of \<open>post\<close> that refuses.
\<close>

lemma endpoint_stays:
  assumes "set_up_entry str_of True issued entry_id entry_data entry_options s = (Inr rt, t)" and "rt_mcp_enabled rt"
  shows "at_endpoints (snd (unload_entry ok entry_id t)) = at_endpoints s @ [entry_id]"
proof -
  obtain u where ran: "async_setup_entry str_of entry_id entry_data entry_options s = (Inr rt, u)"
    and t: "t = snd (attach_entry True issued entry_id rt u)"
    using assms(1) by (auto simp: set_up_entry_def oret_def oseq_apply elim!: obind_result split: prod.splits sum.splits)
  have "same_registrations s u" using keeps_step [OF setup_keeps_more refl ran] by (rule same_more)
  then have "at_endpoints t = at_endpoints s @ [entry_id]"
    using attach_entry_run [of True issued entry_id rt u] assms(2) t by (auto simp: same_registrations_def)
  then show ?thesis
    by (simp add: unload_entry_def async_unload_entry_def async_unregister_services_def close_def op_defs)
qed

end
