(* ===== verification/Spec2Isabelle.thy ===== *)
theory Spec2Isabelle
  imports Query_Safety Full_Sync_Liveness Event_Listener Op_Lock Context_Export Mesh_Sync Mesh_Reports Integration_Setup Config_Flow Entities Mcp_Server Assist_Intents Websocket_Api Service_Schemas Entry_Lifecycle
begin

text \<open>
  The ontology integration for Home Assistant (\<open>custom_components/ontology\<close>) keeps a graph of the
  home in a Memgraph database: floors, areas, devices, entities, automations, dashboards, the Zigbee mesh,
  semantic types and energy roles. A coordinator rebuilds and updates the graph from the registries and events
  of Home Assistant; services, websocket commands, voice intents and a local MCP endpoint read it. These
  theories are that program as HOL functions, executable where the code is, with the theorems that say what it
  keeps and what it answers.

  How to read the model. An asynchronous function of the code is an operation, a function from a state to a
  result and a new state; the result is \<open>Inl\<close> an exception or \<open>Inr\<close> a value
  (Prelude: \<open>oret\<close>, \<open>oraise\<close>, \<open>obind\<close>, \<open>oseq\<close>,
  \<open>otry\<close>, \<open>oforeach\<close>), so every \<open>raise\<close>, \<open>except\<close> and
  early return is a branch. A Python value is a \<open>pval\<close>, a dictionary an association list without
  duplicate keys, in the order of insertion. The state is the record \<open>world\<close> of Memgraph_Client
  (the graph, whether the driver is open, what the network does at each coming call, the clock ticks, the
  sleeps), extended by each component with its own fields: \<open>coord\<close>, the audit store, the gateway,
  the config entries. A Cypher text becomes the function on the graph that it denotes, next to the client call
  that sends it; a network fault before the commit leaves the graph, one after it does not undo the write.
  Names are those of the code, with a suffix where HOL has the name already.

  Foundations. \<open>Prelude\<close> has values, exceptions, operations, the string functions of Python and
  the collection \<open>keeps_intros\<close>, by which an operation keeps a predicate if its steps do.
  \<open>Const\<close> is \<open>const.py\<close>. \<open>Property_Graph\<close> is the graph: nodes by label
  and id, relationships by ends, type and source, \<open>wf_graph\<close>. \<open>Ha_Registry\<close> is what
  is read of Home Assistant. \<open>Redact\<close> is \<open>redact.py\<close>. \<open>Memgraph_Client\<close>
  is \<open>memgraph_client.py\<close>: calls, error mapping, retry, serialisation.

  Writing the graph. \<open>Measurement\<close> and \<open>Graph_Builder\<close> are
  \<open>graph_builder.py\<close> and \<open>Full_Sync\<close> its \<open>build_full_graph\<close>;
  \<open>Semantic_Classifier\<close>, \<open>Overrides\<close>, \<open>User_Knowledge\<close>,
  \<open>Dashboard_Sync\<close>, \<open>Spatial_Sync\<close>, \<open>Mesh_Sync\<close>,
  \<open>Validation\<close> and \<open>Schema_Migrations\<close> are the modules of those names.
  \<open>Graph_Frames\<close> states the interface between the graph and all its writers as locales: a
  predicate that survives the basic statements (\<open>merge_invariant\<close>,
  \<open>owner_invariant\<close>) survives every discovery; \<open>override_invariant\<close>,
  \<open>role_invariant\<close>, \<open>inference_invariant\<close> and \<open>coordinator_invariant\<close>
  extend it in \<open>Overrides\<close>, \<open>User_Knowledge\<close> and \<open>Coordinator_Frames\<close>.
  They are interpreted for well-formedness, for the sources of nodes and relationships, for the user's roles
  and for the user's overrides.

  The coordinator. \<open>Coordinator\<close> has full, entity and batch synchronisation, removals, the
  rebuild that exports and imports the overrides, the failed-update tracking and the health
  (\<open>coordinator.py\<close>); \<open>Change_Buffer\<close>, \<open>Sync_Activity\<close> and
  \<open>Op_Lock\<close> are its event buffer, its minute counters and its lock. \<open>Op_Lock\<close> is a
  machine of its own over arrivals, wake-ups and ends; the operations of \<open>Coordinator\<close> are what
  runs while the lock is held, so each is one step of a run (\<open>coordinator_run\<close>).
  \<open>Event_Listener\<close> is the filter and the debouncer of \<open>event_listener.py\<close>.
  \<open>Full_Sync_Liveness\<close> shows that a server that answers is enough for success.

  Reading the graph. \<open>Query_Safety\<close> is \<open>query_service.py\<close>.
  \<open>Query_Tools\<close>, \<open>Query_Contexts\<close>, \<open>Measurement_Reports\<close> and
  \<open>Mesh_Reports\<close> are \<open>query_tools.py\<close>, \<open>Mesh_Geometry\<close> the module of
  that name, \<open>Impact_Analysis\<close> and \<open>Context_Export\<close> theirs, with
  \<open>Agent_Audit\<close> for the log they write. \<open>Graph_Presentation\<close>,
  \<open>Graph_Backends\<close> and \<open>Graph_Gateway\<close> are the slices of the panel; the locale
  \<open>presentation_backend\<close> is what the gateway asks of a backend, and both backends provide it.

  The interfaces. \<open>Integration_Setup\<close>, \<open>Entry_Lifecycle\<close>, \<open>Services\<close>
  and \<open>Service_Schemas\<close> are \<open>__init__.py\<close> (with \<open>repairs.py\<close>,
  \<open>lab_access.py\<close>), \<open>Config_Flow\<close> the forms, \<open>Entities\<close> the sensors,
  buttons and diagnostics, \<open>Live_Updates\<close> and \<open>Websocket_Api\<close> the commands of the
  explorer, \<open>Network_Access\<close> and \<open>Mcp_Server\<close> the MCP endpoint,
  \<open>Assist_Intents\<close> the voice intents; \<open>Tool_Reads\<close> shows once that the tools they
  share only read.

  What is shown, by group. What every run keeps, and what a rebuild restores or loses (this theory). That a
  write is applied once or not at all (\<open>Graph_Builder\<close>), bulk and single writes agree, and the
  detailed components refine an abstract one: the buffer an unbounded history, the counters a log, the
  findings a life cycle, the audit log a window, the batches the last changes. Mutual exclusion, order and
  progress of the lock. The live updates: nothing published is lost from snapshot to subscription to message,
  under any interleaving of publications and timers. What is refused: queries, requests to the MCP endpoint,
  set-ups. What leaves the home: exports, diagnostics and logs without secrets. That forms, exports and
  overrides come back as they went out. Several theorems show where the code does not do what it means to;
  they are closed examples next to the general statements.

  Bounds. A query is tried at most five times with four sleeps between (\<open>RETRY_MAX_ATTEMPTS\<close>);
  the retry is recursion on the attempts left, so it ends. The change buffer has any positive size; the log of
  the counters is cut to the window of \<open>const.py\<close>; the debounce time is 250 ms of a rational
  clock. The one search without a bound, for a free file name (\<open>find_sentences\<close>), is a
  \<open>partial_function\<close> and is shown to end. Recursion over nested values is structural; the
  scanners of \<open>Redact\<close> and \<open>Query_Safety\<close> recurse on what is left of the text. No
  fuel is used where a theorem says that code returns.

  Idealised. Finite doubles are exact rationals (reals in \<open>Mesh_Geometry\<close>), with overflow to
  infinity where a reading is converted and with the text forms of infinities and nan; rounding of single
  operations is left out. Upper and lower case are those of ASCII, and strings are lists of characters below
  256. What \<open>str\<close>, \<open>repr\<close>, \<open>json.dumps\<close>, number formats and
  \<open>uuid\<close> give are parameters (\<open>str_of\<close>, \<open>repr\<close>, \<open>dumps\<close>,
  \<open>fmt\<close>, \<open>uuid\<close>), as are the answers of the server to a free query, of the add-on
  and of Zigbee2MQTT. Calls under \<open>asyncio.gather\<close> run in their order. Home Assistant does not
  change while one operation runs.

  Not modelled. What Home Assistant does with a registration (it is kept as data in
  \<open>Entry_Lifecycle\<close>), the set-up of its platforms, its rendering of forms, and logging. The
  schemas of the websocket commands, which Home Assistant applies before a handler runs; those of the services
  are in \<open>Service_Schemas\<close>, those of the forms in \<open>Config_Flow\<close>. The development
  scripts under \<open>.specify\<close> and \<open>scripts\<close>, which work on files and git and are no
  part of the integration. The JavaScript of the panel and of the add-on, programs of their own.\<close>

section \<open>What every run of the coordinator keeps\<close>







definition solar_surroundings :: surroundings where
  "solar_surroundings =
     \<lparr>su_hass = solar_home, su_valid_entity_id = (\<lambda>_. True), su_uuid = (\<lambda>x. x), su_auto_classify = True\<rparr>"


section \<open>Overrides across full synchronisations\<close>

text \<open>
  A resynchronisation, successful or not, leaves every override of an entity, a device or an area in
  place.
\<close>

theorem resync_keeps_overrides:
  assumes "wf_graph (w_graph s)" and "ov \<in> set (listed_overrides (w_graph s))"
  shows "user_override (w_graph (snd (async_resync u s))) ov"
  using keepsD [OF resync_override_keeps, of ov s u] assms listed_user_override [OF assms]
  by (auto simp: override_present_def listed_overrides_def)

theorem resync_keeps_overrides_witness:
  "user_override (w_graph (snd (async_resync solar_surroundings (new_coord overridden_graph)))) (LABEL_ENTITY, ''sensor.car'', LABEL_VEHICLE)"
proof -
  have "wf_graph overridden_graph" by code_simp
  moreover have "listed_overrides overridden_graph = [(LABEL_ENTITY, ''sensor.car'', LABEL_VEHICLE)]" by code_simp
  ultimately show ?thesis
    using resync_keeps_overrides [of "new_coord overridden_graph" _ solar_surroundings] by (simp add: new_coord_def)
qed

text \<open>
  C1. A rebuild that succeeds has restored every override it found whose source is a node again.
\<close>

theorem rebuild_restores_overrides:
  assumes "wf_graph (w_graph s)" and "async_rebuild u s = (Inr (), t)"
    and "ov \<in> set (listed_overrides (w_graph s))" and "has_node (w_graph t) (override_source ov)"
  shows "user_override (w_graph t) ov"
  using assms by (rule restored_overrides)

theorem rebuild_restores_overrides_witness:
  "\<exists>t. async_rebuild solar_surroundings (new_coord overridden_graph) = (Inr (), t) \<and>
     user_override (w_graph t) (LABEL_ENTITY, ''sensor.car'', LABEL_VEHICLE)"
proof -
  let ?s = "new_coord overridden_graph" and ?ov = "(LABEL_ENTITY, ''sensor.car'', LABEL_VEHICLE)"
  have g: "w_graph ?s = overridden_graph" "w_net ?s = []" by (simp_all add: new_coord_def)
  have l: "listed_overrides overridden_graph = [?ov]" by code_simp
  have "references_ok (su_hass solar_surroundings)"
    by (simp add: references_ok_def solar_surroundings_def solar_home_def)
  then obtain t where t: "async_rebuild solar_surroundings ?s = (Inr (), t)"
    using full_sync_healthy [of solar_surroundings ?s True] g l by (auto simp: async_rebuild_def const_defs)
  moreover have wf: "wf_graph overridden_graph" by code_simp
  moreover have "source_present (override_source ?ov) (clear_stmt overridden_graph)"
  proof -
    have "wf_graph (clear_stmt overridden_graph)" by code_simp
    moreover have "has_node (clear_stmt overridden_graph) (override_source ?ov)" by code_simp
    moreover have "fst (override_source ?ov) \<in> set ALLOWED_SOURCE_LABELS" by code_simp
    ultimately show ?thesis by (simp add: source_present_def)
  qed
  then have "has_node (w_graph t) (override_source ?ov)" using rebuild_keeps_source [OF t] g by simp
  ultimately show ?thesis using rebuild_restores_overrides [OF _ t, of ?ov] g l by auto
qed

definition owned_car_graph :: graph where
  "owned_car_graph =
     \<lparr>g_nodes = [((LABEL_ENTITY, ''sensor.car''), [(''source'', VStr SOURCE_HOME_ASSISTANT)]),
        ((LABEL_SEMANTIC_TYPE, LABEL_VEHICLE), [(''source'', VStr SOURCE_USER)])],
      g_rels = [(((LABEL_ENTITY, ''sensor.car''), REL_OVERRIDE_OF, (LABEL_SEMANTIC_TYPE, LABEL_VEHICLE)),
        [(''source'', VStr SOURCE_USER)])],
      g_indexes = []\<rparr>"

definition faulty_car_coord :: coord where
  "faulty_car_coord = (new_coord owned_car_graph)\<lparr>w_net := [Up, Up] @ replicate 5 (Down Timeout False)\<rparr>"

lemma faulty_rebuild:
  "async_rebuild u faulty_car_coord = (Inl (CannotConnect ''Connection to Memgraph timed out''),
     snd (record_failure (CannotConnect ''Connection to Memgraph timed out'')
       (snd (ensure_home_node (snd (clear_for_rebuild faulty_car_coord))))))"
proof -
  let ?v = "snd (clear_for_rebuild faulty_car_coord)"
  have "fst (clear_for_rebuild faulty_car_coord) = Inr overridden_payload" by code_simp
  moreover have "fst (ensure_home_node ?v) = Inl (CannotConnect ''Connection to Memgraph timed out'')" by code_simp
  ultimately show ?thesis by (intro rebuild_cut_short [of _ overridden_payload ?v]) (simp_all add: prod_eq_iff)
qed


section \<open>How a full synchronisation ends\<close>

text \<open>
  C6. With a database that answers, a full synchronisation succeeds, and the coordinator says so: healthy,
  no error, no failure counted.  The lists of referenced entities can be iterated, and for a rebuild the
  listed overrides have ids.
\<close>

theorem full_sync_succeeds:
  assumes "references_ok (su_hass u)" and "w_net s = []"
    and "clear_first \<Longrightarrow> [] \<notin> (\<lambda>(l, i, t). i) ` set (listed_overrides (w_graph s)) \<union>
      (\<lambda>(l, i, t). t) ` set (listed_overrides (w_graph s))"
  shows "\<exists>t. execute_full_sync u clear_first s = (Inr (), t) \<and> co_health t = HEALTH_OK \<and>
    co_last_error t = None \<and> co_consecutive_failures t = 0"
proof -
  have "i \<noteq> [] \<and> t \<noteq> []" if "clear_first" "(l, i, t) \<in> set (listed_overrides (w_graph s))" for l i t
    using assms(3) [OF that(1)] that(2) by force
  then obtain t where t: "execute_full_sync u clear_first s = (Inr (), t)"
    using full_sync_healthy [OF assms(1,2)] by blast
  then obtain v y where "oseq record_success (publish_op publish_reconcile) v = (Inr y, t)"
    by (auto simp: execute_full_sync_def elim!: recorded_result)
  from success_state [OF this] t show ?thesis by simp
qed

theorem full_sync_succeeds_witness:
  "\<exists>t. execute_full_sync solar_surroundings True (new_coord overridden_graph) = (Inr (), t) \<and> co_health t = HEALTH_OK \<and>
    co_last_error t = None \<and> co_consecutive_failures t = 0"
proof -
  have "references_ok (su_hass solar_surroundings)"
    by (simp add: references_ok_def solar_surroundings_def solar_home_def)
  moreover have "listed_overrides overridden_graph = [(LABEL_ENTITY, ''sensor.car'', LABEL_VEHICLE)]" by code_simp
  ultimately show ?thesis
    using full_sync_succeeds [of solar_surroundings "new_coord overridden_graph" True]
    by (simp add: new_coord_def const_defs)
qed

text \<open>
  A full synchronisation that fails raises the error its work raised, and the coordinator shows it:
  the health is an error, the message is the redacted one, the failure is counted, and from the third
  failure in a row on the sustained-failure callback is told.
\<close>

theorem full_sync_failure_recorded:
  assumes "execute_full_sync u clear_first s = (Inl e, t)"
  shows "\<exists>v. full_sync_body u clear_first s = (Inl e, v) \<and> w_graph t = w_graph v \<and> co_health t = HEALTH_ERROR \<and>
    co_last_error t = Some (redact_exception e) \<and> co_consecutive_failures t = co_consecutive_failures v + 1 \<and>
    (SustainedFailure \<in> set (drop (length (co_signals v)) (co_signals t)) \<longleftrightarrow>
      SUSTAINED_FAILURE_THRESHOLD \<le> co_consecutive_failures t)"
proof -
  obtain v where v: "full_sync_body u clear_first s = (Inl e, v)" and t: "t = snd (record_failure e v)"
    using recorded_failure [where f = "\<lambda>_. oseq record_success (publish_op publish_reconcile)", OF _ success_never_raises]
      assms unfolding execute_full_sync_def by blast
  have "t = (count_failure e v)\<lparr>co_signals := co_signals (count_failure e v) @ [StateNotified]\<rparr>"
    using t by (simp add: record_failure_def notify_state_changed_def oseq_apply omodify_def)
  then show ?thesis using v by (auto simp: count_failure_def Let_def)
qed

theorem full_sync_failure_recorded_witness:
  "co_health (snd (execute_full_sync solar_surroundings True faulty_car_coord)) = HEALTH_ERROR \<and>
   co_last_error (snd (execute_full_sync solar_surroundings True faulty_car_coord)) = Some ''Connection to Memgraph timed out''"
proof -
  have "redact_exception (CannotConnect ''Connection to Memgraph timed out'') = ''Connection to Memgraph timed out''"
    by code_simp
  moreover have "execute_full_sync solar_surroundings True faulty_car_coord = (Inl (CannotConnect ''Connection to Memgraph timed out''),
      snd (execute_full_sync solar_surroundings True faulty_car_coord))"
    using faulty_rebuild [of solar_surroundings] by (simp add: async_rebuild_def prod_eq_iff)
  ultimately show ?thesis using full_sync_failure_recorded by metis
qed

end
